(* ===== verification/Prelude.thy ===== *)
theory Prelude
  imports Complex_Main "HOL-Library.Multiset"
begin

text \<open>
  Shared vocabulary of the development. Django's \<open>DecimalField\<close> values are
  modelled as exact rationals (\<open>decimal\<close>); the 28-digit rounding context of
  Python's \<open>decimal\<close> module and the two-place quantisation done by the database
  driver are not modelled. Dates are day ordinals (\<open>day\<close>), so that
  \<open>(end - start).days\<close> is integer subtraction. Python exceptions are the
  values of \<open>pyexc\<close>; a fallible operation returns \<open>pyexc + 'a\<close> with
  \<open>Inl\<close> the raised exception, and \<open>res_bind\<close> sequences such operations the way
  an uncaught exception aborts the rest of a Python block.
\<close>

named_theorems model_simps "unfolding facts of the model's operations"

type_synonym decimal = rat
type_synonym day = int
type_synonym timestamp = int

text \<open>The exceptions the modelled code raises. \<open>Http404\<close> is Django's
  \<open>get_object_or_404\<close> on a missing row and \<open>DoesNotExist\<close> is
  \<open>Model.objects.get\<close> on a missing row, \<open>MultipleObjectsReturned\<close> on two
  matching rows; \<open>ProtectedError\<close> is a delete blocked by \<open>on_delete=PROTECT\<close>; \<open>FieldError\<close> is a
  query naming a field the model does not have.\<close>

datatype pyexc =
    TypeError
  | ZeroDivisionError
  | DivisionByZero
  | InvalidOperation
  | ValueError
  | NameError
  | AttributeError
  | IntegrityError
  | Http404
  | DoesNotExist
  | MultipleObjectsReturned
  | ProtectedError
  | FieldError

text \<open>\<open>get_object_or_404(Model, pk=pk)\<close> on a table whose row ids are its indices.\<close>

definition get_object_or_404 :: "nat \<Rightarrow> 'a list \<Rightarrow> pyexc + 'a" where
  "get_object_or_404 pk xs = (if pk < length xs then Inr (xs ! pk) else Inl Http404)"

definition res_bind :: "pyexc + 'a \<Rightarrow> ('a \<Rightarrow> pyexc + 'b) \<Rightarrow> pyexc + 'b" where
  "res_bind r f = (case r of Inl e \<Rightarrow> Inl e | Inr a \<Rightarrow> f a)"

text \<open>
  Django's \<open>queryset.last()\<close> and \<open>queryset.first()\<close> on a list of rows in
  query order.
\<close>

definition qs_last :: "'a list \<Rightarrow> 'a option" where
  "qs_last xs = (case rev xs of [] \<Rightarrow> None | x # _ \<Rightarrow> Some x)"

definition qs_first :: "'a list \<Rightarrow> 'a option" where
  "qs_first xs = (case xs of [] \<Rightarrow> None | x # _ \<Rightarrow> Some x)"

text \<open>A counter of rows that satisfy a filter, as \<open>queryset.filter(...).count()\<close>.\<close>

definition qs_count :: "('a \<Rightarrow> bool) \<Rightarrow> 'a list \<Rightarrow> int" where
  "qs_count P xs = int (length (filter P xs))"

text \<open>\<open>Model.save()\<close> on a table with one unique column \<open>key\<close>: an insert
  (\<open>pk = None\<close>) appends the row, an update writes row \<open>pk\<close> over; either
  raises \<open>IntegrityError\<close> when another row already holds the key.\<close>

definition save_row :: "('a \<Rightarrow> string) \<Rightarrow> nat option \<Rightarrow> 'a \<Rightarrow> 'a list \<Rightarrow> pyexc + 'a list" where
  "save_row key pk r tbl =
     (case pk of
        None \<Rightarrow> if key r \<in> set (map key tbl) then Inl IntegrityError else Inr (tbl @ [r])
      | Some i \<Rightarrow>
          if i < length tbl \<and> (\<exists>j < length tbl. j \<noteq> i \<and> key (tbl ! j) = key r)
          then Inl IntegrityError else Inr (tbl[i := r]))"

text \<open>\<open>field__icontains=q\<close>: the lower-cased query is a contiguous part of the
  lower-cased field (ASCII case folding, as SQLite's \<open>LIKE\<close> does).\<close>

fun is_infix :: "'a list \<Rightarrow> 'a list \<Rightarrow> bool" where
  "is_infix ys [] = (ys = [])"
| "is_infix ys (x # xs) = (take (length ys) (x # xs) = ys \<or> is_infix ys xs)"

definition lower_ascii :: "char \<Rightarrow> char" where
  "lower_ascii c =
     (case map_of (zip ''ABCDEFGHIJKLMNOPQRSTUVWXYZ'' ''abcdefghijklmnopqrstuvwxyz'') c of
        None \<Rightarrow> c | Some d \<Rightarrow> d)"

definition icontains :: "string \<Rightarrow> string \<Rightarrow> bool" where
  "icontains s q \<longleftrightarrow> is_infix (map lower_ascii q) (map lower_ascii s)"

text \<open>A \<open>DateTimeField\<close> value as seconds since the epoch and its
  \<open>__date\<close> (the day, in UTC: the repository has no settings module).\<close>

definition ts_date :: "timestamp \<Rightarrow> day" where
  "ts_date t = t div 86400"

lemma res_bind_Inl [simp]: "res_bind (Inl e) f = Inl e"
  by (simp add: res_bind_def)

lemma res_bind_Inr [simp]: "res_bind (Inr a) f = f a"
  by (simp add: res_bind_def)

lemma res_bind_eq_Inr:
  "res_bind r f = Inr b \<longleftrightarrow> (\<exists>a. r = Inr a \<and> f a = Inr b)"
  by (cases r) (auto simp: res_bind_def)

lemma res_bind_eq_Inl:
  "res_bind r f = Inl e \<longleftrightarrow> r = Inl e \<or> (\<exists>a. r = Inr a \<and> f a = Inl e)"
  by (cases r) (auto simp: res_bind_def)

lemma qs_last_Nil [simp]: "qs_last [] = None"
  by (simp add: qs_last_def)

lemma qs_last_snoc [simp]: "qs_last (xs @ [x]) = Some x"
  by (simp add: qs_last_def)

lemma qs_last_None_iff [simp]: "qs_last xs = None \<longleftrightarrow> xs = []"
  by (simp add: qs_last_def split: list.splits)

lemma qs_last_Some: "xs \<noteq> [] \<Longrightarrow> qs_last xs = Some (last xs)"
  by (cases xs rule: rev_cases) simp_all

lemma qs_first_simps [simp]: "qs_first [] = None" "qs_first (x # xs) = Some x"
  by (simp_all add: qs_first_def)

lemma qs_count_nonneg [simp]: "0 \<le> qs_count P xs"
  by (simp add: qs_count_def)

lemma qs_count_Nil [simp]: "qs_count P [] = 0"
  by (simp add: qs_count_def)

lemma qs_count_Cons [simp]:
  "qs_count P (x # xs) = (if P x then 1 + qs_count P xs else qs_count P xs)"
  by (simp add: qs_count_def)

lemma qs_count_append [simp]: "qs_count P (xs @ ys) = qs_count P xs + qs_count P ys"
  by (simp add: qs_count_def)

lemma qs_count_le_length: "qs_count P xs \<le> int (length xs)"
  by (simp add: qs_count_def)

lemma sum_list_map_add:
  "(\<Sum>x\<leftarrow>xs. f x + g x) = (\<Sum>x\<leftarrow>xs. f x) + (\<Sum>x\<leftarrow>xs. (g x :: 'a :: comm_monoid_add))"
  by (induction xs) (simp_all add: algebra_simps)

lemma sum_list_perm:
  "mset xs = mset ys \<Longrightarrow> (\<Sum>x\<leftarrow>xs. f x) = (\<Sum>x\<leftarrow>ys. (f x :: 'a :: comm_monoid_add))"
  by (metis mset_map sum_mset_sum_list)

lemma save_row_Some_Inr:
  "save_row key (Some i) r tbl = Inr tbl' \<Longrightarrow> tbl' = tbl[i := r]"
  by (auto simp: save_row_def split: if_splits)

lemma save_row_None_Inr:
  "save_row key None r tbl = Inr tbl' \<Longrightarrow> tbl' = tbl @ [r]"
  by (auto simp: save_row_def split: if_splits)

lemma save_row_same_key:
  assumes "distinct (map key tbl)" and "i < length tbl" and "key r = key (tbl ! i)"
  shows "save_row key (Some i) r tbl = Inr (tbl[i := r])"
  using assms by (auto simp: save_row_def distinct_conv_nth)

lemma list_all_update:
  "list_all P xs \<Longrightarrow> P x \<Longrightarrow> list_all P (xs[i := x])"
  by (auto simp: list_all_iff dest: set_update_subset_insert [THEN subsetD])

end
