(* ===== verification/PyNum.thy ===== *)
theory PyNum
  imports Prelude
begin

text \<open>
  Python's numeric tower as far as the payroll code uses it: \<open>int\<close>, \<open>float\<close>
  and \<open>decimal.Decimal\<close>. Mixed \<open>int\<close>/\<open>float\<close> arithmetic gives a
  \<open>float\<close>, mixed \<open>int\<close>/\<open>Decimal\<close> arithmetic gives a \<open>Decimal\<close>, and
  \<open>Decimal\<close> combined with \<open>float\<close> raises \<open>TypeError\<close> ("unsupported operand
  type(s)"). True division of two ints is a float. Division by zero raises
  \<open>ZeroDivisionError\<close> for int/float, and the \<open>decimal\<close> signals
  \<open>DivisionByZero\<close> (nonzero dividend) or \<open>InvalidOperation\<close> (0/0) when a
  Decimal takes part. Float values are kept exact as rationals: the floats that
  occur in the code are halves of day counts, which binary floating point holds
  exactly.
\<close>

datatype pynum = is_int: PInt int | is_float: PFloat rat | is_dec: PDec rat

fun py_value :: "pynum \<Rightarrow> rat" where
  "py_value (PInt i) = of_int i"
| "py_value (PFloat x) = x"
| "py_value (PDec d) = d"

text \<open>A binary operator that is \<open>f\<close> on values and \<open>g\<close> on two ints.\<close>

fun py_arith :: "(rat \<Rightarrow> rat \<Rightarrow> rat) \<Rightarrow> (int \<Rightarrow> int \<Rightarrow> int) \<Rightarrow> pynum \<Rightarrow> pynum \<Rightarrow> pyexc + pynum" where
  "py_arith f g (PInt a) (PInt b) = Inr (PInt (g a b))"
| "py_arith f g (PDec a) (PFloat b) = Inl TypeError"
| "py_arith f g (PFloat a) (PDec b) = Inl TypeError"
| "py_arith f g (PDec a) y = Inr (PDec (f a (py_value y)))"
| "py_arith f g x (PDec b) = Inr (PDec (f (py_value x) b))"
| "py_arith f g x y = Inr (PFloat (f (py_value x) (py_value y)))"

definition py_add :: "pynum \<Rightarrow> pynum \<Rightarrow> pyexc + pynum" where
  "py_add = py_arith (+) (+)"

definition py_mul :: "pynum \<Rightarrow> pynum \<Rightarrow> pyexc + pynum" where
  "py_mul = py_arith (*) (*)"

fun py_truediv :: "pynum \<Rightarrow> pynum \<Rightarrow> pyexc + pynum" where
  "py_truediv (PDec a) (PFloat b) = Inl TypeError"
| "py_truediv (PFloat a) (PDec b) = Inl TypeError"
| "py_truediv (PDec a) y =
     (if py_value y = 0 then Inl (if a = 0 then InvalidOperation else DivisionByZero)
      else Inr (PDec (a / py_value y)))"
| "py_truediv x (PDec b) =
     (if b = 0 then Inl (if py_value x = 0 then InvalidOperation else DivisionByZero)
      else Inr (PDec (py_value x / b)))"
| "py_truediv x y =
     (if py_value y = 0 then Inl ZeroDivisionError
      else Inr (PFloat (py_value x / py_value y)))"

lemmas py_ops_defs [model_simps] = py_add_def py_mul_def

subsection \<open>Facts about the tower\<close>

lemma py_arith_dec_float [simp]:
  "py_arith f g (PDec a) (PFloat b) = Inl TypeError"
  "py_arith f g (PFloat b) (PDec a) = Inl TypeError"
  by simp_all

text \<open>An operation fails exactly when a Decimal meets a float.\<close>

lemma py_arith_Inl_iff:
  "py_arith f g x y = Inl e \<longleftrightarrow>
     e = TypeError \<and> ((is_dec x \<and> is_float y) \<or> (is_float x \<and> is_dec y))"
  by (cases x; cases y) auto

lemma py_arith_float_absorbs:
  "py_arith f g x y = Inr z \<Longrightarrow> is_float x \<or> is_float y \<Longrightarrow> is_float z"
  by (cases x; cases y) auto

lemma py_arith_dec_absorbs:
  "py_arith f g x y = Inr z \<Longrightarrow> is_dec x \<or> is_dec y \<Longrightarrow> is_dec z"
  by (cases x; cases y) auto

lemma py_arith_value:
  "py_arith f g x y = Inr z \<Longrightarrow> (\<And>a b. of_int (g a b) = f (of_int a) (of_int b)) \<Longrightarrow>
     py_value z = f (py_value x) (py_value y)"
  by (cases x; cases y) auto

lemma py_add_value: "py_add x y = Inr z \<Longrightarrow> py_value z = py_value x + py_value y"
  unfolding py_add_def by (erule py_arith_value) simp

lemma py_mul_value: "py_mul x y = Inr z \<Longrightarrow> py_value z = py_value x * py_value y"
  unfolding py_mul_def by (erule py_arith_value) simp

lemma py_add_int_int [simp]: "py_add (PInt a) (PInt b) = Inr (PInt (a + b))"
  by (simp add: py_add_def)

lemma py_mul_int_float [simp]: "py_mul (PInt a) (PFloat b) = Inr (PFloat (of_int a * b))"
  by (simp add: py_mul_def)

lemma py_add_int_float [simp]: "py_add (PInt a) (PFloat b) = Inr (PFloat (of_int a + b))"
  by (simp add: py_add_def)

lemma py_mul_dec_float [simp]: "py_mul (PDec a) (PFloat b) = Inl TypeError"
  by (simp add: py_mul_def)

lemma py_mul_dec_dec [simp]: "py_mul (PDec a) (PDec b) = Inr (PDec (a * b))"
  by (simp add: py_mul_def)

lemma py_add_dec_dec [simp]: "py_add (PDec a) (PDec b) = Inr (PDec (a + b))"
  by (simp add: py_add_def)

lemma py_truediv_dec_int [simp]:
  "py_truediv (PDec a) (PInt n) =
     (if n = 0 then Inl (if a = 0 then InvalidOperation else DivisionByZero)
      else Inr (PDec (a / of_int n)))"
  by simp

end
