(* ===== verification/Numbering.thy ===== *)
theory Numbering
  imports Prelude
begin

text \<open>
  Business-document numbers. Nine \<open>save()\<close> methods generate an identifier
  \<open><PREFIX>-<YEAR>[-<MONTH>]-<NNNNN>\<close> by reading the last row (by id) of a
  queryset, taking the text after the last \<open>-\<close> of its number
  (\<open>number.split('-')[-1]\<close>), converting it with \<open>int()\<close>, and formatting the
  successor with \<open>{n:05d}\<close>. This theory models the Python string operations
  involved (\<open>str\<close> of an int, zero-padded formatting, \<open>str.split\<close>,
  \<open>int()\<close>, \<open>str.startswith\<close>), the generator of each model, and the
  number tables they read.

  \<open>py_int\<close> accepts an optional sign and a nonempty run of ASCII digits and
  raises \<open>ValueError\<close> otherwise; Python's \<open>int()\<close> also strips surrounding
  whitespace and accepts underscores and non-ASCII digits, which no generated
  number contains.
\<close>

subsection \<open>Python string operations\<close>

definition digit_char :: "nat \<Rightarrow> char" where
  "digit_char d = ''0123456789'' ! d"

fun nat_str :: "nat \<Rightarrow> string" where
  "nat_str n = (if n < 10 then [digit_char n] else nat_str (n div 10) @ [digit_char (n mod 10)])"

declare nat_str.simps [simp del]

definition pad_zeros :: "nat \<Rightarrow> string \<Rightarrow> string" where
  "pad_zeros w s = replicate (w - length s) (CHR ''0'') @ s"

text \<open>\<open>f"{n:0wd}"\<close>: the sign counts towards the width.\<close>

definition fmt_0d :: "nat \<Rightarrow> int \<Rightarrow> string" where
  "fmt_0d w n =
     (if n < 0 then CHR ''-'' # pad_zeros (w - 1) (nat_str (nat (- n)))
      else pad_zeros w (nat_str (nat n)))"

text \<open>\<open>f"{n}"\<close> of an int.\<close>

definition int_str :: "int \<Rightarrow> string" where
  "int_str n = fmt_0d 0 n"

definition is_digit :: "char \<Rightarrow> bool" where
  "is_digit c \<longleftrightarrow> (48::nat) \<le> of_char c \<and> (of_char c :: nat) \<le> 57"

definition digit_val :: "char \<Rightarrow> nat" where
  "digit_val c = of_char c - 48"

definition digits_nat :: "string \<Rightarrow> nat" where
  "digits_nat s = foldl (\<lambda>acc c. 10 * acc + digit_val c) 0 s"

definition all_digits :: "string \<Rightarrow> bool" where
  "all_digits s \<longleftrightarrow> s \<noteq> [] \<and> list_all is_digit s"

definition py_int :: "string \<Rightarrow> pyexc + int" where
  "py_int s =
     (case s of
        [] \<Rightarrow> Inl ValueError
      | c # ds \<Rightarrow>
          if c = CHR ''-'' then (if all_digits ds then Inr (- int (digits_nat ds)) else Inl ValueError)
          else if c = CHR ''+'' then (if all_digits ds then Inr (int (digits_nat ds)) else Inl ValueError)
          else if all_digits s then Inr (int (digits_nat s)) else Inl ValueError)"

text \<open>\<open>s.split(sep)\<close> with a one-character separator; never an empty list.\<close>

fun py_split :: "char \<Rightarrow> string \<Rightarrow> string list" where
  "py_split c [] = [[]]"
| "py_split c (x # xs) =
     (if x = c then [] # py_split c xs
      else (case py_split c xs of [] \<Rightarrow> [[x]] | w # ws \<Rightarrow> (x # w) # ws))"

text \<open>\<open>s.split(sep)[-1]\<close>.\<close>

definition split_last :: "char \<Rightarrow> string \<Rightarrow> string" where
  "split_last c s = last (py_split c s)"

definition startswith :: "string \<Rightarrow> string \<Rightarrow> bool" where
  "startswith s p \<longleftrightarrow> take (length p) s = p"

subsection \<open>The generator\<close>

text \<open>
  The common core of the \<open>save()\<close> methods: from the number of the last row
  read (if any), the next number under \<open>prefix\<close> with a \<open>w\<close>-digit sequence.
  The first number is \<open>prefix-00001\<close> (\<open>-001\<close> for visitor cards).
\<close>

definition next_doc_number :: "string \<Rightarrow> nat \<Rightarrow> string option \<Rightarrow> pyexc + string" where
  "next_doc_number prefix w last_no =
     (case last_no of
        None \<Rightarrow> Inr (prefix @ ''-'' @ fmt_0d w 1)
      | Some s \<Rightarrow>
          res_bind (py_int (split_last (CHR ''-'') s))
            (\<lambda>last_number. Inr (prefix @ ''-'' @ fmt_0d w (last_number + 1))))"

text \<open>
  \<open>Payroll.save\<close> (payroll/models.py): the last payroll, by id, whose number
  starts with \<open>PR-<year>-<month:02d>\<close>. \<open>nos\<close> is the \<open>payroll_number\<close>
  column in id order.
\<close>

definition payroll_prefix :: "int \<Rightarrow> int \<Rightarrow> string" where
  "payroll_prefix year month = ''PR-'' @ int_str year @ ''-'' @ fmt_0d 2 month"

definition payroll_assign_number :: "int \<Rightarrow> int \<Rightarrow> string list \<Rightarrow> pyexc + string" where
  "payroll_assign_number year month nos =
     (let prefix = payroll_prefix year month
      in next_doc_number prefix 5 (qs_last (filter (\<lambda>s. startswith s prefix) nos)))"

text \<open>\<open>PayrollRun.save\<close>, \<open>Loan.save\<close>, \<open>SalaryAdvance.save\<close>: filtered by year.\<close>

definition year_filtered_number :: "string \<Rightarrow> int \<Rightarrow> string list \<Rightarrow> pyexc + string" where
  "year_filtered_number tag year nos =
     (let prefix = tag @ ''-'' @ int_str year
      in next_doc_number prefix 5 (qs_last (filter (\<lambda>s. startswith s prefix) nos)))"

definition run_assign_number :: "int \<Rightarrow> string list \<Rightarrow> pyexc + string" where
  "run_assign_number = year_filtered_number ''RUN''"

definition loan_assign_number :: "int \<Rightarrow> string list \<Rightarrow> pyexc + string" where
  "loan_assign_number = year_filtered_number ''LN''"

definition advance_assign_number :: "int \<Rightarrow> string list \<Rightarrow> pyexc + string" where
  "advance_assign_number = year_filtered_number ''ADV''"

text \<open>
  \<open>LeaveApplication.save\<close> (hr/models.py) and \<open>ProductionOrder.save\<close>
  (production/models.py) read the last row of the whole table, whatever its
  year.
\<close>

definition leave_assign_number :: "int \<Rightarrow> string list \<Rightarrow> pyexc + string" where
  "leave_assign_number year nos = next_doc_number (''LEAVE-'' @ int_str year) 5 (qs_last nos)"

definition production_assign_number :: "int \<Rightarrow> string list \<Rightarrow> pyexc + string" where
  "production_assign_number year nos = next_doc_number (''PROD-'' @ int_str year) 5 (qs_last nos)"

text \<open>
  \<open>PurchaseOrder.save\<close> (procurement/models.py), \<open>QualityCheck.save\<close>
  (quality/models.py) and \<open>GatePass.save\<close> (security/models.py) call
  \<open>timezone.now()\<close>, but these modules never import \<open>timezone\<close>: the name
  lookup raises \<open>NameError\<close>. The purchase order and the quality check parse the
  last number first (which may raise \<open>ValueError\<close> before); the gate pass reads
  the year before parsing.
\<close>

definition po_assign_number :: "string list \<Rightarrow> pyexc + string" where
  "po_assign_number nos =
     (case qs_last nos of
        None \<Rightarrow> Inl NameError
      | Some s \<Rightarrow> res_bind (py_int (split_last (CHR ''-'') s)) (\<lambda>_. Inl NameError))"

definition qc_assign_number :: "string list \<Rightarrow> pyexc + string" where
  "qc_assign_number nos =
     (case qs_last nos of
        None \<Rightarrow> Inl NameError
      | Some s \<Rightarrow> res_bind (py_int (split_last (CHR ''-'') s)) (\<lambda>_. Inl NameError))"

definition gatepass_assign_number :: "string list \<Rightarrow> pyexc + string" where
  "gatepass_assign_number nos = Inl NameError"

subsection \<open>Sequences of saves and concurrent saves\<close>

text \<open>
  \<open>issue_seq gen k nos\<close>: \<open>k\<close> saves one after the other, each reading the
  table left by the previous one and appending its number (a driver for the
  properties, not code of the repository).
\<close>

fun issue_seq :: "(string list \<Rightarrow> pyexc + string) \<Rightarrow> nat \<Rightarrow> string list \<Rightarrow> pyexc + string list" where
  "issue_seq gen 0 nos = Inr nos"
| "issue_seq gen (Suc k) nos = res_bind (gen nos) (\<lambda>n. issue_seq gen k (nos @ [n]))"

text \<open>
  The number column is declared \<open>unique=True\<close>: the database refuses a second
  row with the same number (\<open>IntegrityError\<close>).
\<close>

definition insert_unique :: "string list \<Rightarrow> string \<Rightarrow> pyexc + string list" where
  "insert_unique nos n = (if n \<in> set nos then Inl IntegrityError else Inr (nos @ [n]))"

text \<open>
  Two requests that create a document at the same time: each runs \<open>save()\<close>,
  which first reads the last number (\<open>Reading\<close> to \<open>HasNumber\<close>) and later
  inserts the row (\<open>HasNumber\<close> to \<open>Saved\<close> or \<open>Failed\<close>). No lock is taken
  between the read and the insert, so the steps of the requests interleave.
\<close>

datatype req_phase = Reading | HasNumber string | Saved | Failed pyexc

inductive save_step :: "(string list \<Rightarrow> pyexc + string) \<Rightarrow>
    string list \<times> req_phase list \<Rightarrow> string list \<times> req_phase list \<Rightarrow> bool" where
  read_ok: "i < length ps \<Longrightarrow> ps ! i = Reading \<Longrightarrow> gen nos = Inr n \<Longrightarrow>
     save_step gen (nos, ps) (nos, ps[i := HasNumber n])"
| read_fail: "i < length ps \<Longrightarrow> ps ! i = Reading \<Longrightarrow> gen nos = Inl e \<Longrightarrow>
     save_step gen (nos, ps) (nos, ps[i := Failed e])"
| write_ok: "i < length ps \<Longrightarrow> ps ! i = HasNumber n \<Longrightarrow> insert_unique nos n = Inr nos' \<Longrightarrow>
     save_step gen (nos, ps) (nos', ps[i := Saved])"
| write_fail: "i < length ps \<Longrightarrow> ps ! i = HasNumber n \<Longrightarrow> insert_unique nos n = Inl e \<Longrightarrow>
     save_step gen (nos, ps) (nos, ps[i := Failed e])"

inductive save_reach :: "(string list \<Rightarrow> pyexc + string) \<Rightarrow>
    string list \<times> req_phase list \<Rightarrow> string list \<times> req_phase list \<Rightarrow> bool" where
  reach_refl: "save_reach gen s s"
| reach_step: "save_reach gen s t \<Longrightarrow> save_step gen t u \<Longrightarrow> save_reach gen s u"

text \<open>The generator of the models that filter by prefix, and the table state
  from which a filtered sequence continues at \<open>j\<close>.\<close>

definition filtered_next :: "string \<Rightarrow> nat \<Rightarrow> string list \<Rightarrow> pyexc + string" where
  "filtered_next prefix w nos = next_doc_number prefix w (qs_last (filter (\<lambda>s. startswith s prefix) nos))"

definition seq_from :: "string \<Rightarrow> nat \<Rightarrow> string list \<Rightarrow> int \<Rightarrow> bool" where
  "seq_from prefix w nos j \<longleftrightarrow> 0 \<le> j \<and>
     (case qs_last (filter (\<lambda>s. startswith s prefix) nos) of
        None \<Rightarrow> j = 0
      | Some s \<Rightarrow> (\<exists>q. s = q @ CHR ''-'' # fmt_0d w j))"

subsection \<open>Lemmas on the string operations\<close>

lemma replicate_numeral_Cons: "replicate (numeral k) x = x # replicate (pred_numeral k) x"
  by (simp add: numeral_eq_Suc)

lemma digit_char_props:
  assumes "d < 10"
  shows "is_digit (digit_char d)" "digit_val (digit_char d) = d"
    "digit_char d \<noteq> CHR ''-''" "digit_char d \<noteq> CHR ''+''"
proof -
  have "d \<in> {0, 1, 2, 3, 4, 5, 6, 7, 8, 9}" using assms by auto
  then have oc: "(of_char (digit_char d) :: nat) = 48 + d"
    by (auto simp: digit_char_def)
  show "is_digit (digit_char d)" using assms oc by (simp add: is_digit_def)
  show "digit_val (digit_char d) = d" using oc by (simp add: digit_val_def)
  show "digit_char d \<noteq> CHR ''-''"
  proof
    assume "digit_char d = CHR ''-''"
    then have "(of_char (digit_char d) :: nat) = of_char (CHR ''-'')" by simp
    with oc show False by simp
  qed
  show "digit_char d \<noteq> CHR ''+''"
  proof
    assume "digit_char d = CHR ''+''"
    then have "(of_char (digit_char d) :: nat) = of_char (CHR ''+'')" by simp
    with oc show False by simp
  qed
qed

lemma digits_nat_snoc:
  "digits_nat (xs @ [c]) = 10 * digits_nat xs + digit_val c"
  by (simp add: digits_nat_def)

lemma nat_str_props:
  "all_digits (nat_str n) \<and> digits_nat (nat_str n) = n \<and> CHR ''-'' \<notin> set (nat_str n)
   \<and> hd (nat_str n) \<noteq> CHR ''-'' \<and> hd (nat_str n) \<noteq> CHR ''+''"
proof (induction n rule: nat_str.induct)
  case (1 n)
  show ?case
  proof (cases "n < 10")
    case True
    then show ?thesis using digit_char_props [OF True]
      by (auto simp: nat_str.simps [of n] all_digits_def digits_nat_def)
  next
    case False
    then have IH: "all_digits (nat_str (n div 10)) \<and> digits_nat (nat_str (n div 10)) = n div 10
        \<and> CHR ''-'' \<notin> set (nat_str (n div 10)) \<and> hd (nat_str (n div 10)) \<noteq> CHR ''-''
        \<and> hd (nat_str (n div 10)) \<noteq> CHR ''+''"
      using "1.IH" by simp
    have m: "n mod 10 < 10" by simp
    have ne: "nat_str (n div 10) \<noteq> []" using IH by (simp add: all_digits_def)
    show ?thesis
      using False IH ne digit_char_props [OF m]
      by (simp add: nat_str.simps [of n] all_digits_def digits_nat_snoc)
  qed
qed

lemma digits_nat_zeros: "digits_nat (replicate k (CHR ''0'') @ s) = digits_nat s"
proof -
  have z: "digit_val (CHR ''0'') = 0" by (simp add: digit_val_def)
  have "foldl (\<lambda>acc c. 10 * acc + digit_val c) 0 (replicate k (CHR ''0'')) = 0"
    by (induction k) (simp_all add: z replicate_append_same [symmetric])
  then show ?thesis by (simp add: digits_nat_def)
qed

lemma is_digit_zero [simp]: "is_digit (CHR ''0'')"
  by (simp add: is_digit_def)

lemma pad_zeros_props:
  "all_digits (pad_zeros w (nat_str n)) \<and> digits_nat (pad_zeros w (nat_str n)) = n
   \<and> CHR ''-'' \<notin> set (pad_zeros w (nat_str n))
   \<and> hd (pad_zeros w (nat_str n)) \<noteq> CHR ''-'' \<and> hd (pad_zeros w (nat_str n)) \<noteq> CHR ''+''"
proof -
  let ?k = "w - length (nat_str n)"
  have e: "pad_zeros w (nat_str n) = replicate ?k (CHR ''0'') @ nat_str n"
    by (simp add: pad_zeros_def)
  have h: "hd (pad_zeros w (nat_str n)) = CHR ''0'' \<or> hd (pad_zeros w (nat_str n)) = hd (nat_str n)"
    by (cases ?k) (simp_all add: e)
  show ?thesis
    using nat_str_props [of n] h
    by (auto simp: e digits_nat_zeros all_digits_def list_all_iff)
qed

lemma py_int_fmt_0d: "py_int (fmt_0d w n) = Inr n"
proof (cases "n < 0")
  case True
  then show ?thesis using pad_zeros_props [of "w - 1" "nat (- n)"]
    by (simp add: fmt_0d_def py_int_def)
next
  case False
  let ?s = "pad_zeros w (nat_str (nat n))"
  have p: "all_digits ?s" "digits_nat ?s = nat n" "hd ?s \<noteq> CHR ''-''" "hd ?s \<noteq> CHR ''+''"
    using pad_zeros_props [of w "nat n"] by simp_all
  then obtain c cs where "?s = c # cs" by (cases ?s) (auto simp: all_digits_def)
  with False p show ?thesis by (simp add: fmt_0d_def py_int_def)
qed

lemma minus_notin_fmt_0d: "0 \<le> n \<Longrightarrow> CHR ''-'' \<notin> set (fmt_0d w n)"
  using pad_zeros_props [of w "nat n"] by (simp add: fmt_0d_def)

lemma py_split_nonempty [simp]: "py_split c s \<noteq> []"
  by (induction s) (auto split: list.splits)

lemma py_split_no_sep: "c \<notin> set s \<Longrightarrow> py_split c s = [s]"
  by (induction s) auto

lemma split_last_sep: "split_last c (xs @ c # ys) = split_last c ys"
proof (induction xs)
  case Nil
  then show ?case by (simp add: split_last_def)
next
  case (Cons x xs)
  have len: "length (py_split c (zs @ c # ys)) \<ge> 2" for zs
    by (induction zs) (auto simp: Suc_le_eq split: list.splits)
  show ?case
  proof (cases "x = c")
    case True
    with Cons show ?thesis by (simp add: split_last_def)
  next
    case False
    obtain w ws where "py_split c (xs @ c # ys) = w # ws" and "ws \<noteq> []"
      using len [of xs] by (cases "py_split c (xs @ c # ys)") (auto simp: Suc_le_eq)
    with False Cons show ?thesis by (simp add: split_last_def)
  qed
qed

lemma split_last_number:
  "0 \<le> n \<Longrightarrow> split_last (CHR ''-'') (prefix @ CHR ''-'' # fmt_0d w n) = fmt_0d w n"
  using split_last_sep [of "CHR ''-''" prefix "fmt_0d w n"] minus_notin_fmt_0d [of n w]
  by (simp add: split_last_def py_split_no_sep)

lemma parse_formatted_number:
  "0 \<le> n \<Longrightarrow> py_int (split_last (CHR ''-'') (prefix @ CHR ''-'' # fmt_0d w n)) = Inr n"
  by (simp add: split_last_number py_int_fmt_0d)

lemma startswith_append [simp]: "startswith (p @ s) p"
  by (simp add: startswith_def)

lemmas numbering_eval = payroll_assign_number_def payroll_prefix_def year_filtered_number_def
  next_doc_number_def int_str_def fmt_0d_def pad_zeros_def nat_str.simps digit_char_def
  replicate_numeral_Cons

lemma minus_notin_split_last: "CHR ''-'' \<notin> set (split_last (CHR ''-'') s)"
proof -
  have "\<forall>w \<in> set (py_split c s). c \<notin> set w" for c
    by (induction s) (auto split: list.splits)
  then show ?thesis
    by (metis last_in_set py_split_nonempty split_last_def)
qed

lemma py_int_nonneg: "CHR ''-'' \<notin> set s \<Longrightarrow> py_int s = Inr k \<Longrightarrow> 0 \<le> k"
  by (auto simp: py_int_def split: list.splits if_splits)

subsection \<open>The generator continues the sequence it reads\<close>

lemma next_doc_number_None: "next_doc_number prefix w None = Inr (prefix @ CHR ''-'' # fmt_0d w 1)"
  by (simp add: next_doc_number_def)

lemma next_doc_number_Some:
  "0 \<le> j \<Longrightarrow>
   next_doc_number prefix w (Some (q @ CHR ''-'' # fmt_0d w' j)) = Inr (prefix @ CHR ''-'' # fmt_0d w (j + 1))"
  by (simp add: next_doc_number_def parse_formatted_number)

lemma payroll_assign_number_filtered:
  "payroll_assign_number year month = filtered_next (payroll_prefix year month) 5"
  by (simp add: fun_eq_iff payroll_assign_number_def filtered_next_def Let_def)

lemma year_filtered_number_filtered:
  "year_filtered_number tag year = filtered_next (tag @ CHR ''-'' # int_str year) 5"
  by (simp add: fun_eq_iff year_filtered_number_def filtered_next_def Let_def)

lemma filtered_next_seq:
  "seq_from prefix w nos j \<Longrightarrow> filtered_next prefix w nos = Inr (prefix @ CHR ''-'' # fmt_0d w (j + 1))"
  by (auto simp: seq_from_def filtered_next_def next_doc_number_Some next_doc_number_None
           split: option.splits)

lemma seq_from_snoc:
  "0 \<le> j \<Longrightarrow> seq_from prefix w (nos @ [prefix @ CHR ''-'' # fmt_0d w (j + 1)]) (j + 1)"
  by (simp add: seq_from_def)

lemma filtered_issue_seq:
  "seq_from prefix w nos j \<Longrightarrow>
   issue_seq (filtered_next prefix w) k nos =
     Inr (nos @ map (\<lambda>i. prefix @ CHR ''-'' # fmt_0d w (j + int i)) [1..<Suc k])"
proof (induction k arbitrary: nos j)
  case 0
  then show ?case by simp
next
  case (Suc k)
  have j: "0 \<le> j" using Suc.prems by (simp add: seq_from_def)
  let ?n = "prefix @ CHR ''-'' # fmt_0d w (j + 1)"
  have step: "filtered_next prefix w nos = Inr ?n"
    using Suc.prems by (rule filtered_next_seq)
  have IH: "issue_seq (filtered_next prefix w) k (nos @ [?n]) =
      Inr ((nos @ [?n]) @ map (\<lambda>i. prefix @ CHR ''-'' # fmt_0d w (j + 1 + int i)) [1..<Suc k])"
    using Suc.IH seq_from_snoc [OF j] by blast
  have lst: "[1..<Suc (Suc k)] = 1 # map Suc [1..<Suc k]"
    by (simp add: upt_conv_Cons map_Suc_upt del: upt_Suc)
  have m: "map (\<lambda>i. prefix @ CHR ''-'' # fmt_0d w (j + int i)) [1..<Suc (Suc k)] =
      ?n # map (\<lambda>i. prefix @ CHR ''-'' # fmt_0d w (j + 1 + int i)) [1..<Suc k]"
    by (simp only: lst list.map map_map) (simp add: o_def add_ac del: upt_Suc)
  show ?case
    using step IH m by (simp del: upt_Suc)
qed

subsection \<open>Saves that interleave\<close>

lemma insert_unique_dup: "n \<in> set nos \<Longrightarrow> insert_unique nos n = Inl IntegrityError"
  by (simp add: insert_unique_def)

lemma insert_unique_new: "n \<notin> set nos \<Longrightarrow> insert_unique nos n = Inr (nos @ [n])"
  by (simp add: insert_unique_def)


subsection \<open>Properties of the generators\<close>

text \<open>C33 Round trip of the payroll number: every number \<open>Payroll.save\<close> assigns is
  \<open>PR-<year>-<month>-\<close> followed by the zero-padded sequence number \<open>n \<ge> 1\<close>, and the
  next save, which reads it back with \<open>split('-')[-1]\<close> and \<open>int()\<close>, recovers
  exactly \<open>n\<close>.\<close>

theorem payroll_number_roundtrip:
  assumes "payroll_assign_number year month nos = Inr s"
  shows "\<exists>n \<ge> 1. s = payroll_prefix year month @ CHR ''-'' # fmt_0d 5 n
                 \<and> py_int (split_last (CHR ''-'') s) = Inr n"
proof -
  let ?p = "payroll_prefix year month"
  have "\<exists>n \<ge> 1. s = ?p @ CHR ''-'' # fmt_0d 5 n"
  proof (cases "qs_last (filter (\<lambda>x. startswith x ?p) nos)")
    case None
    then show ?thesis using assms
      by (auto simp: payroll_assign_number_filtered filtered_next_def next_doc_number_None)
  next
    case (Some l)
    with assms obtain k where k: "py_int (split_last (CHR ''-'') l) = Inr k"
      and s: "s = ?p @ CHR ''-'' # fmt_0d 5 (k + 1)"
      by (auto simp: payroll_assign_number_filtered filtered_next_def next_doc_number_def
               res_bind_eq_Inr)
    have "0 \<le> k" by (rule py_int_nonneg [OF minus_notin_split_last k])
    with s show ?thesis by (intro exI [of _ "k + 1"]) simp
  qed
  then show ?thesis using parse_formatted_number by auto
qed

theorem payroll_number_roundtrip_witness:
  "payroll_assign_number 2025 1 [] = Inr ''PR-2025-01-00001'' \<and>
   (\<exists>n \<ge> 1. ''PR-2025-01-00001'' = payroll_prefix 2025 1 @ CHR ''-'' # fmt_0d 5 n
           \<and> py_int (split_last (CHR ''-'') ''PR-2025-01-00001'') = Inr n)"
proof -
  have h: "payroll_assign_number 2025 1 [] = Inr ''PR-2025-01-00001''"
    by (simp add: numbering_eval)
  show ?thesis using h payroll_number_roundtrip [OF h] by blast
qed

text \<open>C32 Sequential payroll numbers: starting from a table with no number of the
  current month, \<open>k\<close> saves one after the other in that month are numbered
  \<open>00001\<close> to \<open>k\<close>, strictly increasing and without gaps, whatever numbers of
  other months the table holds.\<close>

theorem payroll_numbers_sequential:
  assumes "\<forall>s \<in> set nos. \<not> startswith s (payroll_prefix year month)"
  shows "issue_seq (payroll_assign_number year month) k nos =
           Inr (nos @ map (\<lambda>i. payroll_prefix year month @ CHR ''-'' # fmt_0d 5 (int i)) [1..<Suc k])"
proof -
  have "seq_from (payroll_prefix year month) 5 nos 0"
    using assms by (simp add: seq_from_def filter_False)
  from filtered_issue_seq [OF this, of k] show ?thesis
    by (simp add: payroll_assign_number_filtered)
qed

theorem payroll_numbers_sequential_witness:
  "\<not> startswith ''PR-2024-12-00007'' (payroll_prefix 2025 1) \<and>
   issue_seq (payroll_assign_number 2025 1) 3 [''PR-2024-12-00007''] =
     Inr [''PR-2024-12-00007'', ''PR-2025-01-00001'', ''PR-2025-01-00002'', ''PR-2025-01-00003'']"
proof -
  have h: "\<forall>s \<in> set [''PR-2024-12-00007'']. \<not> startswith s (payroll_prefix 2025 1)"
    by (simp add: numbering_eval startswith_def)
  have m: "map (\<lambda>i. payroll_prefix 2025 1 @ CHR ''-'' # fmt_0d 5 (int i)) [1..<Suc 3] =
      [''PR-2025-01-00001'', ''PR-2025-01-00002'', ''PR-2025-01-00003'']"
    by (simp add: numbering_eval upt_rec)
  have "issue_seq (payroll_assign_number 2025 1) 3 [''PR-2024-12-00007''] =
      Inr ([''PR-2024-12-00007''] @
           map (\<lambda>i. payroll_prefix 2025 1 @ CHR ''-'' # fmt_0d 5 (int i)) [1..<Suc 3])"
    by (rule payroll_numbers_sequential [OF h])
  then have "issue_seq (payroll_assign_number 2025 1) 3 [''PR-2024-12-00007''] =
      Inr [''PR-2024-12-00007'', ''PR-2025-01-00001'', ''PR-2025-01-00002'', ''PR-2025-01-00003'']"
    by (simp only: m append_Cons append_Nil)
  with h show ?thesis by simp
qed

text \<open>C35 Production-order numbers do not restart each year: \<open>ProductionOrder.save\<close>
  reads the last order of the whole table, so the first order of a new year continues
  the previous year's sequence (the spec says the sequence is per prefix and year,
  starting at 00001).\<close>

theorem production_number_continues_across_years:
  "0 \<le> j \<Longrightarrow>
   production_assign_number year (nos @ [q @ CHR ''-'' # fmt_0d 5 j]) =
     Inr (''PROD-'' @ int_str year @ CHR ''-'' # fmt_0d 5 (j + 1))"
  by (simp add: production_assign_number_def next_doc_number_Some)

theorem production_number_continues_across_years_witness:
  "production_assign_number 2026 [''PROD-2025-00007''] = Inr ''PROD-2026-00008''"
proof -
  have "production_assign_number 2026 ([] @ [''PROD-2025'' @ CHR ''-'' # fmt_0d 5 7]) =
     Inr (''PROD-'' @ int_str 2026 @ CHR ''-'' # fmt_0d 5 (7 + 1))"
    by (rule production_number_continues_across_years) simp
  then show ?thesis by (simp add: numbering_eval)
qed


text \<open>A new purchase order can never be saved: \<open>PurchaseOrder.save\<close> raises
  \<open>NameError\<close> (\<open>timezone\<close> is not imported in procurement/models.py), or
  \<open>ValueError\<close> before it when the last number does not parse.\<close>

theorem po_save_always_raises:
  "po_assign_number nos = Inl NameError \<or> po_assign_number nos = Inl ValueError"
  by (auto simp: po_assign_number_def res_bind_def split: option.splits sum.splits)
     (auto simp: py_int_def split: list.splits if_splits)


end
