(* ===== verification/PayrollModel.thy ===== *)
theory PayrollModel
  imports Numbering
begin

text \<open>
  The payroll models of payroll/models.py: the choice fields as datatypes, the
  \<open>Payroll\<close> row as a record, \<open>Payroll.calculate_totals\<close> and
  \<open>Payroll.save\<close>, and the rows the salary calculation reads (components, salary
  structures, loans with their installments, salary advances). A table is a list
  of rows in id order; a new row is appended. Fields that no modelled operation
  reads or writes (names, notes, timestamps, the acting users other than the
  approver and payer, file fields) are left out.
\<close>

subsection \<open>Choice fields\<close>

datatype component_type = Earning | Deduction

datatype calculation_type = CalcFixed | CalcPercentage | CalcFormula | CalcAttendance

datatype payroll_status = Draft | Calculated | Approved | Processed | Paid | Cancelled

datatype loan_status = LoanPending | LoanApproved | LoanRejected | LoanDisbursed | LoanActive | LoanClosed

datatype installment_status = InstPending | InstDue | InstPaid | InstPartial | InstOverdue

datatype advance_status = AdvPending | AdvApproved | AdvRejected | AdvDisbursed | AdvRepaid

subsection \<open>Rows\<close>

text \<open>\<open>PayrollComponent\<close> (the fields the calculation reads).\<close>

record payroll_component =
  comp_code :: string
  component_type :: component_type
  calculation_type :: calculation_type

text \<open>\<open>SalaryComponentValue\<close>: one component of a structure.\<close>

record component_value =
  cv_component :: payroll_component
  cv_amount :: decimal
  cv_percentage :: decimal

text \<open>\<open>EmployeeSalaryStructure\<close> with its \<open>components\<close> in query order.\<close>

record salary_structure =
  ss_basic_salary :: decimal
  ss_is_active :: bool
  ss_components :: "component_value list"

record loan_installment =
  installment_number :: int
  inst_due_date :: day
  inst_total_amount :: decimal
  inst_status :: installment_status

record loan =
  loan_number :: string
  loan_employee :: nat
  loan_status :: loan_status
  installments :: "loan_installment list"

record salary_advance =
  advance_number :: string
  adv_employee :: nat
  adv_status :: advance_status
  monthly_deduction :: decimal
  remaining_amount :: decimal

text \<open>\<open>PayrollPeriod\<close>: an inclusive date range, the processed flag and the user
  who processed it.\<close>

record payroll_period =
  period_start :: day
  period_end :: day
  is_processed :: bool
  period_processed_by :: "nat option"

text \<open>\<open>PayrollItem\<close>: the audit row of one applied component. The component is
  named by its code (the loan and advance rows use a component fetched or created
  with code \<open>LOAN-<number>\<close> or \<open>ADV-<number>\<close>).\<close>

record payroll_item =
  item_code :: string
  item_amount :: decimal

text \<open>\<open>Payroll\<close>. \<open>pr_employee\<close> and \<open>pr_period\<close> are the foreign keys.\<close>

record payroll =
  payroll_number :: string
  pr_employee :: nat
  pr_period :: nat
  total_working_days :: int
  present_days :: int
  absent_days :: int
  leave_days :: int
  holiday_days :: int
  basic_salary :: decimal
  house_rent_allowance :: decimal
  conveyance_allowance :: decimal
  medical_allowance :: decimal
  special_allowance :: decimal
  overtime_amount :: decimal
  bonus :: decimal
  other_earnings :: decimal
  total_earnings :: decimal
  provident_fund :: decimal
  professional_tax :: decimal
  income_tax :: decimal
  loan_deduction :: decimal
  advance_deduction :: decimal
  other_deductions :: decimal
  total_deductions :: decimal
  gross_salary :: decimal
  net_salary :: decimal
  pr_status :: payroll_status
  approved_by :: "nat option"
  approved_date :: "timestamp option"
  processed_by :: "nat option"
  processed_date :: "timestamp option"
  payment_date :: "day option"

text \<open>A payroll built with only its foreign keys set: every other field at its default.\<close>

definition new_payroll :: "nat \<Rightarrow> nat \<Rightarrow> payroll" where
  "new_payroll emp period =
     \<lparr>payroll_number = [], pr_employee = emp, pr_period = period,
      total_working_days = 0, present_days = 0, absent_days = 0, leave_days = 0, holiday_days = 0,
      basic_salary = 0, house_rent_allowance = 0, conveyance_allowance = 0, medical_allowance = 0,
      special_allowance = 0, overtime_amount = 0, bonus = 0, other_earnings = 0, total_earnings = 0,
      provident_fund = 0, professional_tax = 0, income_tax = 0, loan_deduction = 0,
      advance_deduction = 0, other_deductions = 0, total_deductions = 0, gross_salary = 0,
      net_salary = 0, pr_status = Draft, approved_by = None, approved_date = None,
      processed_by = None, processed_date = None,
      payment_date = None\<rparr>"

subsection \<open>\<open>Payroll.calculate_totals\<close> and \<open>Payroll.save\<close>\<close>

definition earnings :: "payroll \<Rightarrow> decimal list" where
  "earnings p = [basic_salary p, house_rent_allowance p, conveyance_allowance p,
     medical_allowance p, special_allowance p, overtime_amount p, bonus p, other_earnings p]"

definition deductions :: "payroll \<Rightarrow> decimal list" where
  "deductions p = [provident_fund p, professional_tax p, income_tax p, loan_deduction p,
     advance_deduction p, other_deductions p]"

definition calculate_totals :: "payroll \<Rightarrow> payroll" where
  "calculate_totals p =
     (let te = sum_list (earnings p);
          td = sum_list (deductions p)
      in p\<lparr>total_earnings := te, total_deductions := td, gross_salary := te,
           net_salary := te - td\<rparr>)"

text \<open>
  \<open>Payroll.save\<close>: a payroll without a number gets the next number of the
  current month (\<open>now_year\<close>, \<open>now_month\<close> are \<open>timezone.now()\<close>), the
  totals are recomputed, and the row is inserted (\<open>pk = None\<close>) or written over
  row \<open>pk\<close>. The number column is unique.
\<close>

definition payroll_save :: "int \<Rightarrow> int \<Rightarrow> nat option \<Rightarrow> payroll \<Rightarrow> payroll list \<Rightarrow>
    pyexc + payroll \<times> payroll list" where
  "payroll_save now_year now_month pk p tbl =
     res_bind
       (if payroll_number p = [] then payroll_assign_number now_year now_month (map payroll_number tbl)
        else Inr (payroll_number p))
       (\<lambda>no. let p' = calculate_totals (p\<lparr>payroll_number := no\<rparr>)
             in case pk of
                  None \<Rightarrow>
                    if no \<in> set (map payroll_number tbl) then Inl IntegrityError
                    else Inr (p', tbl @ [p'])
                | Some i \<Rightarrow>
                    if i < length tbl \<and> (\<exists>j < length tbl. j \<noteq> i \<and> payroll_number (tbl ! j) = no)
                    then Inl IntegrityError
                    else Inr (p', tbl[i := p']))"

subsection \<open>The totals invariant\<close>

definition totals_consistent :: "payroll \<Rightarrow> bool" where
  "totals_consistent p \<longleftrightarrow>
     total_earnings p = sum_list (earnings p) \<and>
     total_deductions p = sum_list (deductions p) \<and>
     gross_salary p = total_earnings p \<and>
     net_salary p = total_earnings p - total_deductions p"

lemma earnings_calculate_totals [simp]: "earnings (calculate_totals p) = earnings p"
  by (simp add: calculate_totals_def earnings_def Let_def)

lemma deductions_calculate_totals [simp]: "deductions (calculate_totals p) = deductions p"
  by (simp add: calculate_totals_def deductions_def Let_def)

lemma calculate_totals_consistent: "totals_consistent (calculate_totals p)"
  by (simp add: totals_consistent_def calculate_totals_def Let_def earnings_def deductions_def)

lemma calculate_totals_net:
  "net_salary (calculate_totals p) = sum_list (earnings p) - sum_list (deductions p)"
  by (simp add: calculate_totals_def Let_def)

lemma calculate_totals_fields [simp]:
  "payroll_number (calculate_totals p) = payroll_number p"
  "pr_employee (calculate_totals p) = pr_employee p"
  "pr_period (calculate_totals p) = pr_period p"
  "pr_status (calculate_totals p) = pr_status p"
  "approved_by (calculate_totals p) = approved_by p"
  "approved_date (calculate_totals p) = approved_date p"
  "processed_by (calculate_totals p) = processed_by p"
  "processed_date (calculate_totals p) = processed_date p"
  "payment_date (calculate_totals p) = payment_date p"
  "basic_salary (calculate_totals p) = basic_salary p"
  by (simp_all add: calculate_totals_def Let_def)

lemma calculate_totals_idem [simp]: "calculate_totals (calculate_totals p) = calculate_totals p"
  by (simp add: calculate_totals_def Let_def earnings_def deductions_def)

lemma payroll_save_Inr:
  assumes "payroll_save y m pk p tbl = Inr (p', tbl')"
  shows "\<exists>no. p' = calculate_totals (p\<lparr>payroll_number := no\<rparr>) \<and> no \<noteq> [] \<and>
           (payroll_number p \<noteq> [] \<longrightarrow> no = payroll_number p) \<and>
           (case pk of None \<Rightarrow> tbl' = tbl @ [p'] | Some i \<Rightarrow> tbl' = tbl[i := p'])"
proof -
  obtain no where no: "(if payroll_number p = [] then payroll_assign_number y m (map payroll_number tbl)
        else Inr (payroll_number p)) = Inr no"
    and rest: "(let p' = calculate_totals (p\<lparr>payroll_number := no\<rparr>)
             in case pk of
                  None \<Rightarrow>
                    if no \<in> set (map payroll_number tbl) then Inl IntegrityError
                    else Inr (p', tbl @ [p'])
                | Some i \<Rightarrow>
                    if i < length tbl \<and> (\<exists>j < length tbl. j \<noteq> i \<and> payroll_number (tbl ! j) = no)
                    then Inl IntegrityError
                    else Inr (p', tbl[i := p'])) = Inr (p', tbl')"
    using assms unfolding payroll_save_def res_bind_eq_Inr by blast
  have ne: "no \<noteq> []"
  proof (cases "payroll_number p = []")
    case True
    with no obtain q where "no = payroll_prefix y m @ CHR ''-'' # q"
      by (auto simp: payroll_assign_number_filtered filtered_next_def next_doc_number_def
               res_bind_eq_Inr split: option.splits)
    then show ?thesis by simp
  next
    case False
    with no show ?thesis by simp
  qed
  show ?thesis
    using no rest ne
    by (intro exI [of _ no]) (auto simp: Let_def split: option.splits if_splits)
qed

lemma payroll_save_consistent:
  "payroll_save y m pk p tbl = Inr (p', tbl') \<Longrightarrow> totals_consistent p'"
  using payroll_save_Inr calculate_totals_consistent by blast


text \<open>C1 Totals after every save: whatever the form or the calculation put in the
  earning and deduction fields, the saved payroll satisfies gross = total earnings
  = the sum of the eight earning fields, total deductions = the sum of the six
  deduction fields, and net = total earnings - total deductions.\<close>

theorem payroll_save_totals:
  assumes "payroll_save y m pk p tbl = Inr (p', tbl')"
  shows "totals_consistent p' \<and> net_salary p' = sum_list (earnings p) - sum_list (deductions p)
         \<and> earnings p' = earnings p \<and> deductions p' = deductions p"
proof -
  obtain no where p': "p' = calculate_totals (p\<lparr>payroll_number := no\<rparr>)"
    using payroll_save_Inr [OF assms] by blast
  have "earnings (p\<lparr>payroll_number := no\<rparr>) = earnings p"
    and "deductions (p\<lparr>payroll_number := no\<rparr>) = deductions p"
    by (simp_all add: earnings_def deductions_def)
  then show ?thesis
    using p' calculate_totals_consistent calculate_totals_net by simp
qed


theorem payroll_save_totals_witness:
  "payroll_save 2025 1 None ((new_payroll 1 1)\<lparr>basic_salary := 30000, provident_fund := 1800\<rparr>) [] =
     Inr (calculate_totals ((new_payroll 1 1)\<lparr>basic_salary := 30000, provident_fund := 1800,
                              payroll_number := ''PR-2025-01-00001''\<rparr>),
          [calculate_totals ((new_payroll 1 1)\<lparr>basic_salary := 30000, provident_fund := 1800,
                              payroll_number := ''PR-2025-01-00001''\<rparr>)]) \<and>
   net_salary (calculate_totals ((new_payroll 1 1)\<lparr>basic_salary := 30000, provident_fund := 1800,
                              payroll_number := ''PR-2025-01-00001''\<rparr>)) = 28200"
proof -
  let ?p = "(new_payroll 1 1)\<lparr>basic_salary := 30000, provident_fund := 1800\<rparr>"
  let ?q = "calculate_totals ((new_payroll 1 1)\<lparr>basic_salary := 30000, provident_fund := 1800,
                              payroll_number := ''PR-2025-01-00001''\<rparr>)"
  have s: "payroll_save 2025 1 None ?p [] = Inr (?q, [?q])"
    by (simp add: payroll_save_def new_payroll_def numbering_eval Let_def)
  have "totals_consistent ?q \<and> net_salary ?q = sum_list (earnings ?p) - sum_list (deductions ?p)
        \<and> earnings ?q = earnings ?p \<and> deductions ?q = deductions ?p"
    by (rule payroll_save_totals [OF s])
  then have "net_salary ?q = 28200"
    by (simp add: earnings_def deductions_def new_payroll_def)
  with s show ?thesis by blast
qed

end
