(* ===== verification/HrModel.thy ===== *)
theory HrModel
  imports Prelude
begin

text \<open>
  The rows of hr/models.py that the payroll engine reads: \<open>Employee\<close> (identity,
  department, employment status) and \<open>Attendance\<close> (one row per employee and
  day, check-in and check-out as seconds after midnight, \<open>unique_together = ['employee', 'date']\<close>).
\<close>

datatype employment_status = EmpActive | EmpInactive | EmpOnLeave | EmpTerminated

record employee =
  emp_pk :: nat
  employee_id :: string
  emp_department :: nat
  employment_status :: employment_status

datatype attendance_status = AttPresent | AttAbsent | AttHalfDay | AttLeave | AttHoliday

record attendance =
  att_employee :: nat
  att_date :: day
  att_status :: attendance_status
  overtime_hours :: decimal
  check_in :: "int option"
  check_out :: "int option"

text \<open>The uniqueness constraint of the attendance table.\<close>

definition attendance_unique :: "attendance list \<Rightarrow> bool" where
  "attendance_unique atts \<longleftrightarrow> distinct (map (\<lambda>a. (att_employee a, att_date a)) atts)"

end
