(* ===== verification/SalaryCalc.thy ===== *)
theory SalaryCalc
  imports PayrollModel HrModel PyNum
begin

text \<open>
  The single-employee salary calculation of \<open>PayrollCreateView\<close>
  (payroll/views.py): \<open>calculate_attendance\<close>, \<open>calculate_salary\<close> (basic-salary
  proration, the component loop, loan installments, salary advances, totals) and
  \<open>form_valid\<close>, which runs both and saves the payroll.

  The proration multiplies a \<open>Decimal\<close> daily rate by a \<open>float\<close> number of
  payable days (\<open>leave_days * 0.5\<close> is a float), so it is written with the Python
  numeric tower of theory \<open>PyNum\<close>. The later stages read the prorated basic
  salary as a Decimal and are modelled on Decimal values (rationals); they run only
  if the proration returns.
\<close>

subsection \<open>\<open>calculate_attendance\<close>\<close>

text \<open>
  Attendance rows of the employee whose date lies in the inclusive period
  (\<open>date__range\<close>), counted by status; overtime is paid at 1.5 times an hourly
  rate of \<open>basic_salary / (22 * 8)\<close>. \<open>Sum(...) or 0\<close> is the sum of an empty
  list.
\<close>

definition period_records :: "payroll_period \<Rightarrow> nat \<Rightarrow> attendance list \<Rightarrow> attendance list" where
  "period_records period emp atts =
     filter (\<lambda>a. att_employee a = emp \<and> period_start period \<le> att_date a \<and> att_date a \<le> period_end period) atts"

definition calculate_attendance :: "payroll_period \<Rightarrow> salary_structure \<Rightarrow> attendance list \<Rightarrow> payroll \<Rightarrow> payroll" where
  "calculate_attendance period st atts p =
     (let recs = period_records period (pr_employee p) atts;
          ot_hours = sum_list (map overtime_hours recs);
          hourly_rate = ss_basic_salary st / (22 * 8)
      in p\<lparr>total_working_days := period_end period - period_start period + 1,
           present_days := qs_count (\<lambda>a. att_status a = AttPresent) recs,
           absent_days := qs_count (\<lambda>a. att_status a = AttAbsent) recs,
           leave_days := qs_count (\<lambda>a. att_status a = AttLeave) recs,
           holiday_days := qs_count (\<lambda>a. att_status a = AttHoliday) recs,
           overtime_amount := ot_hours * hourly_rate * (3 / 2)\<rparr>)"

subsection \<open>Proration of the basic salary\<close>

text \<open>
  Lines 305 to 308: \<open>daily_rate = structure.basic_salary / total_working_days\<close>
  (Decimal by int), \<open>payable_days = present + holiday + leave * 0.5\<close> (a float),
  \<open>basic_salary = daily_rate * payable_days\<close>.
\<close>

definition prorate_basic :: "decimal \<Rightarrow> int \<Rightarrow> int \<Rightarrow> int \<Rightarrow> int \<Rightarrow> pyexc + pynum" where
  "prorate_basic basic twd present holiday leave =
     res_bind (py_truediv (PDec basic) (PInt twd)) (\<lambda>daily_rate.
     res_bind (py_add (PInt present) (PInt holiday)) (\<lambda>ph.
     res_bind (py_mul (PInt leave) (PFloat (1 / 2))) (\<lambda>half_leave.
     res_bind (py_add ph half_leave) (\<lambda>payable_days.
     py_mul daily_rate payable_days))))"

subsection \<open>The component loop\<close>

text \<open>
  The amount of one component: earning and deduction branches compute it the same
  way. Formula and attendance kinds fall back to the stored amount.
\<close>

definition component_amount :: "component_value \<Rightarrow> decimal \<Rightarrow> decimal" where
  "component_amount cv basic =
     (case calculation_type (cv_component cv) of
        CalcFixed \<Rightarrow> cv_amount cv
      | CalcPercentage \<Rightarrow> basic * (cv_percentage cv / 100)
      | _ \<Rightarrow> cv_amount cv)"

text \<open>
  One iteration: the amount goes to the field named by the component code
  (assigned) or to \<open>other_earnings\<close>/\<open>other_deductions\<close> (accumulated), and an
  audit item is recorded.
\<close>

definition apply_component :: "payroll \<Rightarrow> component_value \<Rightarrow> payroll \<times> payroll_item" where
  "apply_component p cv =
     (let c = cv_component cv;
          amount = component_amount cv (basic_salary p);
          item = \<lparr>item_code = comp_code c, item_amount = amount\<rparr>
      in case component_type c of
           Earning \<Rightarrow>
             (if comp_code c = ''HRA'' then p\<lparr>house_rent_allowance := amount\<rparr>
              else if comp_code c = ''CA'' then p\<lparr>conveyance_allowance := amount\<rparr>
              else if comp_code c = ''MA'' then p\<lparr>medical_allowance := amount\<rparr>
              else if comp_code c = ''SA'' then p\<lparr>special_allowance := amount\<rparr>
              else p\<lparr>other_earnings := other_earnings p + amount\<rparr>, item)
         | Deduction \<Rightarrow>
             (if comp_code c = ''PF'' then p\<lparr>provident_fund := amount\<rparr>
              else if comp_code c = ''PT'' then p\<lparr>professional_tax := amount\<rparr>
              else if comp_code c = ''IT'' then p\<lparr>income_tax := amount\<rparr>
              else p\<lparr>other_deductions := other_deductions p + amount\<rparr>, item))"

fun apply_components :: "payroll \<Rightarrow> component_value list \<Rightarrow> payroll \<times> payroll_item list" where
  "apply_components p [] = (p, [])"
| "apply_components p (cv # cvs) =
     (let (p1, it) = apply_component p cv;
          (p2, its) = apply_components p1 cvs
      in (p2, it # its))"

subsection \<open>Loan installments\<close>

text \<open>
  For each active loan of the employee, the first installment (in
  \<open>installment_number\<close> order) that falls due inside the period and is pending or
  due. Its amount is added to \<open>loan_deduction\<close>; the installment itself is not
  modified.
\<close>

definition due_installment :: "payroll_period \<Rightarrow> loan \<Rightarrow> loan_installment option" where
  "due_installment period l =
     qs_first (filter (\<lambda>i. period_start period \<le> inst_due_date i \<and> inst_due_date i \<le> period_end period
                          \<and> inst_status i \<in> {InstPending, InstDue})
                      (sort_key installment_number (installments l)))"

definition active_loans :: "nat \<Rightarrow> loan list \<Rightarrow> loan list" where
  "active_loans emp loans = filter (\<lambda>l. loan_employee l = emp \<and> loan_status l = LoanActive) loans"

fun loan_deductions :: "payroll_period \<Rightarrow> payroll \<Rightarrow> loan list \<Rightarrow> payroll \<times> payroll_item list" where
  "loan_deductions period p [] = (p, [])"
| "loan_deductions period p (l # ls) =
     (case due_installment period l of
        None \<Rightarrow> loan_deductions period p ls
      | Some i \<Rightarrow>
          (let p1 = p\<lparr>loan_deduction := loan_deduction p + inst_total_amount i\<rparr>;
               (p2, its) = loan_deductions period p1 ls
           in (p2, \<lparr>item_code = ''LOAN-'' @ loan_number l, item_amount = inst_total_amount i\<rparr> # its)))"

subsection \<open>Salary advances\<close>

text \<open>
  Each disbursed advance of the employee with a positive balance is drawn down by
  \<open>min(monthly_deduction, remaining_amount)\<close>, saved, and marked repaid when the
  balance is no longer positive. The advance table is returned with the drawn-down
  rows in place.
\<close>

definition advance_drawdown :: "salary_advance \<Rightarrow> decimal \<times> salary_advance" where
  "advance_drawdown a =
     (let d = min (monthly_deduction a) (remaining_amount a);
          r = remaining_amount a - d
      in (d, a\<lparr>remaining_amount := r, adv_status := (if r \<le> 0 then AdvRepaid else adv_status a)\<rparr>))"

definition advance_selected :: "nat \<Rightarrow> salary_advance \<Rightarrow> bool" where
  "advance_selected emp a \<longleftrightarrow> adv_employee a = emp \<and> adv_status a = AdvDisbursed \<and> 0 < remaining_amount a"

fun advance_deductions :: "nat \<Rightarrow> payroll \<Rightarrow> salary_advance list \<Rightarrow>
    payroll \<times> salary_advance list \<times> payroll_item list" where
  "advance_deductions emp p [] = (p, [], [])"
| "advance_deductions emp p (a # as) =
     (if advance_selected emp a then
        (let (d, a') = advance_drawdown a;
             (p1, as', its) = advance_deductions emp (p\<lparr>advance_deduction := advance_deduction p + d\<rparr>) as
         in (p1, a' # as', \<lparr>item_code = ''ADV-'' @ advance_number a, item_amount = d\<rparr> # its))
      else
        (let (p1, as', its) = advance_deductions emp p as in (p1, a # as', its)))"

subsection \<open>\<open>calculate_salary\<close> and \<open>form_valid\<close>\<close>

text \<open>
  The database the view reads and writes: payrolls, audit items, loans, advances.
\<close>

record payroll_db =
  db_payrolls :: "payroll list"
  db_items :: "payroll_item list"
  db_loans :: "loan list"
  db_advances :: "salary_advance list"

definition calculate_salary :: "salary_structure \<Rightarrow> payroll_period \<Rightarrow> payroll_db \<Rightarrow> payroll \<Rightarrow>
    pyexc + payroll \<times> payroll_item list \<times> salary_advance list" where
  "calculate_salary st period db p =
     res_bind (prorate_basic (ss_basic_salary st) (total_working_days p) (present_days p)
                 (holiday_days p) (leave_days p))
       (\<lambda>b. let p1 = p\<lparr>basic_salary := py_value b\<rparr>;
                (p2, its1) = apply_components p1 (ss_components st);
                (p3, its2) = loan_deductions period p2 (active_loans (pr_employee p) (db_loans db));
                (p4, advs, its3) = advance_deductions (pr_employee p) p3 (db_advances db)
            in Inr (calculate_totals p4, its1 @ its2 @ its3, advs))"

text \<open>
  \<open>form_valid\<close>: the form's payroll (not yet saved), attendance, salary, then
  \<open>save()\<close> as an insert. The view's redirect and message are not modelled.
\<close>

definition payroll_create_view :: "int \<Rightarrow> int \<Rightarrow> salary_structure \<Rightarrow> payroll_period \<Rightarrow>
    attendance list \<Rightarrow> payroll_db \<Rightarrow> payroll \<Rightarrow> pyexc + payroll_db" where
  "payroll_create_view now_year now_month st period atts db form_obj =
     (let p0 = calculate_attendance period st atts form_obj
      in res_bind (calculate_salary st period db p0) (\<lambda>(p1, its, advs).
         res_bind (payroll_save now_year now_month None p1 (db_payrolls db)) (\<lambda>(p2, tbl).
         Inr (db\<lparr>db_payrolls := tbl, db_items := db_items db @ its, db_advances := advs\<rparr>))))"


subsection \<open>Specifications of the loops\<close>

text \<open>
  The component loop as a table of slots: the code routes each component to one
  of nine slots by its type and code (spec, section 9: "an explicit tagged
  enumeration of recognized component slots plus a catch-all bucket").
  \<open>components_spec\<close> states the effect of the whole loop at once: a named slot
  that some component uses holds that slot's amount, the two catch-all fields grow
  by the sum of their components.
\<close>

datatype comp_slot = SlotHRA | SlotCA | SlotMA | SlotSA | SlotOtherEarning
  | SlotPF | SlotPT | SlotIT | SlotOtherDeduction

definition slot_of :: "payroll_component \<Rightarrow> comp_slot" where
  "slot_of c =
     (case component_type c of
        Earning \<Rightarrow>
          (if comp_code c = ''HRA'' then SlotHRA else if comp_code c = ''CA'' then SlotCA
           else if comp_code c = ''MA'' then SlotMA else if comp_code c = ''SA'' then SlotSA
           else SlotOtherEarning)
      | Deduction \<Rightarrow>
          (if comp_code c = ''PF'' then SlotPF else if comp_code c = ''PT'' then SlotPT
           else if comp_code c = ''IT'' then SlotIT else SlotOtherDeduction))"

definition slot_amount :: "decimal \<Rightarrow> component_value list \<Rightarrow> comp_slot \<Rightarrow> decimal" where
  "slot_amount basic cvs s =
     sum_list (map (\<lambda>cv. component_amount cv basic) (filter (\<lambda>cv. slot_of (cv_component cv) = s) cvs))"

definition slot_used :: "component_value list \<Rightarrow> comp_slot \<Rightarrow> bool" where
  "slot_used cvs s \<longleftrightarrow> list_ex (\<lambda>cv. slot_of (cv_component cv) = s) cvs"

definition components_spec :: "payroll \<Rightarrow> component_value list \<Rightarrow> payroll" where
  "components_spec p cvs =
     (let amt = slot_amount (basic_salary p) cvs;
          named = (\<lambda>s old. if slot_used cvs s then amt s else old)
      in p\<lparr>house_rent_allowance := named SlotHRA (house_rent_allowance p),
           conveyance_allowance := named SlotCA (conveyance_allowance p),
           medical_allowance := named SlotMA (medical_allowance p),
           special_allowance := named SlotSA (special_allowance p),
           other_earnings := other_earnings p + amt SlotOtherEarning,
           provident_fund := named SlotPF (provident_fund p),
           professional_tax := named SlotPT (professional_tax p),
           income_tax := named SlotIT (income_tax p),
           other_deductions := other_deductions p + amt SlotOtherDeduction\<rparr>)"

definition codes_distinct :: "component_value list \<Rightarrow> bool" where
  "codes_distinct cvs \<longleftrightarrow> distinct (map (\<lambda>cv. comp_code (cv_component cv)) cvs)"


text \<open>Components as the admin would configure them.\<close>

definition hra_percentage :: "decimal \<Rightarrow> component_value" where
  "hra_percentage pct = \<lparr>cv_component = \<lparr>comp_code = ''HRA'', component_type = Earning,
      calculation_type = CalcPercentage\<rparr>, cv_amount = 0, cv_percentage = pct\<rparr>"

definition fixed_component :: "string \<Rightarrow> component_type \<Rightarrow> decimal \<Rightarrow> component_value" where
  "fixed_component code ty amt = \<lparr>cv_component = \<lparr>comp_code = code, component_type = ty,
      calculation_type = CalcFixed\<rparr>, cv_amount = amt, cv_percentage = 0\<rparr>"

text \<open>The advance table after one payroll of employee \<open>emp\<close>, row by row, and
  after \<open>k\<close> payrolls in a row.\<close>

definition advance_after :: "nat \<Rightarrow> salary_advance \<Rightarrow> salary_advance" where
  "advance_after emp a = (if advance_selected emp a then snd (advance_drawdown a) else a)"

definition advance_runs :: "nat \<Rightarrow> nat \<Rightarrow> salary_advance \<Rightarrow> salary_advance" where
  "advance_runs emp k a = (advance_after emp ^^ k) a"

text \<open>The amount one active loan contributes to \<open>loan_deduction\<close>.\<close>

definition installment_due_amount :: "payroll_period \<Rightarrow> loan \<Rightarrow> decimal" where
  "installment_due_amount period l = (case due_installment period l of None \<Rightarrow> 0 | Some i \<Rightarrow> inst_total_amount i)"



subsection \<open>Lemmas\<close>

lemma slot_named_code:
  "slot_of c = slot_of d \<Longrightarrow> slot_of c \<notin> {SlotOtherEarning, SlotOtherDeduction} \<Longrightarrow>
   comp_code c = comp_code d"
  by (auto simp: slot_of_def split: component_type.splits if_splits)

lemma apply_component_basic [simp]: "basic_salary (fst (apply_component p cv)) = basic_salary p"
  by (simp add: apply_component_def Let_def split: component_type.splits)

lemma apply_components_Cons_fst:
  "fst (apply_components p (cv # cvs)) = fst (apply_components (fst (apply_component p cv)) cvs)"
  by (simp add: case_prod_beta)

lemma components_spec_Nil [simp]: "components_spec p [] = p"
  by (simp add: components_spec_def slot_used_def slot_amount_def)

lemma apply_component_slot:
  "fst (apply_component p cv) =
     (let a = component_amount cv (basic_salary p)
      in case slot_of (cv_component cv) of
           SlotHRA \<Rightarrow> p\<lparr>house_rent_allowance := a\<rparr>
         | SlotCA \<Rightarrow> p\<lparr>conveyance_allowance := a\<rparr>
         | SlotMA \<Rightarrow> p\<lparr>medical_allowance := a\<rparr>
         | SlotSA \<Rightarrow> p\<lparr>special_allowance := a\<rparr>
         | SlotOtherEarning \<Rightarrow> p\<lparr>other_earnings := other_earnings p + a\<rparr>
         | SlotPF \<Rightarrow> p\<lparr>provident_fund := a\<rparr>
         | SlotPT \<Rightarrow> p\<lparr>professional_tax := a\<rparr>
         | SlotIT \<Rightarrow> p\<lparr>income_tax := a\<rparr>
         | SlotOtherDeduction \<Rightarrow> p\<lparr>other_deductions := other_deductions p + a\<rparr>)"
  by (simp add: apply_component_def slot_of_def Let_def split: component_type.splits)

lemma slot_amount_Cons:
  "slot_amount b (cv # cvs) s =
     (if slot_of (cv_component cv) = s then component_amount cv b else 0) + slot_amount b cvs s"
  by (simp add: slot_amount_def)

lemma slot_used_Cons: "slot_used (cv # cvs) s \<longleftrightarrow> slot_of (cv_component cv) = s \<or> slot_used cvs s"
  by (simp add: slot_used_def)

lemma slot_amount_unused: "\<not> slot_used cvs s \<Longrightarrow> slot_amount b cvs s = 0"
  by (simp add: slot_used_def slot_amount_def list_ex_iff filter_False)

lemma components_spec_Cons:
  assumes "\<not> slot_used cvs (slot_of (cv_component cv)) \<or>
           slot_of (cv_component cv) \<in> {SlotOtherEarning, SlotOtherDeduction}"
  shows "components_spec (fst (apply_component p cv)) cvs = components_spec p (cv # cvs)"
proof (cases "slot_of (cv_component cv)")
  case SlotOtherEarning
  then show ?thesis
    by (simp add: components_spec_def apply_component_slot slot_amount_Cons slot_used_Cons Let_def
        algebra_simps)
next
  case SlotOtherDeduction
  then show ?thesis
    by (simp add: components_spec_def apply_component_slot slot_amount_Cons slot_used_Cons Let_def
        algebra_simps)
qed (use assms in \<open>simp_all add: components_spec_def apply_component_slot slot_amount_Cons
       slot_used_Cons slot_amount_unused Let_def\<close>)

lemma advance_deductions_eq:
  "advance_deductions emp p advs =
     (p\<lparr>advance_deduction := advance_deduction p +
          sum_list (map (\<lambda>a. fst (advance_drawdown a)) (filter (advance_selected emp) advs))\<rparr>,
      map (advance_after emp) advs,
      map (\<lambda>a. \<lparr>item_code = ''ADV-'' @ advance_number a, item_amount = fst (advance_drawdown a)\<rparr>)
        (filter (advance_selected emp) advs))"
  by (induction advs arbitrary: p)
     (auto simp: advance_after_def case_prod_beta algebra_simps)

lemma advance_drawdown_fst: "fst (advance_drawdown a) = min (monthly_deduction a) (remaining_amount a)"
  by (simp add: advance_drawdown_def Let_def)

lemma advance_drawdown_remaining:
  "remaining_amount (snd (advance_drawdown a)) = remaining_amount a - min (monthly_deduction a) (remaining_amount a)"
  by (simp add: advance_drawdown_def Let_def)

lemma advance_drawdown_status:
  "adv_status (snd (advance_drawdown a)) =
     (if remaining_amount a - min (monthly_deduction a) (remaining_amount a) \<le> 0 then AdvRepaid else adv_status a)"
  by (simp add: advance_drawdown_def Let_def)

lemma advance_drawdown_other [simp]:
  "adv_employee (snd (advance_drawdown a)) = adv_employee a"
  "monthly_deduction (snd (advance_drawdown a)) = monthly_deduction a"
  "advance_number (snd (advance_drawdown a)) = advance_number a"
  by (simp_all add: advance_drawdown_def Let_def)

lemmas advance_drawdown_simps = advance_drawdown_fst advance_drawdown_remaining advance_drawdown_status


lemma loan_deductions_amount:
  "loan_deduction (fst (loan_deductions period p ls)) =
     loan_deduction p + sum_list (map (installment_due_amount period) ls)"
  by (induction ls arbitrary: p)
     (auto simp: installment_due_amount_def case_prod_beta algebra_simps Let_def split: option.splits)

lemma loan_deductions_other [simp]:
  "basic_salary (fst (loan_deductions period p ls)) = basic_salary p"
  "advance_deduction (fst (loan_deductions period p ls)) = advance_deduction p"
  "pr_employee (fst (loan_deductions period p ls)) = pr_employee p"
  by (induction ls arbitrary: p) (auto simp: case_prod_beta Let_def split: option.splits)


lemma period_records_dates:
  assumes "attendance_unique atts"
  shows "distinct (map att_date (period_records period emp atts))"
proof -
  have "distinct (map (\<lambda>a. (att_employee a, att_date a)) (period_records period emp atts))"
    using assms by (simp add: attendance_unique_def period_records_def distinct_map_filter)
  moreover have "\<forall>a \<in> set (period_records period emp atts). att_employee a = emp"
    by (simp add: period_records_def)
  ultimately show ?thesis
    by (simp add: distinct_map inj_on_def)
qed

lemma period_records_length:
  assumes "attendance_unique atts"
  shows "int (length (period_records period emp atts)) \<le> max 0 (period_end period - period_start period + 1)"
proof -
  let ?ds = "map att_date (period_records period emp atts)"
  have "set ?ds \<subseteq> {period_start period .. period_end period}"
    by (auto simp: period_records_def)
  then have "card (set ?ds) \<le> card {period_start period .. period_end period}"
    by (rule card_mono [OF finite_atLeastAtMost_int])
  moreover have "card (set ?ds) = length (period_records period emp atts)"
    using distinct_card [OF period_records_dates [OF assms]] by simp
  ultimately show ?thesis by simp
qed

lemma qs_count_partition:
  "qs_count (\<lambda>a. att_status a = AttPresent) xs + qs_count (\<lambda>a. att_status a = AttAbsent) xs
   + qs_count (\<lambda>a. att_status a = AttLeave) xs + qs_count (\<lambda>a. att_status a = AttHoliday) xs
   + qs_count (\<lambda>a. att_status a = AttHalfDay) xs = int (length xs)"
proof (induction xs)
  case Nil
  then show ?case by simp
next
  case (Cons x xs)
  then show ?case by (cases "att_status x") simp_all
qed


lemma prorate_basic_raises:
  "prorate_basic basic twd present holiday leave =
     Inl (if twd = 0 then (if basic = 0 then InvalidOperation else DivisionByZero) else TypeError)"
  by (simp add: prorate_basic_def)

lemma calculate_salary_raises:
  "calculate_salary st period db p =
     Inl (if total_working_days p = 0 then (if ss_basic_salary st = 0 then InvalidOperation else DivisionByZero)
          else TypeError)"
  by (simp add: calculate_salary_def prorate_basic_raises)

lemma calculate_attendance_fields [simp]:
  "total_working_days (calculate_attendance period st atts p) = period_end period - period_start period + 1"
  "pr_employee (calculate_attendance period st atts p) = pr_employee p"
  by (simp_all add: calculate_attendance_def Let_def)


lemma apply_components_spec:
  "codes_distinct cvs \<Longrightarrow> fst (apply_components p cvs) = components_spec p cvs"
proof (induction cvs arbitrary: p)
  case Nil
  then show ?case by simp
next
  case (Cons cv cvs)
  have dist: "codes_distinct cvs" and new: "comp_code (cv_component cv) \<notin> comp_code ` cv_component ` set cvs"
    using Cons.prems by (auto simp: codes_distinct_def)
  have free: "\<not> slot_used cvs (slot_of (cv_component cv)) \<or>
      slot_of (cv_component cv) \<in> {SlotOtherEarning, SlotOtherDeduction}"
  proof (rule ccontr)
    assume "\<not> ?thesis"
    then obtain cv' where "cv' \<in> set cvs" and "slot_of (cv_component cv') = slot_of (cv_component cv)"
      and "slot_of (cv_component cv) \<notin> {SlotOtherEarning, SlotOtherDeduction}"
      by (auto simp: slot_used_def list_ex_iff)
    then have "comp_code (cv_component cv) = comp_code (cv_component cv')"
      by (metis slot_named_code)
    with \<open>cv' \<in> set cvs\<close> new show False by auto
  qed
  have "fst (apply_components p (cv # cvs)) = fst (apply_components (fst (apply_component p cv)) cvs)"
    by (rule apply_components_Cons_fst)
  also have "\<dots> = components_spec (fst (apply_component p cv)) cvs"
    using Cons.IH dist by blast
  also have "\<dots> = components_spec p (cv # cvs)"
    using free by (rule components_spec_Cons)
  finally show ?case .
qed

lemma slot_amount_mset:
  "mset cvs = mset cvs' \<Longrightarrow> slot_amount b cvs s = slot_amount b cvs' s"
  unfolding slot_amount_def by (metis mset_filter sum_list_perm)

lemma slot_used_mset: "mset cvs = mset cvs' \<Longrightarrow> slot_used cvs s = slot_used cvs' s"
  unfolding slot_used_def list_ex_iff by (metis set_mset_mset)

lemma codes_distinct_mset: "mset cvs = mset cvs' \<Longrightarrow> codes_distinct cvs \<Longrightarrow> codes_distinct cvs'"
  unfolding codes_distinct_def by (metis mset_map mset_eq_imp_distinct_iff)


lemma filter_slot_single:
  assumes "codes_distinct cvs" "cv \<in> set cvs" "slot_of (cv_component cv) \<notin> {SlotOtherEarning, SlotOtherDeduction}"
  shows "filter (\<lambda>x. slot_of (cv_component x) = slot_of (cv_component cv)) cvs = [cv]"
proof -
  have inj: "inj_on (\<lambda>x. comp_code (cv_component x)) (set cvs)" and dcv: "distinct cvs"
    using assms(1) by (simp_all add: codes_distinct_def distinct_map)
  have "filter (\<lambda>x. slot_of (cv_component x) = slot_of (cv_component cv)) cvs = filter (\<lambda>x. x = cv) cvs"
  proof (rule filter_cong [OF refl])
    fix x assume "x \<in> set cvs"
    with assms inj show "(slot_of (cv_component x) = slot_of (cv_component cv)) = (x = cv)"
      by (metis inj_onD slot_named_code)
  qed
  also have "\<dots> = [cv]"
    using dcv assms(2) by (induction cvs) (auto simp: filter_empty_conv)
  finally show ?thesis .
qed


lemma advance_after_repaid:
  "adv_status a = AdvRepaid \<Longrightarrow> advance_after emp a = a"
  by (simp add: advance_after_def advance_selected_def)

lemma advance_runs_repaid:
  "adv_status a = AdvRepaid \<Longrightarrow> advance_runs emp k a = a"
  by (induction k) (simp_all add: advance_runs_def advance_after_repaid)

lemma advance_runs_Suc: "advance_runs emp (Suc k) a = advance_runs emp k (advance_after emp a)"
  by (simp only: advance_runs_def funpow_Suc_right comp_def)



subsection \<open>Properties of the salary calculation\<close>

text \<open>C2 Creating a payroll through \<open>PayrollCreateView\<close> always fails: the proration
  multiplies a Decimal daily rate by the float \<open>present + holiday + leave * 0.5\<close>,
  which raises \<open>TypeError\<close> (or the Decimal division raises first when the period is
  empty), before anything is saved.\<close>

theorem payroll_create_view_raises:
  "payroll_create_view y m st period atts db form_obj =
     Inl (if period_end period - period_start period + 1 = 0
          then (if ss_basic_salary st = 0 then InvalidOperation else DivisionByZero)
          else TypeError)"
  by (simp add: payroll_create_view_def calculate_salary_raises Let_def)




text \<open>The order in which the structure's components are read does not matter: with
  unique component codes, any permutation of the component list gives the same
  payroll (the loop refines \<open>components_spec\<close>).\<close>

theorem apply_components_permutation_invariant:
  assumes "codes_distinct cvs" and "mset cvs = mset cvs'"
  shows "fst (apply_components p cvs) = fst (apply_components p cvs')"
proof -
  have "codes_distinct cvs'" by (rule codes_distinct_mset [OF assms(2) assms(1)])
  then have "fst (apply_components p cvs') = components_spec p cvs'" by (rule apply_components_spec)
  moreover have "fst (apply_components p cvs) = components_spec p cvs"
    using assms(1) by (rule apply_components_spec)
  moreover have "components_spec p cvs = components_spec p cvs'"
    using slot_amount_mset [OF assms(2)] slot_used_mset [OF assms(2)]
    by (simp add: components_spec_def Let_def)
  ultimately show ?thesis by simp
qed


theorem apply_components_permutation_invariant_witness:
  "codes_distinct [hra_percentage 40, fixed_component ''TA'' Earning 500, fixed_component ''PF'' Deduction 1800] \<and>
   mset [hra_percentage 40, fixed_component ''TA'' Earning 500, fixed_component ''PF'' Deduction 1800] =
   mset [fixed_component ''PF'' Deduction 1800, hra_percentage 40, fixed_component ''TA'' Earning 500] \<and>
   fst (apply_components (new_payroll 1 1) [hra_percentage 40, fixed_component ''TA'' Earning 500, fixed_component ''PF'' Deduction 1800]) =
   fst (apply_components (new_payroll 1 1) [fixed_component ''PF'' Deduction 1800, hra_percentage 40, fixed_component ''TA'' Earning 500])"
proof -
  have d: "codes_distinct [hra_percentage 40, fixed_component ''TA'' Earning 500, fixed_component ''PF'' Deduction 1800]"
    by (simp add: codes_distinct_def hra_percentage_def fixed_component_def)
  have m: "mset [hra_percentage 40, fixed_component ''TA'' Earning 500, fixed_component ''PF'' Deduction 1800] =
   mset [fixed_component ''PF'' Deduction 1800, hra_percentage 40, fixed_component ''TA'' Earning 500]"
    by simp
  show ?thesis using d m apply_components_permutation_invariant [OF d m] by blast
qed










text \<open>C31 Attendance counts: the present, absent, leave and holiday counts cover every
  attendance row of the period except half days (which are paid for nothing), and,
  with one row per employee and day, their sum never exceeds the number of days in
  the period.\<close>

theorem attendance_day_counts:
  assumes "attendance_unique atts"
  shows "present_days (calculate_attendance period st atts p) + absent_days (calculate_attendance period st atts p)
         + leave_days (calculate_attendance period st atts p) + holiday_days (calculate_attendance period st atts p)
         = int (length (period_records period (pr_employee p) atts))
           - qs_count (\<lambda>a. att_status a = AttHalfDay) (period_records period (pr_employee p) atts) \<and>
         present_days (calculate_attendance period st atts p) + absent_days (calculate_attendance period st atts p)
         + leave_days (calculate_attendance period st atts p) + holiday_days (calculate_attendance period st atts p)
         \<le> max 0 (total_working_days (calculate_attendance period st atts p))"
proof -
  let ?r = "period_records period (pr_employee p) atts"
  have part: "qs_count (\<lambda>a. att_status a = AttPresent) ?r + qs_count (\<lambda>a. att_status a = AttAbsent) ?r
     + qs_count (\<lambda>a. att_status a = AttLeave) ?r + qs_count (\<lambda>a. att_status a = AttHoliday) ?r
     = int (length ?r) - qs_count (\<lambda>a. att_status a = AttHalfDay) ?r"
    using qs_count_partition [of ?r] by linarith
  have len: "int (length ?r) \<le> max 0 (period_end period - period_start period + 1)"
    using assms by (rule period_records_length)
  have h: "0 \<le> qs_count (\<lambda>a. att_status a = AttHalfDay) ?r" by simp
  show ?thesis
    using part len by (simp add: calculate_attendance_def Let_def) (insert h, linarith)
qed


theorem attendance_day_counts_witness:
  "attendance_unique [\<lparr>att_employee = 1, att_date = 10, att_status = AttPresent, overtime_hours = 2, check_in = None, check_out = None\<rparr>,
                      \<lparr>att_employee = 1, att_date = 11, att_status = AttHalfDay, overtime_hours = 0, check_in = None, check_out = None\<rparr>] \<and>
   present_days (calculate_attendance \<lparr>period_start = 10, period_end = 12, is_processed = False, period_processed_by = None\<rparr>
      \<lparr>ss_basic_salary = 17600, ss_is_active = True, ss_components = []\<rparr>
      [\<lparr>att_employee = 1, att_date = 10, att_status = AttPresent, overtime_hours = 2, check_in = None, check_out = None\<rparr>,
       \<lparr>att_employee = 1, att_date = 11, att_status = AttHalfDay, overtime_hours = 0, check_in = None, check_out = None\<rparr>] (new_payroll 1 1)) = 1 \<and>
   absent_days (calculate_attendance \<lparr>period_start = 10, period_end = 12, is_processed = False, period_processed_by = None\<rparr>
      \<lparr>ss_basic_salary = 17600, ss_is_active = True, ss_components = []\<rparr>
      [\<lparr>att_employee = 1, att_date = 10, att_status = AttPresent, overtime_hours = 2, check_in = None, check_out = None\<rparr>,
       \<lparr>att_employee = 1, att_date = 11, att_status = AttHalfDay, overtime_hours = 0, check_in = None, check_out = None\<rparr>] (new_payroll 1 1)) = 0"
proof -
  let ?atts = "[\<lparr>att_employee = 1::nat, att_date = 10::int, att_status = AttPresent, overtime_hours = 2::rat, check_in = None, check_out = None\<rparr>,
                \<lparr>att_employee = 1, att_date = 11, att_status = AttHalfDay, overtime_hours = 0, check_in = None, check_out = None\<rparr>]"
  have u: "attendance_unique ?atts" by (simp add: attendance_unique_def)
  note attendance_day_counts [OF u, of "\<lparr>period_start = 10, period_end = 12, is_processed = False, period_processed_by = None\<rparr>"
      "\<lparr>ss_basic_salary = 17600, ss_is_active = True, ss_components = []\<rparr>" "new_payroll 1 1"]
  then show ?thesis using u
    by (simp add: calculate_attendance_def period_records_def new_payroll_def Let_def)
qed

end
