(* ===== verification/PayrollRun.thy ===== *)
theory PayrollRun
  imports PayrollModel HrModel
begin

text \<open>
  The batch payroll run of payroll/views.py, \<open>PayrollRunCreateView\<close>: the
  \<open>PayrollRun\<close> and \<open>Payslip\<close> rows of payroll/models.py, the employee
  selection by run type, the per-employee step inside its own transaction, the loop
  with its counters and error log, the completion of the run and of its period, and
  the view that numbers the run and starts it. The two calculation hooks of the run
  are \<open>pass\<close> in the code and are modelled as the identity. The text
  \<open>error_log\<close> is modelled as the list of its lines, each line a value of
  \<open>log_entry\<close> that records the employee id and the exception.
\<close>

subsection \<open>Rows\<close>

datatype run_type = RunDepartment | RunCompany | RunBranch | RunCustom | RunAll

datatype run_status = RunPending | RunProcessing | RunCompleted | RunFailed

datatype log_entry =
    LogAlreadyExists string
  | LogError string pyexc
  | LogRunFailed pyexc

record payroll_run =
  run_number :: string
  run_type :: run_type
  run_period :: nat
  run_department :: "nat option"
  run_status :: run_status
  total_employees :: int
  processed_employees :: int
  failed_employees :: int
  run_total_amount :: decimal
  started_by :: nat
  completed_by :: "nat option"
  error_log :: "log_entry list"

text \<open>\<open>Payslip\<close>: one per payroll (\<open>OneToOneField\<close>), named by the payroll's number.\<close>

record payslip =
  slip_payroll :: string
  generated_by :: "nat option"

text \<open>The tables the run reads and writes. \<open>bdb_structures\<close> is the
  \<open>EmployeeSalaryStructure\<close> table keyed by its one-to-one employee.\<close>

record batch_db =
  bdb_employees :: "employee list"
  bdb_structures :: "(nat \<times> salary_structure) list"
  bdb_periods :: "payroll_period list"
  bdb_payrolls :: "payroll list"
  bdb_payslips :: "payslip list"
  bdb_runs :: "payroll_run list"

subsection \<open>Employee selection\<close>

text \<open>\<open>employment_status='active', salary_structure__is_active=True\<close>: an inner
  join on the one-to-one structure.\<close>

definition structure_active :: "(nat \<times> salary_structure) list \<Rightarrow> nat \<Rightarrow> bool" where
  "structure_active ss e = (case map_of ss e of Some s \<Rightarrow> ss_is_active s | None \<Rightarrow> False)"

definition active_with_structure :: "(nat \<times> salary_structure) list \<Rightarrow> employee \<Rightarrow> bool" where
  "active_with_structure ss e \<longleftrightarrow> employment_status e = EmpActive \<and> structure_active ss (emp_pk e)"

definition run_employees :: "payroll_run \<Rightarrow> employee list \<Rightarrow> (nat \<times> salary_structure) list \<Rightarrow> employee list" where
  "run_employees r emps ss =
     (if run_type r = RunDepartment \<and> run_department r \<noteq> None
      then filter (\<lambda>e. Some (emp_department e) = run_department r \<and> active_with_structure ss e) emps
      else if run_type r = RunAll then filter (active_with_structure ss) emps
      else filter (active_with_structure ss) emps)"

subsection \<open>One employee\<close>

text \<open>The loop's state: the two tables it writes, its local counters and the run's
  error log.\<close>

record batch_state =
  bs_payrolls :: "payroll list"
  bs_payslips :: "payslip list"
  bs_processed :: int
  bs_failed :: int
  bs_total :: decimal
  bs_log :: "log_entry list"

definition payroll_exists :: "nat \<Rightarrow> nat \<Rightarrow> payroll list \<Rightarrow> bool" where
  "payroll_exists emp period ps \<longleftrightarrow> list_ex (\<lambda>p. pr_employee p = emp \<and> pr_period p = period) ps"

definition calculate_attendance_for_payroll :: "payroll \<Rightarrow> payroll" where
  "calculate_attendance_for_payroll p = p"

definition calculate_salary_for_payroll :: "payroll \<Rightarrow> payroll" where
  "calculate_salary_for_payroll p = p"

text \<open>\<open>Payslip.objects.create\<close>: the one-to-one column is unique.\<close>

definition generate_payslip :: "nat \<Rightarrow> payroll \<Rightarrow> payslip list \<Rightarrow> pyexc + payslip list" where
  "generate_payslip user p slips =
     (if payroll_number p \<in> set (map slip_payroll slips) then Inl IntegrityError
      else Inr (slips @ [\<lparr>slip_payroll = payroll_number p, generated_by = Some user\<rparr>]))"

text \<open>The body of the loop. The \<open>transaction.atomic()\<close> block either commits both
  the payroll and its payslip or, on an exception, neither.\<close>

definition create_payroll_atomic :: "int \<Rightarrow> int \<Rightarrow> nat \<Rightarrow> nat \<Rightarrow> employee \<Rightarrow> payroll list \<Rightarrow>
    payslip list \<Rightarrow> pyexc + payroll \<times> payroll list \<times> payslip list" where
  "create_payroll_atomic y m user period e ps slips =
     res_bind
       (payroll_save y m None
          (calculate_salary_for_payroll (calculate_attendance_for_payroll (new_payroll (emp_pk e) period))) ps)
       (\<lambda>(p, ps'). res_bind (generate_payslip user p slips) (\<lambda>slips'. Inr (p, ps', slips')))"

definition process_employee :: "int \<Rightarrow> int \<Rightarrow> nat \<Rightarrow> nat \<Rightarrow> employee \<Rightarrow> batch_state \<Rightarrow> batch_state" where
  "process_employee y m user period e st =
     (if \<not> payroll_exists (emp_pk e) period (bs_payrolls st) then
        (case create_payroll_atomic y m user period e (bs_payrolls st) (bs_payslips st) of
           Inl ex \<Rightarrow> st\<lparr>bs_failed := bs_failed st + 1, bs_log := bs_log st @ [LogError (employee_id e) ex]\<rparr>
         | Inr (p, ps', slips') \<Rightarrow>
             st\<lparr>bs_payrolls := ps', bs_payslips := slips', bs_total := bs_total st + net_salary p,
                bs_processed := bs_processed st + 1\<rparr>)
      else st\<lparr>bs_failed := bs_failed st + 1, bs_log := bs_log st @ [LogAlreadyExists (employee_id e)]\<rparr>)"

subsection \<open>The run\<close>

text \<open>\<open>process_payroll_run\<close>: the run goes to \<open>processing\<close>, records how many
  employees it selected, runs the loop from zero counters, stores the counters and
  the total, completes, and marks its period processed. Nothing in the body can
  raise outside the per-employee \<open>try\<close>, so the run-level \<open>except\<close> branch is
  not reached in the model.\<close>

definition process_payroll_run :: "int \<Rightarrow> int \<Rightarrow> nat \<Rightarrow> batch_db \<Rightarrow> payroll_run \<Rightarrow>
    batch_db \<times> payroll_run" where
  "process_payroll_run y m user db r =
     (let r1 = r\<lparr>run_status := RunProcessing\<rparr>;
          emps = run_employees r1 (bdb_employees db) (bdb_structures db);
          r2 = r1\<lparr>total_employees := int (length emps)\<rparr>;
          st = fold (process_employee y m user (run_period r2)) emps
                 \<lparr>bs_payrolls = bdb_payrolls db, bs_payslips = bdb_payslips db, bs_processed = 0,
                  bs_failed = 0, bs_total = 0, bs_log = error_log r2\<rparr>;
          r3 = r2\<lparr>processed_employees := bs_processed st, failed_employees := bs_failed st,
                  run_total_amount := bs_total st, run_status := RunCompleted,
                  completed_by := Some user, error_log := bs_log st\<rparr>;
          i = run_period r3;
          periods = bdb_periods db;
          periods' = periods[i := (periods ! i)\<lparr>is_processed := True, period_processed_by := Some user\<rparr>]
      in (db\<lparr>bdb_payrolls := bs_payrolls st, bdb_payslips := bs_payslips st, bdb_periods := periods'\<rparr>, r3))"

text \<open>\<open>PayrollRunForm\<close> offers only the periods not yet processed.\<close>

definition payroll_run_form_ok :: "nat \<Rightarrow> batch_db \<Rightarrow> bool" where
  "payroll_run_form_ok period db \<longleftrightarrow>
     period < length (bdb_periods db) \<and> \<not> is_processed (bdb_periods db ! period)"

text \<open>\<open>PayrollRunCreateView.form_valid\<close>: the run is saved as \<open>pending\<close> with the next
  run number of the year (the column is unique), then processed; the run row is
  written over with its final state.\<close>

definition payroll_run_create_view :: "int \<Rightarrow> int \<Rightarrow> nat \<Rightarrow> run_type \<Rightarrow> nat \<Rightarrow> nat option \<Rightarrow>
    batch_db \<Rightarrow> pyexc + batch_db \<times> payroll_run" where
  "payroll_run_create_view y m user rt period dept db =
     res_bind (run_assign_number y (map run_number (bdb_runs db)))
       (\<lambda>no. if no \<in> set (map run_number (bdb_runs db)) then Inl IntegrityError
             else
               (let r = \<lparr>run_number = no, run_type = rt, run_period = period, run_department = dept,
                         run_status = RunPending, total_employees = 0, processed_employees = 0,
                         failed_employees = 0, run_total_amount = 0, started_by = user,
                         completed_by = None, error_log = []\<rparr>;
                    k = length (bdb_runs db);
                    (db', r') = process_payroll_run y m user (db\<lparr>bdb_runs := bdb_runs db @ [r]\<rparr>) r
                in Inr (db'\<lparr>bdb_runs := (bdb_runs db')[k := r']\<rparr>, r')))"

definition unique_emp_period :: "payroll list \<Rightarrow> bool" where
  "unique_emp_period ps \<longleftrightarrow> distinct (map (\<lambda>p. (pr_employee p, pr_period p)) ps)"

subsection \<open>Example tables\<close>

text \<open>A database with one active employee with an active structure and one open
  period, and an \<open>all\<close> run of that period; the witnesses below run on them.\<close>

definition db_ex :: batch_db where
  "db_ex = \<lparr>bdb_employees = [\<lparr>emp_pk = 1, employee_id = ''E001'', emp_department = 3, employment_status = EmpActive\<rparr>],
            bdb_structures = [(1, \<lparr>ss_basic_salary = 30000, ss_is_active = True, ss_components = []\<rparr>)],
            bdb_periods = [\<lparr>period_start = 0, period_end = 29, is_processed = False, period_processed_by = None\<rparr>],
            bdb_payrolls = [], bdb_payslips = [], bdb_runs = []\<rparr>"

definition run_ex :: payroll_run where
  "run_ex = \<lparr>run_number = ''RUN-2025-00001'', run_type = RunAll, run_period = 0, run_department = None,
     run_status = RunPending, total_employees = 0, processed_employees = 0, failed_employees = 0,
     run_total_amount = 0, started_by = 7, completed_by = None, error_log = []\<rparr>"


subsection \<open>The loop\<close>

lemma new_payroll_totals:
  "calculate_totals ((new_payroll e q)\<lparr>payroll_number := no\<rparr>) =
     (new_payroll e q)\<lparr>payroll_number := no\<rparr>"
  by (simp add: calculate_totals_def new_payroll_def earnings_def deductions_def Let_def)

lemma create_payroll_atomic_Inr:
  assumes "create_payroll_atomic y m u period e ps slips = Inr (p, ps', slips')"
  shows "ps' = ps @ [p] \<and> p = (new_payroll (emp_pk e) period)\<lparr>payroll_number := payroll_number p\<rparr> \<and>
         slips' = slips @ [\<lparr>slip_payroll = payroll_number p, generated_by = Some u\<rparr>]"
proof -
  obtain ps0 where s: "payroll_save y m None (new_payroll (emp_pk e) period) ps = Inr (p, ps0)"
    and g: "generate_payslip u p slips = Inr slips'" and t0: "ps' = ps0"
    using assms unfolding create_payroll_atomic_def calculate_salary_for_payroll_def
      calculate_attendance_for_payroll_def by (auto simp: res_bind_def split: sum.splits)
  from payroll_save_Inr [OF s] obtain no where
    p0: "p = calculate_totals ((new_payroll (emp_pk e) period)\<lparr>payroll_number := no\<rparr>)" and
    t: "ps0 = ps @ [p]" by auto
  from g have "slips' = slips @ [\<lparr>slip_payroll = payroll_number p, generated_by = Some u\<rparr>]"
    by (simp add: generate_payslip_def split: if_splits)
  then show ?thesis using p0 t t0 by (simp add: new_payroll_totals)
qed

lemma new_payroll_fields [simp]:
  "pr_employee (new_payroll e q) = e" "pr_period (new_payroll e q) = q"
  "net_salary (new_payroll e q) = 0" "gross_salary (new_payroll e q) = 0"
  "total_earnings (new_payroll e q) = 0" "total_deductions (new_payroll e q) = 0"
  "pr_status (new_payroll e q) = Draft" "payroll_number (new_payroll e q) = []"
  by (simp_all add: new_payroll_def)

lemma process_employee_step:
  "\<exists>new l. bs_payrolls (process_employee y m u q e st) = bs_payrolls st @ new \<and>
     bs_log (process_employee y m u q e st) = bs_log st @ l \<and>
     bs_total (process_employee y m u q e st) = bs_total st \<and>
     bs_processed (process_employee y m u q e st) = bs_processed st + int (length new) \<and>
     bs_failed (process_employee y m u q e st) = bs_failed st + 1 - int (length new) \<and>
     length new \<le> 1 \<and>
     (\<forall>p \<in> set new. \<exists>no. p = (new_payroll (emp_pk e) q)\<lparr>payroll_number := no\<rparr>) \<and>
     (new \<noteq> [] \<longrightarrow> \<not> payroll_exists (emp_pk e) q (bs_payrolls st))"
proof (cases "create_payroll_atomic y m u q e (bs_payrolls st) (bs_payslips st)")
  case (Inl ex)
  then show ?thesis by (auto simp: process_employee_def)
next
  case (Inr r)
  then obtain p ps' slips' where r: "create_payroll_atomic y m u q e (bs_payrolls st) (bs_payslips st) = Inr (p, ps', slips')"
    by (cases r) auto
  note c = create_payroll_atomic_Inr [OF r]
  then have c': "\<exists>no. p = (new_payroll (emp_pk e) q)\<lparr>payroll_number := no\<rparr>" by blast
  have np: "net_salary p = 0"
    using c by (metis new_payroll_fields(3) payroll.ext_inject payroll.surjective payroll.update_convs(1))
  show ?thesis
  proof (cases "payroll_exists (emp_pk e) q (bs_payrolls st)")
    case True
    then show ?thesis by (auto simp: process_employee_def)
  next
    case False
    then show ?thesis
      using r c c' np by (intro exI [of _ "[p]"] exI [of _ "[]"]) (simp add: process_employee_def)
  qed
qed

lemma fold_process_employee:
  "\<exists>new l. bs_payrolls (fold (process_employee y m u q) es st) = bs_payrolls st @ new \<and>
     bs_log (fold (process_employee y m u q) es st) = bs_log st @ l \<and>
     bs_total (fold (process_employee y m u q) es st) = bs_total st \<and>
     bs_processed (fold (process_employee y m u q) es st) = bs_processed st + int (length new) \<and>
     bs_failed (fold (process_employee y m u q) es st) = bs_failed st + int (length es) - int (length new) \<and>
     length new \<le> length es \<and>
     (\<forall>p \<in> set new. \<exists>e no. p = (new_payroll e q)\<lparr>payroll_number := no\<rparr>)"
proof (induction es arbitrary: st)
  case Nil
  then show ?case by simp
next
  case (Cons e es)
  obtain new1 l1 where s1:
    "bs_payrolls (process_employee y m u q e st) = bs_payrolls st @ new1"
    "bs_log (process_employee y m u q e st) = bs_log st @ l1"
    "bs_total (process_employee y m u q e st) = bs_total st"
    "bs_processed (process_employee y m u q e st) = bs_processed st + int (length new1)"
    "bs_failed (process_employee y m u q e st) = bs_failed st + 1 - int (length new1)"
    "length new1 \<le> 1"
    and n1: "\<forall>p \<in> set new1. \<exists>no. p = (new_payroll (emp_pk e) q)\<lparr>payroll_number := no\<rparr>"
    using process_employee_step [of y m u q e st] by blast
  obtain new2 l2 where s2:
    "bs_payrolls (fold (process_employee y m u q) es (process_employee y m u q e st)) =
       bs_payrolls (process_employee y m u q e st) @ new2"
    "bs_log (fold (process_employee y m u q) es (process_employee y m u q e st)) =
       bs_log (process_employee y m u q e st) @ l2"
    "bs_total (fold (process_employee y m u q) es (process_employee y m u q e st)) =
       bs_total (process_employee y m u q e st)"
    "bs_processed (fold (process_employee y m u q) es (process_employee y m u q e st)) =
       bs_processed (process_employee y m u q e st) + int (length new2)"
    "bs_failed (fold (process_employee y m u q) es (process_employee y m u q e st)) =
       bs_failed (process_employee y m u q e st) + int (length es) - int (length new2)"
    "length new2 \<le> length es"
    and z2: "\<forall>p \<in> set new2. \<exists>e no. p = (new_payroll e q)\<lparr>payroll_number := no\<rparr>"
    using Cons.IH [of "process_employee y m u q e st"] by blast
  have n1': "\<forall>p \<in> set new1. \<exists>e no. p = (new_payroll e q)\<lparr>payroll_number := no\<rparr>"
    using n1 by blast
  show ?case
    using s1 s2 n1' z2 by (intro exI [of _ "new1 @ new2"] exI [of _ "l1 @ l2"]) (auto simp: ball_Un)
qed

lemma payroll_exists_iff:
  "payroll_exists emp q ps \<longleftrightarrow> (emp, q) \<in> set (map (\<lambda>p. (pr_employee p, pr_period p)) ps)"
  by (auto simp: payroll_exists_def list_ex_iff)

lemma process_employee_unique:
  assumes "unique_emp_period (bs_payrolls st)"
  shows "unique_emp_period (bs_payrolls (process_employee y m u q e st))"
proof -
  obtain new where n: "bs_payrolls (process_employee y m u q e st) = bs_payrolls st @ new"
    and l: "length new \<le> 1"
    and k: "\<forall>p \<in> set new. \<exists>no. p = (new_payroll (emp_pk e) q)\<lparr>payroll_number := no\<rparr>"
    and x: "new \<noteq> [] \<longrightarrow> \<not> payroll_exists (emp_pk e) q (bs_payrolls st)"
    using process_employee_step [of y m u q e st] by blast
  show ?thesis
  proof (cases new)
    case Nil
    with n assms show ?thesis by simp
  next
    case (Cons p rest)
    with l have "new = [p]" by simp
    moreover from k this obtain no where "p = (new_payroll (emp_pk e) q)\<lparr>payroll_number := no\<rparr>" by auto
    ultimately show ?thesis
      using n x assms by (simp add: unique_emp_period_def payroll_exists_iff)
  qed
qed

lemma fold_process_employee_unique:
  "unique_emp_period (bs_payrolls st) \<Longrightarrow>
   unique_emp_period (bs_payrolls (fold (process_employee y m u q) es st))"
  by (induction es arbitrary: st) (simp_all add: process_employee_unique)

lemma fold_process_employee_existing:
  assumes "\<forall>e \<in> set es. payroll_exists (emp_pk e) q (bs_payrolls st)"
  shows "fold (process_employee y m u q) es st =
           st\<lparr>bs_failed := bs_failed st + int (length es),
              bs_log := bs_log st @ map (\<lambda>e. LogAlreadyExists (employee_id e)) es\<rparr>"
  using assms
proof (induction es arbitrary: st)
  case Nil
  then show ?case by simp
next
  case (Cons e es)
  have "process_employee y m u q e st =
          st\<lparr>bs_failed := bs_failed st + 1, bs_log := bs_log st @ [LogAlreadyExists (employee_id e)]\<rparr>"
    using Cons.prems by (simp add: process_employee_def)
  with Cons show ?case by (simp add: algebra_simps)
qed

lemma run_employees_status [simp]:
  "run_employees (r\<lparr>run_status := s\<rparr>) = run_employees r"
  "run_employees (r\<lparr>total_employees := n\<rparr>) = run_employees r"
  by (auto simp: run_employees_def fun_eq_iff)

lemma process_payroll_run_unfold:
  assumes "process_payroll_run y m u db r = (db', r')"
  defines "es \<equiv> run_employees r (bdb_employees db) (bdb_structures db)"
  defines "st \<equiv> fold (process_employee y m u (run_period r)) es
                 \<lparr>bs_payrolls = bdb_payrolls db, bs_payslips = bdb_payslips db, bs_processed = 0,
                  bs_failed = 0, bs_total = 0, bs_log = error_log r\<rparr>"
  shows "bdb_payrolls db' = bs_payrolls st \<and> bdb_payslips db' = bs_payslips st \<and>
         bdb_employees db' = bdb_employees db \<and> bdb_structures db' = bdb_structures db \<and>
         bdb_runs db' = bdb_runs db \<and>
         bdb_periods db' = (bdb_periods db)[run_period r :=
            (bdb_periods db ! run_period r)\<lparr>is_processed := True, period_processed_by := Some u\<rparr>] \<and>
         r' = r\<lparr>run_status := RunCompleted, total_employees := int (length es),
                processed_employees := bs_processed st, failed_employees := bs_failed st,
                run_total_amount := bs_total st, completed_by := Some u, error_log := bs_log st\<rparr>"
  using assms(1) unfolding es_def st_def by (auto simp: process_payroll_run_def Let_def)

subsection \<open>Properties of the batch run\<close>

lemmas run_eval = process_payroll_run_def db_ex_def run_ex_def run_employees_def active_with_structure_def
     structure_active_def process_employee_def payroll_exists_def create_payroll_atomic_def
     calculate_salary_for_payroll_def calculate_attendance_for_payroll_def payroll_save_def
     generate_payslip_def numbering_eval Let_def

text \<open>C3 The batch run creates payrolls with nothing in them: the attendance and
  salary hooks of the run are \<open>pass\<close>, so every payroll a run creates is a draft of
  the run's period with zero gross and net salary, and the run's total amount is 0.\<close>

theorem batch_run_creates_zero_payrolls:
  assumes "process_payroll_run y m u db r = (db', r')"
  shows "run_total_amount r' = 0 \<and>
         (\<exists>new. bdb_payrolls db' = bdb_payrolls db @ new \<and>
            (\<forall>p \<in> set new. pr_period p = run_period r \<and> gross_salary p = 0 \<and> net_salary p = 0 \<and>
               pr_status p = Draft))"
proof -
  let ?es = "run_employees r (bdb_employees db) (bdb_structures db)"
  let ?st0 = "\<lparr>bs_payrolls = bdb_payrolls db, bs_payslips = bdb_payslips db, bs_processed = 0,
                  bs_failed = 0, bs_total = 0, bs_log = error_log r\<rparr>"
  note u = process_payroll_run_unfold [OF assms]
  obtain new where "bs_payrolls (fold (process_employee y m u (run_period r)) ?es ?st0) = bdb_payrolls db @ new"
    and "bs_total (fold (process_employee y m u (run_period r)) ?es ?st0) = 0"
    and "\<forall>p \<in> set new. \<exists>e no. p = (new_payroll e (run_period r))\<lparr>payroll_number := no\<rparr>"
    using fold_process_employee [of y m u "run_period r" ?es ?st0] by auto
  with u show ?thesis by fastforce
qed

theorem batch_run_creates_zero_payrolls_witness:
  "run_total_amount (snd (process_payroll_run 2025 1 7 db_ex run_ex)) = 0 \<and>
   (\<exists>new. bdb_payrolls (fst (process_payroll_run 2025 1 7 db_ex run_ex)) = bdb_payrolls db_ex @ new \<and>
      (\<forall>p \<in> set new. pr_period p = run_period run_ex \<and> gross_salary p = 0 \<and> net_salary p = 0 \<and>
         pr_status p = Draft)) \<and>
   map payroll_number (bdb_payrolls (fst (process_payroll_run 2025 1 7 db_ex run_ex))) = [''PR-2025-01-00001'']"
proof -
  have "map payroll_number (bdb_payrolls (fst (process_payroll_run 2025 1 7 db_ex run_ex))) = [''PR-2025-01-00001'']"
    by (simp add: run_eval)
  then show ?thesis
    using batch_run_creates_zero_payrolls [OF prod.collapse [symmetric]] by simp
qed

text \<open>C6 Counters of a run: a run ends \<open>completed\<close>, its \<open>total_employees\<close> is the
  number of employees its type selects, processed and failed add up to that total,
  exactly \<open>processed_employees\<close> payrolls are added, the error log only grows, and
  its period is marked processed.\<close>

theorem batch_run_counters:
  assumes "process_payroll_run y m u db r = (db', r')"
  shows "run_status r' = RunCompleted \<and>
         total_employees r' = int (length (run_employees r (bdb_employees db) (bdb_structures db))) \<and>
         processed_employees r' + failed_employees r' = total_employees r' \<and>
         0 \<le> processed_employees r' \<and> 0 \<le> failed_employees r' \<and>
         length (bdb_payrolls db') = length (bdb_payrolls db) + nat (processed_employees r') \<and>
         (\<exists>l. error_log r' = error_log r @ l) \<and>
         (run_period r < length (bdb_periods db) \<longrightarrow> is_processed (bdb_periods db' ! run_period r))"
proof -
  let ?es = "run_employees r (bdb_employees db) (bdb_structures db)"
  let ?st0 = "\<lparr>bs_payrolls = bdb_payrolls db, bs_payslips = bdb_payslips db, bs_processed = 0,
                  bs_failed = 0, bs_total = 0, bs_log = error_log r\<rparr>"
  note u = process_payroll_run_unfold [OF assms]
  obtain new l where
    "bs_payrolls (fold (process_employee y m u (run_period r)) ?es ?st0) = bdb_payrolls db @ new"
    "bs_log (fold (process_employee y m u (run_period r)) ?es ?st0) = error_log r @ l"
    "bs_processed (fold (process_employee y m u (run_period r)) ?es ?st0) = int (length new)"
    "bs_failed (fold (process_employee y m u (run_period r)) ?es ?st0) = int (length ?es) - int (length new)"
    "length new \<le> length ?es"
    using fold_process_employee [of y m u "run_period r" ?es ?st0] by auto
  with u show ?thesis by auto
qed

theorem batch_run_counters_witness:
  "run_status (snd (process_payroll_run 2025 1 7 db_ex run_ex)) = RunCompleted \<and>
   total_employees (snd (process_payroll_run 2025 1 7 db_ex run_ex)) =
     int (length (run_employees run_ex (bdb_employees db_ex) (bdb_structures db_ex))) \<and>
   processed_employees (snd (process_payroll_run 2025 1 7 db_ex run_ex)) +
     failed_employees (snd (process_payroll_run 2025 1 7 db_ex run_ex)) =
     total_employees (snd (process_payroll_run 2025 1 7 db_ex run_ex)) \<and>
   0 \<le> processed_employees (snd (process_payroll_run 2025 1 7 db_ex run_ex)) \<and>
   0 \<le> failed_employees (snd (process_payroll_run 2025 1 7 db_ex run_ex)) \<and>
   length (bdb_payrolls (fst (process_payroll_run 2025 1 7 db_ex run_ex))) =
     length (bdb_payrolls db_ex) + nat (processed_employees (snd (process_payroll_run 2025 1 7 db_ex run_ex))) \<and>
   (\<exists>l. error_log (snd (process_payroll_run 2025 1 7 db_ex run_ex)) = error_log run_ex @ l) \<and>
   is_processed (bdb_periods (fst (process_payroll_run 2025 1 7 db_ex run_ex)) ! run_period run_ex)"
proof -
  have "run_period run_ex < length (bdb_periods db_ex)" by (simp add: db_ex_def run_ex_def)
  then show ?thesis
    using batch_run_counters [OF prod.collapse [symmetric], of 2025 1 7 db_ex run_ex] by simp
qed

text \<open>C5 One payroll per employee and period: if the payroll table holds at most one
  payroll per (employee, period), it still does after a batch run; the run's
  existence check skips employees that already have one.\<close>

theorem batch_run_unique_payroll_per_period:
  assumes "process_payroll_run y m u db r = (db', r')"
    and "unique_emp_period (bdb_payrolls db)"
  shows "unique_emp_period (bdb_payrolls db')"
  using process_payroll_run_unfold [OF assms(1)] fold_process_employee_unique assms(2)
  by (metis batch_state.select_convs(1))

theorem batch_run_unique_payroll_per_period_witness:
  "unique_emp_period (bdb_payrolls (fst (process_payroll_run 2025 1 7 db_ex run_ex)))"
proof -
  have "unique_emp_period (bdb_payrolls db_ex)" by (simp add: db_ex_def unique_emp_period_def)
  then show ?thesis
    using batch_run_unique_payroll_per_period [OF prod.collapse [symmetric]] by blast
qed

text \<open>C4 Batch run idempotence (spec, property 4): when every employee the run
  selects already has a payroll for the period, the run creates no payroll, processes
  nobody, counts every selected employee as failed and logs one
  "already exists" line per employee.\<close>

theorem batch_run_idempotent:
  assumes "process_payroll_run y m u db r = (db', r')"
    and "\<forall>e \<in> set (run_employees r (bdb_employees db) (bdb_structures db)).
           payroll_exists (emp_pk e) (run_period r) (bdb_payrolls db)"
  shows "bdb_payrolls db' = bdb_payrolls db \<and> processed_employees r' = 0 \<and>
         failed_employees r' = total_employees r' \<and>
         error_log r' = error_log r @ map (\<lambda>e. LogAlreadyExists (employee_id e))
                                        (run_employees r (bdb_employees db) (bdb_structures db))"
  using process_payroll_run_unfold [OF assms(1)] fold_process_employee_existing
    assms(2) by simp

theorem batch_run_idempotent_witness:
  "bdb_payrolls (fst (process_payroll_run 2025 1 8 (fst (process_payroll_run 2025 1 7 db_ex run_ex)) run_ex)) =
     bdb_payrolls (fst (process_payroll_run 2025 1 7 db_ex run_ex)) \<and>
   processed_employees (snd (process_payroll_run 2025 1 8 (fst (process_payroll_run 2025 1 7 db_ex run_ex)) run_ex)) = 0 \<and>
   failed_employees (snd (process_payroll_run 2025 1 8 (fst (process_payroll_run 2025 1 7 db_ex run_ex)) run_ex)) =
     total_employees (snd (process_payroll_run 2025 1 8 (fst (process_payroll_run 2025 1 7 db_ex run_ex)) run_ex)) \<and>
   error_log (snd (process_payroll_run 2025 1 8 (fst (process_payroll_run 2025 1 7 db_ex run_ex)) run_ex)) =
     [LogAlreadyExists ''E001'']"
proof -
  let ?db1 = "fst (process_payroll_run 2025 1 7 db_ex run_ex)"
  have e: "run_employees run_ex (bdb_employees ?db1) (bdb_structures ?db1) =
           [\<lparr>emp_pk = 1, employee_id = ''E001'', emp_department = 3, employment_status = EmpActive\<rparr>]"
    by (simp add: run_eval)
  have x: "\<forall>e \<in> set (run_employees run_ex (bdb_employees ?db1) (bdb_structures ?db1)).
             payroll_exists (emp_pk e) (run_period run_ex) (bdb_payrolls ?db1)"
    by (simp add: run_eval)
  show ?thesis
    using batch_run_idempotent [OF prod.collapse [symmetric] x] e by (simp add: run_ex_def)
qed

text \<open>C40 A department run with no department chosen selects every active employee
  with an active salary structure, like an \<open>all\<close> run: the code falls through to the
  company-wide query when \<open>department\<close> is empty, and the \<open>company\<close>,
  \<open>branch\<close> and \<open>custom\<close> run types do the same.\<close>

theorem run_without_department_selects_all:
  assumes "\<not> (run_type r = RunDepartment \<and> run_department r \<noteq> None)"
  shows "run_employees r emps ss = filter (active_with_structure ss) emps"
  using assms by (auto simp: run_employees_def)

theorem run_without_department_selects_all_witness:
  "map employee_id (run_employees (run_ex\<lparr>run_type := RunDepartment\<rparr>)
      [\<lparr>emp_pk = 1, employee_id = ''E001'', emp_department = 3, employment_status = EmpActive\<rparr>,
       \<lparr>emp_pk = 2, employee_id = ''E002'', emp_department = 4, employment_status = EmpActive\<rparr>]
      [(1, \<lparr>ss_basic_salary = 100, ss_is_active = True, ss_components = []\<rparr>),
       (2, \<lparr>ss_basic_salary = 100, ss_is_active = True, ss_components = []\<rparr>)]) = [''E001'', ''E002'']"
proof -
  have "\<not> (run_type (run_ex\<lparr>run_type := RunDepartment\<rparr>) = RunDepartment \<and>
           run_department (run_ex\<lparr>run_type := RunDepartment\<rparr>) \<noteq> None)"
    by (simp add: run_ex_def)
  from run_without_department_selects_all [OF this] show ?thesis
    by (simp add: active_with_structure_def structure_active_def)
qed




end
