(* ===== verification/Lifecycle.thy ===== *)
theory Lifecycle
  imports PayrollRun SalaryCalc
begin

text \<open>
  The status life cycle of a payroll (payroll/views.py): \<open>ApprovePayrollView\<close>
  (calculated to approved) and \<open>ProcessPaymentView\<close> (approved to paid), each a
  \<open>get_object_or_404\<close>, a guard on the status and a \<open>save()\<close> that recomputes the
  totals. \<open>payroll_step\<close> is the step relation of every handler of the code that
  writes the payroll table (the single-payroll form, the batch run, approve, pay)
  together with the handlers that change the tables those read (employees,
  salary structures, new periods); its reflexive transitive closure is the set of
  reachable databases.
\<close>

datatype flash = FlashSuccess | FlashError

definition approve_payroll_view :: "int \<Rightarrow> int \<Rightarrow> nat \<Rightarrow> timestamp \<Rightarrow> nat \<Rightarrow> payroll list \<Rightarrow>
    pyexc + flash \<times> payroll list" where
  "approve_payroll_view y m user now pk ps =
     res_bind (get_object_or_404 pk ps) (\<lambda>p.
       if pr_status p = Calculated then
         res_bind (payroll_save y m (Some pk)
                     (p\<lparr>pr_status := Approved, approved_by := Some user, approved_date := Some now\<rparr>) ps)
           (\<lambda>(_, ps'). Inr (FlashSuccess, ps'))
       else Inr (FlashError, ps))"

definition process_payment_view :: "int \<Rightarrow> int \<Rightarrow> nat \<Rightarrow> timestamp \<Rightarrow> day \<Rightarrow> nat \<Rightarrow> payroll list \<Rightarrow>
    pyexc + flash \<times> payroll list" where
  "process_payment_view y m user now today pk ps =
     res_bind (get_object_or_404 pk ps) (\<lambda>p.
       if pr_status p = Approved then
         (let p1 = p\<lparr>pr_status := Paid, processed_by := Some user, processed_date := Some now\<rparr>;
              p2 = (if payment_date p1 = None then p1\<lparr>payment_date := Some today\<rparr> else p1)
          in res_bind (payroll_save y m (Some pk) p2 ps) (\<lambda>(_, ps'). Inr (FlashSuccess, ps')))
       else Inr (FlashError, ps))"

text \<open>The handlers as steps on the tables. \<open>PayrollCreateView\<close> works on the same
  payroll table through its own record of tables; \<open>PayrollPeriodCreateView\<close>
  appends a period whose processed flag is the model default.\<close>

inductive payroll_step :: "batch_db \<Rightarrow> batch_db \<Rightarrow> bool" where
  create: "payroll_create_view y m st q atts pdb form_obj = Inr pdb' \<Longrightarrow>
           db_payrolls pdb = bdb_payrolls db \<Longrightarrow>
           payroll_step db (db\<lparr>bdb_payrolls := db_payrolls pdb'\<rparr>)"
| run: "payroll_run_form_ok q db \<Longrightarrow> payroll_run_create_view y m u rt q dept db = Inr (db', r') \<Longrightarrow>
        payroll_step db db'"
| approve: "approve_payroll_view y m u t pk (bdb_payrolls db) = Inr (f, ps') \<Longrightarrow>
            payroll_step db (db\<lparr>bdb_payrolls := ps'\<rparr>)"
| pay: "process_payment_view y m u t d pk (bdb_payrolls db) = Inr (f, ps') \<Longrightarrow>
        payroll_step db (db\<lparr>bdb_payrolls := ps'\<rparr>)"
| staff: "payroll_step db (db\<lparr>bdb_employees := es, bdb_structures := ss\<rparr>)"
| period: "\<not> is_processed q \<Longrightarrow> period_processed_by q = None \<Longrightarrow>
           payroll_step db (db\<lparr>bdb_periods := bdb_periods db @ [q]\<rparr>)"

inductive_cases payroll_step_cases: "payroll_step db db'"

definition lifecycle_ok :: "payroll \<Rightarrow> bool" where
  "lifecycle_ok p \<longleftrightarrow>
     (pr_status p \<in> {Approved, Paid} \<longrightarrow> approved_by p \<noteq> None \<and> approved_date p \<noteq> None) \<and>
     (pr_status p = Paid \<longrightarrow> processed_by p \<noteq> None \<and> payment_date p \<noteq> None)"

text \<open>The row invariants: every payroll satisfies \<open>lifecycle_ok\<close> and its totals
  are consistent; every payroll is a draft.\<close>

definition payrolls_ok :: "payroll list \<Rightarrow> bool" where
  "payrolls_ok ps \<longleftrightarrow> list_all (\<lambda>p. lifecycle_ok p \<and> totals_consistent p) ps"

definition all_draft :: "payroll list \<Rightarrow> bool" where
  "all_draft ps \<longleftrightarrow> list_all (\<lambda>p. pr_status p = Draft) ps"


subsection \<open>The handlers\<close>

lemma payroll_save_Some_Inr:
  assumes "payroll_save y m (Some i) p ps = Inr (p', ps')"
  shows "ps' = ps[i := p'] \<and> (\<exists>no. p' = calculate_totals (p\<lparr>payroll_number := no\<rparr>))"
  using payroll_save_Inr [OF assms] by auto

lemma approve_payroll_view_Inr:
  assumes "approve_payroll_view y m u t pk ps = Inr (f, ps')"
  shows "(f = FlashError \<and> ps' = ps) \<or>
         (f = FlashSuccess \<and> pk < length ps \<and> pr_status (ps ! pk) = Calculated \<and>
          (\<exists>no. ps' = ps[pk := calculate_totals ((ps ! pk)\<lparr>pr_status := Approved, approved_by := Some u,
                                 approved_date := Some t, payroll_number := no\<rparr>)]))"
proof (cases "pk < length ps \<and> pr_status (ps ! pk) = Calculated")
  case True
  then obtain p' where s: "payroll_save y m (Some pk)
      ((ps ! pk)\<lparr>pr_status := Approved, approved_by := Some u, approved_date := Some t\<rparr>) ps = Inr (p', ps')"
    and "f = FlashSuccess"
    using assms by (auto simp: approve_payroll_view_def get_object_or_404_def res_bind_eq_Inr)
  with True show ?thesis using payroll_save_Some_Inr [OF s] by auto
next
  case False
  then show ?thesis using assms
    by (auto simp: approve_payroll_view_def get_object_or_404_def res_bind_def split: if_splits)
qed

lemma process_payment_view_Inr:
  assumes "process_payment_view y m u t d pk ps = Inr (f, ps')"
  shows "(f = FlashError \<and> ps' = ps) \<or>
         (f = FlashSuccess \<and> pk < length ps \<and> pr_status (ps ! pk) = Approved \<and>
          (\<exists>no. ps' = ps[pk := calculate_totals
             ((if payment_date (ps ! pk) = None
               then (ps ! pk)\<lparr>pr_status := Paid, processed_by := Some u, processed_date := Some t,
                       payment_date := Some d\<rparr>
               else (ps ! pk)\<lparr>pr_status := Paid, processed_by := Some u, processed_date := Some t\<rparr>)
              \<lparr>payroll_number := no\<rparr>)]))"
proof (cases "pk < length ps \<and> pr_status (ps ! pk) = Approved")
  case True
  let ?p1 = "(ps ! pk)\<lparr>pr_status := Paid, processed_by := Some u, processed_date := Some t\<rparr>"
  let ?p2 = "if payment_date ?p1 = None then ?p1\<lparr>payment_date := Some d\<rparr> else ?p1"
  obtain p' where s: "payroll_save y m (Some pk) ?p2 ps = Inr (p', ps')" and "f = FlashSuccess"
    using True assms by (auto simp: process_payment_view_def get_object_or_404_def res_bind_eq_Inr Let_def)
  with True show ?thesis using payroll_save_Some_Inr [OF s] by auto
next
  case False
  then show ?thesis using assms
    by (auto simp: process_payment_view_def get_object_or_404_def res_bind_def split: if_splits)
qed

lemma lifecycle_ok_calculate_totals [simp]:
  "lifecycle_ok (calculate_totals p) = lifecycle_ok p"
  by (simp add: lifecycle_ok_def)

lemma new_payroll_row_ok:
  "lifecycle_ok ((new_payroll e q)\<lparr>payroll_number := no\<rparr>) \<and>
   totals_consistent ((new_payroll e q)\<lparr>payroll_number := no\<rparr>) \<and>
   pr_status ((new_payroll e q)\<lparr>payroll_number := no\<rparr>) = Draft"
  by (simp add: lifecycle_ok_def totals_consistent_def new_payroll_def earnings_def deductions_def)

lemma payroll_run_create_view_payrolls:
  assumes "payroll_run_create_view y m u rt q dept db = Inr (db', r')"
  shows "\<exists>new. bdb_payrolls db' = bdb_payrolls db @ new \<and>
           (\<forall>p \<in> set new. \<exists>e q no. p = (new_payroll e q)\<lparr>payroll_number := no\<rparr>)"
proof -
  obtain no where no: "run_assign_number y (map run_number (bdb_runs db)) = Inr no"
    using assms by (cases "run_assign_number y (map run_number (bdb_runs db))")
      (auto simp: payroll_run_create_view_def res_bind_def)
  define r where "r = \<lparr>run_number = no, run_type = rt, run_period = q, run_department = dept,
                         run_status = RunPending, total_employees = 0, processed_employees = 0,
                         failed_employees = 0, run_total_amount = 0, started_by = u,
                         completed_by = None, error_log = []\<rparr>"
  obtain db1 r1 where pr: "process_payroll_run y m u (db\<lparr>bdb_runs := bdb_runs db @ [r]\<rparr>) r = (db1, r1)"
    by (cases "process_payroll_run y m u (db\<lparr>bdb_runs := bdb_runs db @ [r]\<rparr>) r") auto
  have db': "db' = db1\<lparr>bdb_runs := (bdb_runs db1)[length (bdb_runs db) := r1]\<rparr>"
    using assms no pr by (auto simp: payroll_run_create_view_def r_def Let_def split: if_splits)
  note un = process_payroll_run_unfold [OF pr]
  let ?es = "run_employees r (bdb_employees db) (bdb_structures db)"
  let ?st0 = "\<lparr>bs_payrolls = bdb_payrolls db, bs_payslips = bdb_payslips db, bs_processed = 0,
                  bs_failed = 0, bs_total = 0, bs_log = error_log r\<rparr>"
  obtain new where "bs_payrolls (fold (process_employee y m u (run_period r)) ?es ?st0) = bdb_payrolls db @ new"
    and "\<forall>p \<in> set new. \<exists>e no. p = (new_payroll e (run_period r))\<lparr>payroll_number := no\<rparr>"
    using fold_process_employee [of y m u "run_period r" ?es ?st0] by auto
  with un db' show ?thesis by fastforce
qed

lemma payroll_create_view_not_Inr: "payroll_create_view y m st q atts pdb form_obj \<noteq> Inr pdb'"
  by (simp add: payroll_create_view_def calculate_salary_raises Let_def)

lemma new_rows_ok:
  assumes "\<forall>p \<in> set new. \<exists>e q no. p = (new_payroll e q)\<lparr>payroll_number := no\<rparr>"
  shows "payrolls_ok new \<and> all_draft new"
proof -
  have "lifecycle_ok p \<and> totals_consistent p \<and> pr_status p = Draft" if "p \<in> set new" for p
  proof -
    from assms that obtain e q no where "p = (new_payroll e q)\<lparr>payroll_number := no\<rparr>" by blast
    then show ?thesis using new_payroll_row_ok by simp
  qed
  then show ?thesis by (simp add: payrolls_ok_def all_draft_def list_all_iff)
qed

lemma payrolls_ok_approve:
  assumes "approve_payroll_view y m u t pk ps = Inr (f, ps')" and "payrolls_ok ps"
  shows "payrolls_ok ps'"
  using approve_payroll_view_Inr [OF assms(1)] assms(2)
  by (auto simp: payrolls_ok_def lifecycle_ok_def calculate_totals_consistent intro!: list_all_update)

lemma payrolls_ok_pay:
  assumes "process_payment_view y m u t d pk ps = Inr (f, ps')" and "payrolls_ok ps"
  shows "payrolls_ok ps'"
proof -
  consider "ps' = ps" | "pk < length ps" "pr_status (ps ! pk) = Approved"
    "\<exists>no. ps' = ps[pk := calculate_totals
             ((if payment_date (ps ! pk) = None
               then (ps ! pk)\<lparr>pr_status := Paid, processed_by := Some u, processed_date := Some t,
                       payment_date := Some d\<rparr>
               else (ps ! pk)\<lparr>pr_status := Paid, processed_by := Some u, processed_date := Some t\<rparr>)
              \<lparr>payroll_number := no\<rparr>)]"
    using process_payment_view_Inr [OF assms(1)] by blast
  then show ?thesis
  proof cases
    case 1
    with assms(2) show ?thesis by simp
  next
    case 2
    then have "lifecycle_ok (ps ! pk)" using assms(2) by (simp add: payrolls_ok_def list_all_length)
    with 2 assms(2) show ?thesis
      by (auto simp: payrolls_ok_def lifecycle_ok_def calculate_totals_consistent intro!: list_all_update)
  qed
qed

lemma payroll_step_payrolls_ok:
  "payroll_step db db' \<Longrightarrow> payrolls_ok (bdb_payrolls db) \<Longrightarrow> payrolls_ok (bdb_payrolls db')"
proof (induction rule: payroll_step.induct)
  case (create y m st q atts pdb form_obj pdb' db)
  then show ?case by (simp add: payroll_create_view_not_Inr)
next
  case (run q db y m u rt dept db' r')
  then show ?case
    using payroll_run_create_view_payrolls [OF run.hyps(2)] new_rows_ok
    by (fastforce simp: payrolls_ok_def)
next
  case (approve y m u t pk db f ps')
  then show ?case using payrolls_ok_approve by simp
next
  case (pay y m u t d pk db f ps')
  then show ?case using payrolls_ok_pay by simp
qed simp_all

lemma payroll_step_all_draft:
  "payroll_step db db' \<Longrightarrow> all_draft (bdb_payrolls db) \<Longrightarrow> all_draft (bdb_payrolls db')"
proof (induction rule: payroll_step.induct)
  case (create y m st q atts pdb form_obj pdb' db)
  then show ?case by (simp add: payroll_create_view_not_Inr)
next
  case (run q db y m u rt dept db' r')
  then show ?case
    using payroll_run_create_view_payrolls [OF run.hyps(2)] new_rows_ok
    by (fastforce simp: all_draft_def)
next
  case (approve y m u t pk db f ps')
  then show ?case using approve_payroll_view_Inr [OF approve.hyps]
    by (auto simp: all_draft_def list_all_length)
next
  case (pay y m u t d pk db f ps')
  then show ?case using process_payment_view_Inr [OF pay.hyps]
    by (auto simp: all_draft_def list_all_length)
qed simp_all

subsection \<open>Reachable databases\<close>

lemma run_create_ex:
  "\<exists>x. payroll_run_create_view 2025 1 7 RunAll 0 None db_ex = Inr x"
  by (simp add: payroll_run_create_view_def run_assign_number_def run_eval)

lemma run_create_ex_step:
  "\<exists>db. payroll_step db_ex db \<and> bdb_payrolls db \<noteq> []"
proof -
  obtain db r where v: "payroll_run_create_view 2025 1 7 RunAll 0 None db_ex = Inr (db, r)"
    using run_create_ex by auto
  have f: "payroll_run_form_ok 0 db_ex" by (simp add: payroll_run_form_ok_def db_ex_def)
  from f v have "payroll_step db_ex db" by (rule payroll_step.run)
  moreover have "bdb_payrolls db \<noteq> []"
    using v by (auto simp: payroll_run_create_view_def run_assign_number_def run_eval)
  ultimately show ?thesis by blast
qed

text \<open>C9 Every reachable database keeps the payroll rows sound: starting from rows
  that satisfy it, every handler sequence leaves each payroll with consistent totals,
  an approver and approval time once approved or paid, and a payer and payment date
  once paid.\<close>

theorem reachable_payrolls_ok:
  assumes "payroll_step\<^sup>*\<^sup>* db0 db" and "payrolls_ok (bdb_payrolls db0)"
  shows "payrolls_ok (bdb_payrolls db)"
  using assms by (induction rule: rtranclp_induct) (auto intro: payroll_step_payrolls_ok)

theorem reachable_payrolls_ok_witness:
  "\<exists>db. payroll_step\<^sup>*\<^sup>* db_ex db \<and> bdb_payrolls db \<noteq> [] \<and> payrolls_ok (bdb_payrolls db)"
proof -
  obtain db where s: "payroll_step db_ex db" and n: "bdb_payrolls db \<noteq> []"
    using run_create_ex_step by blast
  have "payrolls_ok (bdb_payrolls db_ex)" by (simp add: payrolls_ok_def db_ex_def)
  with s n show ?thesis using reachable_payrolls_ok [of db_ex db] by blast
qed

text \<open>C8 No payroll is ever approved or paid: no handler sets the status
  \<open>calculated\<close> (the batch run saves drafts and the single-payroll form always
  raises), so from a table of drafts every reachable table holds only drafts, and
  \<open>ApprovePayrollView\<close> and \<open>ProcessPaymentView\<close> only ever answer with their
  error message.\<close>

theorem payrolls_stay_draft:
  assumes "payroll_step\<^sup>*\<^sup>* db0 db" and "all_draft (bdb_payrolls db0)"
  shows "all_draft (bdb_payrolls db)"
  using assms by (induction rule: rtranclp_induct) (auto intro: payroll_step_all_draft)

theorem payrolls_stay_draft_witness:
  "\<exists>db. payroll_step\<^sup>*\<^sup>* db_ex db \<and> bdb_payrolls db \<noteq> [] \<and> all_draft (bdb_payrolls db)"
proof -
  obtain db where s: "payroll_step db_ex db" and n: "bdb_payrolls db \<noteq> []"
    using run_create_ex_step by blast
  have "all_draft (bdb_payrolls db_ex)" by (simp add: all_draft_def db_ex_def)
  with s n show ?thesis using payrolls_stay_draft [of db_ex db] by blast
qed

text \<open>C11 Approval guard: approving a payroll that is not \<open>calculated\<close> changes
  nothing and answers with the error message.\<close>

theorem approve_rejects_uncalculated:
  assumes "pk < length ps" and "pr_status (ps ! pk) \<noteq> Calculated"
  shows "approve_payroll_view y m u t pk ps = Inr (FlashError, ps)"
  using assms by (simp add: approve_payroll_view_def get_object_or_404_def)

theorem approve_rejects_uncalculated_witness:
  "approve_payroll_view 2025 1 7 9 0 [new_payroll 1 0] = Inr (FlashError, [new_payroll 1 0])"
  by (rule approve_rejects_uncalculated) (simp_all add: new_payroll_def)

text \<open>C10 Payment requires approval: a successful payment was made on an approved
  payroll; it becomes paid, records the payer, keeps the approver, sets the payment
  date to today unless one was set, and leaves every other row as it was.\<close>

theorem payment_requires_approval:
  assumes "process_payment_view y m u t d pk ps = Inr (FlashSuccess, ps')"
  shows "pk < length ps \<and> pr_status (ps ! pk) = Approved \<and> pr_status (ps' ! pk) = Paid \<and>
         processed_by (ps' ! pk) = Some u \<and> approved_by (ps' ! pk) = approved_by (ps ! pk) \<and>
         payment_date (ps' ! pk) = Some (case payment_date (ps ! pk) of None \<Rightarrow> d | Some x \<Rightarrow> x) \<and>
         length ps' = length ps \<and> (\<forall>j. j \<noteq> pk \<longrightarrow> ps' ! j = ps ! j)"
proof -
  obtain no where "pk < length ps" "pr_status (ps ! pk) = Approved"
    "ps' = ps[pk := calculate_totals
             ((if payment_date (ps ! pk) = None
               then (ps ! pk)\<lparr>pr_status := Paid, processed_by := Some u, processed_date := Some t,
                       payment_date := Some d\<rparr>
               else (ps ! pk)\<lparr>pr_status := Paid, processed_by := Some u, processed_date := Some t\<rparr>)
              \<lparr>payroll_number := no\<rparr>)]"
    using process_payment_view_Inr [OF assms] by auto
  then show ?thesis by (auto split: option.splits)
qed

theorem payment_requires_approval_witness:
  "process_payment_view 2025 1 7 9 100 0
     [(new_payroll 1 0)\<lparr>payroll_number := ''PR-2025-01-00001'', pr_status := Approved,
        approved_by := Some 3, approved_date := Some 5\<rparr>] =
     Inr (FlashSuccess,
          [(new_payroll 1 0)\<lparr>payroll_number := ''PR-2025-01-00001'', pr_status := Paid,
             approved_by := Some 3, approved_date := Some 5, processed_by := Some 7,
             processed_date := Some 9, payment_date := Some 100\<rparr>]) \<and>
   pr_status ([(new_payroll 1 0)\<lparr>payroll_number := ''PR-2025-01-00001'', pr_status := Paid,
             approved_by := Some 3, approved_date := Some 5, processed_by := Some 7,
             processed_date := Some 9, payment_date := Some 100\<rparr>] ! 0) = Paid"
proof -
  have v: "process_payment_view 2025 1 7 9 100 0
     [(new_payroll 1 0)\<lparr>payroll_number := ''PR-2025-01-00001'', pr_status := Approved,
        approved_by := Some 3, approved_date := Some 5\<rparr>] =
     Inr (FlashSuccess,
          [(new_payroll 1 0)\<lparr>payroll_number := ''PR-2025-01-00001'', pr_status := Paid,
             approved_by := Some 3, approved_date := Some 5, processed_by := Some 7,
             processed_date := Some 9, payment_date := Some 100\<rparr>])"
    by (simp add: process_payment_view_def get_object_or_404_def payroll_save_def new_payroll_def
        calculate_totals_def earnings_def deductions_def Let_def)
  then show ?thesis using payment_requires_approval [OF v] by simp
qed

end
