(* ===== verification/Security.thy ===== *)
theory Security
  imports Numbering
begin

text \<open>
  The gate-pass and visitor desk of security/models.py and security/views.py:
  the \<open>GatePass\<close> and \<open>VisitorLog\<close> rows, \<open>GatePass.save\<close>, the security
  check-in and check-out views, the JSON status API \<open>UpdateGatePassStatus\<close>,
  the visitor check-in (with its visitor-card numbering) and check-out, the list
  filters and the dashboard counts. A table is a list of rows whose index is the
  primary key.
\<close>

subsection \<open>Rows\<close>

datatype gate_pass_type =
    MaterialIn | MaterialOut | VehicleIn | VehicleOut | PersonnelIn | PersonnelOut
  | VisitorPass | Contractor | ToolsEquipment | WasteScrap

datatype gp_status = GpPending | GpApproved | GpRejected | GpInProgress | GpCompleted | GpCancelled

text \<open>The keys of \<open>STATUS_CHOICES\<close>: \<open>dict(GatePass.STATUS_CHOICES)\<close> as a lookup.\<close>

definition gp_status_of_string :: "string \<Rightarrow> gp_status option" where
  "gp_status_of_string s =
     map_of [(''pending'', GpPending), (''approved'', GpApproved), (''rejected'', GpRejected),
             (''in_progress'', GpInProgress), (''completed'', GpCompleted),
             (''cancelled'', GpCancelled)] s"

record gate_pass =
  pass_number :: string
  pass_type :: gate_pass_type
  gp_status :: gp_status
  gp_created :: timestamp
  actual_in_date :: "timestamp option"
  actual_out_date :: "timestamp option"
  security_in_charge :: "nat option"
  security_remarks :: string
  requesting_employee :: nat

record visitor_log =
  visitor_name :: string
  v_gate_pass :: "nat option"
  check_in_time :: timestamp
  check_out_time :: "timestamp option"
  security_officer :: "nat option"
  visitor_card_issued :: string
  visitor_card_returned :: bool

subsection \<open>\<open>GatePass.save\<close>\<close>

text \<open>A pass without a number gets one from \<open>gatepass_assign_number\<close>, which
  raises \<open>NameError\<close> (\<open>timezone\<close> is not imported in security/models.py);
  the number column is unique.\<close>

definition gatepass_save :: "nat option \<Rightarrow> gate_pass \<Rightarrow> gate_pass list \<Rightarrow> pyexc + gate_pass list" where
  "gatepass_save pk g tbl =
     res_bind (if pass_number g = [] then gatepass_assign_number (map pass_number tbl)
               else Inr (pass_number g))
       (\<lambda>no. save_row pass_number pk (g\<lparr>pass_number := no\<rparr>) tbl)"

subsection \<open>Security check-in and check-out\<close>

text \<open>The fields \<open>SecurityCheckForm\<close> binds from the request.\<close>

record security_check_input =
  f_security_in_charge :: "nat option"
  f_security_remarks :: string
  f_actual_in_date :: "timestamp option"
  f_actual_out_date :: "timestamp option"

definition apply_security_form :: "security_check_input \<Rightarrow> gate_pass \<Rightarrow> gate_pass" where
  "apply_security_form f g =
     g\<lparr>security_in_charge := f_security_in_charge f, security_remarks := f_security_remarks f,
       actual_in_date := f_actual_in_date f, actual_out_date := f_actual_out_date f\<rparr>"

definition security_check_in_view :: "nat \<Rightarrow> timestamp \<Rightarrow> nat \<Rightarrow> security_check_input \<Rightarrow>
    gate_pass list \<Rightarrow> pyexc + gate_pass list" where
  "security_check_in_view user now pk f tbl =
     res_bind (get_object_or_404 pk tbl) (\<lambda>g.
       gatepass_save (Some pk)
         ((apply_security_form f g)\<lparr>security_in_charge := Some user, actual_in_date := Some now,
                                   gp_status := GpInProgress\<rparr>) tbl)"

definition security_check_out_view :: "nat \<Rightarrow> timestamp \<Rightarrow> nat \<Rightarrow> security_check_input \<Rightarrow>
    gate_pass list \<Rightarrow> pyexc + gate_pass list" where
  "security_check_out_view user now pk f tbl =
     res_bind (get_object_or_404 pk tbl) (\<lambda>g.
       gatepass_save (Some pk)
         ((apply_security_form f g)\<lparr>security_in_charge := Some user, actual_out_date := Some now,
                                   gp_status := GpCompleted\<rparr>) tbl)"

subsection \<open>The status API\<close>

text \<open>\<open>UpdateGatePassStatus.post\<close>: the JSON answer is a success with the new
  status, or an error with its HTTP code (404 for a missing pass, 400 for a status
  that is not a key of \<open>STATUS_CHOICES\<close>, 500 for any other exception).\<close>

datatype json_response = JsonOk gp_status | JsonError nat

definition update_gate_pass_status :: "nat \<Rightarrow> timestamp \<Rightarrow> nat \<Rightarrow> string option \<Rightarrow> string \<Rightarrow>
    gate_pass list \<Rightarrow> json_response \<times> gate_pass list" where
  "update_gate_pass_status user now pk new_status remarks tbl =
     (if pk \<ge> length tbl then (JsonError 404, tbl)
      else
        (case Option.bind new_status gp_status_of_string of
           None \<Rightarrow> (JsonError 400, tbl)
         | Some s \<Rightarrow>
             (let g = tbl ! pk;
                  g1 = g\<lparr>gp_status := s\<rparr>;
                  g2 = (if remarks \<noteq> [] then g1\<lparr>security_remarks := remarks\<rparr> else g1);
                  g3 = g2\<lparr>security_in_charge := Some user\<rparr>;
                  g4 = (if s = GpInProgress \<and> actual_in_date g3 = None then g3\<lparr>actual_in_date := Some now\<rparr>
                        else if s = GpCompleted \<and> actual_out_date g3 = None
                        then g3\<lparr>actual_out_date := Some now\<rparr>
                        else g3)
              in case gatepass_save (Some pk) g4 tbl of
                   Inl _ \<Rightarrow> (JsonError 500, tbl)
                 | Inr tbl' \<Rightarrow> (JsonOk s, tbl'))))"

subsection \<open>Visitors\<close>

text \<open>\<open>VisitorCheckInView.form_valid\<close>: the card number continues the card of the
  latest visitor checked in today (\<open>order_by('-id').first()\<close>), or starts at
  \<open>001\<close>; \<open>stamp\<close> is \<open>today.strftime('%Y%m%d')\<close>. A card suffix that does not
  parse raises \<open>ValueError\<close>.\<close>

definition visitor_card :: "string \<Rightarrow> day \<Rightarrow> visitor_log list \<Rightarrow> pyexc + string" where
  "visitor_card stamp today vs =
     (case qs_last (filter (\<lambda>v. ts_date (check_in_time v) = today) vs) of
        Some v \<Rightarrow>
          if visitor_card_issued v \<noteq> []
          then res_bind (py_int (split_last (CHR ''-'') (visitor_card_issued v)))
                 (\<lambda>n. Inr (''VC-'' @ stamp @ ''-'' @ fmt_0d 3 (n + 1)))
          else Inr (''VC-'' @ stamp @ ''-001'')
      | None \<Rightarrow> Inr (''VC-'' @ stamp @ ''-001''))"

definition visitor_check_in_view :: "nat \<Rightarrow> timestamp \<Rightarrow> string \<Rightarrow> visitor_log \<Rightarrow>
    visitor_log list \<Rightarrow> pyexc + visitor_log list" where
  "visitor_check_in_view user now stamp v vs =
     res_bind (visitor_card stamp (ts_date now) vs) (\<lambda>card.
       Inr (vs @ [v\<lparr>check_in_time := now, security_officer := Some user, visitor_card_issued := card\<rparr>]))"

definition visitor_check_out_view :: "timestamp \<Rightarrow> nat \<Rightarrow> visitor_log list \<Rightarrow> pyexc + visitor_log list" where
  "visitor_check_out_view now pk vs =
     res_bind (get_object_or_404 pk vs) (\<lambda>v.
       Inr (vs[pk := v\<lparr>check_out_time := Some now, visitor_card_returned := True\<rparr>]))"

subsection \<open>Lists and dashboard\<close>

text \<open>\<open>GatePassListView.get_queryset\<close>: optional type and status filters, the
  inclusive creation-date range when both ends are given, newest first.\<close>

definition gatepass_list :: "gate_pass_type option \<Rightarrow> gp_status option \<Rightarrow> (day \<times> day) option \<Rightarrow>
    gate_pass list \<Rightarrow> gate_pass list" where
  "gatepass_list ty st rng tbl =
     rev (sort_key gp_created
       (filter (\<lambda>g. (case ty of None \<Rightarrow> True | Some t \<Rightarrow> pass_type g = t) \<and>
                    (case st of None \<Rightarrow> True | Some s \<Rightarrow> gp_status g = s) \<and>
                    (case rng of None \<Rightarrow> True
                     | Some (a, b) \<Rightarrow> a \<le> ts_date (gp_created g) \<and> ts_date (gp_created g) \<le> b)) tbl))"

definition visitor_log_list :: "day option \<Rightarrow> visitor_log list \<Rightarrow> visitor_log list" where
  "visitor_log_list d vs =
     rev (sort_key check_in_time
       (filter (\<lambda>v. case d of None \<Rightarrow> True | Some x \<Rightarrow> ts_date (check_in_time v) = x) vs))"

text \<open>The \<open>status_counts\<close> of \<open>DashboardView\<close>: five of the six statuses.\<close>

definition gp_status_counts :: "gate_pass list \<Rightarrow> (gp_status \<times> int) list" where
  "gp_status_counts tbl =
     map (\<lambda>s. (s, qs_count (\<lambda>g. gp_status g = s) tbl))
       [GpPending, GpApproved, GpInProgress, GpCompleted, GpCancelled]"

definition security_dashboard :: "day \<Rightarrow> gate_pass list \<Rightarrow> visitor_log list \<Rightarrow>
    int \<times> int \<times> int \<times> int \<times> visitor_log list" where
  "security_dashboard today tbl vs =
     (int (length tbl), qs_count (\<lambda>g. ts_date (gp_created g) = today) tbl,
      qs_count (\<lambda>g. gp_status g = GpPending) tbl, qs_count (\<lambda>g. gp_status g = GpInProgress) tbl,
      filter (\<lambda>v. ts_date (check_in_time v) = today) vs)"

subsection \<open>Properties\<close>

text \<open>The inverse of \<open>gp_status_of_string\<close>: the key of each status.\<close>

definition gp_status_key :: "gp_status \<Rightarrow> string" where
  "gp_status_key s = (case s of GpPending \<Rightarrow> ''pending'' | GpApproved \<Rightarrow> ''approved''
     | GpRejected \<Rightarrow> ''rejected'' | GpInProgress \<Rightarrow> ''in_progress''
     | GpCompleted \<Rightarrow> ''completed'' | GpCancelled \<Rightarrow> ''cancelled'')"

text \<open>The table invariant the unique column and the numbering give: every pass has a
  number and no two passes share one.\<close>

definition gp_numbers_ok :: "gate_pass list \<Rightarrow> bool" where
  "gp_numbers_ok tbl \<longleftrightarrow> distinct (map pass_number tbl) \<and> list_all (\<lambda>g. pass_number g \<noteq> []) tbl"

text \<open>What the status of a pass says about it: its status, whether it has entered
  and whether it has left; and the abstract effect of setting a status.\<close>

definition gp_abs :: "gate_pass \<Rightarrow> gp_status \<times> bool \<times> bool" where
  "gp_abs g = (gp_status g, actual_in_date g \<noteq> None, actual_out_date g \<noteq> None)"

definition abs_set_status :: "gp_status \<Rightarrow> gp_status \<times> bool \<times> bool \<Rightarrow> gp_status \<times> bool \<times> bool" where
  "abs_set_status s a = (case a of (_, entered, left) \<Rightarrow> (s, entered \<or> s = GpInProgress, left \<or> s = GpCompleted))"

text \<open>A sequence of visitor check-ins, each at its own time.\<close>

fun visitor_check_ins :: "nat \<Rightarrow> string \<Rightarrow> (visitor_log \<times> timestamp) list \<Rightarrow> visitor_log list \<Rightarrow>
    pyexc + visitor_log list" where
  "visitor_check_ins u stamp [] vs = Inr vs"
| "visitor_check_ins u stamp ((v, t) # rest) vs =
     res_bind (visitor_check_in_view u t stamp v vs) (visitor_check_ins u stamp rest)"

text \<open>The card number format of \<open>VisitorCheckInView\<close>.\<close>

definition card_no :: "string \<Rightarrow> int \<Rightarrow> string" where
  "card_no stamp n = ''VC-'' @ stamp @ ''-'' @ fmt_0d 3 n"

text \<open>A pending visitor pass with a number, used by the witnesses.\<close>

definition gp_ex :: gate_pass where
  "gp_ex = \<lparr>pass_number = ''GP-2025-00001'', pass_type = VisitorPass, gp_status = GpPending,
     gp_created = 0, actual_in_date = None, actual_out_date = None, security_in_charge = None,
     security_remarks = [], requesting_employee = 1\<rparr>"

subsection \<open>Lemmas\<close>

lemma gp_status_of_string_key [simp]: "gp_status_of_string (gp_status_key s) = Some s"
  by (cases s) (simp_all add: gp_status_of_string_def gp_status_key_def)

lemma gp_numbers_ok_nth:
  "gp_numbers_ok tbl \<Longrightarrow> pk < length tbl \<Longrightarrow> pass_number (tbl ! pk) \<noteq> []"
  by (simp add: gp_numbers_ok_def list_all_length)

lemma gatepass_save_keep_number:
  assumes "gp_numbers_ok tbl" and "pk < length tbl" and "pass_number g = pass_number (tbl ! pk)"
  shows "gatepass_save (Some pk) g tbl = Inr (tbl[pk := g])"
proof -
  have "pass_number g \<noteq> []" using assms(3) gp_numbers_ok_nth [OF assms(1,2)] by simp
  then have "gatepass_save (Some pk) g tbl = save_row pass_number (Some pk) g tbl"
    by (simp add: gatepass_save_def)
  also have "\<dots> = Inr (tbl[pk := g])"
    using assms by (intro save_row_same_key) (simp_all add: gp_numbers_ok_def)
  finally show ?thesis .
qed

lemma gatepass_save_Some_Inr:
  "gatepass_save (Some pk) g tbl = Inr tbl' \<Longrightarrow> pass_number g \<noteq> [] \<and> tbl' = tbl[pk := g]"
  by (auto simp: gatepass_save_def gatepass_assign_number_def res_bind_def
           dest: save_row_Some_Inr split: if_splits)

lemma update_gate_pass_status_ok:
  assumes "update_gate_pass_status u t pk st r tbl = (JsonOk s, tbl')"
  shows "pk < length tbl \<and> Option.bind st gp_status_of_string = Some s \<and>
         tbl' = tbl[pk := (let g1 = (tbl ! pk)\<lparr>gp_status := s\<rparr>;
                  g2 = (if r \<noteq> [] then g1\<lparr>security_remarks := r\<rparr> else g1);
                  g3 = g2\<lparr>security_in_charge := Some u\<rparr>
                in if s = GpInProgress \<and> actual_in_date g3 = None then g3\<lparr>actual_in_date := Some t\<rparr>
                   else if s = GpCompleted \<and> actual_out_date g3 = None then g3\<lparr>actual_out_date := Some t\<rparr>
                   else g3)]"
  using assms
  by (auto simp: update_gate_pass_status_def Let_def dest: gatepass_save_Some_Inr
           split: if_splits option.splits sum.splits)

lemma fmt_0d_3_1: "fmt_0d 3 1 = ''001''"
  by (simp add: numbering_eval)

lemma card_no_parse: "0 \<le> n \<Longrightarrow> py_int (split_last (CHR ''-'') (card_no stamp n)) = Inr n"
  using parse_formatted_number [of n "''VC-'' @ stamp" 3] by (simp add: card_no_def)

lemma card_no_ne [simp]: "card_no stamp n \<noteq> []"
  by (simp add: card_no_def)

text \<open>The state of the day's card counter after \<open>n\<close> check-ins of day \<open>d\<close>.\<close>

lemma visitor_card_next:
  assumes "(n = 0 \<and> (\<forall>v \<in> set vs. ts_date (check_in_time v) \<noteq> d)) \<or>
           (1 \<le> n \<and> map_option visitor_card_issued
               (qs_last (filter (\<lambda>v. ts_date (check_in_time v) = d) vs)) = Some (card_no stamp n))"
  shows "visitor_card stamp d vs = Inr (card_no stamp (n + 1))"
  using assms
proof
  assume "n = 0 \<and> (\<forall>v \<in> set vs. ts_date (check_in_time v) \<noteq> d)"
  then have "filter (\<lambda>v. ts_date (check_in_time v) = d) vs = []" and "n = 0"
    by (auto simp: filter_empty_conv)
  then show ?thesis by (simp add: visitor_card_def card_no_def fmt_0d_3_1)
next
  assume a: "1 \<le> n \<and> map_option visitor_card_issued
               (qs_last (filter (\<lambda>v. ts_date (check_in_time v) = d) vs)) = Some (card_no stamp n)"
  then obtain v where "qs_last (filter (\<lambda>v. ts_date (check_in_time v) = d) vs) = Some v"
    and "visitor_card_issued v = card_no stamp n" by auto
  with a show ?thesis by (simp add: visitor_card_def card_no_parse) (simp add: card_no_def)
qed

lemma visitor_check_ins_cards:
  assumes "(n = 0 \<and> (\<forall>v \<in> set vs. ts_date (check_in_time v) \<noteq> d)) \<or>
           (1 \<le> n \<and> map_option visitor_card_issued
               (qs_last (filter (\<lambda>v. ts_date (check_in_time v) = d) vs)) = Some (card_no stamp n))"
    and "\<forall>(v, t) \<in> set new. ts_date t = d"
  shows "\<exists>vs'. visitor_check_ins u stamp new vs = Inr (vs @ vs') \<and>
           map visitor_card_issued vs' = map (\<lambda>i. card_no stamp (n + int i)) [1..<Suc (length new)]"
  using assms
proof (induction new arbitrary: vs n)
  case Nil
  then show ?case by simp
next
  case (Cons vt new)
  obtain v t where vt: "vt = (v, t)" by (cases vt)
  with Cons.prems(2) have d: "ts_date t = d" by auto
  let ?v' = "v\<lparr>check_in_time := t, security_officer := Some u, visitor_card_issued := card_no stamp (n + 1)\<rparr>"
  have c: "visitor_check_in_view u t stamp v vs = Inr (vs @ [?v'])"
    using visitor_card_next [OF Cons.prems(1)] d by (simp add: visitor_check_in_view_def)
  have p: "(n + 1 = 0 \<and> (\<forall>v \<in> set (vs @ [?v']). ts_date (check_in_time v) \<noteq> d)) \<or>
           (1 \<le> n + 1 \<and> map_option visitor_card_issued
               (qs_last (filter (\<lambda>v. ts_date (check_in_time v) = d) (vs @ [?v']))) = Some (card_no stamp (n + 1)))"
    using Cons.prems(1) d by auto
  obtain vs' where ih: "visitor_check_ins u stamp new (vs @ [?v']) = Inr (vs @ [?v'] @ vs')"
    and m: "map visitor_card_issued vs' = map (\<lambda>i. card_no stamp (n + 1 + int i)) [1..<Suc (length new)]"
    using Cons.IH [OF p] Cons.prems(2) by auto
  have "map (\<lambda>i. card_no stamp (n + int i)) [1..<Suc (length (vt # new))] =
        card_no stamp (n + 1) # map (\<lambda>i. card_no stamp (n + 1 + int i)) [1..<Suc (length new)]"
    by (simp add: upt_conv_Cons map_Suc_upt [symmetric] del: upt_Suc) (simp add: algebra_simps)
  then show ?case using c ih m vt by (intro exI [of _ "?v' # vs'"]) simp
qed

subsection \<open>Properties of the security desk\<close>

lemmas gp_eval = update_gate_pass_status_def gatepass_save_def save_row_def gp_ex_def gp_status_of_string_def
  Let_def

text \<open>C12 The status API refines the abstract gate-pass record: a successful call sets
  the status, marks the pass as entered when the new status is \<open>in_progress\<close> and
  as left when it is \<open>completed\<close>, keeps an entry or exit time once recorded, and
  changes no other pass.\<close>

theorem status_api_refines:
  assumes "update_gate_pass_status u t pk st r tbl = (JsonOk s, tbl')"
  shows "length tbl' = length tbl \<and> (\<forall>j. j \<noteq> pk \<longrightarrow> tbl' ! j = tbl ! j) \<and>
         gp_abs (tbl' ! pk) = abs_set_status s (gp_abs (tbl ! pk)) \<and>
         (actual_in_date (tbl ! pk) \<noteq> None \<longrightarrow> actual_in_date (tbl' ! pk) = actual_in_date (tbl ! pk)) \<and>
         (actual_out_date (tbl ! pk) \<noteq> None \<longrightarrow> actual_out_date (tbl' ! pk) = actual_out_date (tbl ! pk))"
  using update_gate_pass_status_ok [OF assms]
  by (auto simp: gp_abs_def abs_set_status_def Let_def)

theorem status_api_refines_witness:
  "update_gate_pass_status 4 100 0 (Some ''in_progress'') [] [gp_ex] =
     (JsonOk GpInProgress, [gp_ex\<lparr>gp_status := GpInProgress, security_in_charge := Some 4,
                                  actual_in_date := Some 100\<rparr>]) \<and>
   gp_abs (gp_ex\<lparr>gp_status := GpInProgress, security_in_charge := Some 4, actual_in_date := Some 100\<rparr>) =
     abs_set_status GpInProgress (gp_abs gp_ex)"
proof -
  have v: "update_gate_pass_status 4 100 0 (Some ''in_progress'') [] [gp_ex] =
     (JsonOk GpInProgress, [gp_ex\<lparr>gp_status := GpInProgress, security_in_charge := Some 4,
                                  actual_in_date := Some 100\<rparr>])"
    by (simp add: gp_eval)
  then show ?thesis using status_api_refines [OF v] by simp
qed

text \<open>C13 The status API accepts every transition: on a table whose passes have
  distinct numbers, any status key is applied to any pass, whatever its current
  status (a completed pass can be set back to pending).\<close>

theorem status_api_any_transition:
  assumes "gp_numbers_ok tbl" and "pk < length tbl"
  shows "fst (update_gate_pass_status u t pk (Some (gp_status_key s)) r tbl) = JsonOk s"
proof -
  let ?g = "(let g1 = (tbl ! pk)\<lparr>gp_status := s\<rparr>;
                  g2 = (if r \<noteq> [] then g1\<lparr>security_remarks := r\<rparr> else g1);
                  g3 = g2\<lparr>security_in_charge := Some u\<rparr>
                in if s = GpInProgress \<and> actual_in_date g3 = None then g3\<lparr>actual_in_date := Some t\<rparr>
                   else if s = GpCompleted \<and> actual_out_date g3 = None then g3\<lparr>actual_out_date := Some t\<rparr>
                   else g3)"
  have "pass_number ?g = pass_number (tbl ! pk)" by (simp add: Let_def)
  then have "gatepass_save (Some pk) ?g tbl = Inr (tbl[pk := ?g])"
    by (rule gatepass_save_keep_number [OF assms])
  with assms(2) show ?thesis by (simp add: update_gate_pass_status_def Let_def)
qed

theorem status_api_any_transition_witness:
  "fst (update_gate_pass_status 4 100 0 (Some (gp_status_key GpPending)) [] [gp_ex\<lparr>gp_status := GpCompleted\<rparr>])
     = JsonOk GpPending"
  by (rule status_api_any_transition) (simp_all add: gp_numbers_ok_def gp_ex_def)



text \<open>C15 Security check-in has no guard on the status: on any pass, also a
  completed, rejected or cancelled one, it sets \<open>in_progress\<close>, records the user,
  overwrites the entry time with the current time and takes the exit time from the
  form.\<close>

theorem check_in_unguarded:
  assumes "security_check_in_view u t pk f tbl = Inr tbl'"
  shows "pk < length tbl \<and> length tbl' = length tbl \<and> gp_status (tbl' ! pk) = GpInProgress \<and>
         actual_in_date (tbl' ! pk) = Some t \<and> actual_out_date (tbl' ! pk) = f_actual_out_date f \<and>
         security_in_charge (tbl' ! pk) = Some u \<and> (\<forall>j. j \<noteq> pk \<longrightarrow> tbl' ! j = tbl ! j)"
  using assms
  by (auto simp: security_check_in_view_def get_object_or_404_def apply_security_form_def
           dest!: gatepass_save_Some_Inr split: if_splits)

theorem check_in_unguarded_witness:
  "security_check_in_view 4 200 0
     \<lparr>f_security_in_charge = None, f_security_remarks = [], f_actual_in_date = None, f_actual_out_date = None\<rparr>
     [gp_ex\<lparr>gp_status := GpCompleted, actual_in_date := Some 100, actual_out_date := Some 150\<rparr>] =
   Inr [gp_ex\<lparr>gp_status := GpInProgress, security_in_charge := Some 4, actual_in_date := Some 200\<rparr>] \<and>
   gp_status ([gp_ex\<lparr>gp_status := GpInProgress, security_in_charge := Some 4, actual_in_date := Some 200\<rparr>] ! 0)
     = GpInProgress"
proof -
  have v: "security_check_in_view 4 200 0
     \<lparr>f_security_in_charge = None, f_security_remarks = [], f_actual_in_date = None, f_actual_out_date = None\<rparr>
     [gp_ex\<lparr>gp_status := GpCompleted, actual_in_date := Some 100, actual_out_date := Some 150\<rparr>] =
   Inr [gp_ex\<lparr>gp_status := GpInProgress, security_in_charge := Some 4, actual_in_date := Some 200\<rparr>]"
    by (simp add: security_check_in_view_def get_object_or_404_def apply_security_form_def gp_eval)
  then show ?thesis using check_in_unguarded [OF v] by simp
qed

text \<open>C16 The dashboard's status counts leave out rejected passes: they add up to the
  number of passes minus the rejected ones.\<close>

theorem dashboard_counts_omit_rejected:
  "sum_list (map snd (gp_status_counts tbl)) =
     int (length tbl) - qs_count (\<lambda>g. gp_status g = GpRejected) tbl"
proof (induction tbl)
  case Nil
  then show ?case by (simp add: gp_status_counts_def qs_count_def)
next
  case (Cons g tbl)
  then show ?case by (cases "gp_status g") (simp_all add: gp_status_counts_def)
qed

text \<open>C17 Visitor cards are numbered per day: starting from a log with no visitor
  checked in on day \<open>d\<close>, the visitors checked in on \<open>d\<close> one after the other get
  the cards \<open>VC-<stamp>-001\<close>, \<open>002\<close>, ... in order.\<close>

theorem visitor_cards_sequential:
  assumes "\<forall>v \<in> set vs. ts_date (check_in_time v) \<noteq> d" and "\<forall>(v, t) \<in> set new. ts_date t = d"
  shows "\<exists>vs'. visitor_check_ins u stamp new vs = Inr (vs @ vs') \<and>
           map visitor_card_issued vs' = map (\<lambda>i. card_no stamp (int i)) [1..<Suc (length new)]"
  using visitor_check_ins_cards [of 0 vs d stamp new u] assms by simp

theorem visitor_cards_sequential_witness:
  "\<exists>vs'. visitor_check_ins 4 ''20250101''
     [(\<lparr>visitor_name = ''A'', v_gate_pass = None, check_in_time = 0, check_out_time = None,
        security_officer = None, visitor_card_issued = [], visitor_card_returned = False\<rparr>, 86400),
      (\<lparr>visitor_name = ''B'', v_gate_pass = None, check_in_time = 0, check_out_time = None,
        security_officer = None, visitor_card_issued = [], visitor_card_returned = False\<rparr>, 86500)] [] =
       Inr ([] @ vs') \<and>
     map visitor_card_issued vs' = [''VC-20250101-001'', ''VC-20250101-002'']"
proof -
  let ?new = "[(\<lparr>visitor_name = ''A'', v_gate_pass = None, check_in_time = 0, check_out_time = None,
        security_officer = None, visitor_card_issued = [], visitor_card_returned = False\<rparr>, 86400::int),
      (\<lparr>visitor_name = ''B'', v_gate_pass = None, check_in_time = 0, check_out_time = None,
        security_officer = None, visitor_card_issued = [], visitor_card_returned = False\<rparr>, 86500)]"
  have e: "\<forall>v \<in> set ([]::visitor_log list). ts_date (check_in_time v) \<noteq> 1" by simp
  have n: "\<forall>(v, t) \<in> set ?new. ts_date t = 1" by (simp add: ts_date_def)
  obtain vs' where a: "visitor_check_ins 4 ''20250101'' ?new [] = Inr ([] @ vs')"
    and b: "map visitor_card_issued vs' = map (\<lambda>i. card_no ''20250101'' (int i)) [1..<Suc (length ?new)]"
    using visitor_cards_sequential [OF e n] by blast
  have m: "map (\<lambda>i. card_no ''20250101'' (int i)) [1..<Suc (length ?new)] =
      [''VC-20250101-001'', ''VC-20250101-002'']"
    by (simp add: card_no_def numbering_eval upt_rec)
  show ?thesis by (rule exI [of _ vs'], rule conjI, rule a, simp only: b m)
qed

end
