(* ===== verification/Procurement.thy ===== *)
theory Procurement
  imports Numbering
begin

text \<open>
  Purchasing (procurement/models.py, procurement/views.py): suppliers, purchase
  orders with their items, goods receipts; \<open>PurchaseOrder.save\<close>, the totals
  the create and update views compute from the items, sending and receiving an
  order, the pending quantities of \<open>get_po_items\<close>, the goods-receipt form, the
  list filters and the dashboard. The items of an order (\<open>po.items.all()\<close>) are
  held in the order's row.
\<close>

subsection \<open>Rows\<close>

datatype supplier_type = SupMaterial | SupEquipment | SupService | SupOther

datatype po_status = PoDraft | PoSent | PoConfirmed | PoPartial | PoReceived | PoCancelled | PoClosed

record supplier =
  sup_code :: string
  sup_name :: string
  supplier_type :: supplier_type
  contact_person :: string
  credit_limit :: decimal
  current_balance :: decimal
  sup_active :: bool
  sup_created :: timestamp

record po_item =
  poi_product :: nat
  poi_quantity :: decimal
  unit_price :: decimal
  tax_rate :: decimal
  received_quantity :: decimal
  poi_warehouse :: nat

text \<open>The three properties of \<open>PurchaseOrderItem\<close>.\<close>

definition item_subtotal :: "po_item \<Rightarrow> decimal" where
  "item_subtotal i = poi_quantity i * unit_price i"

definition item_tax :: "po_item \<Rightarrow> decimal" where
  "item_tax i = item_subtotal i * (tax_rate i / 100)"

definition item_total :: "po_item \<Rightarrow> decimal" where
  "item_total i = item_subtotal i + item_tax i"

record purchase_order =
  po_number :: string
  po_supplier :: nat
  order_date :: day
  expected_delivery :: day
  po_status :: po_status
  total_amount :: decimal
  po_tax_amount :: decimal
  grand_total :: decimal
  po_created :: timestamp
  po_items :: "po_item list"

record goods_receipt =
  gr_number :: string
  gr_purchase_order :: nat
  receipt_date :: day
  received_by :: nat
  gr_warehouse :: nat

subsection \<open>Saving an order and its totals\<close>

text \<open>\<open>PurchaseOrder.save\<close>: a new order's number comes from \<open>po_assign_number\<close>,
  which always raises (\<open>timezone\<close> is not imported); the number is unique.\<close>

definition po_save :: "nat option \<Rightarrow> purchase_order \<Rightarrow> purchase_order list \<Rightarrow>
    pyexc + purchase_order list" where
  "po_save pk po tbl =
     res_bind (if po_number po = [] then po_assign_number (map po_number tbl) else Inr (po_number po))
       (\<lambda>no. save_row po_number pk (po\<lparr>po_number := no\<rparr>) tbl)"

text \<open>The totals both views compute after saving the items.\<close>

definition po_totals :: "purchase_order \<Rightarrow> purchase_order" where
  "po_totals po =
     (let total = sum_list (map item_total (po_items po));
          tax = sum_list (map item_tax (po_items po))
      in po\<lparr>total_amount := total - tax, po_tax_amount := tax, grand_total := total\<rparr>)"

text \<open>The fields \<open>PurchaseOrderForm\<close> binds.\<close>

record po_form =
  pf_supplier :: nat
  pf_order_date :: day
  pf_expected_delivery :: day

definition apply_po_form :: "po_form \<Rightarrow> purchase_order \<Rightarrow> purchase_order" where
  "apply_po_form f po =
     po\<lparr>po_supplier := pf_supplier f, order_date := pf_order_date f,
        expected_delivery := pf_expected_delivery f\<rparr>"

text \<open>\<open>PurchaseOrderCreateView.form_valid\<close>: save the new order, save the item
  formset against it, compute the totals, save again.\<close>

definition purchase_order_create_view :: "timestamp \<Rightarrow> po_form \<Rightarrow> po_item list \<Rightarrow>
    purchase_order list \<Rightarrow> pyexc + purchase_order list" where
  "purchase_order_create_view now f items tbl =
     (let po = apply_po_form f
                 \<lparr>po_number = [], po_supplier = 0, order_date = 0, expected_delivery = 0,
                  po_status = PoDraft, total_amount = 0, po_tax_amount = 0, grand_total = 0,
                  po_created = now, po_items = []\<rparr>
      in res_bind (po_save None po tbl) (\<lambda>tbl1.
           let k = length tbl;
               po1 = (tbl1 ! k)\<lparr>po_items := items\<rparr>
           in po_save (Some k) (po_totals po1) tbl1))"

text \<open>\<open>PurchaseOrderUpdateView.form_valid\<close>: the form's fields, the saved order, the
  item formset (items added, changed and deleted), the totals, saved again.\<close>

definition purchase_order_update_view :: "nat \<Rightarrow> po_form \<Rightarrow> po_item list \<Rightarrow>
    purchase_order list \<Rightarrow> pyexc + purchase_order list" where
  "purchase_order_update_view pk f items tbl =
     res_bind (get_object_or_404 pk tbl) (\<lambda>po.
       res_bind (po_save (Some pk) (apply_po_form f po) tbl) (\<lambda>tbl1.
         po_save (Some pk) (po_totals ((tbl1 ! pk)\<lparr>po_items := items\<rparr>)) tbl1))"

subsection \<open>Sending and receiving\<close>

datatype po_flash = PoFlashSuccess | PoFlashError

definition send_purchase_order :: "nat \<Rightarrow> purchase_order list \<Rightarrow> pyexc + po_flash \<times> purchase_order list" where
  "send_purchase_order pk tbl =
     res_bind (get_object_or_404 pk tbl) (\<lambda>po.
       if po_status po = PoDraft
       then res_bind (po_save (Some pk) (po\<lparr>po_status := PoSent\<rparr>) tbl) (\<lambda>tbl'. Inr (PoFlashSuccess, tbl'))
       else Inr (PoFlashError, tbl))"

definition receive_purchase_order :: "nat \<Rightarrow> purchase_order list \<Rightarrow> pyexc + po_flash \<times> purchase_order list" where
  "receive_purchase_order pk tbl =
     res_bind (get_object_or_404 pk tbl) (\<lambda>po.
       if po_status po \<in> {PoSent, PoConfirmed}
       then res_bind (po_save (Some pk) (po\<lparr>po_status := PoReceived\<rparr>) tbl) (\<lambda>tbl'. Inr (PoFlashSuccess, tbl'))
       else Inr (PoFlashError, tbl))"

text \<open>\<open>get_po_items\<close>: the items still to be received, with their pending quantity.\<close>

definition get_po_items :: "nat \<Rightarrow> purchase_order list \<Rightarrow> pyexc + (po_item \<times> decimal) list" where
  "get_po_items pk tbl =
     res_bind (get_object_or_404 pk tbl) (\<lambda>po.
       Inr (map (\<lambda>i. (i, poi_quantity i - received_quantity i))
              (filter (\<lambda>i. poi_quantity i - received_quantity i > 0) (po_items po))))"

subsection \<open>Goods receipts\<close>

text \<open>\<open>GoodsReceiptCreateView\<close>: \<open>GoodsReceiptForm\<close> has no \<open>gr_number\<close> field and
  the model gives it no default, so every receipt is saved with the empty number
  into a unique column; the view records the user as receiver.\<close>

record gr_form =
  gf_purchase_order :: nat
  gf_receipt_date :: day
  gf_warehouse :: nat

definition goods_receipt_create_view :: "nat \<Rightarrow> gr_form \<Rightarrow> goods_receipt list \<Rightarrow> pyexc + goods_receipt list" where
  "goods_receipt_create_view user f grs =
     save_row gr_number None
       \<lparr>gr_number = [], gr_purchase_order = gf_purchase_order f, receipt_date = gf_receipt_date f,
        received_by = user, gr_warehouse = gf_warehouse f\<rparr> grs"

subsection \<open>Lists and dashboard\<close>

definition supplier_list :: "string option \<Rightarrow> string option \<Rightarrow> supplier list \<Rightarrow> supplier list" where
  "supplier_list search active sups =
     rev (sort_key sup_created
       (filter (\<lambda>s. (case search of None \<Rightarrow> True | Some q \<Rightarrow>
                       q = [] \<or> icontains (sup_name s) q \<or> icontains (sup_code s) q \<or>
                       icontains (contact_person s) q) \<and>
                    (if active = Some ''true'' then sup_active s
                     else if active = Some ''false'' then \<not> sup_active s else True)) sups))"

definition purchase_order_list :: "po_status option \<Rightarrow> nat option \<Rightarrow> string option \<Rightarrow>
    supplier list \<Rightarrow> purchase_order list \<Rightarrow> purchase_order list" where
  "purchase_order_list st supp search sups tbl =
     rev (sort_key order_date
       (filter (\<lambda>po. (case st of None \<Rightarrow> True | Some s \<Rightarrow> po_status po = s) \<and>
                     (case supp of None \<Rightarrow> True | Some k \<Rightarrow> po_supplier po = k) \<and>
                     (case search of None \<Rightarrow> True | Some q \<Rightarrow>
                        q = [] \<or> icontains (po_number po) q \<or>
                        (po_supplier po < length sups \<and> icontains (sup_name (sups ! po_supplier po)) q)))
          tbl))"

text \<open>\<open>procurement_dashboard\<close>: all orders, the open ones, and the spending of
  the month (grand totals of received or partial orders dated from the first of the
  month).\<close>

definition procurement_dashboard :: "day \<Rightarrow> supplier list \<Rightarrow> purchase_order list \<Rightarrow> int \<times> int \<times> decimal \<times> int" where
  "procurement_dashboard month_start sups tbl =
     (int (length tbl),
      qs_count (\<lambda>po. po_status po \<in> {PoDraft, PoSent, PoConfirmed}) tbl,
      sum_list (map grand_total
        (filter (\<lambda>po. month_start \<le> order_date po \<and> po_status po \<in> {PoReceived, PoPartial}) tbl)),
      qs_count sup_active sups)"

text \<open>A sent order of ten units at 5 with 18 percent tax, used by the witnesses.\<close>

definition po_ex :: purchase_order where
  "po_ex = \<lparr>po_number = ''PO-2025-00001'', po_supplier = 0, order_date = 10, expected_delivery = 20,
     po_status = PoSent, total_amount = 0, po_tax_amount = 0, grand_total = 0, po_created = 0,
     po_items = [\<lparr>poi_product = 1, poi_quantity = 10, unit_price = 5, tax_rate = 18,
                   received_quantity = 0, poi_warehouse = 1\<rparr>]\<rparr>"

subsection \<open>Properties of purchasing\<close>

lemma po_totals_fields [simp]:
  "po_number (po_totals po) = po_number po" "po_status (po_totals po) = po_status po"
  "po_items (po_totals po) = po_items po" "po_supplier (po_totals po) = po_supplier po"
  by (simp_all add: po_totals_def Let_def)

lemma po_save_Some_Inr:
  "po_save (Some i) po tbl = Inr tbl' \<Longrightarrow> po_number po \<noteq> [] \<and> tbl' = tbl[i := po]"
  by (auto simp: po_save_def po_assign_number_def res_bind_def
           dest: save_row_Some_Inr split: if_splits option.splits sum.splits)

lemma po_save_None_raises:
  "po_number po = [] \<Longrightarrow> po_save None po tbl = Inl NameError \<or> po_save None po tbl = Inl ValueError"
  by (auto simp: po_save_def po_assign_number_def res_bind_def split: option.splits sum.splits)
     (auto simp: py_int_def split: list.splits if_splits)

text \<open>C18 Order totals: the views' "sum of item totals minus sum of item taxes" is the
  sum of the items' subtotals, the grand total is that plus the tax, and it equals the
  reference invoice total, the sum of quantity x unit price x (1 + tax rate / 100).\<close>

theorem po_totals_equivalence:
  "total_amount (po_totals po) = sum_list (map item_subtotal (po_items po)) \<and>
   grand_total (po_totals po) = total_amount (po_totals po) + po_tax_amount (po_totals po) \<and>
   grand_total (po_totals po) =
     sum_list (map (\<lambda>i. poi_quantity i * unit_price i * (1 + tax_rate i / 100)) (po_items po))"
proof -
  have t: "item_total = (\<lambda>i. item_subtotal i + item_tax i)" by (simp add: fun_eq_iff item_total_def)
  have r: "(\<lambda>i. poi_quantity i * unit_price i * (1 + tax_rate i / 100)) = (\<lambda>i. item_subtotal i + item_tax i)"
    by (simp add: fun_eq_iff item_subtotal_def item_tax_def algebra_simps)
  show ?thesis by (simp add: po_totals_def Let_def t r sum_list_addf)
qed

text \<open>C19 A purchase order can never be created through \<open>PurchaseOrderCreateView\<close>:
  the first \<open>save()\<close> of the new order raises \<open>NameError\<close> (or \<open>ValueError\<close> when
  the last order number does not parse), so the table is left as it was.\<close>

theorem po_create_view_raises:
  "purchase_order_create_view now f items tbl = Inl NameError \<or>
   purchase_order_create_view now f items tbl = Inl ValueError"
proof -
  let ?po = "apply_po_form f
                 \<lparr>po_number = [], po_supplier = 0, order_date = 0, expected_delivery = 0,
                  po_status = PoDraft, total_amount = 0, po_tax_amount = 0, grand_total = 0,
                  po_created = now, po_items = []\<rparr>"
  have "po_number ?po = []" by (simp add: apply_po_form_def)
  from po_save_None_raises [OF this, of tbl] show ?thesis
    by (auto simp: purchase_order_create_view_def Let_def)
qed

text \<open>C20 Editing an order recomputes its totals: after a successful
  \<open>PurchaseOrderUpdateView\<close> the order holds the submitted items, its totals are
  those of the items, its number and status are kept, and no other order changes.\<close>

theorem po_update_totals:
  assumes "purchase_order_update_view pk f items tbl = Inr tbl'"
  shows "pk < length tbl \<and> length tbl' = length tbl \<and> (\<forall>j. j \<noteq> pk \<longrightarrow> tbl' ! j = tbl ! j) \<and>
         po_items (tbl' ! pk) = items \<and>
         grand_total (tbl' ! pk) = sum_list (map item_total items) \<and>
         po_tax_amount (tbl' ! pk) = sum_list (map item_tax items) \<and>
         total_amount (tbl' ! pk) = sum_list (map item_total items) - sum_list (map item_tax items) \<and>
         po_number (tbl' ! pk) = po_number (tbl ! pk) \<and> po_status (tbl' ! pk) = po_status (tbl ! pk)"
proof -
  obtain tbl1 where pk: "pk < length tbl"
    and s1: "po_save (Some pk) (apply_po_form f (tbl ! pk)) tbl = Inr tbl1"
    and s2: "po_save (Some pk) (po_totals ((tbl1 ! pk)\<lparr>po_items := items\<rparr>)) tbl1 = Inr tbl'"
    using assms by (auto simp: purchase_order_update_view_def get_object_or_404_def res_bind_eq_Inr
                         split: if_splits)
  from po_save_Some_Inr [OF s1] have t1: "tbl1 = tbl[pk := apply_po_form f (tbl ! pk)]" by simp
  from po_save_Some_Inr [OF s2] have t2: "tbl' = tbl1[pk := po_totals ((tbl1 ! pk)\<lparr>po_items := items\<rparr>)]"
    by simp
  show ?thesis using pk t1 t2
    by (simp add: po_totals_def Let_def apply_po_form_def)
qed

text \<open>C21 Receiving an order records no quantities: a successful
  \<open>receive_purchase_order\<close> acts on a sent or confirmed order and marks it received,
  but \<open>get_po_items\<close> lists the same pending items afterwards as before.\<close>

theorem receive_keeps_items_pending:
  assumes "receive_purchase_order pk tbl = Inr (PoFlashSuccess, tbl')"
  shows "po_status (tbl ! pk) \<in> {PoSent, PoConfirmed} \<and> po_status (tbl' ! pk) = PoReceived \<and>
         get_po_items pk tbl' = get_po_items pk tbl"
proof -
  obtain tbl1 where pk: "pk < length tbl" and st: "po_status (tbl ! pk) \<in> {PoSent, PoConfirmed}"
    and s: "po_save (Some pk) ((tbl ! pk)\<lparr>po_status := PoReceived\<rparr>) tbl = Inr tbl1" and e: "tbl' = tbl1"
    using assms by (auto simp: receive_purchase_order_def get_object_or_404_def res_bind_eq_Inr
                         split: if_splits)
  from po_save_Some_Inr [OF s] have "tbl' = tbl[pk := (tbl ! pk)\<lparr>po_status := PoReceived\<rparr>]"
    using e by simp
  with pk st show ?thesis by (simp add: get_po_items_def get_object_or_404_def)
qed

text \<open>C22 Only the first goods receipt can be saved: the form has no receipt number
  and every receipt is saved with the empty number into a unique column, so once one
  receipt exists every further one raises \<open>IntegrityError\<close>.\<close>

theorem second_goods_receipt_fails:
  assumes "goods_receipt_create_view u f grs = Inr grs1"
  shows "goods_receipt_create_view u' f' grs1 = Inl IntegrityError"
  using save_row_None_Inr [OF assms [unfolded goods_receipt_create_view_def]]
  by (simp add: goods_receipt_create_view_def save_row_def)

text \<open>Pending quantities: every item \<open>get_po_items\<close> returns has a positive
  pending quantity, at most the ordered quantity when nothing negative was received,
  and no more items are returned than the order has.\<close>

theorem po_items_pending_bounds:
  assumes "get_po_items pk tbl = Inr res"
  shows "(\<forall>(i, p) \<in> set res. 0 < p \<and> p = poi_quantity i - received_quantity i \<and>
            (0 \<le> received_quantity i \<longrightarrow> p \<le> poi_quantity i)) \<and>
         length res \<le> length (po_items (tbl ! pk))"
  using assms by (auto simp: get_po_items_def get_object_or_404_def split: if_splits)

theorem po_update_totals_witness:
  "purchase_order_update_view 0 \<lparr>pf_supplier = 0, pf_order_date = 10, pf_expected_delivery = 20\<rparr>
     (po_items po_ex) [po_ex] = Inr [po_totals po_ex] \<and> grand_total (po_totals po_ex) = 59"
proof -
  have v: "purchase_order_update_view 0 \<lparr>pf_supplier = 0, pf_order_date = 10, pf_expected_delivery = 20\<rparr>
     (po_items po_ex) [po_ex] = Inr [po_totals po_ex]"
    by (simp add: purchase_order_update_view_def get_object_or_404_def po_save_def save_row_def
                  apply_po_form_def po_ex_def po_totals_def Let_def)
  have "grand_total ([po_totals po_ex] ! 0) = sum_list (map item_total (po_items po_ex))"
    using po_update_totals [OF v] by simp
  then have "grand_total (po_totals po_ex) = 59"
    by (simp add: po_ex_def item_total_def item_tax_def item_subtotal_def)
  with v show ?thesis by simp
qed

theorem receive_keeps_items_pending_witness:
  "receive_purchase_order 0 [po_ex] = Inr (PoFlashSuccess, [po_ex\<lparr>po_status := PoReceived\<rparr>]) \<and>
   get_po_items 0 [po_ex\<lparr>po_status := PoReceived\<rparr>] = get_po_items 0 [po_ex]"
proof -
  have v: "receive_purchase_order 0 [po_ex] = Inr (PoFlashSuccess, [po_ex\<lparr>po_status := PoReceived\<rparr>])"
    by (simp add: receive_purchase_order_def get_object_or_404_def po_save_def save_row_def po_ex_def)
  then show ?thesis using receive_keeps_items_pending [OF v] by simp
qed

theorem second_goods_receipt_fails_witness:
  "goods_receipt_create_view 1 \<lparr>gf_purchase_order = 0, gf_receipt_date = 5, gf_warehouse = 1\<rparr> [] =
     Inr [\<lparr>gr_number = [], gr_purchase_order = 0, receipt_date = 5, received_by = 1, gr_warehouse = 1\<rparr>] \<and>
   goods_receipt_create_view 2 \<lparr>gf_purchase_order = 0, gf_receipt_date = 6, gf_warehouse = 1\<rparr>
     [\<lparr>gr_number = [], gr_purchase_order = 0, receipt_date = 5, received_by = 1, gr_warehouse = 1\<rparr>]
     = Inl IntegrityError"
proof -
  have v: "goods_receipt_create_view 1 \<lparr>gf_purchase_order = 0, gf_receipt_date = 5, gf_warehouse = 1\<rparr> [] =
     Inr [\<lparr>gr_number = [], gr_purchase_order = 0, receipt_date = 5, received_by = 1, gr_warehouse = 1\<rparr>]"
    by (simp add: goods_receipt_create_view_def save_row_def)
  then show ?thesis using second_goods_receipt_fails [OF v] by simp
qed

theorem po_items_pending_bounds_witness:
  "get_po_items 0 [po_ex] = Inr [(hd (po_items po_ex), 10)] \<and> (0::rat) < 10 \<and>
   (10::rat) \<le> poi_quantity (hd (po_items po_ex))"
proof -
  have v: "get_po_items 0 [po_ex] = Inr [(hd (po_items po_ex), 10)]"
    by (simp add: get_po_items_def get_object_or_404_def po_ex_def)
  have "0 \<le> received_quantity (hd (po_items po_ex))" by (simp add: po_ex_def)
  then show ?thesis using po_items_pending_bounds [OF v] v by auto
qed

end
