(* ===== verification/Production.thy ===== *)
theory Production
  imports Numbering
begin

text \<open>
  Manufacturing (production/models.py, production/views.py, production/forms.py):
  bills of materials with their lines, production orders, their operations and
  material consumptions; \<open>ProductionOrder.save\<close> with its numbering and planned
  end; the computed properties (scrap allowance, progress, cost, efficiency, waste);
  the create and update views, starting and completing orders and operations, the
  lists and the dashboard; and the step relation of the handlers that write the
  order table. Planned times are \<open>instant\<close>s (seconds, exact): the float
  conversion of \<open>timedelta(hours=float(total_time))\<close> and its rounding to
  microseconds are not modelled. The efficiency property computes in floats in the
  code and in exact rationals here.
\<close>

type_synonym instant = rat

subsection \<open>Rows\<close>

datatype prod_status = PsDraft | PsPlanned | PsReleased | PsInProgress | PsPartiallyCompleted
  | PsCompleted | PsCancelled | PsOnHold

datatype op_status = OpPending | OpInProgress | OpCompleted | OpCancelled

record bom_line =
  bl_component :: nat
  bl_quantity :: decimal
  scrap_percentage :: decimal

record bill_of_materials =
  bom_code :: string
  finished_product :: nat
  production_time :: decimal
  scrap_rate :: decimal
  bom_active :: bool
  bom_created :: timestamp
  bom_lines :: "bom_line list"

record production_order =
  order_number :: string
  prod_bom :: nat
  prod_product :: nat
  prod_quantity :: decimal
  planned_start :: "instant option"
  planned_end :: "instant option"
  actual_start :: "timestamp option"
  actual_end :: "timestamp option"
  prod_status :: prod_status
  priority :: int
  completed_quantity :: decimal
  rejected_quantity :: decimal
  production_cost :: decimal
  material_cost :: decimal
  prod_created :: timestamp

record production_operation =
  op_order :: nat
  op_sequence :: int
  op_status :: op_status
  op_actual_start :: "timestamp option"
  op_actual_end :: "timestamp option"
  quantity_processed :: decimal
  run_time_actual :: decimal
  op_cycle_time :: decimal

record material_consumption =
  quantity_issued :: decimal
  quantity_used :: decimal
  quantity_returned :: decimal

subsection \<open>Computed properties\<close>

definition required_quantity_with_scrap :: "bom_line \<Rightarrow> decimal" where
  "required_quantity_with_scrap l =
     (if scrap_percentage l > 0 then bl_quantity l * (1 + scrap_percentage l / 100) else bl_quantity l)"

definition progress :: "production_order \<Rightarrow> decimal" where
  "progress ord = (if prod_quantity ord > 0 then (completed_quantity ord / prod_quantity ord) * 100 else 0)"

definition total_cost :: "production_order \<Rightarrow> decimal" where
  "total_cost ord = production_cost ord + material_cost ord"

definition efficiency :: "production_operation \<Rightarrow> rat" where
  "efficiency op =
     (if run_time_actual op > 0 \<and> op_cycle_time op > 0
      then (quantity_processed op * op_cycle_time op / run_time_actual op) * 100 else 0)"

definition waste_percentage :: "material_consumption \<Rightarrow> decimal" where
  "waste_percentage m =
     (if quantity_issued m > 0
      then ((quantity_issued m - quantity_used m - quantity_returned m) / quantity_issued m) * 100 else 0)"

subsection \<open>\<open>ProductionOrder.save\<close>\<close>

text \<open>The planned end of \<open>ProductionOrder.save\<close>: when the quantity is not
  zero and the planned end is empty, it is the planned start plus the BOM's hours per
  unit times the quantity.\<close>

definition compute_planned_end :: "bill_of_materials \<Rightarrow> production_order \<Rightarrow> production_order" where
  "compute_planned_end b ord =
     (if prod_quantity ord \<noteq> 0 then
        (let total_time = production_time b * prod_quantity ord
         in case (planned_end ord, planned_start ord) of
              (None, Some s) \<Rightarrow> ord\<lparr>planned_end := Some (s + total_time * 3600)\<rparr>
            | _ \<Rightarrow> ord)
      else ord)"

text \<open>\<open>ProductionOrder.save\<close>: a new order is numbered from the last order of the
  whole table; reading \<open>self.bom\<close> of an order whose BOM row is missing raises
  \<open>DoesNotExist\<close>; the number column is unique.\<close>

definition production_save :: "int \<Rightarrow> bill_of_materials list \<Rightarrow> nat option \<Rightarrow> production_order \<Rightarrow>
    production_order list \<Rightarrow> pyexc + production_order list" where
  "production_save year boms pk ord tbl =
     res_bind (if order_number ord = [] then production_assign_number year (map order_number tbl)
               else Inr (order_number ord)) (\<lambda>no.
     if prod_bom ord \<ge> length boms then Inl DoesNotExist
     else save_row order_number pk (compute_planned_end (boms ! prod_bom ord) (ord\<lparr>order_number := no\<rparr>)) tbl)"

subsection \<open>Views\<close>

text \<open>The fields \<open>ProductionOrderForm\<close> binds (the planned times are required
  fields of the form).\<close>

record production_order_form =
  pof_bom :: nat
  pof_product :: nat
  pof_quantity :: decimal
  pof_planned_start :: instant
  pof_planned_end :: instant
  pof_priority :: int

definition apply_production_form :: "production_order_form \<Rightarrow> production_order \<Rightarrow> production_order" where
  "apply_production_form f ord =
     ord\<lparr>prod_bom := pof_bom f, prod_product := pof_product f, prod_quantity := pof_quantity f,
       planned_start := Some (pof_planned_start f), planned_end := Some (pof_planned_end f),
       priority := pof_priority f\<rparr>"

definition new_production_order :: "timestamp \<Rightarrow> production_order" where
  "new_production_order now =
     \<lparr>order_number = [], prod_bom = 0, prod_product = 0, prod_quantity = 0, planned_start = None,
      planned_end = None, actual_start = None, actual_end = None, prod_status = PsDraft, priority = 5,
      completed_quantity = 0, rejected_quantity = 0, production_cost = 0, material_cost = 0,
      prod_created = now\<rparr>"

definition production_order_create_view :: "int \<Rightarrow> timestamp \<Rightarrow> bill_of_materials list \<Rightarrow>
    production_order_form \<Rightarrow> production_order list \<Rightarrow> pyexc + production_order list" where
  "production_order_create_view year now boms f tbl =
     production_save year boms None (apply_production_form f (new_production_order now)) tbl"

definition production_order_update_view :: "int \<Rightarrow> bill_of_materials list \<Rightarrow> nat \<Rightarrow>
    production_order_form \<Rightarrow> production_order list \<Rightarrow> pyexc + production_order list" where
  "production_order_update_view year boms pk f tbl =
     res_bind (get_object_or_404 pk tbl) (\<lambda>ord.
       production_save year boms (Some pk) (apply_production_form f ord) tbl)"

datatype prod_flash = ProdFlashSuccess | ProdFlashError

definition start_production_order :: "int \<Rightarrow> timestamp \<Rightarrow> bill_of_materials list \<Rightarrow> nat \<Rightarrow>
    production_order list \<Rightarrow> pyexc + prod_flash \<times> production_order list" where
  "start_production_order year now boms pk tbl =
     res_bind (get_object_or_404 pk tbl) (\<lambda>ord.
       if prod_status ord = PsReleased
       then res_bind (production_save year boms (Some pk)
                        (ord\<lparr>prod_status := PsInProgress, actual_start := Some now\<rparr>) tbl)
              (\<lambda>tbl'. Inr (ProdFlashSuccess, tbl'))
       else Inr (ProdFlashError, tbl))"

definition complete_production_order :: "int \<Rightarrow> timestamp \<Rightarrow> bill_of_materials list \<Rightarrow> nat \<Rightarrow>
    production_order list \<Rightarrow> pyexc + prod_flash \<times> production_order list" where
  "complete_production_order year now boms pk tbl =
     res_bind (get_object_or_404 pk tbl) (\<lambda>ord.
       if prod_status ord = PsInProgress
       then res_bind (production_save year boms (Some pk)
                        (ord\<lparr>prod_status := PsCompleted, actual_end := Some now,
                           completed_quantity := prod_quantity ord\<rparr>) tbl)
              (\<lambda>tbl'. Inr (ProdFlashSuccess, tbl'))
       else Inr (ProdFlashError, tbl))"

definition start_operation :: "timestamp \<Rightarrow> nat \<Rightarrow> production_operation list \<Rightarrow>
    pyexc + production_operation list" where
  "start_operation now pk ops =
     res_bind (get_object_or_404 pk ops) (\<lambda>op.
       Inr (ops[pk := op\<lparr>op_status := OpInProgress, op_actual_start := Some now\<rparr>]))"

definition complete_operation :: "timestamp \<Rightarrow> nat \<Rightarrow> production_operation list \<Rightarrow>
    pyexc + production_operation list" where
  "complete_operation now pk ops =
     res_bind (get_object_or_404 pk ops) (\<lambda>op.
       Inr (ops[pk := op\<lparr>op_status := OpCompleted, op_actual_end := Some now\<rparr>]))"

subsection \<open>Lists and dashboard\<close>

definition bom_list :: "string option \<Rightarrow> string option \<Rightarrow> (nat \<Rightarrow> string \<times> string) \<Rightarrow>
    bill_of_materials list \<Rightarrow> bill_of_materials list" where
  "bom_list search active product_name_sku boms =
     rev (sort_key bom_created
       (filter (\<lambda>b. (case search of None \<Rightarrow> True | Some q \<Rightarrow>
                       q = [] \<or> icontains (bom_code b) q \<or>
                       icontains (fst (product_name_sku (finished_product b))) q \<or>
                       icontains (snd (product_name_sku (finished_product b))) q) \<and>
                    (if active = Some ''true'' then bom_active b
                     else if active = Some ''false'' then \<not> bom_active b else True)) boms))"

definition production_order_list :: "prod_status option \<Rightarrow> string option \<Rightarrow> (nat \<Rightarrow> string) \<Rightarrow>
    production_order list \<Rightarrow> production_order list" where
  "production_order_list st search product_name tbl =
     rev (sort_key prod_created
       (filter (\<lambda>ord. (case st of None \<Rightarrow> True | Some s \<Rightarrow> prod_status ord = s) \<and>
                    (case search of None \<Rightarrow> True | Some q \<Rightarrow>
                       q = [] \<or> icontains (order_number ord) q \<or> icontains (product_name (prod_product ord)) q))
          tbl))"

text \<open>\<open>production_dashboard\<close>: all orders, the active ones, those completed today,
  and \<open>values('status').annotate(count=Count('id'))\<close>, one pair per status present.\<close>

definition production_dashboard :: "day \<Rightarrow> production_order list \<Rightarrow>
    int \<times> int \<times> int \<times> (prod_status \<times> int) list" where
  "production_dashboard today tbl =
     (int (length tbl),
      qs_count (\<lambda>ord. prod_status ord \<in> {PsInProgress, PsReleased}) tbl,
      qs_count (\<lambda>ord. prod_status ord = PsCompleted \<and> map_option ts_date (actual_end ord) = Some today) tbl,
      map (\<lambda>s. (s, qs_count (\<lambda>ord. prod_status ord = s) tbl)) (remdups (map prod_status tbl)))"

subsection \<open>The order table's handlers\<close>

inductive production_step :: "production_order list \<Rightarrow> production_order list \<Rightarrow> bool" where
  create: "production_order_create_view y t boms f tbl = Inr tbl' \<Longrightarrow> production_step tbl tbl'"
| update: "production_order_update_view y boms pk f tbl = Inr tbl' \<Longrightarrow> production_step tbl tbl'"
| start: "start_production_order y t boms pk tbl = Inr (m, tbl') \<Longrightarrow> production_step tbl tbl'"
| complete: "complete_production_order y t boms pk tbl = Inr (m, tbl') \<Longrightarrow> production_step tbl tbl'"

definition orders_draft :: "production_order list \<Rightarrow> bool" where
  "orders_draft tbl \<longleftrightarrow> list_all (\<lambda>ord. prod_status ord = PsDraft) tbl"

text \<open>A BOM of two hours per unit and an order form for ten units, used by the
  witnesses.\<close>

definition bom_ex :: bill_of_materials where
  "bom_ex = \<lparr>bom_code = ''BOM-1'', finished_product = 1, production_time = 2, scrap_rate = 0,
     bom_active = True, bom_created = 0, bom_lines = []\<rparr>"

definition pof_ex :: production_order_form where
  "pof_ex = \<lparr>pof_bom = 0, pof_product = 1, pof_quantity = 10, pof_planned_start = 0,
     pof_planned_end = 72000, pof_priority = 5\<rparr>"

subsection \<open>Properties of production\<close>

lemma compute_planned_end_eq:
  "compute_planned_end b ord = ord\<lparr>planned_end := planned_end (compute_planned_end b ord)\<rparr>"
  by (simp add: compute_planned_end_def Let_def split: option.splits)

lemma production_save_Inr:
  assumes "production_save y boms pk ord tbl = Inr tbl'"
  shows "\<exists>no pe. (case pk of None \<Rightarrow> tbl' = tbl @ [ord\<lparr>order_number := no, planned_end := pe\<rparr>]
                   | Some i \<Rightarrow> tbl' = tbl[i := ord\<lparr>order_number := no, planned_end := pe\<rparr>])"
proof -
  have "\<exists>no. save_row order_number pk (compute_planned_end (boms ! prod_bom ord) (ord\<lparr>order_number := no\<rparr>)) tbl = Inr tbl'"
  proof (cases "order_number ord = []")
    case True
    with assms show ?thesis by (auto simp: production_save_def res_bind_eq_Inr split: if_splits)
  next
    case False
    with assms have "save_row order_number pk (compute_planned_end (boms ! prod_bom ord)
        (ord\<lparr>order_number := order_number ord\<rparr>)) tbl = Inr tbl'"
      by (simp add: production_save_def split: if_splits)
    then show ?thesis by blast
  qed
  then obtain no where s: "save_row order_number pk
      (compute_planned_end (boms ! prod_bom ord) (ord\<lparr>order_number := no\<rparr>)) tbl = Inr tbl'" by blast
  obtain pe where e: "compute_planned_end (boms ! prod_bom ord) (ord\<lparr>order_number := no\<rparr>) =
      ord\<lparr>order_number := no, planned_end := pe\<rparr>"
  proof
    show "compute_planned_end (boms ! prod_bom ord) (ord\<lparr>order_number := no\<rparr>) =
      ord\<lparr>order_number := no, planned_end := planned_end (compute_planned_end (boms ! prod_bom ord) (ord\<lparr>order_number := no\<rparr>))\<rparr>"
      by (subst compute_planned_end_eq) simp
  qed
  from s [unfolded e] show ?thesis
    by (cases pk) (auto dest: save_row_None_Inr save_row_Some_Inr)
qed

lemma production_step_draft:
  assumes "production_step tbl tbl'" and "orders_draft tbl"
  shows "orders_draft tbl'"
  using assms
proof induction
  case (create y t boms f tbl tbl')
  then obtain no pe where "tbl' = tbl @ [(apply_production_form f (new_production_order t))
                                         \<lparr>order_number := no, planned_end := pe\<rparr>]"
    using production_save_Inr [of y boms None "apply_production_form f (new_production_order t)" tbl tbl']
    by (auto simp: production_order_create_view_def)
  with create.prems show ?case
    by (simp add: orders_draft_def apply_production_form_def new_production_order_def)
next
  case (update y boms pk f tbl tbl')
  then have pk: "pk < length tbl"
    and s: "production_save y boms (Some pk) (apply_production_form f (tbl ! pk)) tbl = Inr tbl'"
    by (auto simp: production_order_update_view_def get_object_or_404_def split: if_splits)
  from production_save_Inr [OF s] obtain no pe where
    "tbl' = tbl[pk := (apply_production_form f (tbl ! pk))\<lparr>order_number := no, planned_end := pe\<rparr>]"
    by auto
  moreover have "prod_status (tbl ! pk) = PsDraft"
    using update.prems pk by (simp add: orders_draft_def list_all_length)
  ultimately show ?case using update.prems
    by (auto simp: orders_draft_def apply_production_form_def intro: list_all_update)
next
  case (start y t boms pk tbl m tbl')
  then show ?case
    by (auto simp: start_production_order_def get_object_or_404_def orders_draft_def list_all_length
             split: if_splits)
next
  case (complete y t boms pk tbl m tbl')
  then show ?case
    by (auto simp: complete_production_order_def get_object_or_404_def orders_draft_def list_all_length
             split: if_splits)
qed

text \<open>C24 No production order ever leaves draft: \<open>ProductionOrderForm\<close> has no
  status field and no handler sets \<open>released\<close>, so from a table of drafts every
  sequence of create, update, start and complete requests leaves only drafts; start
  and complete always answer with their error message.\<close>

theorem production_orders_stay_draft:
  assumes "production_step\<^sup>*\<^sup>* tbl0 tbl" and "orders_draft tbl0"
  shows "orders_draft tbl"
  using assms by (induction rule: rtranclp_induct) (auto intro: production_step_draft)

theorem production_orders_stay_draft_witness:
  "\<exists>tbl. production_step\<^sup>*\<^sup>* [] tbl \<and> tbl \<noteq> [] \<and> orders_draft tbl"
proof -
  have c: "production_order_create_view 2025 0 [bom_ex] pof_ex [] =
      Inr [(apply_production_form pof_ex (new_production_order 0))\<lparr>order_number := ''PROD-2025-00001''\<rparr>]"
    by (simp add: production_order_create_view_def production_save_def production_assign_number_def
        numbering_eval save_row_def compute_planned_end_def apply_production_form_def
        new_production_order_def pof_ex_def bom_ex_def)
  then have "production_step [] [(apply_production_form pof_ex (new_production_order 0))
                                   \<lparr>order_number := ''PROD-2025-00001''\<rparr>]"
    by (rule production_step.create)
  moreover have "orders_draft ([] :: production_order list)" by (simp add: orders_draft_def)
  ultimately show ?thesis using production_orders_stay_draft by blast
qed

text \<open>Completing an order: a successful \<open>complete_production_order\<close> acts on an
  order in progress, marks it completed at the current time and sets the completed
  quantity to the ordered one, so its progress is 100 percent whenever the quantity
  is positive.\<close>

theorem complete_sets_progress:
  assumes "complete_production_order y t boms pk tbl = Inr (ProdFlashSuccess, tbl')"
  shows "pk < length tbl \<and> prod_status (tbl ! pk) = PsInProgress \<and> prod_status (tbl' ! pk) = PsCompleted \<and>
         actual_end (tbl' ! pk) = Some t \<and> completed_quantity (tbl' ! pk) = prod_quantity (tbl ! pk) \<and>
         (0 < prod_quantity (tbl ! pk) \<longrightarrow> progress (tbl' ! pk) = 100)"
proof -
  have pk: "pk < length tbl" and st: "prod_status (tbl ! pk) = PsInProgress"
    and s: "production_save y boms (Some pk)
              ((tbl ! pk)\<lparr>prod_status := PsCompleted, actual_end := Some t,
                 completed_quantity := prod_quantity (tbl ! pk)\<rparr>) tbl = Inr tbl'"
    using assms by (auto simp: complete_production_order_def get_object_or_404_def res_bind_eq_Inr
                        split: if_splits)
  from production_save_Inr [OF s] obtain no pe where
    "tbl' = tbl[pk := (tbl ! pk)\<lparr>prod_status := PsCompleted, actual_end := Some t,
                 completed_quantity := prod_quantity (tbl ! pk), order_number := no, planned_end := pe\<rparr>]"
    by auto
  with pk st show ?thesis by (simp add: progress_def)
qed

theorem complete_sets_progress_witness:
  "complete_production_order 2025 500 [bom_ex] 0
     [(apply_production_form pof_ex (new_production_order 0))\<lparr>order_number := ''PROD-2025-00001'',
        prod_status := PsInProgress\<rparr>] =
   Inr (ProdFlashSuccess, [(apply_production_form pof_ex (new_production_order 0))\<lparr>order_number := ''PROD-2025-00001'',
        prod_status := PsCompleted, actual_end := Some 500, completed_quantity := 10\<rparr>]) \<and>
   progress ((apply_production_form pof_ex (new_production_order 0))\<lparr>order_number := ''PROD-2025-00001'',
        prod_status := PsCompleted, actual_end := Some 500, completed_quantity := 10\<rparr>) = 100"
proof -
  have v: "complete_production_order 2025 500 [bom_ex] 0
     [(apply_production_form pof_ex (new_production_order 0))\<lparr>order_number := ''PROD-2025-00001'',
        prod_status := PsInProgress\<rparr>] =
   Inr (ProdFlashSuccess, [(apply_production_form pof_ex (new_production_order 0))\<lparr>order_number := ''PROD-2025-00001'',
        prod_status := PsCompleted, actual_end := Some 500, completed_quantity := 10\<rparr>])"
    by (simp add: complete_production_order_def get_object_or_404_def production_save_def save_row_def
        compute_planned_end_def apply_production_form_def new_production_order_def pof_ex_def bom_ex_def)
  then show ?thesis using complete_sets_progress [OF v]
    by (simp add: apply_production_form_def new_production_order_def pof_ex_def)
qed

end
