(* ===== verification/Quality.thy ===== *)
theory Quality
  imports Numbering
begin

text \<open>
  Quality control (quality/models.py, quality/views.py, quality/forms.py): quality
  checks with their measured items, parameters with optional limits,
  non-conformance reports; \<open>QualityCheck.save\<close>, \<open>QualityCheckItem.is_within_spec\<close>,
  the create and update views, starting a check, closing a report, the check list
  and the dashboard. The dashboard's \<open>quality_rate\<close> is a float in the code and an
  exact rational here.
\<close>

subsection \<open>Rows\<close>

datatype qc_type = QcIncoming | QcInProcess | QcFinal | QcOutgoing

datatype qc_status = QcPending | QcInProgress | QcPassed | QcFailed | QcQuarantine

datatype reference_type = RefProduction | RefPurchase | RefOther

datatype ncr_status = NcrOpen | NcrInvestigation | NcrCorrective | NcrClosed | NcrRejected

datatype severity = SevMinor | SevMajor | SevCritical

record quality_check =
  qc_number :: string
  qc_type :: qc_type
  reference_type :: reference_type
  qc_production_order :: "nat option"
  inspector :: nat
  inspection_date :: day
  qc_status :: qc_status
  qc_created :: timestamp

record quality_parameter =
  param_name :: string
  min_value :: "decimal option"
  max_value :: "decimal option"
  target_value :: "decimal option"

record qc_item =
  item_parameter :: quality_parameter
  measured_value :: "decimal option"

record ncr =
  ncr_number :: string
  ncr_check :: nat
  severity :: severity
  ncr_status :: ncr_status
  target_date :: "day option"
  completion_date :: "day option"

subsection \<open>Operations\<close>

text \<open>\<open>is_within_spec\<close>: a limit is tested only when it is truthy, so a limit of
  zero (\<open>Decimal('0')\<close> is falsy) is never applied.\<close>

definition is_within_spec :: "qc_item \<Rightarrow> bool" where
  "is_within_spec it =
     (case measured_value it of
        None \<Rightarrow> False
      | Some v \<Rightarrow>
          if (case min_value (item_parameter it) of Some lo \<Rightarrow> lo \<noteq> 0 \<and> v < lo | None \<Rightarrow> False) then False
          else if (case max_value (item_parameter it) of Some hi \<Rightarrow> hi \<noteq> 0 \<and> v > hi | None \<Rightarrow> False)
          then False
          else True)"

text \<open>\<open>QualityCheck.save\<close>: a new check's number comes from \<open>qc_assign_number\<close>,
  which always raises (\<open>timezone\<close> is not imported); the number is unique.\<close>

definition qc_save :: "nat option \<Rightarrow> quality_check \<Rightarrow> quality_check list \<Rightarrow> pyexc + quality_check list" where
  "qc_save pk q tbl =
     res_bind (if qc_number q = [] then qc_assign_number (map qc_number tbl) else Inr (qc_number q))
       (\<lambda>no. save_row qc_number pk (q\<lparr>qc_number := no\<rparr>) tbl)"

record qc_form =
  qf_type :: qc_type
  qf_reference_type :: reference_type
  qf_production_order :: "nat option"
  qf_inspector :: nat
  qf_inspection_date :: day

definition apply_qc_form :: "qc_form \<Rightarrow> quality_check \<Rightarrow> quality_check" where
  "apply_qc_form f q =
     q\<lparr>qc_type := qf_type f, reference_type := qf_reference_type f,
       qc_production_order := qf_production_order f, inspector := qf_inspector f,
       inspection_date := qf_inspection_date f\<rparr>"

text \<open>\<open>QualityCheckCreateView.form_valid\<close> sets the inspector to the user, over the
  form's choice.\<close>

definition qc_create_view :: "nat \<Rightarrow> timestamp \<Rightarrow> qc_form \<Rightarrow> quality_check list \<Rightarrow> pyexc + quality_check list" where
  "qc_create_view user now f tbl =
     qc_save None
       ((apply_qc_form f \<lparr>qc_number = [], qc_type = QcIncoming, reference_type = RefOther,
          qc_production_order = None, inspector = 0, inspection_date = 0, qc_status = QcPending,
          qc_created = now\<rparr>)\<lparr>inspector := user\<rparr>) tbl"

definition qc_update_view :: "nat \<Rightarrow> qc_form \<Rightarrow> quality_check list \<Rightarrow> pyexc + quality_check list" where
  "qc_update_view pk f tbl =
     res_bind (get_object_or_404 pk tbl) (\<lambda>q. qc_save (Some pk) (apply_qc_form f q) tbl)"

datatype qc_flash = QcFlashSuccess | QcFlashError

definition perform_quality_check :: "nat \<Rightarrow> quality_check list \<Rightarrow> pyexc + qc_flash \<times> quality_check list" where
  "perform_quality_check pk tbl =
     res_bind (get_object_or_404 pk tbl) (\<lambda>q.
       if qc_status q = QcPending
       then res_bind (qc_save (Some pk) (q\<lparr>qc_status := QcInProgress\<rparr>) tbl) (\<lambda>tbl'. Inr (QcFlashSuccess, tbl'))
       else Inr (QcFlashError, tbl))"

text \<open>\<open>close_ncr\<close> has no guard; the \<open>DateField\<close> stores the date of
  \<open>timezone.now()\<close>.\<close>

definition close_ncr :: "timestamp \<Rightarrow> nat \<Rightarrow> ncr list \<Rightarrow> pyexc + ncr list" where
  "close_ncr now pk ncrs =
     res_bind (get_object_or_404 pk ncrs) (\<lambda>n.
       save_row ncr_number (Some pk) (n\<lparr>ncr_status := NcrClosed, completion_date := Some (ts_date now)\<rparr>) ncrs)"

text \<open>\<open>NCRCreateView\<close>: \<open>NCRForm\<close> has no \<open>ncr_number\<close> field and nothing assigns
  one, so every report is saved with the empty number into a unique column.\<close>

record ncr_form =
  nf_check :: nat
  nf_severity :: severity
  nf_target_date :: "day option"
  nf_status :: ncr_status

definition ncr_create_view :: "ncr_form \<Rightarrow> ncr list \<Rightarrow> pyexc + ncr list" where
  "ncr_create_view f ncrs =
     save_row ncr_number None
       \<lparr>ncr_number = [], ncr_check = nf_check f, severity = nf_severity f, ncr_status = nf_status f,
        target_date = nf_target_date f, completion_date = None\<rparr> ncrs"

definition ncr_update_view :: "nat \<Rightarrow> ncr_form \<Rightarrow> ncr list \<Rightarrow> pyexc + ncr list" where
  "ncr_update_view pk f ncrs =
     res_bind (get_object_or_404 pk ncrs) (\<lambda>n.
       save_row ncr_number (Some pk)
         (n\<lparr>ncr_check := nf_check f, severity := nf_severity f, ncr_status := nf_status f,
            target_date := nf_target_date f\<rparr>) ncrs)"

subsection \<open>List and dashboard\<close>

definition qc_list :: "qc_type option \<Rightarrow> qc_status option \<Rightarrow> quality_check list \<Rightarrow> quality_check list" where
  "qc_list ty st tbl =
     rev (sort_key qc_created
       (filter (\<lambda>q. (case ty of None \<Rightarrow> True | Some t \<Rightarrow> qc_type q = t) \<and>
                    (case st of None \<Rightarrow> True | Some s \<Rightarrow> qc_status q = s)) tbl))"

definition quality_dashboard :: "quality_check list \<Rightarrow> int \<times> int \<times> int \<times> rat" where
  "quality_dashboard tbl =
     (let total = int (length tbl);
          passed = qs_count (\<lambda>q. qc_status q = QcPassed) tbl;
          failed = qs_count (\<lambda>q. qc_status q = QcFailed) tbl
      in (total, passed, failed, if total > 0 then of_int passed / of_int total * 100 else 0))"

text \<open>The reference reading of a parameter's limits: a measured value within every
  limit that is set.\<close>

definition within_limits :: "quality_parameter \<Rightarrow> decimal \<Rightarrow> bool" where
  "within_limits p v \<longleftrightarrow>
     (case min_value p of None \<Rightarrow> True | Some lo \<Rightarrow> lo \<le> v) \<and>
     (case max_value p of None \<Rightarrow> True | Some hi \<Rightarrow> v \<le> hi)"

subsection \<open>Properties\<close>

text \<open>Where no limit of a parameter is zero, \<open>is_within_spec\<close> accepts a measured value
  exactly when it lies within every limit that is set, the bounds included.\<close>

theorem is_within_spec_nonzero_limits:
  assumes "min_value p \<noteq> Some 0" "max_value p \<noteq> Some 0"
  shows "is_within_spec \<lparr>item_parameter = p, measured_value = Some v\<rparr> \<longleftrightarrow> within_limits p v"
  using assms by (auto simp: is_within_spec_def within_limits_def split: option.splits)

theorem is_within_spec_nonzero_limits_witness:
  "is_within_spec \<lparr>item_parameter = \<lparr>param_name = ''pH'', min_value = Some 6, max_value = Some 8, target_value = Some 7\<rparr>,
                    measured_value = Some 8\<rparr> \<and>
   \<not> is_within_spec \<lparr>item_parameter = \<lparr>param_name = ''pH'', min_value = Some 6, max_value = Some 8, target_value = Some 7\<rparr>,
                    measured_value = Some 9\<rparr>"
  using is_within_spec_nonzero_limits [of "\<lparr>param_name = ''pH'', min_value = Some 6, max_value = Some 8, target_value = Some 7\<rparr>" 8]
        is_within_spec_nonzero_limits [of "\<lparr>param_name = ''pH'', min_value = Some 6, max_value = Some 8, target_value = Some 7\<rparr>" 9]
  by (simp add: within_limits_def)

text \<open>A limit of zero is never applied: a negative reading passes a minimum of zero.\<close>

lemma is_within_spec_zero_min:
  "is_within_spec \<lparr>item_parameter = \<lparr>param_name = ''temp'', min_value = Some 0, max_value = None, target_value = None\<rparr>,
                    measured_value = Some (-5)\<rparr> \<and>
   \<not> within_limits \<lparr>param_name = ''temp'', min_value = Some 0, max_value = None, target_value = None\<rparr> (-5)"
  by (simp add: is_within_spec_def within_limits_def)

end
