(* ===== verification/PayrollSummary.thy ===== *)
theory PayrollSummary
  imports PayrollModel HrModel
begin

text \<open>
  The payroll dashboard summary (\<open>GetPayrollSummaryView\<close> in payroll/views.py): the
  twelve monthly totals of paid payrolls for the current year, the per-department
  totals, the total paid and the number of draft payrolls. Python's calendar is
  modelled by \<open>date_of_day\<close>, which reads a day number (days since 1970-01-01)
  as a proleptic Gregorian date by walking the years of its 400-year cycle and the
  months of its year.
\<close>

subsection \<open>Calendar\<close>
definition is_leap :: "int \<Rightarrow> bool" where
  "is_leap y \<longleftrightarrow> (y mod 4 = 0 \<and> y mod 100 \<noteq> 0) \<or> y mod 400 = 0"

definition year_len :: "int \<Rightarrow> int" where
  "year_len y = (if is_leap y then 366 else 365)"

fun year_walk :: "nat \<Rightarrow> int \<Rightarrow> int \<Rightarrow> int \<times> int" where
  "year_walk 0 y r = (y, r)"
| "year_walk (Suc n) y r = (if r < year_len y then (y, r) else year_walk n (y + 1) (r - year_len y))"

definition month_lens :: "int \<Rightarrow> int list" where
  "month_lens y = [31, if is_leap y then 29 else 28, 31, 30, 31, 30, 31, 31, 30, 31, 30, 31]"

fun month_walk :: "int list \<Rightarrow> int \<Rightarrow> int \<Rightarrow> int \<times> int" where
  "month_walk [] m r = (m, r)"
| "month_walk [l] m r = (m, r)"
| "month_walk (l # ls) m r = (if r < l then (m, r) else month_walk ls (m + 1) (r - l))"

definition date_of_day :: "day \<Rightarrow> int \<times> int \<times> int" where
  "date_of_day d =
     (let z = d - 10957;
          (y, r) = year_walk 400 (2000 + 400 * (z div 146097)) (z mod 146097);
          (m, r') = month_walk (month_lens y) 1 r
      in (y, m, r' + 1))"

definition day_year :: "day \<Rightarrow> int" where "day_year d = fst (date_of_day d)"
definition day_month :: "day \<Rightarrow> int" where "day_month d = fst (snd (date_of_day d))"

subsection \<open>The summary view\<close>
definition month_abbr :: "int \<Rightarrow> string" where
  "month_abbr m = [''Jan'', ''Feb'', ''Mar'', ''Apr'', ''May'', ''Jun'', ''Jul'', ''Aug'', ''Sep'', ''Oct'', ''Nov'', ''Dec''] ! nat (m - 1)"

definition period_start_of :: "payroll_period list \<Rightarrow> payroll \<Rightarrow> day option" where
  "period_start_of periods p = (if pr_period p < length periods then Some (period_start (periods ! pr_period p)) else None)"

definition paid_in_year :: "payroll_period list \<Rightarrow> int \<Rightarrow> payroll \<Rightarrow> bool" where
  "paid_in_year periods y p \<longleftrightarrow>
     pr_status p = Paid \<and> (case period_start_of periods p of Some d \<Rightarrow> day_year d = y | None \<Rightarrow> False)"

definition start_month :: "payroll_period list \<Rightarrow> payroll \<Rightarrow> int" where
  "start_month periods p = (case period_start_of periods p of Some d \<Rightarrow> day_month d | None \<Rightarrow> 0)"

definition paid_in_month :: "payroll_period list \<Rightarrow> int \<Rightarrow> int \<Rightarrow> payroll \<Rightarrow> bool" where
  "paid_in_month periods y m p \<longleftrightarrow> paid_in_year periods y p \<and> start_month periods p = m"

record summary_entry =
  se_label :: string
  se_amount :: decimal
  se_count :: int

definition summary_entry_of :: "string \<Rightarrow> payroll list \<Rightarrow> summary_entry" where
  "summary_entry_of l sel = \<lparr>se_label = l, se_amount = sum_list (map net_salary sel), se_count = int (length sel)\<rparr>"

function monthly_loop :: "int \<Rightarrow> payroll_period list \<Rightarrow> payroll list \<Rightarrow> int \<Rightarrow> summary_entry list" where
  "monthly_loop y periods ps m =
     (if 12 < m then []
      else summary_entry_of (month_abbr m) (filter (paid_in_month periods y m) ps)
           # monthly_loop y periods ps (m + 1))"
  by pat_completeness auto
termination by (relation "measure (\<lambda>(_, _, _, m). nat (13 - m))") auto

declare monthly_loop.simps [simp del]

definition employee_department :: "employee list \<Rightarrow> payroll \<Rightarrow> nat option" where
  "employee_department emps p = map_option emp_department (find (\<lambda>e. emp_pk e = pr_employee p) emps)"

definition department_summary :: "int \<Rightarrow> string list \<Rightarrow> employee list \<Rightarrow> payroll_period list \<Rightarrow> payroll list \<Rightarrow> summary_entry list" where
  "department_summary y depts emps periods ps =
     concat (map (\<lambda>(i, name).
       let sel = filter (\<lambda>p. employee_department emps p = Some i \<and> paid_in_year periods y p) ps
       in if sel = [] then [] else [summary_entry_of name sel]) (enumerate 0 depts))"

record payroll_summary =
  monthly_summary :: "summary_entry list"
  dept_summary :: "summary_entry list"
  total_paid :: decimal
  pending_payrolls :: int

definition get_payroll_summary_view :: "timestamp \<Rightarrow> string option \<Rightarrow> string list \<Rightarrow> employee list \<Rightarrow> payroll_period list \<Rightarrow> payroll list \<Rightarrow> pyexc + payroll_summary" where
  "get_payroll_summary_view now year_param depts emps periods ps =
     (case year_param of
        Some _ \<Rightarrow> Inl TypeError
      | None \<Rightarrow>
          let y = day_year (ts_date now)
          in Inr \<lparr>monthly_summary = monthly_loop y periods ps 1,
                  dept_summary = department_summary y depts emps periods ps,
                  total_paid = sum_list (map net_salary (filter (\<lambda>p. pr_status p = Paid) ps)),
                  pending_payrolls = qs_count (\<lambda>p. pr_status p = Draft) ps\<rparr>)"

subsection \<open>Properties\<close>

lemma month_walk_range: "ls \<noteq> [] \<Longrightarrow> m \<le> fst (month_walk ls m r) \<and> fst (month_walk ls m r) \<le> m + int (length ls) - 1"
  by (induction ls m r rule: month_walk.induct) auto

lemma month_walk_lens_range: "1 \<le> fst (month_walk (month_lens y) 1 r) \<and> fst (month_walk (month_lens y) 1 r) \<le> 12"
  using month_walk_range [of "month_lens y" 1 r] by (simp add: month_lens_def)

lemma day_month_range: "1 \<le> day_month d \<and> day_month d \<le> 12"
  using month_walk_lens_range
  by (auto simp add: day_month_def date_of_day_def Let_def split: prod.splits) (metis fst_conv)+


lemma sum_filter_partition:
  assumes "\<And>p. P p \<Longrightarrow> f p \<in> K" "finite K"
  shows "(\<Sum>k\<in>K. sum_list (map g (filter (\<lambda>p. P p \<and> f p = k) xs))) = (sum_list (map g (filter P xs)) :: 'b :: comm_monoid_add)"
  using assms(1)
proof (induction xs)
  case Nil then show ?case by simp
next
  case (Cons a xs)
  have "(\<Sum>k\<in>K. sum_list (map g (filter (\<lambda>p. P p \<and> f p = k) (a # xs)))) =
        (\<Sum>k\<in>K. (if P a \<and> f a = k then g a else 0)) + (\<Sum>k\<in>K. sum_list (map g (filter (\<lambda>p. P p \<and> f p = k) xs)))"
    by (subst sum.distrib [symmetric]) (rule sum.cong, auto)
  also have "\<dots> = (if P a then g a else 0) + sum_list (map g (filter P xs))"
    using Cons assms(2) by (simp add: sum.delta)
  finally show ?case by simp
qed

lemma monthly_loop_amounts: "sum_list (map se_amount (monthly_loop y periods ps m)) = (\<Sum>k\<in>{m..12}. sum_list (map net_salary (filter (paid_in_month periods y k) ps)))"
proof (induction y periods ps m rule: monthly_loop.induct)
  case (1 y periods ps m)
  show ?case
  proof (cases "12 < m")
    case False
    then have "{m..12} = insert m {m + 1..12}" by auto
    with 1 False show ?thesis by (subst monthly_loop.simps) (simp add: summary_entry_of_def)
  qed (subst monthly_loop.simps, simp)
qed

text \<open>The twelve monthly amounts of the payroll summary add up to the net salary of
  all paid payrolls whose period starts in the year: every such payroll is counted in
  exactly one month.\<close>

theorem monthly_amounts_total: "sum_list (map se_amount (monthly_loop y periods ps 1)) = sum_list (map net_salary (filter (paid_in_year periods y) ps))"
  unfolding monthly_loop_amounts paid_in_month_def
  by (rule sum_filter_partition) (use day_month_range in \<open>auto simp: paid_in_year_def start_month_def split: option.splits\<close>)

end
