(* ===== verification/Inventory.thy ===== *)
theory Inventory
  imports Prelude "HOL-Library.AList" "HOL-Library.List_Lexorder" "HOL-Library.Char_ord"
begin

text \<open>
  The inventory app (inventory/models.py, inventory/views.py, inventory/forms.py):
  products, warehouses, stock rows and stock transactions; the product list with its
  filters, product create, update and delete, and the stock list. Rows whose tables
  lose rows (products are deleted) are association lists from primary key to row;
  new keys come from the table's sequence, so a key is never reused. A \<open>POST\<close> whose
  \<open>ProductForm\<close> does not validate re-renders the form and writes nothing. The
  paginator and the \<open>GET\<close> branches only render and are not modelled.
\<close>

subsection \<open>Rows\<close>

datatype product_kind = KindRaw | KindFinished | KindSemi | KindConsumable

datatype transaction_type = TxIn | TxOut | TxAdj | TxTrf

type_synonym 'a table = "(nat \<times> 'a) list"

record category =
  cat_name :: string
  cat_parent :: "nat option"

record product =
  sku :: string
  product_name :: string
  product_description :: string
  product_category :: "nat option"
  product_uom :: nat
  product_kind :: product_kind
  min_stock :: decimal
  max_stock :: decimal
  product_active :: bool
  product_created :: timestamp
  product_created_by :: "nat option"
  product_updated_by :: "nat option"

record warehouse =
  wh_name :: string
  wh_code :: string
  wh_active :: bool

record stock =
  st_product :: nat
  st_warehouse :: nat
  st_quantity :: decimal
  st_reserved :: decimal

record stock_transaction =
  tx_type :: transaction_type
  tx_product :: nat
  tx_warehouse :: nat
  tx_quantity :: decimal
  tx_reference :: string

text \<open>The tables of the app; \<open>inv_product_seq\<close> is the product table's id sequence.\<close>

record inventory_db =
  inv_categories :: "category table"
  inv_uoms :: "nat list"
  inv_products :: "product table"
  inv_product_seq :: nat
  inv_warehouses :: "warehouse table"
  inv_stocks :: "stock table"
  inv_transactions :: "stock_transaction table"

definition available_quantity :: "stock \<Rightarrow> decimal" where
  "available_quantity s = st_quantity s - st_reserved s"

subsection \<open>Product form\<close>

record product_form =
  pf_sku :: string
  pf_name :: string
  pf_description :: string
  pf_category :: "nat option"
  pf_kind :: product_kind
  pf_uom :: nat
  pf_min_stock :: decimal
  pf_max_stock :: decimal
  pf_active :: bool

text \<open>\<open>ProductForm.is_valid()\<close>: SKU, name and unit are required, the foreign keys
  must name existing rows and the SKU must be unique among the other products
  (\<open>validate_unique\<close> excludes the instance being edited). Nothing compares the
  minimum and maximum stock.\<close>

definition product_form_valid :: "inventory_db \<Rightarrow> nat option \<Rightarrow> product_form \<Rightarrow> bool" where
  "product_form_valid db self f \<longleftrightarrow>
     pf_sku f \<noteq> [] \<and> pf_name f \<noteq> [] \<and>
     (case pf_category f of None \<Rightarrow> True | Some c \<Rightarrow> c \<in> set (map fst (inv_categories db))) \<and>
     pf_uom f \<in> set (inv_uoms db) \<and>
     pf_sku f \<notin> set (map (sku \<circ> snd) (filter (\<lambda>(k, _). Some k \<noteq> self) (inv_products db)))"

definition apply_product_form :: "product_form \<Rightarrow> product \<Rightarrow> product" where
  "apply_product_form f p =
     p\<lparr>sku := pf_sku f, product_name := pf_name f, product_description := pf_description f,
       product_category := pf_category f, product_kind := pf_kind f, product_uom := pf_uom f,
       min_stock := pf_min_stock f, max_stock := pf_max_stock f, product_active := pf_active f\<rparr>"

text \<open>A product as \<open>Product()\<close> builds it before the form is applied.\<close>

definition new_product :: "timestamp \<Rightarrow> product" where
  "new_product now =
     \<lparr>sku = [], product_name = [], product_description = [], product_category = None, product_uom = 0,
      product_kind = KindRaw, min_stock = 0, max_stock = 0, product_active = True,
      product_created = now, product_created_by = None, product_updated_by = None\<rparr>"

datatype inv_response = InvRedirect | InvFormInvalid

subsection \<open>Product views\<close>

definition product_create :: "nat \<Rightarrow> timestamp \<Rightarrow> product_form \<Rightarrow> inventory_db \<Rightarrow> inv_response \<times> inventory_db" where
  "product_create user now f db =
     (if product_form_valid db None f
      then (let k = inv_product_seq db;
                p = (apply_product_form f (new_product now))\<lparr>product_created_by := Some user\<rparr>
            in (InvRedirect, db\<lparr>inv_products := inv_products db @ [(k, p)], inv_product_seq := Suc k\<rparr>))
      else (InvFormInvalid, db))"

definition product_update :: "nat \<Rightarrow> nat \<Rightarrow> product_form \<Rightarrow> inventory_db \<Rightarrow> pyexc + inv_response \<times> inventory_db" where
  "product_update user pk f db =
     (case map_of (inv_products db) pk of
        None \<Rightarrow> Inl Http404
      | Some p \<Rightarrow>
          if product_form_valid db (Some pk) f
          then Inr (InvRedirect,
                    db\<lparr>inv_products := AList.update pk ((apply_product_form f p)\<lparr>product_updated_by := Some user\<rparr>)
                                        (inv_products db)\<rparr>)
          else Inr (InvFormInvalid, db))"

text \<open>\<open>product.delete()\<close>: a \<open>StockTransaction\<close> refers to its product with
  \<open>on_delete=PROTECT\<close>, so the collector raises \<open>ProtectedError\<close> before deleting
  anything; otherwise the product goes and its \<open>Stock\<close> rows (\<open>CASCADE\<close>) with it.\<close>

definition product_delete :: "nat \<Rightarrow> inventory_db \<Rightarrow> pyexc + inventory_db" where
  "product_delete pk db =
     (case map_of (inv_products db) pk of
        None \<Rightarrow> Inl Http404
      | Some _ \<Rightarrow>
          if pk \<in> set (map (tx_product \<circ> snd) (inv_transactions db)) then Inl ProtectedError
          else Inr (db\<lparr>inv_products := AList.delete pk (inv_products db),
                      inv_stocks := filter (\<lambda>x. st_product (snd x) \<noteq> pk) (inv_stocks db)\<rparr>))"

subsection \<open>Lists\<close>

text \<open>\<open>product_list\<close>: the search matches SKU, name or description case-insensitively;
  \<open>active\<close> filters only on the strings \<open>true\<close> and \<open>false\<close>; newest first.\<close>

definition product_list :: "string \<Rightarrow> nat option \<Rightarrow> product_kind option \<Rightarrow> string \<Rightarrow> inventory_db \<Rightarrow> (nat \<times> product) list" where
  "product_list search cat kind active db =
     rev (sort_key (product_created \<circ> snd)
       (filter (\<lambda>(_, p).
           (search = [] \<or> icontains (sku p) search \<or> icontains (product_name p) search \<or>
              icontains (product_description p) search) \<and>
           (case cat of None \<Rightarrow> True | Some c \<Rightarrow> product_category p = Some c) \<and>
           (case kind of None \<Rightarrow> True | Some t \<Rightarrow> product_kind p = t) \<and>
           (if active = ''true'' then product_active p
            else if active = ''false'' then \<not> product_active p else True))
         (inv_products db)))"

text \<open>\<open>stock_list\<close>: stock rows joined with their product, filtered by the product's
  SKU or name and by warehouse, ordered by product name.\<close>

definition stock_list :: "string \<Rightarrow> nat option \<Rightarrow> inventory_db \<Rightarrow> (stock \<times> product) list" where
  "stock_list search wh db =
     sort_key (product_name \<circ> snd)
       (List.map_filter (\<lambda>(_, s). map_option (Pair s) (map_of (inv_products db) (st_product s)))
          (filter (\<lambda>(_, s). case map_of (inv_products db) (st_product s) of
                       None \<Rightarrow> False
                     | Some p \<Rightarrow> (search = [] \<or> icontains (sku p) search \<or> icontains (product_name p) search) \<and>
                                 (case wh of None \<Rightarrow> True | Some w \<Rightarrow> st_warehouse s = w))
             (inv_stocks db)))"

subsection \<open>The handlers as steps\<close>

inductive inventory_step :: "inventory_db \<Rightarrow> inventory_db \<Rightarrow> bool" where
  create: "product_create u t f db = (r, db') \<Longrightarrow> inventory_step db db'"
| update: "product_update u pk f db = Inr (r, db') \<Longrightarrow> inventory_step db db'"
| delete: "product_delete pk db = Inr db' \<Longrightarrow> inventory_step db db'"

text \<open>Referential integrity of the tables: keys are distinct and below the sequence,
  SKUs are unique, every stock row and every transaction names an existing product,
  and a product has one stock row per warehouse.\<close>

definition inventory_ok :: "inventory_db \<Rightarrow> bool" where
  "inventory_ok db \<longleftrightarrow>
     distinct (map fst (inv_products db)) \<and>
     list_all (\<lambda>k. k < inv_product_seq db) (map fst (inv_products db)) \<and>
     distinct (map (sku \<circ> snd) (inv_products db)) \<and>
     set (map (st_product \<circ> snd) (inv_stocks db)) \<subseteq> set (map fst (inv_products db)) \<and>
     set (map (tx_product \<circ> snd) (inv_transactions db)) \<subseteq> set (map fst (inv_products db)) \<and>
     distinct (map ((\<lambda>s. (st_product s, st_warehouse s)) \<circ> snd) (inv_stocks db))"

text \<open>An empty inventory with one unit of measure, and a product form for it.\<close>

definition inv_ex :: inventory_db where
  "inv_ex = \<lparr>inv_categories = [], inv_uoms = [1], inv_products = [], inv_product_seq = 1,
             inv_warehouses = [], inv_stocks = [], inv_transactions = []\<rparr>"

definition pf_ex :: product_form where
  "pf_ex = \<lparr>pf_sku = ''SKU-1'', pf_name = ''Bolt'', pf_description = [], pf_category = None,
            pf_kind = KindRaw, pf_uom = 1, pf_min_stock = 10, pf_max_stock = 100, pf_active = True\<rparr>"

subsection \<open>Properties\<close>

lemma set_update_subset: "set (AList.update k v al) \<subseteq> insert (k, v) (set al)"
  by (induction al) auto

lemma distinct_update_image:
  assumes "distinct (map fst al)" "distinct (map (f \<circ> snd) al)"
    and "f v \<notin> set (map (f \<circ> snd) (filter (\<lambda>(k', _). Some k' \<noteq> Some k) al))"
  shows "distinct (map (f \<circ> snd) (AList.update k v al))"
  using assms
proof (induction al)
  case (Cons p ps)
  show ?case
  proof (cases "fst p = k")
    case True
    with Cons.prems(1) have "\<forall>q\<in>set ps. fst q \<noteq> k" by (fastforce simp: image_iff)
    then have "filter (\<lambda>(k', _). Some k' \<noteq> Some k) ps = ps"
      by (auto simp: filter_id_conv split_def)
    with True Cons.prems show ?thesis by auto
  next
    case False
    with Cons.prems have "f (snd p) \<noteq> f v" by (auto split: prod.splits)
    moreover have "f (snd p) \<notin> (f \<circ> snd) ` set ps" using Cons.prems(2) by auto
    ultimately have "f (snd p) \<notin> set (map (f \<circ> snd) (AList.update k v ps))"
      using set_update_subset [of k v ps] by auto
    with False Cons show ?thesis by (auto split: prod.splits)
  qed
qed simp

lemma product_create_ok:
  assumes "inventory_ok db" "product_create u t f db = (r, db')"
  shows "inventory_ok db'"
proof (cases "product_form_valid db None f")
  case True
  let ?ps = "inv_products db" and ?k = "inv_product_seq db"
  obtain p where db': "db' = db\<lparr>inv_products := ?ps @ [(?k, p)], inv_product_seq := Suc ?k\<rparr>"
    and sp: "sku p = pf_sku f"
    using assms(2) True by (auto simp: product_create_def Let_def apply_product_form_def)
  have v: "sku p \<notin> set (map (sku \<circ> snd) ?ps)"
    using True sp by (simp add: product_form_valid_def split_def)
  have lt: "list_all (\<lambda>k. k < ?k) (map fst ?ps)" using assms(1) by (simp add: inventory_ok_def)
  then have "?k \<notin> set (map fst ?ps)" by (auto simp: list_all_iff)
  moreover have "list_all (\<lambda>k. k < Suc ?k) (map fst ?ps)" using lt by (auto simp: list_all_iff)
  ultimately show ?thesis using assms(1) v by (auto simp: db' inventory_ok_def)
qed (use assms in \<open>simp add: product_create_def\<close>)

lemma product_update_ok:
  assumes "inventory_ok db" "product_update u pk f db = Inr (r, db')"
  shows "inventory_ok db'"
proof -
  obtain p where p: "map_of (inv_products db) pk = Some p"
    using assms(2) by (auto simp: product_update_def split: option.splits)
  then have k: "pk \<in> set (map fst (inv_products db))"
    by (metis map_of_eq_None_iff option.distinct(1) set_map)
  show ?thesis
  proof (cases "product_form_valid db (Some pk) f")
    case True
    let ?q = "(apply_product_form f p)\<lparr>product_updated_by := Some u\<rparr>"
    have db': "db' = db\<lparr>inv_products := AList.update pk ?q (inv_products db)\<rparr>"
      using assms(2) p True by (simp add: product_update_def)
    have keys: "map fst (AList.update pk ?q (inv_products db)) = map fst (inv_products db)"
      using k by (simp add: update_keys)
    have "distinct (map (sku \<circ> snd) (AList.update pk ?q (inv_products db)))"
      using assms(1) True
      by (intro distinct_update_image) (auto simp: inventory_ok_def product_form_valid_def apply_product_form_def)
    with assms(1) keys show ?thesis by (simp add: db' inventory_ok_def)
  qed (use assms p in \<open>simp add: product_update_def\<close>)
qed

lemma product_delete_ok:
  assumes "inventory_ok db" "product_delete pk db = Inr db'"
  shows "inventory_ok db'"
proof -
  let ?ps = "inv_products db"
  have nt: "pk \<notin> set (map (tx_product \<circ> snd) (inv_transactions db))"
    and db': "db' = db\<lparr>inv_products := AList.delete pk ?ps,
                       inv_stocks := filter (\<lambda>x. st_product (snd x) \<noteq> pk) (inv_stocks db)\<rparr>"
    using assms(2) by (auto simp: product_delete_def split: option.splits if_splits)
  have keys: "set (map fst (AList.delete pk ?ps)) = set (map fst ?ps) - {pk}"
    by (simp add: delete_keys)
  have "distinct (map (sku \<circ> snd) (AList.delete pk ?ps))"
    using assms(1) by (simp add: inventory_ok_def AList.delete_eq distinct_map_filter)
  moreover have "distinct (map fst (AList.delete pk ?ps))"
    using assms(1) by (simp add: inventory_ok_def distinct_delete)
  moreover have "set (map (st_product \<circ> snd) (filter (\<lambda>x. st_product (snd x) \<noteq> pk) (inv_stocks db)))
                   \<subseteq> set (map fst (AList.delete pk ?ps))"
    using assms(1) unfolding keys by (auto simp: inventory_ok_def)
  moreover have "set (map (tx_product \<circ> snd) (inv_transactions db)) \<subseteq> set (map fst (AList.delete pk ?ps))"
    using assms(1) nt unfolding keys by (auto simp: inventory_ok_def)
  ultimately show ?thesis
    using assms(1) by (auto simp: db' inventory_ok_def list_all_iff delete_keys distinct_map_filter)
qed

lemma inventory_step_ok: "inventory_step db db' \<Longrightarrow> inventory_ok db \<Longrightarrow> inventory_ok db'"
  by (induction rule: inventory_step.induct) (auto intro: product_create_ok product_update_ok product_delete_ok)

text \<open>C23 Every sequence of product creates, updates and deletes keeps the inventory
  tables consistent: distinct keys below the id sequence, unique SKUs, stock rows and
  transactions that name existing products, one stock row per product and warehouse.\<close>

theorem inventory_reachable_ok:
  assumes "inventory_step\<^sup>*\<^sup>* db db'" "inventory_ok db"
  shows "inventory_ok db'"
  using assms by (induction rule: rtranclp_induct) (auto intro: inventory_step_ok)

theorem inventory_reachable_ok_witness:
  "inventory_ok (snd (product_create 7 100 pf_ex inv_ex)) \<and>
   map (sku \<circ> snd) (inv_products (snd (product_create 7 100 pf_ex inv_ex))) = [''SKU-1'']"
proof -
  have "inventory_step inv_ex (snd (product_create 7 100 pf_ex inv_ex))"
    by (rule inventory_step.create [of 7 100 pf_ex inv_ex "fst (product_create 7 100 pf_ex inv_ex)"]) simp
  then have "inventory_step\<^sup>*\<^sup>* inv_ex (snd (product_create 7 100 pf_ex inv_ex))" by simp
  moreover have "inventory_ok inv_ex" by (simp add: inventory_ok_def inv_ex_def)
  ultimately have "inventory_ok (snd (product_create 7 100 pf_ex inv_ex))" by (rule inventory_reachable_ok)
  moreover have "map (sku \<circ> snd) (inv_products (snd (product_create 7 100 pf_ex inv_ex))) = [''SKU-1'']"
    by (simp add: product_create_def product_form_valid_def inv_ex_def pf_ex_def apply_product_form_def)
  ultimately show ?thesis by simp
qed

end
