(* ===== verification/HrViews.thy ===== *)
theory HrViews
  imports HrModel Numbering
begin

text \<open>
  The HR views of hr/views.py that write or summarise rows: \<open>mark_attendance\<close>
  (\<open>get_or_create\<close> on employee and day), \<open>today_attendance\<close>, the leave
  application (\<open>LeaveApplication.save\<close>, \<open>LeaveApplicationCreateView\<close>,
  \<open>approve_leave\<close>, \<open>reject_leave\<close>), the attendance and leave lists and
  \<open>hr_dashboard\<close>. Times of day are seconds after midnight. The status posted to
  \<open>mark_attendance\<close> is one of the template's five choices or missing; the view
  itself stores any string unvalidated.
\<close>

subsection \<open>Leave applications\<close>

datatype leave_status = LeavePending | LeaveApproved | LeaveRejected | LeaveCancelled

record leave_application =
  application_number :: string
  la_employee :: nat
  la_leave_type :: nat
  la_start :: day
  la_end :: day
  total_days :: int
  la_status :: leave_status
  la_approved_by :: "nat option"
  la_approved_date :: "timestamp option"
  la_created :: timestamp

text \<open>\<open>LeaveApplication.save\<close>: a new application is numbered from the last row of
  the table; \<open>total_days\<close> is recomputed on every save as the inclusive length of
  the range, whatever the order of the dates.\<close>

definition leave_save :: "int \<Rightarrow> nat option \<Rightarrow> leave_application \<Rightarrow> leave_application list \<Rightarrow>
    pyexc + leave_application list" where
  "leave_save year pk la tbl =
     res_bind (if application_number la = [] then leave_assign_number year (map application_number tbl)
               else Inr (application_number la))
       (\<lambda>no. save_row application_number pk
               (la\<lparr>application_number := no, total_days := la_end la - la_start la + 1\<rparr>) tbl)"

record leave_form =
  lf_leave_type :: nat
  lf_start :: day
  lf_end :: day

datatype hr_response = HrRedirect | HrFormInvalid

text \<open>\<open>LeaveApplicationCreateView.form_valid\<close>: the applicant is the user's employee
  profile; a user without one gets the form back.\<close>

definition leave_create_view :: "int \<Rightarrow> timestamp \<Rightarrow> nat option \<Rightarrow> leave_form \<Rightarrow> leave_application list \<Rightarrow>
    pyexc + hr_response \<times> leave_application list" where
  "leave_create_view year now user_employee f tbl =
     (case user_employee of
        None \<Rightarrow> Inr (HrFormInvalid, tbl)
      | Some e \<Rightarrow>
          res_bind (leave_save year None
                      \<lparr>application_number = [], la_employee = e, la_leave_type = lf_leave_type f,
                       la_start = lf_start f, la_end = lf_end f, total_days = 0, la_status = LeavePending,
                       la_approved_by = None, la_approved_date = None, la_created = now\<rparr> tbl)
            (\<lambda>tbl'. Inr (HrRedirect, tbl')))"

datatype hr_flash = HrFlashSuccess | HrFlashError

text \<open>\<open>approve_leave\<close> and \<open>reject_leave\<close>: only a pending application changes; both
  record the user and the time.\<close>

definition decide_leave :: "leave_status \<Rightarrow> int \<Rightarrow> nat \<Rightarrow> timestamp \<Rightarrow> nat \<Rightarrow> leave_application list \<Rightarrow>
    pyexc + hr_flash \<times> leave_application list" where
  "decide_leave decision year user now pk tbl =
     res_bind (get_object_or_404 pk tbl) (\<lambda>la.
       if la_status la = LeavePending
       then res_bind (leave_save year (Some pk)
                        (la\<lparr>la_status := decision, la_approved_by := Some user, la_approved_date := Some now\<rparr>) tbl)
              (\<lambda>tbl'. Inr (HrFlashSuccess, tbl'))
       else Inr (HrFlashError, tbl))"

definition approve_leave :: "int \<Rightarrow> nat \<Rightarrow> timestamp \<Rightarrow> nat \<Rightarrow> leave_application list \<Rightarrow>
    pyexc + hr_flash \<times> leave_application list" where
  "approve_leave = decide_leave LeaveApproved"

definition reject_leave :: "int \<Rightarrow> nat \<Rightarrow> timestamp \<Rightarrow> nat \<Rightarrow> leave_application list \<Rightarrow>
    pyexc + hr_flash \<times> leave_application list" where
  "reject_leave = decide_leave LeaveRejected"

definition leave_list :: "leave_status option \<Rightarrow> leave_application list \<Rightarrow> leave_application list" where
  "leave_list st tbl =
     rev (sort_key la_created (filter (\<lambda>la. case st of None \<Rightarrow> True | Some s \<Rightarrow> la_status la = s) tbl))"

subsection \<open>Attendance\<close>

text \<open>The position of the first row satisfying \<open>P\<close>, or the length of the list.\<close>

definition first_index :: "('a \<Rightarrow> bool) \<Rightarrow> 'a list \<Rightarrow> nat" where
  "first_index P xs = length (takeWhile (\<lambda>x. \<not> P x) xs)"

text \<open>\<open>Attendance.objects.get_or_create(employee=e, date=today, defaults=...)\<close>
  followed, for an existing row, by the assignments and \<open>save()\<close>. A missing status
  violates the column's \<open>NOT NULL\<close>; two matching rows make \<open>get\<close> raise.\<close>

definition update_marked :: "attendance_status \<Rightarrow> int option \<Rightarrow> int option \<Rightarrow> attendance \<Rightarrow> attendance" where
  "update_marked s cin cout a =
     (let a1 = a\<lparr>att_status := s\<rparr>;
          a2 = (case cin of None \<Rightarrow> a1 | Some t \<Rightarrow> a1\<lparr>check_in := Some t\<rparr>)
      in case cout of None \<Rightarrow> a2 | Some t \<Rightarrow> a2\<lparr>check_out := Some t\<rparr>)"

definition mark_attendance :: "timestamp \<Rightarrow> string \<Rightarrow> attendance_status option \<Rightarrow> int option \<Rightarrow> int option \<Rightarrow>
    employee list \<Rightarrow> attendance list \<Rightarrow> pyexc + attendance list" where
  "mark_attendance now eid status cin cout emps atts =
     (case find (\<lambda>e. employee_id e = eid) emps of
        None \<Rightarrow> Inl Http404
      | Some e \<Rightarrow>
          (let P = (\<lambda>a. att_employee a = emp_pk e \<and> att_date a = ts_date now)
           in if 1 < length (filter P atts) then Inl MultipleObjectsReturned
              else (case status of
                      None \<Rightarrow> Inl IntegrityError
                    | Some s \<Rightarrow>
                        if first_index P atts < length atts
                        then Inr (atts[first_index P atts := update_marked s cin cout (atts ! first_index P atts)])
                        else Inr (atts @ [\<lparr>att_employee = emp_pk e, att_date = ts_date now, att_status = s,
                                            overtime_hours = 0, check_in = cin, check_out = cout\<rparr>]))))"

abbreviation att_key :: "attendance \<Rightarrow> nat \<times> day" where
  "att_key a \<equiv> (att_employee a, att_date a)"

definition nine_oclock :: int where "nine_oclock = 9 * 3600"

definition is_late :: "attendance \<Rightarrow> bool" where
  "is_late a \<longleftrightarrow> att_status a = AttPresent \<and> (case check_in a of Some t \<Rightarrow> nine_oclock < t | None \<Rightarrow> False)"

record today_summary =
  ts_attendances :: "attendance list"
  ts_unmarked :: "employee list"
  ts_present :: int
  ts_absent :: int
  ts_late :: int

definition today_attendance :: "timestamp \<Rightarrow> employee list \<Rightarrow> attendance list \<Rightarrow> today_summary" where
  "today_attendance now emps atts =
     (let recs = filter (\<lambda>a. att_date a = ts_date now) atts;
          marked = map att_employee recs
      in \<lparr>ts_attendances = recs,
          ts_unmarked = filter (\<lambda>e. employment_status e = EmpActive \<and> emp_pk e \<notin> set marked) emps,
          ts_present = qs_count (\<lambda>a. att_status a = AttPresent) recs,
          ts_absent = qs_count (\<lambda>a. att_status a = AttAbsent) recs,
          ts_late = qs_count is_late recs\<rparr>)"

definition attendance_list :: "day option \<Rightarrow> nat option \<Rightarrow> attendance list \<Rightarrow> attendance list" where
  "attendance_list d emp atts =
     rev (sort_key att_date
       (filter (\<lambda>a. (case d of None \<Rightarrow> True | Some x \<Rightarrow> att_date a = x) \<and>
                    (case emp of None \<Rightarrow> True | Some k \<Rightarrow> att_employee a = k)) atts))"

record hr_dashboard_data =
  hd_total :: int
  hd_active :: int
  hd_on_leave :: int
  hd_present :: int
  hd_absent :: int
  hd_late :: int
  hd_pending_leaves :: int

definition hr_dashboard :: "timestamp \<Rightarrow> employee list \<Rightarrow> attendance list \<Rightarrow> leave_application list \<Rightarrow> hr_dashboard_data" where
  "hr_dashboard now emps atts leaves =
     (let recs = filter (\<lambda>a. att_date a = ts_date now) atts
      in \<lparr>hd_total = int (length emps),
          hd_active = qs_count (\<lambda>e. employment_status e = EmpActive) emps,
          hd_on_leave = qs_count (\<lambda>e. employment_status e = EmpOnLeave) emps,
          hd_present = qs_count (\<lambda>a. att_status a = AttPresent) recs,
          hd_absent = qs_count (\<lambda>a. att_status a = AttAbsent) recs,
          hd_late = qs_count is_late recs,
          hd_pending_leaves = qs_count (\<lambda>la. la_status la = LeavePending) leaves\<rparr>)"

text \<open>One active employee.\<close>

definition emps_ex :: "employee list" where
  "emps_ex = [\<lparr>emp_pk = 1, employee_id = ''E001'', emp_department = 3, employment_status = EmpActive\<rparr>]"

subsection \<open>Properties\<close>

lemma filter_update_unique_key:
  assumes "distinct (map key xs)" "i < length xs" "key (xs ! i) = k" "key y = k"
  shows "filter (\<lambda>a. key a = k) (xs[i := y]) = [y]"
  using assms
proof (induction xs arbitrary: i)
  case (Cons x xs)
  show ?case
  proof (cases i)
    case 0
    with Cons.prems have "\<forall>a\<in>set xs. key a \<noteq> k" by (auto simp: image_iff)
    with 0 Cons.prems show ?thesis by (simp add: filter_empty_conv)
  next
    case (Suc j)
    with Cons.prems have "xs ! j \<in> set xs" "key (xs ! j) = k" by simp_all
    with Cons.prems(1) have "key x \<noteq> k" by (force simp: image_iff)
    with Suc Cons show ?thesis by simp
  qed
qed simp

lemma filter_update_other_keys:
  assumes "i < length xs" "key (xs ! i) = k" "key y = k"
  shows "filter (\<lambda>a. key a \<noteq> k) (xs[i := y]) = filter (\<lambda>a. key a \<noteq> k) xs"
  using assms
proof (induction xs arbitrary: i)
  case (Cons x xs)
  then show ?case by (cases i) simp_all
qed simp

lemma first_index_nth:
  "first_index P xs < length xs \<Longrightarrow> P (xs ! first_index P xs)"
  unfolding first_index_def using nth_length_takeWhile by fastforce

lemma first_index_none:
  "\<not> first_index P xs < length xs \<Longrightarrow> \<forall>x\<in>set xs. \<not> P x"
  unfolding first_index_def by (induction xs) (auto split: if_splits)

text \<open>C36 \<open>mark_attendance\<close> keeps the attendance table's unique key: after it the
  employee has exactly one row for today, with the posted status, and every other
  employee-day row is unchanged.\<close>

theorem mark_attendance_one_row:
  assumes "attendance_unique atts" "mark_attendance now eid st cin cout emps atts = Inr atts'"
  shows "attendance_unique atts' \<and>
         (\<exists>e a. find (\<lambda>e. employee_id e = eid) emps = Some e \<and> st = Some (att_status a) \<and>
            filter (\<lambda>a. att_key a = (emp_pk e, ts_date now)) atts' = [a] \<and>
            filter (\<lambda>a. att_key a \<noteq> (emp_pk e, ts_date now)) atts' =
              filter (\<lambda>a. att_key a \<noteq> (emp_pk e, ts_date now)) atts)"
proof -
  obtain e where e: "find (\<lambda>e. employee_id e = eid) emps = Some e"
    using assms(2) by (cases "find (\<lambda>e. employee_id e = eid) emps") (simp_all add: mark_attendance_def)
  obtain s where s: "st = Some s"
    using assms(2) e by (cases st) (simp_all add: mark_attendance_def Let_def split: if_splits)
  define k where "k = (emp_pk e, ts_date now)"
  let ?P = "\<lambda>a. att_key a = k"
  let ?i = "first_index ?P atts"
  have m: "mark_attendance now eid st cin cout emps atts =
           (if 1 < length (filter ?P atts) then Inl MultipleObjectsReturned
            else if ?i < length atts
            then Inr (atts[?i := update_marked s cin cout (atts ! ?i)])
            else Inr (atts @ [\<lparr>att_employee = emp_pk e, att_date = ts_date now, att_status = s,
                              overtime_hours = 0, check_in = cin, check_out = cout\<rparr>]))"
    using e s by (simp add: mark_attendance_def k_def Let_def)
  have d: "distinct (map att_key atts)" using assms(1) by (simp add: attendance_unique_def)
  show ?thesis
  proof (cases "?i < length atts")
    case True
    let ?y = "update_marked s cin cout (atts ! ?i)"
    have y: "atts' = atts[?i := ?y]" using assms(2) True unfolding m by (simp split: if_splits)
    have ki: "att_key (atts ! ?i) = k" using first_index_nth [OF True] .
    have ky: "att_key ?y = k" and sy: "att_status ?y = s"
      using ki by (simp_all add: update_marked_def Let_def split: option.splits)
    have "map att_key atts' = map att_key atts"
      using ki ky True by (simp add: y map_update list_update_same_conv)
    with d have "attendance_unique atts'" by (simp add: attendance_unique_def)
    moreover have "filter ?P atts' = [?y]"
      using filter_update_unique_key [OF d True ki ky] by (simp add: y)
    moreover have "filter (\<lambda>a. \<not> ?P a) atts' = filter (\<lambda>a. \<not> ?P a) atts"
      using filter_update_other_keys [OF True ki ky] by (simp add: y)
    moreover have "st = Some (att_status ?y)" using s sy by simp
    ultimately show ?thesis using e unfolding k_def by blast
  next
    case False
    let ?y = "\<lparr>att_employee = emp_pk e, att_date = ts_date now, att_status = s,
               overtime_hours = 0, check_in = cin, check_out = cout\<rparr>"
    have y: "atts' = atts @ [?y]" using assms(2) False unfolding m by (simp split: if_splits)
    have none: "\<forall>a\<in>set atts. \<not> ?P a" using False by (rule first_index_none)
    then have "k \<notin> set (map att_key atts)" by auto
    with d have "attendance_unique atts'" by (simp add: attendance_unique_def y k_def)
    moreover have "filter ?P atts' = [?y]" using none by (simp add: y filter_empty_conv k_def)
    moreover have "filter (\<lambda>a. \<not> ?P a) atts' = filter (\<lambda>a. \<not> ?P a) atts" by (simp add: y k_def)
    moreover have "st = Some (att_status ?y)" using s by simp
    ultimately show ?thesis using e unfolding k_def by blast
  qed
qed

theorem mark_attendance_one_row_witness:
  "mark_attendance 90000 ''E001'' (Some AttPresent) (Some 32400) None emps_ex [] =
     Inr [\<lparr>att_employee = 1, att_date = 1, att_status = AttPresent, overtime_hours = 0,
           check_in = Some 32400, check_out = None\<rparr>] \<and>
   attendance_unique [\<lparr>att_employee = 1, att_date = 1, att_status = AttPresent, overtime_hours = 0,
           check_in = Some 32400, check_out = None\<rparr>]"
proof -
  have v: "mark_attendance 90000 ''E001'' (Some AttPresent) (Some 32400) None emps_ex [] =
     Inr [\<lparr>att_employee = 1, att_date = 1, att_status = AttPresent, overtime_hours = 0,
           check_in = Some 32400, check_out = None\<rparr>]"
    by (simp add: mark_attendance_def emps_ex_def first_index_def ts_date_def)
  have "attendance_unique []" by (simp add: attendance_unique_def)
  with v show ?thesis using mark_attendance_one_row by blast
qed

end
