(* ===== verification/Notifications.thy ===== *)
theory Notifications
  imports Inventory Quality Production Procurement
begin

text \<open>
  In-app notifications (notifications/models.py, notifications/views.py,
  notifications/signals.py): the notification and preference rows, the helper
  \<open>notify_users\<close> with its preference filter, the four \<open>post_save\<close> receivers for
  production orders, stock rows, quality checks and purchase orders, and the views a
  user calls on their own notifications and preferences. The receivers take the saved
  row of the sending component's model, its primary key and the user sets the
  receiver queries. The receivers are modelled as written; nothing in the repository
  imports signals.py, so Django never connects them.
\<close>

subsection \<open>Rows\<close>

datatype notification_type = NInfo | NWarning | NError | NSuccess | NReminder

record notification =
  n_user :: nat
  n_type :: notification_type
  n_title :: string
  n_message :: string
  n_is_read :: bool
  n_read_at :: "timestamp option"
  n_related_model :: string
  n_related_id :: "nat option"
  n_priority :: int
  n_created :: timestamp

record notification_pref =
  email_notifications :: bool
  push_notifications :: bool
  in_app_notifications :: bool
  low_stock_alerts :: bool
  quality_alerts :: bool
  production_alerts :: bool
  purchase_order_alerts :: bool
  attendance_alerts :: bool

text \<open>The notification table with its id sequence, and the one-to-one preference
  row of each user.\<close>

record notif_db =
  notifications :: "notification table"
  notif_seq :: nat
  preferences :: "(nat \<times> notification_pref) list"

definition default_pref :: notification_pref where
  "default_pref =
     \<lparr>email_notifications = True, push_notifications = True, in_app_notifications = True,
      low_stock_alerts = True, quality_alerts = True, production_alerts = True,
      purchase_order_alerts = True, attendance_alerts = True\<rparr>"

text \<open>\<open>NotificationPreference.objects.get_or_create(user=user)\<close>.\<close>

definition pref_get_or_create :: "nat \<Rightarrow> notif_db \<Rightarrow> notification_pref \<times> notif_db" where
  "pref_get_or_create u db =
     (case map_of (preferences db) u of
        Some p \<Rightarrow> (p, db)
      | None \<Rightarrow> (default_pref, db\<lparr>preferences := preferences db @ [(u, default_pref)]\<rparr>))"

text \<open>\<open>Notification.objects.create(...)\<close>: unread, with the next id.\<close>

definition notification_create :: "timestamp \<Rightarrow> nat \<Rightarrow> notification_type \<Rightarrow> string \<Rightarrow> string \<Rightarrow> string \<Rightarrow>
    nat option \<Rightarrow> int \<Rightarrow> notif_db \<Rightarrow> notif_db" where
  "notification_create now u ty title msg rm rid prio db =
     db\<lparr>notifications := notifications db @
          [(notif_seq db, \<lparr>n_user = u, n_type = ty, n_title = title, n_message = msg, n_is_read = False,
                          n_read_at = None, n_related_model = rm, n_related_id = rid, n_priority = prio,
                          n_created = now\<rparr>)],
        notif_seq := Suc (notif_seq db)\<rparr>"

subsection \<open>\<open>notify_users\<close>\<close>

text \<open>The preference filter: warnings need \<open>low_stock_alerts\<close>, a title mentioning
  quality needs \<open>quality_alerts\<close>, one mentioning production needs
  \<open>production_alerts\<close>. No other flag is consulted.\<close>

definition pref_admits :: "notification_pref \<Rightarrow> notification_type \<Rightarrow> string \<Rightarrow> bool" where
  "pref_admits p ty title \<longleftrightarrow>
     \<not> (ty = NWarning \<and> \<not> low_stock_alerts p) \<and>
     \<not> (icontains title ''quality'' \<and> \<not> quality_alerts p) \<and>
     \<not> (icontains title ''production'' \<and> \<not> production_alerts p)"

definition notify_one :: "timestamp \<Rightarrow> string \<Rightarrow> string \<Rightarrow> notification_type \<Rightarrow> string \<Rightarrow> nat option \<Rightarrow> int \<Rightarrow>
    nat \<Rightarrow> notif_db \<Rightarrow> notif_db" where
  "notify_one now title msg ty rm rid prio u db =
     (let (p, db1) = pref_get_or_create u db
      in if pref_admits p ty title then notification_create now u ty title msg rm rid prio db1 else db1)"

definition notify_users :: "timestamp \<Rightarrow> nat list \<Rightarrow> string \<Rightarrow> string \<Rightarrow> notification_type \<Rightarrow> string \<Rightarrow>
    nat option \<Rightarrow> int \<Rightarrow> notif_db \<Rightarrow> notif_db" where
  "notify_users now users title msg ty rm rid prio db = fold (notify_one now title msg ty rm rid prio) users db"

text \<open>\<open>get_related_users\<close>: the active users, the row's creator (every model with
  \<open>TimeStampedModel\<close> has the attribute, so a row without a creator raises
  \<open>AttributeError\<close> on \<open>None.id\<close>) and the supervisor's user where the model has a
  supervisor; \<open>distinct()\<close> removes repetitions.\<close>

definition get_related_users :: "nat list \<Rightarrow> nat option \<Rightarrow> nat option \<Rightarrow> pyexc + nat list" where
  "get_related_users active created_by supervisor_user =
     (case created_by of
        None \<Rightarrow> Inl AttributeError
      | Some c \<Rightarrow> Inr (remdups (active @ [c] @ (case supervisor_user of None \<Rightarrow> [] | Some s \<Rightarrow> [s]))))"

text \<open>\<open>str()\<close> of a \<open>Decimal\<close> read from a column with \<open>k\<close> decimal places.\<close>

definition decimal_str :: "nat \<Rightarrow> decimal \<Rightarrow> string" where
  "decimal_str k q =
     (let a = nat \<lfloor>\<bar>q\<bar> * 10 ^ k\<rfloor>
      in (if q < 0 then ''-'' else []) @ nat_str (a div 10 ^ k) @
         (if k = 0 then [] else CHR ''.'' # pad_zeros k (nat_str (a mod 10 ^ k))))"

subsection \<open>The receivers\<close>

text \<open>\<open>create_production_notifications\<close>: a created order notifies the production
  managers; any later save reads \<open>instance.status_changed\<close>, which the model does not
  have.\<close>

definition production_post_save :: "timestamp \<Rightarrow> bool \<Rightarrow> production_order \<Rightarrow> nat \<Rightarrow> string \<Rightarrow> nat list \<Rightarrow>
    notif_db \<Rightarrow> pyexc + notif_db" where
  "production_post_save now created ord oid pname managers db =
     (if created
      then Inr (notify_users now managers ''New Production Order Created''
                  (''Production order '' @ order_number ord @ '' has been created for '' @ pname @ ''.'')
                  NInfo ''production.ProductionOrder'' (Some oid) 1 db)
      else Inl AttributeError)"

text \<open>\<open>check_low_stock\<close>: a minimum of zero is falsy and disables the alert.\<close>

definition check_low_stock :: "timestamp \<Rightarrow> stock \<Rightarrow> nat \<Rightarrow> product \<Rightarrow> string \<Rightarrow> nat list \<Rightarrow> notif_db \<Rightarrow> notif_db" where
  "check_low_stock now s sid p whname managers db =
     (if min_stock p \<noteq> 0 \<and> st_quantity s < min_stock p
      then notify_users now managers ''Low Stock Alert''
             (''Product '' @ sku p @ '' is below minimum stock level in '' @ whname @ ''. Current: '' @
              decimal_str 3 (st_quantity s) @ '', Min: '' @ decimal_str 2 (min_stock p))
             NWarning ''inventory.Stock'' (Some sid) 1 db
      else db)"

definition quality_check_post_save :: "timestamp \<Rightarrow> quality_check \<Rightarrow> nat \<Rightarrow> nat list \<Rightarrow> nat list \<Rightarrow> nat option \<Rightarrow>
    notif_db \<Rightarrow> pyexc + notif_db" where
  "quality_check_post_save now q qid managers active created_by db =
     (if qc_status q = QcFailed
      then Inr (notify_users now managers ''Quality Check Failed''
                  (''Quality check '' @ qc_number q @ '' has failed. Please review.'')
                  NError ''quality.QualityCheck'' (Some qid) 1 db)
      else if qc_status q = QcPassed
      then res_bind (get_related_users active created_by None) (\<lambda>users.
             Inr (notify_users now users ''Quality Check Passed''
                    (''Quality check '' @ qc_number q @ '' has passed successfully.'')
                    NSuccess ''quality.QualityCheck'' (Some qid) 1 db))
      else Inr db)"

definition purchase_order_post_save :: "timestamp \<Rightarrow> bool \<Rightarrow> purchase_order \<Rightarrow> nat \<Rightarrow> string \<Rightarrow> nat list \<Rightarrow>
    nat list \<Rightarrow> nat option \<Rightarrow> notif_db \<Rightarrow> pyexc + notif_db" where
  "purchase_order_post_save now created po pid supplier_name managers active created_by db =
     (if created
      then Inr (notify_users now managers ''New Purchase Order''
                  (''Purchase order '' @ po_number po @ '' has been created for '' @ supplier_name @ ''.'')
                  NInfo ''procurement.PurchaseOrder'' (Some pid) 1 db)
      else if expected_delivery po = ts_date now
      then res_bind (get_related_users active created_by None) (\<lambda>users.
             Inr (notify_users now users ''Delivery Due Today''
                    (''Purchase order '' @ po_number po @ '' is due for delivery today.'')
                    NReminder ''procurement.PurchaseOrder'' (Some pid) 1 db))
      else Inr db)"

subsection \<open>The user's views\<close>

definition user_notifications :: "nat \<Rightarrow> notif_db \<Rightarrow> (nat \<times> notification) list" where
  "user_notifications u db = filter (\<lambda>x. n_user (snd x) = u) (notifications db)"

definition notifications_list :: "nat \<Rightarrow> notif_db \<Rightarrow> (nat \<times> notification) list" where
  "notifications_list u db = rev (sort_key (n_created \<circ> snd) (user_notifications u db))"

definition unread_notifications :: "nat \<Rightarrow> notif_db \<Rightarrow> (nat \<times> notification) list" where
  "unread_notifications u db =
     rev (sort_key (n_created \<circ> snd) (filter (\<lambda>x. \<not> n_is_read (snd x)) (user_notifications u db)))"

definition unread_notification_count :: "nat \<Rightarrow> notif_db \<Rightarrow> int" where
  "unread_notification_count u db = qs_count (\<lambda>x. \<not> n_is_read (snd x)) (user_notifications u db)"

text \<open>\<open>get_object_or_404(Notification, pk=pk, user=request.user)\<close>.\<close>

definition own_notification :: "nat \<Rightarrow> nat \<Rightarrow> notif_db \<Rightarrow> pyexc + notification" where
  "own_notification u pk db =
     (case map_of (notifications db) pk of
        Some n \<Rightarrow> if n_user n = u then Inr n else Inl Http404
      | None \<Rightarrow> Inl Http404)"

definition mark_notification_read :: "timestamp \<Rightarrow> nat \<Rightarrow> nat \<Rightarrow> notif_db \<Rightarrow> pyexc + notif_db" where
  "mark_notification_read now u pk db =
     res_bind (own_notification u pk db) (\<lambda>n.
       Inr (db\<lparr>notifications := AList.update pk (n\<lparr>n_is_read := True, n_read_at := Some now\<rparr>) (notifications db)\<rparr>))"

definition mark_all_notifications_read :: "timestamp \<Rightarrow> nat \<Rightarrow> notif_db \<Rightarrow> notif_db" where
  "mark_all_notifications_read now u db =
     db\<lparr>notifications := map (\<lambda>(k, n). (k, if n_user n = u \<and> \<not> n_is_read n
                                           then n\<lparr>n_is_read := True, n_read_at := Some now\<rparr> else n))
                          (notifications db)\<rparr>"

definition delete_notification :: "nat \<Rightarrow> nat \<Rightarrow> notif_db \<Rightarrow> pyexc + notif_db" where
  "delete_notification u pk db =
     res_bind (own_notification u pk db) (\<lambda>_.
       Inr (db\<lparr>notifications := AList.delete pk (notifications db)\<rparr>))"

definition clear_all_notifications :: "nat \<Rightarrow> notif_db \<Rightarrow> notif_db" where
  "clear_all_notifications u db =
     db\<lparr>notifications := filter (\<lambda>x. n_user (snd x) \<noteq> u) (notifications db)\<rparr>"

text \<open>\<open>notification_preferences\<close> on \<open>POST\<close>: every flag is the checkbox's value.\<close>

definition notification_preferences_post :: "nat \<Rightarrow> notification_pref \<Rightarrow> notif_db \<Rightarrow> notif_db" where
  "notification_preferences_post u posted db =
     (let (_, db1) = pref_get_or_create u db
      in db1\<lparr>preferences := AList.update u posted (preferences db1)\<rparr>)"

text \<open>\<open>update_preferences\<close>: the posted name is checked with \<open>hasattr\<close> only. A flag
  is set; a name that is no attribute is refused; any other attribute of the row
  (\<open>user\<close>, \<open>id\<close>, \<open>pk\<close>, \<open>save\<close>, ...) is assigned as well, with effects that
  depend on the attribute and that the model does not follow.\<close>

datatype pref_result = PrefSet | PrefInvalid | PrefOtherAttribute

definition set_pref_flag :: "string \<Rightarrow> bool \<Rightarrow> notification_pref \<Rightarrow> notification_pref option" where
  "set_pref_flag name v p =
     (if name = ''email_notifications'' then Some (p\<lparr>email_notifications := v\<rparr>)
      else if name = ''push_notifications'' then Some (p\<lparr>push_notifications := v\<rparr>)
      else if name = ''in_app_notifications'' then Some (p\<lparr>in_app_notifications := v\<rparr>)
      else if name = ''low_stock_alerts'' then Some (p\<lparr>low_stock_alerts := v\<rparr>)
      else if name = ''quality_alerts'' then Some (p\<lparr>quality_alerts := v\<rparr>)
      else if name = ''production_alerts'' then Some (p\<lparr>production_alerts := v\<rparr>)
      else if name = ''purchase_order_alerts'' then Some (p\<lparr>purchase_order_alerts := v\<rparr>)
      else if name = ''attendance_alerts'' then Some (p\<lparr>attendance_alerts := v\<rparr>)
      else None)"

definition pref_other_attributes :: "string list" where
  "pref_other_attributes = [''id'', ''pk'', ''user'', ''user_id'', ''objects'', ''save'', ''delete'',
     ''full_clean'', ''clean'', ''refresh_from_db'']"

definition update_preferences :: "nat \<Rightarrow> string \<Rightarrow> string \<Rightarrow> notif_db \<Rightarrow> pref_result \<times> notif_db" where
  "update_preferences u ptype value db =
     (let (p, db1) = pref_get_or_create u db
      in case set_pref_flag ptype (value = ''true'') p of
           Some p' \<Rightarrow> (PrefSet, db1\<lparr>preferences := AList.update u p' (preferences db1)\<rparr>)
         | None \<Rightarrow> if ptype \<in> set pref_other_attributes then (PrefOtherAttribute, db1) else (PrefInvalid, db1))"

definition test_email_notification :: "timestamp \<Rightarrow> nat \<Rightarrow> notif_db \<Rightarrow> notif_db" where
  "test_email_notification now u db =
     notification_create now u NInfo ''Test Notification''
       ''This is a test notification to verify the system is working.'' [] None 1 db"

text \<open>What one user's requests do to the tables.\<close>

inductive user_request :: "nat \<Rightarrow> notif_db \<Rightarrow> notif_db \<Rightarrow> bool" where
  read: "mark_notification_read t u pk db = Inr db' \<Longrightarrow> user_request u db db'"
| read_all: "user_request u db (mark_all_notifications_read t u db)"
| delete: "delete_notification u pk db = Inr db' \<Longrightarrow> user_request u db db'"
| clear: "user_request u db (clear_all_notifications u db)"
| prefs: "user_request u db (notification_preferences_post u p db)"
| update_prefs: "update_preferences u n v db = (r, db') \<Longrightarrow> user_request u db db'"
| test: "user_request u db (test_email_notification t u db)"

definition others_rows :: "nat \<Rightarrow> notif_db \<Rightarrow> (nat \<times> notification) list" where
  "others_rows u db = filter (\<lambda>x. n_user (snd x) \<noteq> u) (notifications db)"

definition notif_ok :: "notif_db \<Rightarrow> bool" where
  "notif_ok db \<longleftrightarrow>
     distinct (map fst (notifications db)) \<and> list_all (\<lambda>k. k < notif_seq db) (map fst (notifications db))"

text \<open>Two users' notifications and no preference rows.\<close>

definition ndb_ex :: notif_db where
  "ndb_ex = \<lparr>notifications =
      [(0, \<lparr>n_user = 1, n_type = NInfo, n_title = ''A'', n_message = [], n_is_read = False, n_read_at = None,
            n_related_model = [], n_related_id = None, n_priority = 1, n_created = 10\<rparr>),
       (1, \<lparr>n_user = 2, n_type = NWarning, n_title = ''B'', n_message = [], n_is_read = False, n_read_at = None,
            n_related_model = [], n_related_id = None, n_priority = 1, n_created = 20\<rparr>)],
    notif_seq = 2, preferences = []\<rparr>"

subsection \<open>Properties\<close>

lemma filter_update_own:
  "map_of al k = Some n \<Longrightarrow> \<not> Q n \<Longrightarrow> \<not> Q n' \<Longrightarrow>
   filter (\<lambda>x. Q (snd x)) (AList.update k n' al) = filter (\<lambda>x. Q (snd x)) al"
  by (induction al) (auto split: if_splits)

lemma filter_delete_own:
  "distinct (map fst al) \<Longrightarrow> map_of al k = Some n \<Longrightarrow> \<not> Q n \<Longrightarrow>
   filter (\<lambda>x. Q (snd x)) (AList.delete k al) = filter (\<lambda>x. Q (snd x)) al"
proof (induction al)
  case (Cons p ps)
  show ?case
  proof (cases "fst p = k")
    case True
    with Cons.prems have "\<forall>q\<in>set ps. fst q \<noteq> k" by (force simp: image_iff)
    then have "AList.delete k ps = ps" by (auto simp: AList.delete_eq filter_id_conv split_def)
    with True Cons.prems show ?thesis by (cases p) simp
  qed (use Cons in auto)
qed simp

lemma filter_map_fixing:
  assumes "\<And>x. P (f x) = P x" "\<And>x. P x \<Longrightarrow> f x = x"
  shows "filter P (map f xs) = filter P xs"
  using assms by (induction xs) auto

lemma pref_get_or_create_simps:
  "notifications (snd (pref_get_or_create u db)) = notifications db"
  "notif_seq (snd (pref_get_or_create u db)) = notif_seq db"
  "v \<noteq> u \<Longrightarrow> map_of (preferences (snd (pref_get_or_create u db))) v = map_of (preferences db) v"
  by (auto simp: pref_get_or_create_def map_add_def split: option.splits)

lemma own_notification_Inr:
  "own_notification u pk db = Inr n \<Longrightarrow> map_of (notifications db) pk = Some n \<and> n_user n = u"
  by (auto simp: own_notification_def split: option.splits if_splits)

lemma notification_create_others:
  "notif_ok db \<Longrightarrow>
   notif_ok (notification_create t u ty ti m rm rid pr db) \<and>
   others_rows u (notification_create t u ty ti m rm rid pr db) = others_rows u db"
  by (auto simp: notif_ok_def notification_create_def others_rows_def list_all_iff)

lemma user_request_others:
  assumes "user_request u db db'" "notif_ok db"
  shows "notif_ok db' \<and> others_rows u db' = others_rows u db \<and>
         (\<forall>v. v \<noteq> u \<longrightarrow> map_of (preferences db') v = map_of (preferences db) v)"
  using assms
proof induction
  case (read t u pk db db')
  then obtain n where n: "map_of (notifications db) pk = Some n" "n_user n = u"
    and db': "db' = db\<lparr>notifications := AList.update pk (n\<lparr>n_is_read := True, n_read_at := Some t\<rparr>) (notifications db)\<rparr>"
    by (auto simp: mark_notification_read_def res_bind_def dest!: own_notification_Inr split: sum.splits)
  have "pk \<in> set (map fst (notifications db))"
    using n(1) by (metis map_of_eq_None_iff option.distinct(1) set_map)
  moreover have "filter (\<lambda>x. n_user (snd x) \<noteq> u)
      (AList.update pk (n\<lparr>n_is_read := True, n_read_at := Some t\<rparr>) (notifications db)) =
      filter (\<lambda>x. n_user (snd x) \<noteq> u) (notifications db)"
    using filter_update_own [of "notifications db" pk n "\<lambda>m. n_user m \<noteq> u"] n by simp
  ultimately show ?case using read.prems
    by (simp add: db' notif_ok_def others_rows_def update_keys)
next
  case (read_all u db t)
  then show ?case
    by (simp add: mark_all_notifications_read_def notif_ok_def others_rows_def filter_map_fixing split_def
                  comp_def)
next
  case (delete u pk db db')
  then obtain n where n: "map_of (notifications db) pk = Some n" "n_user n = u"
    and db': "db' = db\<lparr>notifications := AList.delete pk (notifications db)\<rparr>"
    by (auto simp: delete_notification_def res_bind_def dest!: own_notification_Inr split: sum.splits)
  have "filter (\<lambda>x. n_user (snd x) \<noteq> u) (AList.delete pk (notifications db)) =
        filter (\<lambda>x. n_user (snd x) \<noteq> u) (notifications db)"
    using filter_delete_own [of "notifications db" pk n "\<lambda>m. n_user m \<noteq> u"] n delete.prems
    by (simp add: notif_ok_def)
  moreover have "distinct (map fst (AList.delete pk (notifications db)))"
    using delete.prems by (simp add: notif_ok_def distinct_delete)
  ultimately show ?case using delete.prems
    by (auto simp: db' notif_ok_def others_rows_def delete_keys list_all_iff)
next
  case (clear u db)
  then show ?case by (auto simp: clear_all_notifications_def notif_ok_def others_rows_def list_all_iff
                                 distinct_map_filter)
next
  case (prefs u db p)
  then show ?case
    by (auto simp: notification_preferences_post_def Let_def notif_ok_def others_rows_def split_def
                   pref_get_or_create_simps update_conv')
next
  case (update_prefs u n v db r db')
  then show ?case
    by (auto simp: update_preferences_def notif_ok_def others_rows_def split_def Let_def
                   pref_get_or_create_simps update_conv' split: option.splits if_splits)
next
  case (test u db t)
  then show ?case using notification_create_others by (simp add: test_email_notification_def notification_create_def)
qed



end
