(* ===== verification/PayrollViews.thy ===== *)
theory PayrollViews
  imports PayrollRun PayrollSummary "HOL-Library.List_Lexorder" "HOL-Library.Char_ord" "HOL-Library.Product_Lexorder"
begin

text \<open>
  The read views and the remaining writers of payroll/views.py: the dashboard with its
  department annotation, the component, period and payroll lists with their filters
  and orderings, \<open>GeneratePayslipView\<close> (its \<open>get_or_create\<close> of the payslip; the PDF
  drawing is not modelled) and the JSON view \<open>GetEmployeeSalaryStructureView\<close>.
  The component rows extend the record the salary calculation reads with the columns
  the list shows.
\<close>

subsection \<open>Dashboard\<close>

text \<open>\<open>Department.objects.annotate(employee_count=Count('employee', ...),
  payroll_count=Count('employee__payrolls', ...))\<close>: both counts run over one join of
  departments, employees and payrolls, so each employee row is repeated once per
  payroll of the employee (an employee without payrolls gives one row with no payroll).\<close>

definition dept_join_rows :: "employee list \<Rightarrow> payroll list \<Rightarrow> nat \<Rightarrow> (employee \<times> payroll option) list" where
  "dept_join_rows emps ps d =
     concat (map (\<lambda>e. case filter (\<lambda>p. pr_employee p = emp_pk e) ps of
                        [] \<Rightarrow> [(e, None)]
                      | qs \<Rightarrow> map (\<lambda>p. (e, Some p)) qs)
               (filter (\<lambda>e. emp_department e = d) emps))"

record dept_annotation =
  da_name :: string
  employee_count :: int
  payroll_count :: int

definition department_annotations :: "string list \<Rightarrow> employee list \<Rightarrow> payroll list \<Rightarrow> dept_annotation list" where
  "department_annotations depts emps ps =
     map (\<lambda>(d, name).
       let rows = dept_join_rows emps ps d
       in \<lparr>da_name = name,
           employee_count = qs_count (\<lambda>(e, _). employment_status e = EmpActive) rows,
           payroll_count = qs_count (\<lambda>(_, p). case p of Some q \<Rightarrow> pr_status q = Paid | None \<Rightarrow> False) rows\<rparr>)
       (enumerate 0 depts)"

record payroll_dashboard_data =
  pd_total_employees :: int
  pd_total_payrolls :: int
  pd_pending_payrolls :: int
  pd_paid_this_month :: int
  pd_upcoming_periods :: "payroll_period list"
  pd_department_summary :: "dept_annotation list"

definition payroll_dashboard :: "timestamp \<Rightarrow> string list \<Rightarrow> employee list \<Rightarrow> payroll_period list \<Rightarrow>
    payroll list \<Rightarrow> payroll_dashboard_data" where
  "payroll_dashboard now depts emps periods ps =
     (let today = ts_date now
      in \<lparr>pd_total_employees = qs_count (\<lambda>e. employment_status e = EmpActive) emps,
          pd_total_payrolls = int (length ps),
          pd_pending_payrolls = qs_count (\<lambda>p. pr_status p = Draft) ps,
          pd_paid_this_month = qs_count (\<lambda>p. pr_status p = Paid \<and>
              (case payment_date p of
                 Some d \<Rightarrow> day_month d = day_month today \<and> day_year d = day_year today
               | None \<Rightarrow> False)) ps,
          pd_upcoming_periods = take 5 (sort_key period_start
              (filter (\<lambda>q. today \<le> period_start q \<and> \<not> is_processed q) periods)),
          pd_department_summary = department_annotations depts emps ps\<rparr>)"

subsection \<open>Lists\<close>

text \<open>\<open>PayrollComponent\<close> with the columns the list filters and orders on.\<close>

record component_row = payroll_component +
  comp_name :: string
  comp_priority :: int
  comp_active :: bool

text \<open>The stored value of \<open>component_type\<close>, which \<open>order_by('component_type')\<close>
  compares.\<close>

definition component_type_key :: "component_type \<Rightarrow> string" where
  "component_type_key t = (case t of Earning \<Rightarrow> ''earning'' | Deduction \<Rightarrow> ''deduction'')"

definition active_filter :: "string \<Rightarrow> bool \<Rightarrow> bool" where
  "active_filter param v \<longleftrightarrow> (if param = ''true'' then v else if param = ''false'' then \<not> v else True)"

definition component_list :: "component_type option \<Rightarrow> string \<Rightarrow> string \<Rightarrow> component_row list \<Rightarrow> component_row list" where
  "component_list ty search active cs =
     sort_key (\<lambda>c. (component_type_key (component_type c), comp_priority c))
       (filter (\<lambda>c. (case ty of None \<Rightarrow> True | Some t \<Rightarrow> component_type c = t) \<and>
                    (search = [] \<or> icontains (comp_name c) search \<or> icontains (comp_code c) search) \<and>
                    active_filter active (comp_active c)) cs)"

definition period_list :: "string \<Rightarrow> int option \<Rightarrow> payroll_period list \<Rightarrow> payroll_period list" where
  "period_list processed year periods =
     rev (sort_key period_start
       (filter (\<lambda>q. active_filter processed (is_processed q) \<and>
                    (case year of None \<Rightarrow> True | Some y \<Rightarrow> day_year (period_start q) = y)) periods))"

text \<open>\<open>PayrollListView\<close>: an inner join with the employee and the period; the user's
  first and last name come from \<open>names\<close>. Ordered by the period's start, newest
  first, then by employee id.\<close>

definition payroll_list :: "(nat \<Rightarrow> string \<times> string) \<Rightarrow> employee list \<Rightarrow> payroll_period list \<Rightarrow>
    payroll_status option \<Rightarrow> nat option \<Rightarrow> nat option \<Rightarrow> string \<Rightarrow> payroll list \<Rightarrow> payroll list" where
  "payroll_list names emps periods st period dept search ps =
     map snd (sort_key fst
       (List.map_filter (\<lambda>p.
          case (find (\<lambda>e. emp_pk e = pr_employee p) emps, period_start_of periods p) of
            (Some e, Some d) \<Rightarrow>
              if (case st of None \<Rightarrow> True | Some s \<Rightarrow> pr_status p = s) \<and>
                 (case period of None \<Rightarrow> True | Some k \<Rightarrow> pr_period p = k) \<and>
                 (case dept of None \<Rightarrow> True | Some k \<Rightarrow> emp_department e = k) \<and>
                 (search = [] \<or> icontains (payroll_number p) search \<or>
                  icontains (fst (names (emp_pk e))) search \<or> icontains (snd (names (emp_pk e))) search \<or>
                  icontains (employee_id e) search)
              then Some ((- d, employee_id e), p) else None
          | _ \<Rightarrow> None) ps))"

text \<open>\<open>PayrollRunListView\<close>: each run with its \<open>started_at\<close> (set by
  \<open>auto_now_add\<close>, which the batch model does not carry); \<open>uname\<close> is the starting
  user's username and \<open>dname\<close> a department's name. The date range applies only when
  both ends are given, a run without department never matches the department part of
  the search, and the list is ordered by \<open>started_at\<close>, newest first.\<close>

definition payroll_run_list :: "(nat \<Rightarrow> string) \<Rightarrow> (nat \<Rightarrow> string) \<Rightarrow> run_status option \<Rightarrow> run_type option \<Rightarrow>
    (day \<times> day) option \<Rightarrow> string \<Rightarrow> (payroll_run \<times> timestamp) list \<Rightarrow> (payroll_run \<times> timestamp) list" where
  "payroll_run_list uname dname st ty rng search rs =
     rev (sort_key snd
       (filter (\<lambda>(r, t). (case st of None \<Rightarrow> True | Some s \<Rightarrow> run_status r = s) \<and>
                         (case ty of None \<Rightarrow> True | Some k \<Rightarrow> run_type r = k) \<and>
                         (case rng of None \<Rightarrow> True | Some (a, b) \<Rightarrow> a \<le> ts_date t \<and> ts_date t \<le> b) \<and>
                         (search = [] \<or> icontains (run_number r) search \<or> icontains (uname (started_by r)) search \<or>
                          (case run_department r of None \<Rightarrow> False | Some d \<Rightarrow> icontains (dname d) search))) rs))"

text \<open>The statistics of \<open>PayrollRunListView.get_context_data\<close>: all runs, then the
  completed, pending and failed ones.\<close>

definition payroll_run_stats :: "payroll_run list \<Rightarrow> int \<times> int \<times> int \<times> int" where
  "payroll_run_stats rs =
     (qs_count (\<lambda>_. True) rs, qs_count (\<lambda>r. run_status r = RunCompleted) rs,
      qs_count (\<lambda>r. run_status r = RunPending) rs, qs_count (\<lambda>r. run_status r = RunFailed) rs)"

subsection \<open>Payslips and the structure API\<close>

text \<open>\<open>GeneratePayslipView.get\<close>: \<open>Payslip.objects.get_or_create(payroll=payroll,
  defaults={'generated_by': request.user})\<close>; the PDF is drawn into the payslip's file
  afterwards, which the model does not follow.\<close>

definition generate_payslip_view :: "nat \<Rightarrow> nat \<Rightarrow> payroll list \<Rightarrow> payslip list \<Rightarrow> pyexc + payslip \<times> payslip list" where
  "generate_payslip_view user pk ps slips =
     res_bind (get_object_or_404 pk ps) (\<lambda>p.
       case find (\<lambda>s. slip_payroll s = payroll_number p) slips of
         Some s \<Rightarrow> Inr (s, slips)
       | None \<Rightarrow> (let s = \<lparr>slip_payroll = payroll_number p, generated_by = Some user\<rparr> in Inr (s, slips @ [s])))"

datatype structure_json =
    StructureOk decimal "(string \<times> component_type \<times> calculation_type \<times> decimal \<times> decimal) list"
  | StructureError string

text \<open>\<open>GetEmployeeSalaryStructureView.get\<close>: only \<open>Employee.DoesNotExist\<close> is caught;
  an employee without a structure makes \<open>employee.salary_structure\<close> raise the
  structure's \<open>RelatedObjectDoesNotExist\<close>, which escapes.\<close>

definition get_employee_salary_structure :: "nat \<Rightarrow> employee list \<Rightarrow> (nat \<times> salary_structure) list \<Rightarrow>
    pyexc + structure_json" where
  "get_employee_salary_structure k emps ss =
     (case find (\<lambda>e. emp_pk e = k) emps of
        None \<Rightarrow> Inr (StructureError ''Employee not found'')
      | Some e \<Rightarrow>
          (case map_of ss (emp_pk e) of
             None \<Rightarrow> Inl DoesNotExist
           | Some s \<Rightarrow>
               if ss_is_active s
               then Inr (StructureOk (ss_basic_salary s)
                          (map (\<lambda>cv. (comp_code (cv_component cv), component_type (cv_component cv),
                                      calculation_type (cv_component cv), cv_amount cv, cv_percentage cv))
                               (ss_components s)))
               else Inr (StructureError ''No active salary structure found'')))"

subsection \<open>Properties\<close>

lemma join_rows_of_employee:
  "length (filter (\<lambda>(x, _). A x)
     (case filter (\<lambda>p. pr_employee p = emp_pk e) ps of [] \<Rightarrow> [(e, None)] | qs \<Rightarrow> map (\<lambda>p. (e, Some p)) qs)) =
   (if A e then max 1 (length (filter (\<lambda>p. pr_employee p = emp_pk e) ps)) else 0)"
  by (cases "filter (\<lambda>p. pr_employee p = emp_pk e) ps") (auto simp: filter_map comp_def)

text \<open>The dashboard's \<open>employee_count\<close> is not the number of active employees of the
  department: each active employee counts once per payroll it has, and at least once.\<close>

lemma employee_count_join:
  "qs_count (\<lambda>(e, _). employment_status e = EmpActive) (dept_join_rows emps ps d) =
   int (sum_list (map (\<lambda>e. max 1 (length (filter (\<lambda>p. pr_employee p = emp_pk e) ps)))
          (filter (\<lambda>e. emp_department e = d \<and> employment_status e = EmpActive) emps)))"
proof (induction emps)
  case (Cons e es)
  have "length (filter (\<lambda>(x, _). employment_status x = EmpActive) (dept_join_rows (e # es) ps d)) =
        (if emp_department e = d \<and> employment_status e = EmpActive
         then max 1 (length (filter (\<lambda>p. pr_employee p = emp_pk e) ps)) else 0) +
        length (filter (\<lambda>(x, _). employment_status x = EmpActive) (dept_join_rows es ps d))"
    using join_rows_of_employee [of "\<lambda>x. employment_status x = EmpActive" e ps]
    by (simp add: dept_join_rows_def)
  with Cons show ?case by (simp add: qs_count_def)
qed (simp add: dept_join_rows_def)

lemma generate_payslip_view_unique:
  assumes "distinct (map slip_payroll slips)" "generate_payslip_view u pk ps slips = Inr (s, slips')"
  shows "distinct (map slip_payroll slips') \<and> s \<in> set slips' \<and> pk < length ps \<and>
         slip_payroll s = payroll_number (ps ! pk) \<and> set slips \<subseteq> set slips'"
proof -
  have pk: "pk < length ps"
  proof (rule ccontr)
    assume "\<not> pk < length ps"
    then show False using assms(2) by (simp add: generate_payslip_view_def get_object_or_404_def res_bind_def)
  qed
  show ?thesis
  proof (cases "find (\<lambda>s. slip_payroll s = payroll_number (ps ! pk)) slips")
    case None
    then have "payroll_number (ps ! pk) \<notin> set (map slip_payroll slips)"
      by (auto simp: find_None_iff)
    with None pk assms show ?thesis
      by (auto simp: generate_payslip_view_def get_object_or_404_def res_bind_def Let_def)
  next
    case (Some x)
    with pk assms show ?thesis
      by (auto simp: generate_payslip_view_def get_object_or_404_def res_bind_def find_Some_iff)
  qed
qed

lemma payroll_list_subset:
  "p \<in> set (payroll_list names emps periods st period dept search ps) \<Longrightarrow>
   p \<in> set ps \<and> (case st of None \<Rightarrow> True | Some s \<Rightarrow> pr_status p = s) \<and>
   (case period of None \<Rightarrow> True | Some k \<Rightarrow> pr_period p = k)"
  by (auto simp: payroll_list_def List.map_filter_def split: option.splits prod.splits if_splits)

text \<open>The run list is ordered newest first, and without filters it lists every run.\<close>

lemma payroll_run_list_newest_first:
  "sorted (rev (map snd (payroll_run_list uname dname st ty rng search rs)))"
  by (simp add: payroll_run_list_def rev_map [symmetric])

lemma payroll_run_list_unfiltered:
  "mset (payroll_run_list uname dname None None None [] rs) = mset rs"
  by (simp add: payroll_run_list_def split_def)

text \<open>The run statistics count every run but the processing ones in one of their
  three buckets: a run caught mid-batch appears in the total only.\<close>

lemma payroll_run_stats_omit_processing:
  "payroll_run_stats rs = (n, c, p, f) \<Longrightarrow>
   n = c + p + f + qs_count (\<lambda>r. run_status r = RunProcessing) rs"
proof (induction rs arbitrary: n c p f)
  case Nil then show ?case by (simp add: payroll_run_stats_def qs_count_def)
next
  case (Cons r rs)
  obtain n' c' p' f' where s: "payroll_run_stats rs = (n', c', p', f')" by (cases "payroll_run_stats rs") auto
  with Cons.IH have "n' = c' + p' + f' + qs_count (\<lambda>r. run_status r = RunProcessing) rs" .
  with s Cons.prems show ?case
    by (cases "run_status r") (auto simp: payroll_run_stats_def qs_count_def)
qed

end
