(* ===== verification/Reports.thy ===== *)
theory Reports
  imports Inventory Quality Production Procurement HrViews PayrollSummary
begin

text \<open>
  The reports app (reports/views.py): the queries and figures each report computes
  over the tables of Inventory, Production, Quality, Procurement and HR, and the rows
  of the CSV export. Query parameters arrive parsed where the code passes them to the
  ORM unparsed (the ORM parses dates); \<open>month\<close> and \<open>days\<close>, which the code parses
  itself, are parsed here as the code does. Rendering, the Excel workbooks and the
  placeholder views are not modelled. \<open>reports/views.py\<close> uses \<open>models.F\<close> without
  importing \<open>models\<close>, so both low-stock queries raise \<open>NameError\<close>.
\<close>

subsection \<open>Parameters\<close>

text \<open>\<open>year, month_num = map(int, month.split('-'))\<close>: exactly two parts, each an
  int.\<close>

definition parse_month :: "string \<Rightarrow> pyexc + int \<times> int" where
  "parse_month s =
     (case py_split CHR ''-'' s of
        [a, b] \<Rightarrow> res_bind (py_int a) (\<lambda>y. res_bind (py_int b) (\<lambda>m. Inr (y, m)))
      | _ \<Rightarrow> Inl ValueError)"

text \<open>\<open>timezone.now().strftime('%Y-%m')\<close>, the default of \<open>month\<close>.\<close>

definition month_param :: "int \<Rightarrow> int \<Rightarrow> string" where
  "month_param y m = fmt_0d 4 y @ CHR ''-'' # fmt_0d 2 m"

definition in_month :: "int \<times> int \<Rightarrow> day \<Rightarrow> bool" where
  "in_month ym d \<longleftrightarrow> day_year d = fst ym \<and> day_month d = snd ym"

definition rate :: "int \<Rightarrow> int \<Rightarrow> rat" where
  "rate part whole = (if whole > 0 then of_int part / of_int whole * 100 else 0)"

subsection \<open>Inventory reports\<close>

definition stock_rows :: "inventory_db \<Rightarrow> (stock \<times> product) list" where
  "stock_rows db =
     List.map_filter (\<lambda>(_, s). map_option (Pair s) (map_of (inv_products db) (st_product s))) (inv_stocks db)"

definition inventory_report :: "nat option \<Rightarrow> nat option \<Rightarrow> bool \<Rightarrow> inventory_db \<Rightarrow> pyexc + (stock \<times> product) list" where
  "inventory_report wh cat low_stock db =
     (let rows = filter (\<lambda>(s, p). (case wh of None \<Rightarrow> True | Some w \<Rightarrow> st_warehouse s = w) \<and>
                                  (case cat of None \<Rightarrow> True | Some c \<Rightarrow> product_category p = Some c))
                   (stock_rows db)
      in if low_stock then Inl NameError else Inr rows)"

definition low_stock_report :: "inventory_db \<Rightarrow> pyexc + (stock \<times> product) list" where
  "low_stock_report db = Inl NameError"

record csv_row =
  csv_sku :: string
  csv_name :: string
  csv_warehouse :: string
  csv_quantity :: decimal
  csv_min :: decimal
  csv_max :: decimal
  csv_status :: string

definition inventory_csv :: "inventory_db \<Rightarrow> (stock \<times> product) list \<Rightarrow> csv_row list" where
  "inventory_csv db rows =
     map (\<lambda>(s, p). \<lparr>csv_sku = sku p, csv_name = product_name p,
                     csv_warehouse = (case map_of (inv_warehouses db) (st_warehouse s) of
                                        Some w \<Rightarrow> wh_name w | None \<Rightarrow> []),
                     csv_quantity = st_quantity s, csv_min = min_stock p, csv_max = max_stock p,
                     csv_status = (if st_quantity s < min_stock p then ''Low'' else ''OK'')\<rparr>) rows"

text \<open>\<open>inventory_value_report\<close> adds a product's cost only when the product has a
  \<open>standard_cost\<close> attribute, which \<open>Product\<close> does not; the total is always zero.\<close>

definition inventory_value_report :: "inventory_db \<Rightarrow> (stock \<times> product) list \<times> rat" where
  "inventory_value_report db = (stock_rows db, sum_list (map (\<lambda>_. 0) (stock_rows db)))"

text \<open>\<open>abc_analysis_report\<close>: products with at least one stock row and the sum of
  their quantities, the largest first.\<close>

definition abc_analysis :: "inventory_db \<Rightarrow> (nat \<times> product \<times> decimal) list" where
  "abc_analysis db =
     rev (sort_key (\<lambda>(_, _, v). v)
       (List.map_filter (\<lambda>(k, p).
          let qs = filter (\<lambda>x. st_product (snd x) = k) (inv_stocks db)
          in if qs = [] then None else Some (k, p, sum_list (map (st_quantity \<circ> snd) qs)))
        (inv_products db)))"

subsection \<open>Production reports\<close>

definition instant_day :: "instant \<Rightarrow> day" where
  "instant_day t = \<lfloor>t / 86400\<rfloor>"

record production_metrics =
  pm_orders :: "production_order list"
  pm_total_orders :: int
  pm_completed_orders :: int
  pm_total_quantity :: decimal
  pm_completed_quantity :: decimal
  pm_completion_rate :: rat

definition production_report :: "day option \<Rightarrow> day option \<Rightarrow> prod_status option \<Rightarrow> production_order list \<Rightarrow>
    production_metrics" where
  "production_report start stop st ords =
     (let os = filter (\<lambda>o'. (case start of None \<Rightarrow> True
                              | Some d \<Rightarrow> (case planned_start o' of Some t \<Rightarrow> d \<le> instant_day t | None \<Rightarrow> False)) \<and>
                           (case stop of None \<Rightarrow> True
                              | Some d \<Rightarrow> (case planned_end o' of Some t \<Rightarrow> instant_day t \<le> d | None \<Rightarrow> False)) \<and>
                           (case st of None \<Rightarrow> True | Some s \<Rightarrow> prod_status o' = s)) ords;
          fin = filter (\<lambda>o'. prod_status o' = PsCompleted) os
      in \<lparr>pm_orders = os, pm_total_orders = int (length os), pm_completed_orders = int (length fin),
          pm_total_quantity = sum_list (map prod_quantity os),
          pm_completed_quantity = sum_list (map completed_quantity fin),
          pm_completion_rate = rate (int (length fin)) (int (length os))\<rparr>)"

definition production_efficiency_report :: "production_order list \<Rightarrow> production_order list" where
  "production_efficiency_report ords = filter (\<lambda>o'. prod_status o' = PsCompleted) ords"

definition rejection_report :: "production_order list \<Rightarrow> production_order list \<times> decimal \<times> decimal \<times> rat" where
  "rejection_report ords =
     (let os = filter (\<lambda>o'. 0 < rejected_quantity o') ords;
          produced = sum_list (map completed_quantity os);
          rejected = sum_list (map rejected_quantity os)
      in (os, produced, rejected, if produced > 0 then rejected / produced * 100 else 0))"

subsection \<open>Quality reports\<close>

definition quality_report :: "day option \<Rightarrow> day option \<Rightarrow> quality_check list \<Rightarrow> quality_check list \<times> int \<times> int \<times> int \<times> rat" where
  "quality_report start stop qcs =
     (let cs = filter (\<lambda>q. (case start of None \<Rightarrow> True | Some d \<Rightarrow> d \<le> inspection_date q) \<and>
                           (case stop of None \<Rightarrow> True | Some d \<Rightarrow> inspection_date q \<le> d)) qcs;
          passed = qs_count (\<lambda>q. qc_status q = QcPassed) cs;
          failed = qs_count (\<lambda>q. qc_status q = QcFailed) cs
      in (cs, passed, failed, int (length cs), rate passed (int (length cs))))"

text \<open>\<open>values('severity').annotate(count=Count('id')).order_by('-count')\<close>: one
  group per severity that occurs, the larger groups first.\<close>

definition severity_counts :: "ncr list \<Rightarrow> (severity \<times> int) list" where
  "severity_counts ncrs =
     rev (sort_key snd
       (map (\<lambda>s. (s, qs_count (\<lambda>n. severity n = s) ncrs)) (remdups (map severity ncrs))))"

text \<open>\<open>quality_trends_report\<close>: checks per inspection day in the window, with the
  passed and failed counts of each day.\<close>

definition quality_trends :: "day \<Rightarrow> day \<Rightarrow> quality_check list \<Rightarrow> (day \<times> int \<times> int \<times> int) list" where
  "quality_trends start stop qcs =
     (let cs = filter (\<lambda>q. start \<le> inspection_date q \<and> inspection_date q \<le> stop) qcs
      in map (\<lambda>d. let g = filter (\<lambda>q. inspection_date q = d) cs
                  in (d, int (length g), qs_count (\<lambda>q. qc_status q = QcPassed) g,
                      qs_count (\<lambda>q. qc_status q = QcFailed) g))
             (sort (remdups (map inspection_date cs))))"

text \<open>\<open>days = int(request.GET.get('days', 30))\<close> and the window ending now.\<close>

definition days_window :: "timestamp \<Rightarrow> string option \<Rightarrow> pyexc + timestamp \<times> timestamp" where
  "days_window now days =
     res_bind (case days of None \<Rightarrow> Inr 30 | Some s \<Rightarrow> py_int s) (\<lambda>n. Inr (now - n * 86400, now))"

definition quality_trends_report :: "timestamp \<Rightarrow> string option \<Rightarrow> quality_check list \<Rightarrow>
    pyexc + (day \<times> int \<times> int \<times> int) list" where
  "quality_trends_report now days qcs =
     res_bind (days_window now days) (\<lambda>(a, b). Inr (quality_trends (ts_date a) (ts_date b) qcs))"

text \<open>\<open>stock_movement_report\<close>: the transactions created in the window (each with
  its \<open>created_at\<close>, which the inventory model does not carry), bounds included.\<close>

definition stock_movement_report :: "timestamp \<Rightarrow> string option \<Rightarrow> (stock_transaction \<times> timestamp) list \<Rightarrow>
    pyexc + (stock_transaction \<times> timestamp) list" where
  "stock_movement_report now days txs =
     res_bind (days_window now days) (\<lambda>(a, b). Inr (filter (\<lambda>(_, t). a \<le> t \<and> t \<le> b) txs))"

subsection \<open>HR and purchase reports\<close>

definition hr_attendance_report :: "timestamp \<Rightarrow> string option \<Rightarrow> attendance list \<Rightarrow> pyexc + attendance list" where
  "hr_attendance_report now month atts =
     res_bind (parse_month (case month of
                              None \<Rightarrow> month_param (day_year (ts_date now)) (day_month (ts_date now))
                            | Some s \<Rightarrow> s)) (\<lambda>ym.
       Inr (filter (\<lambda>a. in_month ym (att_date a)) atts))"

definition hr_leave_report :: "timestamp \<Rightarrow> string option \<Rightarrow> leave_application list \<Rightarrow> pyexc + leave_application list" where
  "hr_leave_report now month leaves =
     res_bind (parse_month (case month of
                              None \<Rightarrow> month_param (day_year (ts_date now)) (day_month (ts_date now))
                            | Some s \<Rightarrow> s)) (\<lambda>ym.
       Inr (filter (\<lambda>la. in_month ym (ts_date (la_created la))) leaves))"

definition hr_overtime_report :: "timestamp \<Rightarrow> string option \<Rightarrow> attendance list \<Rightarrow> pyexc + attendance list \<times> rat" where
  "hr_overtime_report now month atts =
     res_bind (parse_month (case month of
                              None \<Rightarrow> month_param (day_year (ts_date now)) (day_month (ts_date now))
                            | Some s \<Rightarrow> s)) (\<lambda>ym.
       let rows = rev (sort_key overtime_hours
                    (filter (\<lambda>a. in_month ym (att_date a) \<and> 0 < overtime_hours a) atts))
       in Inr (rows, sum_list (map overtime_hours rows)))"

definition purchase_report :: "day option \<Rightarrow> day option \<Rightarrow> purchase_order list \<Rightarrow> purchase_order list \<times> decimal" where
  "purchase_report start stop pos =
     (let os = filter (\<lambda>po. (case start of None \<Rightarrow> True | Some d \<Rightarrow> d \<le> order_date po) \<and>
                            (case stop of None \<Rightarrow> True | Some d \<Rightarrow> order_date po \<le> d)) pos
      in (os, sum_list (map grand_total os)))"

subsection \<open>Properties\<close>

lemma py_split_append_sep:
  "c \<notin> set xs \<Longrightarrow> py_split c (xs @ c # ys) = xs # py_split c ys"
  by (induction xs) (auto split: list.splits)

text \<open>The default \<open>month\<close> parameter parses back to the year and month it was
  printed from.\<close>

lemma parse_month_param:
  assumes "0 \<le> y" "0 \<le> m"
  shows "parse_month (month_param y m) = Inr (y, m)"
proof -
  have "py_split CHR ''-'' (month_param y m) = [fmt_0d 4 y, fmt_0d 2 m]"
    using minus_notin_fmt_0d [OF assms(1)] minus_notin_fmt_0d [OF assms(2)]
    by (simp add: month_param_def py_split_append_sep py_split_no_sep)
  then show ?thesis by (simp add: parse_month_def py_int_fmt_0d res_bind_def)
qed

lemma hr_attendance_report_default:
  assumes "0 \<le> day_year (ts_date now)"
  shows "hr_attendance_report now None atts =
           Inr (filter (\<lambda>a. day_year (att_date a) = day_year (ts_date now) \<and>
                             day_month (att_date a) = day_month (ts_date now)) atts)"
proof -
  have "0 \<le> day_month (ts_date now)" using day_month_range [of "ts_date now"] by simp
  with assms show ?thesis
    by (simp add: hr_attendance_report_def parse_month_param res_bind_def in_month_def)
qed

lemma length_filter_disjoint:
  "(\<And>x. \<not> (P x \<and> Q x)) \<Longrightarrow>
   length (filter P xs) + length (filter Q xs) = length (filter (\<lambda>x. P x \<or> Q x) xs)"
  by (induction xs) auto

lemma rate_bounds: "0 \<le> part \<Longrightarrow> part \<le> whole \<Longrightarrow> 0 \<le> rate part whole \<and> rate part whole \<le> 100"
  by (auto simp: rate_def divide_le_eq)

lemma quality_report_bounds:
  assumes "quality_report a b qcs = (cs, passed, failed, tot, r)"
  shows "passed + failed \<le> tot \<and> 0 \<le> r \<and> r \<le> 100 \<and> set cs \<subseteq> set qcs"
proof -
  let ?cs = "filter (\<lambda>q. (case a of None \<Rightarrow> True | Some d \<Rightarrow> d \<le> inspection_date q) \<and>
                           (case b of None \<Rightarrow> True | Some d \<Rightarrow> inspection_date q \<le> d)) qcs"
  have "length (filter (\<lambda>q. qc_status q = QcPassed) ?cs) + length (filter (\<lambda>q. qc_status q = QcFailed) ?cs)
        = length (filter (\<lambda>q. qc_status q = QcPassed \<or> qc_status q = QcFailed) ?cs)"
    by (rule length_filter_disjoint) auto
  moreover have "length (filter (\<lambda>q. qc_status q = QcPassed \<or> qc_status q = QcFailed) ?cs) \<le> length ?cs"
    by (rule length_filter_le)
  moreover have "length (filter (\<lambda>q. qc_status q = QcPassed) ?cs) \<le> length ?cs"
    by (rule length_filter_le)
  ultimately show ?thesis using assms rate_bounds [of "qs_count (\<lambda>q. qc_status q = QcPassed) ?cs" "int (length ?cs)"]
    by (auto simp: quality_report_def qs_count_def Let_def)
qed

text \<open>A negative \<open>days\<close> puts the window's start after its end, so the stock
  movement report is empty; the default lists the last 30 days.\<close>

lemma stock_movement_negative_days:
  "py_int s = Inr n \<Longrightarrow> n < 0 \<Longrightarrow> stock_movement_report now (Some s) txs = Inr []"
  by (auto simp: stock_movement_report_def days_window_def res_bind_def filter_empty_conv)

lemma stock_movement_default:
  "stock_movement_report now None txs = Inr (filter (\<lambda>(_, t). now - 2592000 \<le> t \<and> t \<le> now) txs)"
  by (simp add: stock_movement_report_def days_window_def res_bind_def)

end
