(* ===== verification/Analytics.thy ===== *)
theory Analytics
  imports Reports "HOL-Library.Option_ord" "HOL-Library.Product_Lexorder"
begin

text \<open>
  The JSON endpoints of analytics/views.py: the groupings and totals each endpoint
  returns over the production, inventory, quality, procurement and HR tables. A
  \<open>values(...).annotate(...)\<close> query is modelled as one group per key that occurs,
  ordered as its \<open>order_by\<close> says (ties in the database's order are kept in table
  order; \<open>NULL\<close> dates sort first, as SQLite sorts them). Two endpoints use
  \<open>models.F\<close> without importing \<open>models\<close> and always raise \<open>NameError\<close>.
\<close>

subsection \<open>Grouping\<close>

text \<open>\<open>values(key).annotate(...)\<close>: the distinct keys in table order and the rows of
  each.\<close>

definition group_rows :: "('a \<Rightarrow> 'k) \<Rightarrow> 'a list \<Rightarrow> ('k \<times> 'a list) list" where
  "group_rows key xs = map (\<lambda>k. (k, filter (\<lambda>x. key x = k) xs)) (remdups (map key xs))"

text \<open>The stored values of the status columns, which \<open>order_by('status')\<close> compares.\<close>

definition prod_status_key :: "prod_status \<Rightarrow> string" where
  "prod_status_key s = (case s of PsDraft \<Rightarrow> ''draft'' | PsPlanned \<Rightarrow> ''planned'' | PsReleased \<Rightarrow> ''released''
     | PsInProgress \<Rightarrow> ''in_progress'' | PsPartiallyCompleted \<Rightarrow> ''partially_completed''
     | PsCompleted \<Rightarrow> ''completed'' | PsCancelled \<Rightarrow> ''cancelled'' | PsOnHold \<Rightarrow> ''on_hold'')"

definition in_window :: "timestamp \<times> timestamp \<Rightarrow> rat \<Rightarrow> bool" where
  "in_window w t \<longleftrightarrow> of_int (fst w) \<le> t \<and> t \<le> of_int (snd w)"

definition product_name_of :: "inventory_db \<Rightarrow> nat \<Rightarrow> string" where
  "product_name_of db k = (case map_of (inv_products db) k of Some p \<Rightarrow> product_name p | None \<Rightarrow> [])"

subsection \<open>Production\<close>

record production_analytics_data =
  daily_data :: "(day option \<times> decimal \<times> int) list"
  status_distribution :: "(prod_status \<times> int) list"
  product_data :: "(string \<times> decimal \<times> decimal) list"

definition production_analytics :: "timestamp \<Rightarrow> string option \<Rightarrow> inventory_db \<Rightarrow> production_order list \<Rightarrow>
    pyexc + production_analytics_data" where
  "production_analytics now days db ords =
     res_bind (days_window now days) (\<lambda>w.
       let os = filter (\<lambda>o'. case planned_start o' of Some t \<Rightarrow> in_window w t | None \<Rightarrow> False) ords;
           fin = filter (\<lambda>o'. prod_status o' = PsCompleted) os
       in Inr \<lparr>daily_data = sort_key fst
                 (map (\<lambda>(d, g). (d, sum_list (map completed_quantity g), int (length g)))
                   (group_rows (\<lambda>o'. map_option ts_date (actual_end o')) fin)),
               status_distribution = sort_key (prod_status_key \<circ> fst)
                 (map (\<lambda>(s, g). (s, int (length g))) (group_rows prod_status os)),
               product_data = take 10 (rev (sort_key (\<lambda>(_, q, _). q)
                 (map (\<lambda>(n, g). (n, sum_list (map prod_quantity g), sum_list (map completed_quantity g)))
                   (group_rows (\<lambda>o'. product_name_of db (prod_product o')) os))))\<rparr>)"

text \<open>\<open>inventory_analytics\<close> and \<open>real_time_metrics\<close> evaluate a query with
  \<open>models.F\<close> before they answer.\<close>

definition inventory_analytics :: "inventory_db \<Rightarrow> pyexc + unit" where
  "inventory_analytics db = Inl NameError"

definition real_time_metrics :: "timestamp \<Rightarrow> pyexc + unit" where
  "real_time_metrics now = Inl NameError"

definition live_production_data :: "production_order list \<Rightarrow> production_order list \<times> production_order list" where
  "live_production_data ords =
     (take 10 (filter (\<lambda>o'. prod_status o' = PsInProgress) ords),
      take 5 (rev (sort_key actual_end (filter (\<lambda>o'. prod_status o' = PsCompleted) ords))))"

subsection \<open>Quality\<close>

record quality_analytics_data =
  qa_trends :: "(day \<times> int \<times> int \<times> int) list"
  qa_total_checks :: int
  qa_passed_checks :: int
  qa_quality_rate :: rat
  qa_type_distribution :: "(qc_type \<times> int) list"

definition quality_analytics :: "timestamp \<Rightarrow> string option \<Rightarrow> quality_check list \<Rightarrow> pyexc + quality_analytics_data" where
  "quality_analytics now days qcs =
     res_bind (days_window now days) (\<lambda>(a, b).
       let passed = qs_count (\<lambda>q. qc_status q = QcPassed) qcs
       in Inr \<lparr>qa_trends = quality_trends (ts_date a) (ts_date b) qcs,
               qa_total_checks = int (length qcs), qa_passed_checks = passed,
               qa_quality_rate = rate passed (int (length qcs)),
               qa_type_distribution = rev (sort_key snd (map (\<lambda>(t, g). (t, int (length g))) (group_rows qc_type qcs)))\<rparr>)"

subsection \<open>Purchasing\<close>

record financial_analytics_data =
  monthly_spending :: "((int \<times> int) \<times> decimal \<times> int) list"
  supplier_spending :: "(string \<times> decimal \<times> int) list"
  total_spending :: decimal

definition financial_analytics :: "timestamp \<Rightarrow> string option \<Rightarrow> supplier list \<Rightarrow> purchase_order list \<Rightarrow>
    pyexc + financial_analytics_data" where
  "financial_analytics now days sups pos =
     res_bind (case days of None \<Rightarrow> Inr 90 | Some s \<Rightarrow> py_int s) (\<lambda>n.
       let a = ts_date (now - n * 86400); b = ts_date now;
           ps = filter (\<lambda>po. a \<le> order_date po \<and> order_date po \<le> b \<and> po_status po \<in> {PoReceived, PoPartial}) pos
       in Inr \<lparr>monthly_spending = sort_key fst
                 (map (\<lambda>(ym, g). (ym, sum_list (map grand_total g), int (length g)))
                   (group_rows (\<lambda>po. (day_year (order_date po), day_month (order_date po))) ps)),
               supplier_spending = take 10 (rev (sort_key (\<lambda>(_, t, _). t)
                 (map (\<lambda>(nm, g). (nm, sum_list (map grand_total g), int (length g)))
                   (group_rows (\<lambda>po. if po_supplier po < length sups then sup_name (sups ! po_supplier po) else []) ps)))),
               total_spending = sum_list (map grand_total ps)\<rparr>)"

subsection \<open>HR\<close>

record hr_analytics_data =
  ha_total_employees :: int
  ha_active_employees :: int
  attendance_trends :: "(day \<times> int \<times> int) list"
  leave_trends :: "(day \<times> int) list"
  department_distribution :: "(string \<times> int) list"

definition hr_analytics :: "timestamp \<Rightarrow> string option \<Rightarrow> string list \<Rightarrow> employee list \<Rightarrow> attendance list \<Rightarrow>
    leave_application list \<Rightarrow> pyexc + hr_analytics_data" where
  "hr_analytics now days depts emps atts leaves =
     res_bind (days_window now days) (\<lambda>(a, b).
       Inr \<lparr>ha_total_employees = int (length emps),
            ha_active_employees = qs_count (\<lambda>e. employment_status e = EmpActive) emps,
            attendance_trends = sort_key fst
              (map (\<lambda>(d, g). (d, qs_count (\<lambda>x. att_status x = AttPresent) g, qs_count (\<lambda>x. att_status x = AttAbsent) g))
                (group_rows att_date (filter (\<lambda>x. ts_date a \<le> att_date x \<and> att_date x \<le> ts_date b) atts))),
            leave_trends = sort_key fst
              (map (\<lambda>(d, g). (d, int (length g)))
                (group_rows (\<lambda>la. ts_date (la_created la)) (filter (\<lambda>la. a \<le> la_created la \<and> la_created la \<le> b) leaves))),
            department_distribution = rev (sort_key snd
              (map (\<lambda>(nm, g). (nm, int (length g)))
                (group_rows (\<lambda>e. if emp_department e < length depts then depts ! emp_department e else []) emps)))\<rparr>)"

subsection \<open>The main dashboard\<close>

text \<open>\<open>core.views.dashboard\<close>: the figures of every app. The query of the recent
  orders names a relation \<open>uom\<close> that \<open>ProductionOrder\<close> does not have, so it raises
  \<open>FieldError\<close> where it is evaluated, in the template, outside the view's
  \<open>try\<close>; the other queries evaluate inside it and succeed.\<close>

record core_dashboard_data =
  cd_active_orders :: int
  cd_today_production :: decimal
  cd_low_stock_items :: int
  cd_pending_qc :: int
  cd_recent_orders :: "pyexc + production_order list"
  cd_low_stock_list :: "(stock \<times> product) list"
  cd_present :: int
  cd_absent :: int
  cd_pending_purchase_orders :: int

definition core_dashboard :: "timestamp \<Rightarrow> production_order list \<Rightarrow> inventory_db \<Rightarrow> quality_check list \<Rightarrow>
    attendance list \<Rightarrow> purchase_order list \<Rightarrow> core_dashboard_data" where
  "core_dashboard now ords db qcs atts pos =
     (let today = ts_date now;
          low = filter (\<lambda>(s, p). st_quantity s < min_stock p) (stock_rows db);
          recs = filter (\<lambda>a. att_date a = today) atts
      in \<lparr>cd_active_orders = qs_count (\<lambda>o'. prod_status o' \<in> {PsInProgress, PsReleased}) ords,
          cd_today_production = sum_list (map completed_quantity
             (filter (\<lambda>o'. prod_status o' = PsCompleted \<and> map_option ts_date (actual_end o') = Some today) ords)),
          cd_low_stock_items = int (length low),
          cd_pending_qc = qs_count (\<lambda>q. qc_status q = QcPending) qcs,
          cd_recent_orders = Inl FieldError,
          cd_low_stock_list = take 5 low,
          cd_present = qs_count (\<lambda>a. att_status a = AttPresent) recs,
          cd_absent = qs_count (\<lambda>a. att_status a = AttAbsent) recs,
          cd_pending_purchase_orders = qs_count (\<lambda>po. po_status po \<in> {PoDraft, PoSent, PoConfirmed}) pos\<rparr>)"

subsection \<open>Properties\<close>

text \<open>Grouping loses no row and counts none twice: the group sizes add up to the
  number of rows.\<close>

lemma group_rows_partition:
  "sum_list (map (\<lambda>(_, g). length g) (group_rows key xs)) = length xs"
proof -
  have "\<And>ks. distinct ks \<Longrightarrow> set (map key xs) \<subseteq> set ks \<Longrightarrow>
             sum_list (map (\<lambda>k. length (filter (\<lambda>x. key x = k) xs)) ks) = length xs"
  proof (induction xs)
    case Nil then show ?case by (induction ks) auto
  next
    case (Cons x xs)
    then have "sum_list (map (\<lambda>k. length (filter (\<lambda>y. key y = k) (x # xs))) ks) =
               sum_list (map (\<lambda>k. (if key x = k then 1 else 0) + length (filter (\<lambda>y. key y = k) xs)) ks)"
      by (intro arg_cong [where f = sum_list] map_cong) auto
    also have "\<dots> = sum_list (map (\<lambda>k. if key x = k then 1 else 0) ks) + length xs"
      using Cons by (simp add: sum_list_addf)
    also have "sum_list (map (\<lambda>k. if key x = k then (1::nat) else 0) ks) = 1"
      using Cons.prems by (simp add: sum_list_distinct_conv_sum_set sum.delta sum.delta')
    finally show ?case by simp
  qed
  then show ?thesis by (simp add: group_rows_def comp_def split_def)
qed

end
