(* ===== verification/ModelForms.thy ===== *)
theory ModelForms
  imports Inventory
begin

text \<open>
  What Django's model forms do to a table, shared by the create, update and delete
  views of several apps: keyed tables (association lists from primary key to row,
  with an id sequence and a column the model declares \<open>unique\<close>), and the inline
  formset of \<open>inlineformset_factory(..., extra=n, can_delete=True)\<close> that edits the
  child rows of one parent row. A formset is described by its form type's
  behaviour: \<open>del\<close> is the \<open>DELETE\<close> box, \<open>changed\<close> is \<open>has_changed()\<close> of an
  extra form, \<open>row\<close> is the cleaned row of a form whose required fields are
  filled, \<open>key\<close> is the child's column of \<open>unique_together\<close> with the parent, and
  \<open>ok\<close> says that the row's foreign keys name existing rows.
\<close>

subsection \<open>Keyed tables\<close>

text \<open>Distinct primary keys below the id sequence and a unique column.\<close>

definition table_ok :: "('a \<Rightarrow> 'k) \<Rightarrow> nat \<Rightarrow> 'a table \<Rightarrow> bool" where
  "table_ok key seq t \<longleftrightarrow>
     distinct (map fst t) \<and> list_all (\<lambda>k. k < seq) (map fst t) \<and> distinct (map (key \<circ> snd) t)"

subsection \<open>Inline formsets\<close>

text \<open>The posted formset: one initial form per existing child row, in the order of
  the rows (as the rendered page posts them), then the extra forms.\<close>

record 'f inline_formset =
  fs_initial :: "'f list"
  fs_extra :: "'f list"

definition initial_kept :: "('f \<Rightarrow> bool) \<Rightarrow> 'r list \<Rightarrow> 'f inline_formset \<Rightarrow> nat list" where
  "initial_kept del ls fs = filter (\<lambda>i. \<not> del (fs_initial fs ! i)) [0..<min (length ls) (length (fs_initial fs))]"

definition extra_kept :: "('f \<Rightarrow> bool) \<Rightarrow> ('f \<Rightarrow> bool) \<Rightarrow> 'f inline_formset \<Rightarrow> 'f list" where
  "extra_kept del changed fs = filter (\<lambda>f. changed f \<and> \<not> del f) (fs_extra fs)"

text \<open>The forms whose errors count and which are saved (\<open>_should_delete_form\<close>
  drops the others; an unchanged extra form is neither validated nor saved), each
  with the index of the row it edits.\<close>

definition kept_forms :: "('f \<Rightarrow> bool) \<Rightarrow> ('f \<Rightarrow> bool) \<Rightarrow> 'r list \<Rightarrow> 'f inline_formset \<Rightarrow>
    (nat option \<times> 'f) list" where
  "kept_forms del changed ls fs =
     map (\<lambda>i. (Some i, fs_initial fs ! i)) (initial_kept del ls fs) @ map (Pair None) (extra_kept del changed fs)"

text \<open>\<open>unique_together\<close> checked by a form's own \<open>validate_unique\<close> against the
  stored rows other than its instance; Django skips this check while the parent row
  is unsaved.\<close>

definition unique_db :: "('f \<Rightarrow> 'r option) \<Rightarrow> ('r \<Rightarrow> 'k) \<Rightarrow> 'r list \<Rightarrow> nat option \<Rightarrow> 'f \<Rightarrow> bool" where
  "unique_db row key ls own f =
     (case row f of None \<Rightarrow> True
      | Some r \<Rightarrow> key r \<notin> set (map (\<lambda>j. key (ls ! j)) (filter (\<lambda>j. Some j \<noteq> own) [0..<length ls])))"

text \<open>\<open>formset.is_valid()\<close>: every kept form has its required fields and valid
  foreign keys, passes the stored-row check when the parent is saved, and the kept
  forms have distinct keys (\<open>BaseModelFormSet.validate_unique\<close>).\<close>

definition formset_valid :: "('f \<Rightarrow> bool) \<Rightarrow> ('f \<Rightarrow> bool) \<Rightarrow> ('f \<Rightarrow> 'r option) \<Rightarrow> ('r \<Rightarrow> 'k) \<Rightarrow>
    ('r \<Rightarrow> bool) \<Rightarrow> bool \<Rightarrow> 'r list \<Rightarrow> 'f inline_formset \<Rightarrow> bool" where
  "formset_valid del changed row key ok saved ls fs \<longleftrightarrow>
     list_all (\<lambda>(own, f). (case row f of None \<Rightarrow> False | Some r \<Rightarrow> ok r) \<and>
                         (if saved then unique_db row key ls own f else True)) (kept_forms del changed ls fs) \<and>
     distinct (map (\<lambda>(_, f). map_option key (row f)) (kept_forms del changed ls fs))"

definition update_row :: "('f \<Rightarrow> 'r option) \<Rightarrow> 'r \<Rightarrow> 'f \<Rightarrow> 'r" where
  "update_row row r f = (case row f of None \<Rightarrow> r | Some r' \<Rightarrow> r')"

text \<open>\<open>formset.save()\<close>: \<open>save_existing_objects\<close> writes the kept initial forms
  onto their rows and deletes the others, rows without a posted form stay, and
  \<open>save_new_objects\<close> appends the kept extra forms.\<close>

definition formset_save :: "('f \<Rightarrow> bool) \<Rightarrow> ('f \<Rightarrow> bool) \<Rightarrow> ('f \<Rightarrow> 'r option) \<Rightarrow> 'r list \<Rightarrow>
    'f inline_formset \<Rightarrow> 'r list" where
  "formset_save del changed row ls fs =
     map (\<lambda>i. update_row row (ls ! i) (fs_initial fs ! i)) (initial_kept del ls fs) @
     drop (length (fs_initial fs)) ls @ List.map_filter row (extra_kept del changed fs)"

text \<open>A formset whose model has no \<open>unique_together\<close> with the parent: every kept
  form must be valid, and with \<open>min_num=n, validate_min=True\<close> at least \<open>n\<close> forms
  must be kept (\<open>total_form_count() - len(deleted_forms) - empty_forms_count\<close>).\<close>

definition forms_valid :: "('f \<Rightarrow> bool) \<Rightarrow> ('f \<Rightarrow> bool) \<Rightarrow> ('f \<Rightarrow> 'r option) \<Rightarrow> ('r \<Rightarrow> bool) \<Rightarrow> nat \<Rightarrow>
    'r list \<Rightarrow> 'f inline_formset \<Rightarrow> bool" where
  "forms_valid del changed row ok min_num ls fs \<longleftrightarrow>
     list_all (\<lambda>(_, f). case row f of None \<Rightarrow> False | Some r \<Rightarrow> ok r) (kept_forms del changed ls fs) \<and>
     min_num \<le> length (kept_forms del changed ls fs)"

text \<open>The child rows of one parent: distinct keys and valid foreign keys.\<close>

definition rows_ok :: "('r \<Rightarrow> 'k) \<Rightarrow> ('r \<Rightarrow> bool) \<Rightarrow> 'r list \<Rightarrow> bool" where
  "rows_ok key ok ls \<longleftrightarrow> distinct (map key ls) \<and> list_all ok ls"

subsection \<open>Keyed tables: lemmas\<close>

lemma table_ok_append:
  assumes "table_ok key seq t" "key v \<notin> set (map (key \<circ> snd) t)"
  shows "table_ok key (Suc seq) (t @ [(seq, v)])"
proof -
  have "seq \<notin> set (map fst t)" using assms(1) by (auto simp: table_ok_def list_all_iff)
  with assms show ?thesis by (auto simp: table_ok_def list_all_iff)
qed

lemma table_ok_update:
  assumes "table_ok key seq t" "k \<in> set (map fst t)"
    and "key v \<notin> set (map (key \<circ> snd) (filter (\<lambda>(k', _). Some k' \<noteq> Some k) t))"
  shows "table_ok key seq (AList.update k v t)"
proof -
  have keys: "map fst (AList.update k v t) = map fst t" using assms(2) by (simp add: update_keys)
  have "distinct (map (key \<circ> snd) (AList.update k v t))"
    using assms by (intro distinct_update_image) (auto simp: table_ok_def)
  with assms(1) keys show ?thesis by (simp add: table_ok_def)
qed

lemma table_ok_delete: "table_ok key seq t \<Longrightarrow> table_ok key seq (AList.delete k t)"
  by (simp add: table_ok_def list_all_iff AList.delete_eq distinct_map_filter)

lemma list_all_alist_update:
  "list_all P t \<Longrightarrow> P (k, v) \<Longrightarrow> list_all P (AList.update k v t)"
  using set_update_subset [of k v t] by (auto simp: list_all_iff)

lemma map_of_Some_key: "map_of t k = Some v \<Longrightarrow> k \<in> set (map fst t)"
  by (force dest: map_of_SomeD)

lemma key_map_of_Some: "k \<in> set (map fst t) \<Longrightarrow> \<exists>v. map_of t k = Some v"
  by (auto dest: weak_map_of_SomeI)

text \<open>Reading a unique column through the keys: distinct keys of a table give
  distinct values of the column.\<close>

lemma map_of_column_distinct:
  assumes "distinct (map fst t)" "distinct (map (f \<circ> snd) t)" "distinct ks" "set ks \<subseteq> set (map fst t)"
  shows "distinct (map (\<lambda>k. f (the (map_of t k))) ks)"
proof -
  have "inj_on (f \<circ> snd) (set t)" using assms(2) by (simp add: distinct_map)
  moreover have "(k, the (map_of t k)) \<in> set t" if k: "k \<in> set ks" for k
  proof -
    obtain v where "map_of t k = Some v" using key_map_of_Some [of k t] k assms(4) by blast
    then show ?thesis by (simp add: map_of_SomeD)
  qed
  ultimately have "inj_on (\<lambda>k. f (the (map_of t k))) (set ks)"
    unfolding inj_on_def by (metis comp_apply prod.inject snd_conv)
  with assms(3) show ?thesis by (simp add: distinct_map)
qed

subsection \<open>Inline formsets: lemmas\<close>

lemma rows_ok_mono: "rows_ok key ok ls \<Longrightarrow> (\<And>r. ok r \<Longrightarrow> ok' r) \<Longrightarrow> rows_ok key ok' ls"
  by (auto simp: rows_ok_def list_all_iff)

lemma distinct_map_Some: "distinct (map Some xs) = distinct xs"
  by (induction xs) auto

lemma map_filter_keys:
  "list_all (\<lambda>f. row f \<noteq> None) fs \<Longrightarrow>
   map (Some \<circ> key) (List.map_filter row fs) = map (\<lambda>f. map_option key (row f)) fs"
  by (induction fs) (auto split: option.splits)

lemma in_set_map_filter: "y \<in> set (List.map_filter f xs) \<longleftrightarrow> (\<exists>x\<in>set xs. f x = Some y)"
  by (induction xs) (auto split: option.splits)

lemma kept_forms_own:
  "(Some i, f) \<in> set (kept_forms del changed ls fs) \<Longrightarrow> i < length ls \<and> i < length (fs_initial fs)"
  by (auto simp: kept_forms_def initial_kept_def)

lemma kept_forms_valid:
  assumes "formset_valid del changed row key ok saved ls fs" "(own, f) \<in> set (kept_forms del changed ls fs)"
  shows "\<exists>r. row f = Some r \<and> ok r \<and> (saved \<longrightarrow> unique_db row key ls own f)"
  using assms by (fastforce simp: formset_valid_def list_all_iff split: option.splits)

text \<open>Under a valid formset the edited and the new rows carry exactly the keys of
  the kept forms.\<close>

lemma formset_save_keys:
  assumes "formset_valid del changed row key ok saved ls fs"
  shows "map (Some \<circ> key)
           (map (\<lambda>i. update_row row (ls ! i) (fs_initial fs ! i)) (initial_kept del ls fs) @
            List.map_filter row (extra_kept del changed fs)) =
         map (\<lambda>(_, f). map_option key (row f)) (kept_forms del changed ls fs)"
proof -
  have v: "\<And>own f. (own, f) \<in> set (kept_forms del changed ls fs) \<Longrightarrow> row f \<noteq> None"
    using kept_forms_valid [OF assms] by blast
  have "list_all (\<lambda>f. row f \<noteq> None) (extra_kept del changed fs)"
    using v [of None] by (auto simp: kept_forms_def list_all_iff)
  then have c: "map (Some \<circ> key) (List.map_filter row (extra_kept del changed fs)) =
                map (\<lambda>f. map_option key (row f)) (extra_kept del changed fs)"
    by (rule map_filter_keys)
  have "map (\<lambda>i. Some (key (update_row row (ls ! i) (fs_initial fs ! i)))) (initial_kept del ls fs) =
        map (\<lambda>i. map_option key (row (fs_initial fs ! i))) (initial_kept del ls fs)"
  proof (rule map_cong [OF refl])
    fix i assume "i \<in> set (initial_kept del ls fs)"
    then have "row (fs_initial fs ! i) \<noteq> None" using v by (fastforce simp: kept_forms_def)
    then show "Some (key (update_row row (ls ! i) (fs_initial fs ! i))) = map_option key (row (fs_initial fs ! i))"
      by (auto simp: update_row_def)
  qed
  with c show ?thesis by (simp add: kept_forms_def comp_def)
qed

text \<open>Every edited or new row is the cleaned row of a kept form.\<close>

lemma formset_save_source:
  assumes "formset_valid del changed row key ok saved ls fs"
    and "r \<in> set (map (\<lambda>i. update_row row (ls ! i) (fs_initial fs ! i)) (initial_kept del ls fs) @
                  List.map_filter row (extra_kept del changed fs))"
  shows "\<exists>own f. (own, f) \<in> set (kept_forms del changed ls fs) \<and> row f = Some r"
proof -
  consider (ini) i where "i \<in> set (initial_kept del ls fs)" "r = update_row row (ls ! i) (fs_initial fs ! i)"
    | (ext) f where "f \<in> set (extra_kept del changed fs)" "row f = Some r"
    using assms(2) by (auto simp: in_set_map_filter)
  then show ?thesis
  proof cases
    case ini
    then have k: "(Some i, fs_initial fs ! i) \<in> set (kept_forms del changed ls fs)" by (simp add: kept_forms_def)
    then obtain r' where "row (fs_initial fs ! i) = Some r'" using kept_forms_valid [OF assms(1) k] by blast
    with ini k show ?thesis by (auto simp: update_row_def)
  next
    case ext
    then have "(None, f) \<in> set (kept_forms del changed ls fs)" by (simp add: kept_forms_def)
    with ext show ?thesis by blast
  qed
qed

text \<open>A valid formset keeps the child rows' keys distinct and their foreign keys
  valid, on a new parent (no stored rows) and on a saved one.\<close>

lemma formset_save_ok:
  assumes "formset_valid del changed row key ok saved ls fs" "rows_ok key ok ls" "saved \<or> ls = []"
  shows "rows_ok key ok (formset_save del changed row ls fs)"
proof -
  let ?K = "kept_forms del changed ls fs"
  let ?A = "map (\<lambda>i. update_row row (ls ! i) (fs_initial fs ! i)) (initial_kept del ls fs) @
            List.map_filter row (extra_kept del changed fs)"
  let ?B = "drop (length (fs_initial fs)) ls"
  have src: "\<And>r. r \<in> set ?A \<Longrightarrow> \<exists>own f. (own, f) \<in> set ?K \<and> row f = Some r"
    using assms(1) by (rule formset_save_source)
  have dA: "distinct (map key ?A)"
  proof -
    have "distinct (map (Some \<circ> key) ?A)"
      unfolding formset_save_keys [OF assms(1)] using assms(1) by (simp add: formset_valid_def)
    then have "distinct (map Some (map key ?A))" by (simp only: map_map)
    then show ?thesis by (simp only: distinct_map_Some)
  qed
  have sA: "list_all ok ?A"
    unfolding list_all_iff
  proof
    fix r assume "r \<in> set ?A"
    then obtain own f where "(own, f) \<in> set ?K" "row f = Some r" using src by blast
    then show "ok r" using kept_forms_valid [OF assms(1)] by fastforce
  qed
  have dB: "distinct (map key ?B)" and sB: "list_all ok ?B"
    using assms(2) set_drop_subset [of "length (fs_initial fs)" ls]
    by (auto simp: rows_ok_def drop_map [symmetric] distinct_drop list_all_iff)
  have disj: "set (map key ?A) \<inter> set (map key ?B) = {}"
  proof (cases "ls = []")
    case False
    with assms(3) have saved by simp
    show ?thesis
    proof (rule ccontr)
      assume "set (map key ?A) \<inter> set (map key ?B) \<noteq> {}"
      then obtain r rb where rA: "r \<in> set ?A" and rB: "rb \<in> set ?B" and kk: "key r = key rb" by force
      from rA obtain own f where kf: "(own, f) \<in> set ?K" and fr: "row f = Some r"
        using src by blast
      from rB obtain k where k: "k < length ls - length (fs_initial fs)"
        and rk: "rb = ls ! (length (fs_initial fs) + k)"
        by (auto simp: in_set_conv_nth)
      let ?j = "length (fs_initial fs) + k"
      have "Some ?j \<noteq> own" using kept_forms_own [of _ f del changed ls fs] kf by (cases own) auto
      moreover have "?j < length ls" using k by simp
      moreover have "unique_db row key ls own f" using kept_forms_valid [OF assms(1) kf] \<open>saved\<close> by auto
      ultimately show False using fr kk rk by (auto simp: unique_db_def)
    qed
  qed simp
  let ?A1 = "map (\<lambda>i. update_row row (ls ! i) (fs_initial fs ! i)) (initial_kept del ls fs)"
  let ?C = "List.map_filter row (extra_kept del changed fs)"
  have "set (map key ?A1) \<inter> set (map key ?B) = {}" "set (map key ?C) \<inter> set (map key ?B) = {}"
    using disj by auto
  moreover have "distinct (map key ?A1)" "distinct (map key ?C)" "set (map key ?A1) \<inter> set (map key ?C) = {}"
    using dA by auto
  moreover have "list_all ok ?A1" "list_all ok ?C" using sA by auto
  ultimately show ?thesis using dB sB by (auto simp: rows_ok_def formset_save_def)
qed

lemma length_map_filter_total:
  "list_all (\<lambda>x. f x \<noteq> None) xs \<Longrightarrow> length (List.map_filter f xs) = length xs"
  by (induction xs) (auto split: option.splits)

text \<open>A saved formset has at least as many rows as forms were kept, when each kept
  form has a row.\<close>

lemma formset_save_length:
  assumes "list_all (\<lambda>(_, f). row f \<noteq> None) (kept_forms del changed ls fs)"
  shows "length (kept_forms del changed ls fs) \<le> length (formset_save del changed row ls fs)"
proof -
  have "list_all (\<lambda>f. row f \<noteq> None) (extra_kept del changed fs)"
    unfolding list_all_iff
  proof
    fix f assume "f \<in> set (extra_kept del changed fs)"
    then have "(None, f) \<in> set (kept_forms del changed ls fs)" by (simp add: kept_forms_def)
    then show "row f \<noteq> None" using assms by (auto simp: list_all_iff)
  qed
  then have "length (List.map_filter row (extra_kept del changed fs)) = length (extra_kept del changed fs)"
    by (rule length_map_filter_total)
  then show ?thesis by (simp add: kept_forms_def formset_save_def)
qed

end
