(* ===== verification/MasterData.thy ===== *)
theory MasterData
  imports Procurement Production ModelForms
begin

text \<open>
  The master-data views of procurement and production: \<open>SupplierCreateView\<close>,
  \<open>SupplierUpdateView\<close> and \<open>SupplierDeleteView\<close> (procurement/views.py with
  \<open>SupplierForm\<close> of procurement/forms.py), and \<open>BOMCreateView\<close>, \<open>BOMUpdateView\<close>
  and \<open>BOMDeleteView\<close> (production/views.py with \<open>BOMForm\<close> and the inline
  \<open>BOMLineFormSet\<close> of production/forms.py). Suppliers and bills of materials are
  association lists from primary key to row, with the audit columns of
  \<open>TimeStampedModel\<close> added to the rows; purchase orders refer to suppliers and
  production orders and material consumptions to bills of materials by key. The
  invariant \<open>md_ok\<close> is the referential integrity of these tables together with the
  \<open>unique\<close> and \<open>unique_together\<close> constraints the forms validate.
\<close>

subsection \<open>Rows and tables\<close>

text \<open>\<open>TimeStampedModel.created_by\<close> and \<open>updated_by\<close> on the two models.\<close>

record supplier_row = supplier +
  sup_created_by :: "nat option"
  sup_updated_by :: "nat option"

record bom_row = bill_of_materials +
  bom_created_by :: "nat option"
  bom_updated_by :: "nat option"

text \<open>The tables the views read and write. \<open>md_consumed_boms\<close> holds, for each
  \<open>MaterialConsumption\<close>, the bill of materials its \<open>bom_line\<close> belongs to.\<close>

record master_db =
  md_users :: "nat list"
  md_products :: "nat list"
  md_suppliers :: "supplier_row table"
  md_supplier_seq :: nat
  md_purchase_orders :: "purchase_order list"
  md_boms :: "bom_row table"
  md_bom_seq :: nat
  md_production_orders :: "production_order list"
  md_consumed_boms :: "nat list"

datatype md_response = MdRedirect | MdFormInvalid

subsection \<open>Suppliers\<close>

text \<open>The bound fields of \<open>SupplierForm\<close> (\<open>fields = '__all__'\<close>): every editable
  field of the model, the two audit foreign keys included. A field left blank is
  \<open>None\<close>.\<close>

record supplier_form =
  sf_code :: string
  sf_name :: string
  sf_type :: supplier_type
  sf_contact :: string
  sf_credit_limit :: "decimal option"
  sf_current_balance :: "decimal option"
  sf_active :: bool
  sf_created_by :: "nat option"
  sf_updated_by :: "nat option"

text \<open>\<open>SupplierForm.is_valid()\<close>: code, name and contact person are required and
  within their \<open>max_length\<close>; the decimal fields have no \<open>blank=True\<close> and are
  required; so are \<open>created_by\<close> and \<open>updated_by\<close> (\<open>null=True\<close> but not
  \<open>blank=True\<close>), which must name existing users; the code is unique among the
  other suppliers.\<close>

definition supplier_form_valid :: "master_db \<Rightarrow> nat option \<Rightarrow> supplier_form \<Rightarrow> bool" where
  "supplier_form_valid db self f \<longleftrightarrow>
     sf_code f \<noteq> [] \<and> length (sf_code f) \<le> 20 \<and> sf_name f \<noteq> [] \<and> length (sf_name f) \<le> 200 \<and>
     sf_contact f \<noteq> [] \<and> length (sf_contact f) \<le> 100 \<and>
     sf_credit_limit f \<noteq> None \<and> sf_current_balance f \<noteq> None \<and>
     (case sf_created_by f of None \<Rightarrow> False | Some u \<Rightarrow> u \<in> set (md_users db)) \<and>
     (case sf_updated_by f of None \<Rightarrow> False | Some u \<Rightarrow> u \<in> set (md_users db)) \<and>
     sf_code f \<notin> set (map (sup_code \<circ> snd) (filter (\<lambda>(k, _). Some k \<noteq> self) (md_suppliers db)))"

text \<open>\<open>form.save(commit=False)\<close>: the cleaned fields written to the instance.\<close>

definition apply_supplier_form :: "supplier_form \<Rightarrow> supplier_row \<Rightarrow> supplier_row" where
  "apply_supplier_form f s =
     s\<lparr>sup_code := sf_code f, sup_name := sf_name f, supplier_type := sf_type f,
       contact_person := sf_contact f, credit_limit := case_option 0 id (sf_credit_limit f),
       current_balance := case_option 0 id (sf_current_balance f), sup_active := sf_active f,
       sup_created_by := sf_created_by f, sup_updated_by := sf_updated_by f\<rparr>"

definition new_supplier_row :: "timestamp \<Rightarrow> supplier_row" where
  "new_supplier_row now =
     \<lparr>sup_code = [], sup_name = [], supplier_type = SupMaterial, contact_person = [], credit_limit = 0,
      current_balance = 0, sup_active = True, sup_created = now, sup_created_by = None, sup_updated_by = None\<rparr>"

text \<open>\<open>SupplierCreateView.form_valid\<close> sets \<open>created_by\<close> to the requesting user;
  \<open>updated_by\<close> keeps the value posted in the form.\<close>

definition supplier_create_view :: "nat \<Rightarrow> timestamp \<Rightarrow> supplier_form \<Rightarrow> master_db \<Rightarrow> md_response \<times> master_db" where
  "supplier_create_view user now f db =
     (if supplier_form_valid db None f
      then (let k = md_supplier_seq db;
                s = (apply_supplier_form f (new_supplier_row now))\<lparr>sup_created_by := Some user\<rparr>
            in (MdRedirect, db\<lparr>md_suppliers := md_suppliers db @ [(k, s)], md_supplier_seq := Suc k\<rparr>))
      else (MdFormInvalid, db))"

text \<open>\<open>SupplierUpdateView\<close>: \<open>get_object\<close> (404 on a missing key), then the form;
  \<open>form_valid\<close> sets \<open>updated_by\<close>, and \<open>created_by\<close> is whatever the form posted.\<close>

definition supplier_update_view :: "nat \<Rightarrow> nat \<Rightarrow> supplier_form \<Rightarrow> master_db \<Rightarrow> pyexc + md_response \<times> master_db" where
  "supplier_update_view user pk f db =
     (case map_of (md_suppliers db) pk of
        None \<Rightarrow> Inl Http404
      | Some s \<Rightarrow>
          if supplier_form_valid db (Some pk) f
          then Inr (MdRedirect,
                    db\<lparr>md_suppliers := AList.update pk ((apply_supplier_form f s)\<lparr>sup_updated_by := Some user\<rparr>)
                                        (md_suppliers db)\<rparr>)
          else Inr (MdFormInvalid, db))"

text \<open>\<open>SupplierDeleteView\<close>: \<open>PurchaseOrder.supplier\<close> is \<open>on_delete=PROTECT\<close>, so a
  supplier with an order is not deleted and \<open>ProtectedError\<close> propagates.\<close>

definition supplier_delete_view :: "nat \<Rightarrow> master_db \<Rightarrow> pyexc + master_db" where
  "supplier_delete_view pk db =
     (case map_of (md_suppliers db) pk of
        None \<Rightarrow> Inl Http404
      | Some _ \<Rightarrow>
          if pk \<in> set (map po_supplier (md_purchase_orders db)) then Inl ProtectedError
          else Inr (db\<lparr>md_suppliers := AList.delete pk (md_suppliers db)\<rparr>))"

subsection \<open>Bills of materials\<close>

text \<open>The bound fields of \<open>BOMForm\<close> that the model keeps; a blank product is
  \<open>None\<close>.\<close>

record bom_form =
  bf_code :: string
  bf_finished_product :: "nat option"
  bf_production_time :: decimal
  bf_scrap_rate :: decimal
  bf_active :: bool

text \<open>\<open>BOMForm.is_valid()\<close>: the code is required, at most 50 characters and unique
  among the other bills; the finished product must exist.\<close>

definition bom_form_valid :: "master_db \<Rightarrow> nat option \<Rightarrow> bom_form \<Rightarrow> bool" where
  "bom_form_valid db self f \<longleftrightarrow>
     bf_code f \<noteq> [] \<and> length (bf_code f) \<le> 50 \<and>
     (case bf_finished_product f of None \<Rightarrow> False | Some p \<Rightarrow> p \<in> set (md_products db)) \<and>
     bf_code f \<notin> set (map (bom_code \<circ> snd) (filter (\<lambda>(k, _). Some k \<noteq> self) (md_boms db)))"

definition apply_bom_form :: "bom_form \<Rightarrow> bom_row \<Rightarrow> bom_row" where
  "apply_bom_form f b =
     b\<lparr>bom_code := bf_code f, finished_product := case_option 0 id (bf_finished_product f),
       production_time := bf_production_time f, scrap_rate := bf_scrap_rate f, bom_active := bf_active f\<rparr>"

definition new_bom_row :: "timestamp \<Rightarrow> bom_row" where
  "new_bom_row now =
     \<lparr>bom_code = [], finished_product = 0, production_time = 0, scrap_rate = 0, bom_active = True,
      bom_created = now, bom_lines = [], bom_created_by = None, bom_updated_by = None\<rparr>"

subsubsection \<open>The line formset\<close>

text \<open>One form of \<open>BOMLineFormSet\<close>: component, quantity and scrap percentage as
  posted (blank is \<open>None\<close>) and the \<open>DELETE\<close> box.\<close>

record bom_line_form =
  blf_component :: "nat option"
  blf_quantity :: "decimal option"
  blf_scrap :: "decimal option"
  blf_delete :: bool

definition line_of_form :: "bom_line_form \<Rightarrow> bom_line option" where
  "line_of_form f =
     (case (blf_component f, blf_quantity f, blf_scrap f) of
        (Some c, Some q, Some s) \<Rightarrow> Some \<lparr>bl_component = c, bl_quantity = q, scrap_percentage = s\<rparr>
      | _ \<Rightarrow> None)"

text \<open>\<open>form.has_changed()\<close> of an extra form against its initial data (no component,
  no quantity, scrap percentage 0); an unchanged extra form is neither validated nor
  saved.\<close>

definition extra_changed :: "bom_line_form \<Rightarrow> bool" where
  "extra_changed f \<longleftrightarrow> blf_component f \<noteq> None \<or> blf_quantity f \<noteq> None \<or> blf_scrap f \<noteq> Some 0"

text \<open>\<open>BOMLineForm\<close>'s foreign key: the component must exist.\<close>

definition bom_line_ok :: "nat list \<Rightarrow> bom_line \<Rightarrow> bool" where
  "bom_line_ok prods l \<longleftrightarrow> bl_component l \<in> set prods"

text \<open>\<open>BOMLineFormSet\<close>: the inline formset of ModelForms keyed by the component
  (\<open>unique_together = ['bom', 'component']\<close>).\<close>

definition bom_formset_valid :: "nat list \<Rightarrow> bool \<Rightarrow> bom_line list \<Rightarrow> bom_line_form inline_formset \<Rightarrow> bool" where
  "bom_formset_valid prods saved ls fs =
     formset_valid blf_delete extra_changed line_of_form bl_component (bom_line_ok prods) saved ls fs"

definition bom_formset_save :: "bom_line list \<Rightarrow> bom_line_form inline_formset \<Rightarrow> bom_line list" where
  "bom_formset_save ls fs = formset_save blf_delete extra_changed line_of_form ls fs"

subsubsection \<open>The views\<close>

text \<open>\<open>BOMCreateView.form_valid\<close>: with a valid form and a valid formset (bound to
  the unsaved bill), the bill is saved with \<open>created_by\<close> and its lines with it;
  otherwise \<open>form_invalid\<close> writes nothing.\<close>

definition bom_create_view :: "nat \<Rightarrow> timestamp \<Rightarrow> bom_form \<Rightarrow> bom_line_form inline_formset \<Rightarrow> master_db \<Rightarrow>
    md_response \<times> master_db" where
  "bom_create_view user now f fs db =
     (if bom_form_valid db None f \<and> bom_formset_valid (md_products db) False [] fs
      then (let k = md_bom_seq db;
                b = (apply_bom_form f (new_bom_row now))\<lparr>bom_lines := bom_formset_save [] fs, bom_created_by := Some user\<rparr>
            in (MdRedirect, db\<lparr>md_boms := md_boms db @ [(k, b)], md_bom_seq := Suc k\<rparr>))
      else (MdFormInvalid, db))"

definition bom_update_view :: "nat \<Rightarrow> nat \<Rightarrow> bom_form \<Rightarrow> bom_line_form inline_formset \<Rightarrow> master_db \<Rightarrow>
    pyexc + md_response \<times> master_db" where
  "bom_update_view user pk f fs db =
     (case map_of (md_boms db) pk of
        None \<Rightarrow> Inl Http404
      | Some b \<Rightarrow>
          if bom_form_valid db (Some pk) f \<and> bom_formset_valid (md_products db) True (bom_lines b) fs
          then Inr (MdRedirect,
                    db\<lparr>md_boms := AList.update pk
                         ((apply_bom_form f b)\<lparr>bom_lines := bom_formset_save (bom_lines b) fs, bom_updated_by := Some user\<rparr>)
                         (md_boms db)\<rparr>)
          else Inr (MdFormInvalid, db))"

text \<open>\<open>BOMDeleteView\<close>: the lines go with the bill (\<open>CASCADE\<close>), but a production
  order (\<open>ProductionOrder.bom\<close>) or a material consumption of one of its lines
  (\<open>MaterialConsumption.bom_line\<close>) protects it.\<close>

definition bom_delete_view :: "nat \<Rightarrow> master_db \<Rightarrow> pyexc + master_db" where
  "bom_delete_view pk db =
     (case map_of (md_boms db) pk of
        None \<Rightarrow> Inl Http404
      | Some _ \<Rightarrow>
          if pk \<in> set (map prod_bom (md_production_orders db)) \<or> pk \<in> set (md_consumed_boms db)
          then Inl ProtectedError
          else Inr (db\<lparr>md_boms := AList.delete pk (md_boms db)\<rparr>))"

subsection \<open>The handlers as steps and the invariant\<close>

inductive md_step :: "master_db \<Rightarrow> master_db \<Rightarrow> bool" where
  supplier_create: "supplier_create_view u t f db = (r, db') \<Longrightarrow> md_step db db'"
| supplier_update: "supplier_update_view u pk f db = Inr (r, db') \<Longrightarrow> md_step db db'"
| supplier_delete: "supplier_delete_view pk db = Inr db' \<Longrightarrow> md_step db db'"
| bom_create: "bom_create_view u t f fs db = (r, db') \<Longrightarrow> md_step db db'"
| bom_update: "bom_update_view u pk f fs db = Inr (r, db') \<Longrightarrow> md_step db db'"
| bom_delete: "bom_delete_view pk db = Inr db' \<Longrightarrow> md_step db db'"

text \<open>The lines of a bill name existing products, each at most once.\<close>

definition bom_lines_ok :: "nat list \<Rightarrow> bom_line list \<Rightarrow> bool" where
  "bom_lines_ok prods ls \<longleftrightarrow> rows_ok bl_component (bom_line_ok prods) ls"

definition md_ok :: "master_db \<Rightarrow> bool" where
  "md_ok db \<longleftrightarrow>
     table_ok sup_code (md_supplier_seq db) (md_suppliers db) \<and>
     set (map po_supplier (md_purchase_orders db)) \<subseteq> set (map fst (md_suppliers db)) \<and>
     table_ok bom_code (md_bom_seq db) (md_boms db) \<and>
     set (map prod_bom (md_production_orders db)) \<subseteq> set (map fst (md_boms db)) \<and>
     set (md_consumed_boms db) \<subseteq> set (map fst (md_boms db)) \<and>
     list_all (\<lambda>(_, b). finished_product b \<in> set (md_products db) \<and> bom_lines_ok (md_products db) (bom_lines b))
       (md_boms db)"

text \<open>Master data with one user and two products, a bill form for product 5 and a
  line formset with one line of component 6 and one untouched extra form.\<close>

definition md_ex :: master_db where
  "md_ex = \<lparr>md_users = [1], md_products = [5, 6], md_suppliers = [], md_supplier_seq = 0,
            md_purchase_orders = [], md_boms = [], md_bom_seq = 0, md_production_orders = [],
            md_consumed_boms = []\<rparr>"

definition bf_ex :: bom_form where
  "bf_ex = \<lparr>bf_code = ''BOM-1'', bf_finished_product = Some 5, bf_production_time = 2, bf_scrap_rate = 0,
            bf_active = True\<rparr>"

definition fs_ex :: "bom_line_form inline_formset" where
  "fs_ex = \<lparr>fs_initial = [],
            fs_extra = [\<lparr>blf_component = Some 6, blf_quantity = Some 3, blf_scrap = Some 0, blf_delete = False\<rparr>,
                        \<lparr>blf_component = None, blf_quantity = None, blf_scrap = Some 0, blf_delete = False\<rparr>]\<rparr>"

subsection \<open>Properties\<close>

lemma supplier_create_ok:
  assumes "md_ok db" "supplier_create_view u t f db = (r, db')"
  shows "md_ok db'"
proof (cases "supplier_form_valid db None f")
  case True
  let ?k = "md_supplier_seq db"
  obtain s where db': "db' = db\<lparr>md_suppliers := md_suppliers db @ [(?k, s)], md_supplier_seq := Suc ?k\<rparr>"
    and sc: "sup_code s = sf_code f"
    using assms(2) True by (auto simp: supplier_create_view_def Let_def apply_supplier_form_def)
  have "sup_code s \<notin> set (map (sup_code \<circ> snd) (md_suppliers db))"
    using True sc by (simp add: supplier_form_valid_def split_def)
  then have "table_ok sup_code (Suc ?k) (md_suppliers db @ [(?k, s)])"
    using assms(1) by (intro table_ok_append) (simp_all add: md_ok_def)
  with assms(1) show ?thesis by (auto simp: db' md_ok_def)
qed (use assms in \<open>simp add: supplier_create_view_def\<close>)

lemma supplier_update_ok:
  assumes "md_ok db" "supplier_update_view u pk f db = Inr (r, db')"
  shows "md_ok db'"
proof -
  obtain s where s: "map_of (md_suppliers db) pk = Some s"
    using assms(2) by (auto simp: supplier_update_view_def split: option.splits)
  then have k: "pk \<in> set (map fst (md_suppliers db))" by (rule map_of_Some_key)
  show ?thesis
  proof (cases "supplier_form_valid db (Some pk) f")
    case True
    let ?s = "(apply_supplier_form f s)\<lparr>sup_updated_by := Some u\<rparr>"
    have db': "db' = db\<lparr>md_suppliers := AList.update pk ?s (md_suppliers db)\<rparr>"
      using assms(2) s True by (simp add: supplier_update_view_def)
    have keys: "map fst (AList.update pk ?s (md_suppliers db)) = map fst (md_suppliers db)"
      using k by (simp add: update_keys)
    have "table_ok sup_code (md_supplier_seq db) (AList.update pk ?s (md_suppliers db))"
      using assms(1) k True
      by (intro table_ok_update) (auto simp: md_ok_def supplier_form_valid_def apply_supplier_form_def)
    with assms(1) keys show ?thesis by (simp add: db' md_ok_def)
  qed (use assms s in \<open>simp add: supplier_update_view_def\<close>)
qed

lemma supplier_delete_ok:
  assumes "md_ok db" "supplier_delete_view pk db = Inr db'"
  shows "md_ok db'"
proof -
  have np: "pk \<notin> set (map po_supplier (md_purchase_orders db))"
    and db': "db' = db\<lparr>md_suppliers := AList.delete pk (md_suppliers db)\<rparr>"
    using assms(2) by (auto simp: supplier_delete_view_def split: option.splits if_splits)
  have "set (map fst (AList.delete pk (md_suppliers db))) = set (map fst (md_suppliers db)) - {pk}"
    by (simp add: delete_keys)
  with assms(1) np show ?thesis by (auto simp: db' md_ok_def table_ok_delete)
qed

lemma bom_create_ok:
  assumes "md_ok db" "bom_create_view u t f fs db = (r, db')"
  shows "md_ok db'"
proof (cases "bom_form_valid db None f \<and> bom_formset_valid (md_products db) False [] fs")
  case True
  let ?k = "md_bom_seq db"
  obtain b where db': "db' = db\<lparr>md_boms := md_boms db @ [(?k, b)], md_bom_seq := Suc ?k\<rparr>"
    and bc: "bom_code b = bf_code f" and bp: "finished_product b = case_option 0 id (bf_finished_product f)"
    and bl: "bom_lines b = bom_formset_save [] fs"
    using assms(2) True by (auto simp: bom_create_view_def Let_def apply_bom_form_def)
  have "bom_code b \<notin> set (map (bom_code \<circ> snd) (md_boms db))"
    using True bc by (simp add: bom_form_valid_def split_def)
  then have "table_ok bom_code (Suc ?k) (md_boms db @ [(?k, b)])"
    using assms(1) by (intro table_ok_append) (simp_all add: md_ok_def)
  moreover have "finished_product b \<in> set (md_products db)"
    using True bp by (auto simp: bom_form_valid_def split: option.splits)
  moreover have "bom_lines_ok (md_products db) (bom_lines b)"
    unfolding bl bom_lines_ok_def bom_formset_save_def using True
    by (intro formset_save_ok) (auto simp: bom_formset_valid_def rows_ok_def)
  ultimately show ?thesis using assms(1) by (auto simp: db' md_ok_def)
qed (use assms in \<open>auto simp: bom_create_view_def split: if_splits\<close>)

lemma bom_update_ok:
  assumes "md_ok db" "bom_update_view u pk f fs db = Inr (r, db')"
  shows "md_ok db'"
proof -
  obtain b where b: "map_of (md_boms db) pk = Some b"
    using assms(2) by (auto simp: bom_update_view_def split: option.splits)
  then have k: "pk \<in> set (map fst (md_boms db))" by (rule map_of_Some_key)
  show ?thesis
  proof (cases "bom_form_valid db (Some pk) f \<and> bom_formset_valid (md_products db) True (bom_lines b) fs")
    case True
    let ?b = "(apply_bom_form f b)\<lparr>bom_lines := bom_formset_save (bom_lines b) fs, bom_updated_by := Some u\<rparr>"
    have db': "db' = db\<lparr>md_boms := AList.update pk ?b (md_boms db)\<rparr>"
      using assms(2) b True by (simp add: bom_update_view_def)
    have keys: "map fst (AList.update pk ?b (md_boms db)) = map fst (md_boms db)"
      using k by (simp add: update_keys)
    have t: "table_ok bom_code (md_bom_seq db) (AList.update pk ?b (md_boms db))"
      using assms(1) k True
      by (intro table_ok_update) (auto simp: md_ok_def bom_form_valid_def apply_bom_form_def)
    have "bom_lines_ok (md_products db) (bom_lines b)"
      using assms(1) map_of_SomeD [OF b] by (auto simp: md_ok_def list_all_iff)
    then have "bom_lines_ok (md_products db) (bom_formset_save (bom_lines b) fs)"
      using True unfolding bom_lines_ok_def bom_formset_save_def
      by (intro formset_save_ok) (auto simp: bom_formset_valid_def)
    moreover have "finished_product ?b \<in> set (md_products db)"
      using True by (auto simp: bom_form_valid_def apply_bom_form_def split: option.splits)
    ultimately have "list_all (\<lambda>(_, b). finished_product b \<in> set (md_products db) \<and>
                        bom_lines_ok (md_products db) (bom_lines b)) (AList.update pk ?b (md_boms db))"
      using assms(1) by (intro list_all_alist_update) (auto simp: md_ok_def)
    with assms(1) keys t show ?thesis by (simp add: db' md_ok_def)
  qed (use assms b in \<open>auto simp: bom_update_view_def split: if_splits\<close>)
qed

lemma bom_delete_ok:
  assumes "md_ok db" "bom_delete_view pk db = Inr db'"
  shows "md_ok db'"
proof -
  have np: "pk \<notin> set (map prod_bom (md_production_orders db))" "pk \<notin> set (md_consumed_boms db)"
    and db': "db' = db\<lparr>md_boms := AList.delete pk (md_boms db)\<rparr>"
    using assms(2) by (auto simp: bom_delete_view_def split: option.splits if_splits)
  have "set (map fst (AList.delete pk (md_boms db))) = set (map fst (md_boms db)) - {pk}"
    by (simp add: delete_keys)
  moreover have "table_ok bom_code (md_bom_seq db) (AList.delete pk (md_boms db))"
    using assms(1) by (simp add: md_ok_def table_ok_delete)
  moreover have "set (AList.delete pk (md_boms db)) \<subseteq> set (md_boms db)"
    by (auto simp: AList.delete_eq)
  ultimately show ?thesis
    using assms(1) np by (auto simp: db' md_ok_def list_all_iff)
qed

lemma md_step_ok: "md_step db db' \<Longrightarrow> md_ok db \<Longrightarrow> md_ok db'"
  by (induction rule: md_step.induct)
     (auto intro: supplier_create_ok supplier_update_ok supplier_delete_ok bom_create_ok bom_update_ok bom_delete_ok)

text \<open>\<open>SupplierForm\<close> exposes the audit columns: a post that leaves either of them
  blank is rejected, so a supplier cannot be created or edited without naming both
  users in the form.\<close>

lemma supplier_form_requires_audit_users:
  assumes "sf_created_by f = None \<or> sf_updated_by f = None"
  shows "supplier_create_view u t f db = (MdFormInvalid, db)"
    and "map_of (md_suppliers db) pk \<noteq> None \<Longrightarrow> supplier_update_view u pk f db = Inr (MdFormInvalid, db)"
  using assms by (auto simp: supplier_create_view_def supplier_update_view_def supplier_form_valid_def)

text \<open>Where the view does not overwrite an audit column the posted user is stored:
  a new supplier's \<open>updated_by\<close> and an edited supplier's \<open>created_by\<close>.\<close>

lemma supplier_create_audit:
  assumes "supplier_create_view u t f db = (MdRedirect, db')"
  shows "\<exists>s. md_suppliers db' = md_suppliers db @ [(md_supplier_seq db, s)] \<and>
             sup_created_by s = Some u \<and> sup_updated_by s = sf_updated_by f"
  using assms by (auto simp: supplier_create_view_def Let_def apply_supplier_form_def split: if_splits)

lemma supplier_update_audit:
  assumes "supplier_update_view u pk f db = Inr (MdRedirect, db')"
  shows "\<exists>s. map_of (md_suppliers db') pk = Some s \<and> sup_created_by s = sf_created_by f \<and> sup_updated_by s = Some u"
  using assms by (auto simp: supplier_update_view_def update_conv' apply_supplier_form_def split: option.splits if_splits)

text \<open>A line cannot be replaced by a new line for the same component in one post:
  the new form's stored-line check still sees the line marked for deletion.\<close>

lemma bom_update_replace_line_rejected:
  "bom_update_view 1 0 bf_ex
     \<lparr>fs_initial = [\<lparr>blf_component = Some 6, blf_quantity = Some 3, blf_scrap = Some 0, blf_delete = True\<rparr>],
      fs_extra = [\<lparr>blf_component = Some 6, blf_quantity = Some 4, blf_scrap = Some 0, blf_delete = False\<rparr>]\<rparr>
     (snd (bom_create_view 1 100 bf_ex fs_ex md_ex)) =
   Inr (MdFormInvalid, snd (bom_create_view 1 100 bf_ex fs_ex md_ex))"
  by (simp add: bom_update_view_def bom_create_view_def bom_form_valid_def bom_formset_valid_def
      formset_valid_def kept_forms_def initial_kept_def extra_kept_def extra_changed_def line_of_form_def
      bom_formset_save_def formset_save_def unique_db_def bom_line_ok_def
      md_ex_def bf_ex_def fs_ex_def List.map_filter_simps apply_bom_form_def new_bom_row_def)

text \<open>C37 Through every sequence of supplier and bill-of-materials creates, updates and
  deletes the master data stay consistent: keys distinct and below their id sequence,
  supplier codes and bill codes unique, every purchase order names an existing
  supplier, every production order and material consumption an existing bill, and
  every bill an existing finished product and lines with existing, pairwise distinct
  components.\<close>

theorem md_reachable_ok:
  assumes "md_step\<^sup>*\<^sup>* db db'" "md_ok db"
  shows "md_ok db'"
  using assms by (induction rule: rtranclp_induct) (auto intro: md_step_ok)

theorem md_reachable_ok_witness:
  "md_ok (snd (bom_create_view 1 100 bf_ex fs_ex md_ex)) \<and>
   map (bom_lines \<circ> snd) (md_boms (snd (bom_create_view 1 100 bf_ex fs_ex md_ex))) =
     [[\<lparr>bl_component = 6, bl_quantity = 3, scrap_percentage = 0\<rparr>]]"
proof -
  have "md_step md_ex (snd (bom_create_view 1 100 bf_ex fs_ex md_ex))"
    by (rule md_step.bom_create [of 1 100 bf_ex fs_ex md_ex "fst (bom_create_view 1 100 bf_ex fs_ex md_ex)"]) simp
  then have "md_step\<^sup>*\<^sup>* md_ex (snd (bom_create_view 1 100 bf_ex fs_ex md_ex))" by simp
  moreover have "md_ok md_ex" by (simp add: md_ok_def md_ex_def table_ok_def)
  ultimately have "md_ok (snd (bom_create_view 1 100 bf_ex fs_ex md_ex))" by (rule md_reachable_ok)
  moreover have "map (bom_lines \<circ> snd) (md_boms (snd (bom_create_view 1 100 bf_ex fs_ex md_ex))) =
     [[\<lparr>bl_component = 6, bl_quantity = 3, scrap_percentage = 0\<rparr>]]"
    by (simp add: bom_create_view_def bom_form_valid_def bom_formset_valid_def formset_valid_def
        kept_forms_def initial_kept_def extra_kept_def extra_changed_def line_of_form_def bom_formset_save_def
        formset_save_def bom_line_ok_def md_ex_def bf_ex_def fs_ex_def
        List.map_filter_simps apply_bom_form_def new_bom_row_def)
  ultimately show ?thesis by simp
qed

end
