(* ===== verification/PayrollMaster.thy ===== *)
theory PayrollMaster
  imports SalaryCalc PayrollRun PayrollViews ModelForms
begin

text \<open>
  The payroll master data of payroll/views.py: \<open>PayrollComponentCreateView\<close> and
  \<open>PayrollComponentUpdateView\<close> with the \<open>'__all__'\<close> \<open>PayrollComponentForm\<close>,
  \<open>SalaryStructureListView\<close>, and \<open>SalaryStructureCreateView\<close> and
  \<open>SalaryStructureUpdateView\<close> with \<open>EmployeeSalaryStructureForm\<close> and the inline
  \<open>SalaryComponentValueFormSet\<close> (payroll/forms.py). Components and structures are
  keyed tables (ModelForms); a structure's component values refer to components by
  key. \<open>structures_by_employee\<close> reads the structure table the way the salary
  calculation and the batch run read it (\<open>structure.components.all()\<close> joined with
  the component), which connects these views to SalaryCalc and PayrollRun.
\<close>

subsection \<open>Rows and tables\<close>

text \<open>\<open>PayrollComponent\<close> with the columns its form writes.\<close>

record component_master = component_row +
  comp_value :: decimal
  comp_taxable :: bool
  comp_created_by :: "nat option"
  comp_updated_by :: "nat option"

text \<open>\<open>SalaryComponentValue\<close>: the component by key (the formula column is not
  modelled).\<close>

record value_row =
  sv_component :: nat
  sv_amount :: decimal
  sv_percentage :: decimal

text \<open>\<open>EmployeeSalaryStructure\<close> with its component values in id order.\<close>

record structure_row =
  st_employee :: nat
  st_effective_from :: day
  st_effective_to :: "day option"
  st_basic_salary :: decimal
  st_total_ctc :: decimal
  st_active :: bool
  st_values :: "value_row list"
  st_created_by :: "nat option"
  st_updated_by :: "nat option"

record payroll_master_db =
  pm_users :: "nat list"
  pm_employees :: "employee list"
  pm_components :: "component_master table"
  pm_component_seq :: nat
  pm_structures :: "structure_row table"
  pm_structure_seq :: nat

subsection \<open>Components\<close>

text \<open>The bound fields of \<open>PayrollComponentForm\<close> (\<open>fields = '__all__'\<close>, the
  audit foreign keys included); a blank field is \<open>None\<close>.\<close>

record component_form =
  cf_name :: string
  cf_code :: string
  cf_type :: "component_type option"
  cf_calc :: calculation_type
  cf_value :: "decimal option"
  cf_taxable :: bool
  cf_active :: bool
  cf_priority :: "int option"
  cf_created_by :: "nat option"
  cf_updated_by :: "nat option"

text \<open>\<open>PayrollComponentForm.is_valid()\<close>: name and code required and within their
  \<open>max_length\<close>, a component type chosen, value and priority given (no
  \<open>blank=True\<close>), both audit users given and existing, the code unique among the
  other components.\<close>

definition component_form_valid :: "payroll_master_db \<Rightarrow> nat option \<Rightarrow> component_form \<Rightarrow> bool" where
  "component_form_valid db self f \<longleftrightarrow>
     cf_name f \<noteq> [] \<and> length (cf_name f) \<le> 100 \<and> cf_code f \<noteq> [] \<and> length (cf_code f) \<le> 20 \<and>
     cf_type f \<noteq> None \<and> cf_value f \<noteq> None \<and> cf_priority f \<noteq> None \<and>
     (case cf_created_by f of None \<Rightarrow> False | Some u \<Rightarrow> u \<in> set (pm_users db)) \<and>
     (case cf_updated_by f of None \<Rightarrow> False | Some u \<Rightarrow> u \<in> set (pm_users db)) \<and>
     cf_code f \<notin> set (map (comp_code \<circ> snd) (filter (\<lambda>(k, _). Some k \<noteq> self) (pm_components db)))"

definition apply_component_form :: "component_form \<Rightarrow> component_master \<Rightarrow> component_master" where
  "apply_component_form f c =
     c\<lparr>comp_code := cf_code f, component_type := case_option Earning id (cf_type f),
       calculation_type := cf_calc f, comp_name := cf_name f,
       comp_priority := case_option 0 id (cf_priority f), comp_active := cf_active f,
       comp_value := case_option 0 id (cf_value f), comp_taxable := cf_taxable f,
       comp_created_by := cf_created_by f, comp_updated_by := cf_updated_by f\<rparr>"

definition new_component :: component_master where
  "new_component =
     \<lparr>comp_code = [], component_type = Earning, calculation_type = CalcFixed, comp_name = [],
      comp_priority = 0, comp_active = True, comp_value = 0, comp_taxable = True,
      comp_created_by = None, comp_updated_by = None\<rparr>"

datatype pm_response = PmRedirect | PmFormInvalid

definition component_create_view :: "nat \<Rightarrow> component_form \<Rightarrow> payroll_master_db \<Rightarrow> pm_response \<times> payroll_master_db" where
  "component_create_view user f db =
     (if component_form_valid db None f
      then (let k = pm_component_seq db;
                c = (apply_component_form f new_component)\<lparr>comp_created_by := Some user\<rparr>
            in (PmRedirect, db\<lparr>pm_components := pm_components db @ [(k, c)], pm_component_seq := Suc k\<rparr>))
      else (PmFormInvalid, db))"

definition component_update_view :: "nat \<Rightarrow> nat \<Rightarrow> component_form \<Rightarrow> payroll_master_db \<Rightarrow>
    pyexc + pm_response \<times> payroll_master_db" where
  "component_update_view user pk f db =
     (case map_of (pm_components db) pk of
        None \<Rightarrow> Inl Http404
      | Some c \<Rightarrow>
          if component_form_valid db (Some pk) f
          then Inr (PmRedirect,
                    db\<lparr>pm_components := AList.update pk ((apply_component_form f c)\<lparr>comp_updated_by := Some user\<rparr>)
                                         (pm_components db)\<rparr>)
          else Inr (PmFormInvalid, db))"

subsection \<open>Salary structures\<close>

text \<open>\<open>SalaryStructureListView\<close>: the department parameter is converted to an integer
  by the query (\<open>ValueError\<close> otherwise), \<open>active\<close> filters on \<open>true\<close>/\<open>false\<close>, the
  search matches the user's first or last name or the employee id; newest
  \<open>effective_from\<close> first. \<open>names\<close> gives an employee's user names.\<close>

definition structure_list :: "string option \<Rightarrow> string \<Rightarrow> string \<Rightarrow> (nat \<Rightarrow> string \<times> string) \<Rightarrow>
    payroll_master_db \<Rightarrow> pyexc + (nat \<times> structure_row) list" where
  "structure_list dept active search names db =
     res_bind (case dept of None \<Rightarrow> Inr None | Some d \<Rightarrow> if d = [] then Inr None else map_sum id Some (py_int d))
       (\<lambda>dn. Inr (rev (sort_key (st_effective_from \<circ> snd)
          (filter (\<lambda>(_, s). case find (\<lambda>e. emp_pk e = st_employee s) (pm_employees db) of
                      None \<Rightarrow> False
                    | Some e \<Rightarrow>
                        (case dn of None \<Rightarrow> True | Some n \<Rightarrow> int (emp_department e) = n) \<and>
                        active_filter active (st_active s) \<and>
                        (search = [] \<or> icontains (fst (names (emp_pk e))) search \<or>
                         icontains (snd (names (emp_pk e))) search \<or> icontains (employee_id e) search))
             (pm_structures db)))))"

text \<open>The bound fields of \<open>EmployeeSalaryStructureForm\<close>.\<close>

record structure_form =
  ssf_employee :: "nat option"
  ssf_effective_from :: "day option"
  ssf_effective_to :: "day option"
  ssf_basic_salary :: "decimal option"
  ssf_total_ctc :: "decimal option"
  ssf_active :: bool

text \<open>\<open>EmployeeSalaryStructureForm.is_valid()\<close>: the employee must be in the
  field's queryset (active employees), and no other structure may have it (the
  one-to-one column is unique); the start date, basic salary and cost to company
  are required.\<close>

definition structure_form_valid :: "payroll_master_db \<Rightarrow> nat option \<Rightarrow> structure_form \<Rightarrow> bool" where
  "structure_form_valid db self f \<longleftrightarrow>
     (case ssf_employee f of None \<Rightarrow> False
      | Some e \<Rightarrow> e \<in> set (map emp_pk (filter (\<lambda>x. employment_status x = EmpActive) (pm_employees db))) \<and>
                 e \<notin> set (map (st_employee \<circ> snd) (filter (\<lambda>(k, _). Some k \<noteq> self) (pm_structures db)))) \<and>
     ssf_effective_from f \<noteq> None \<and> ssf_basic_salary f \<noteq> None \<and> ssf_total_ctc f \<noteq> None"

definition apply_structure_form :: "structure_form \<Rightarrow> structure_row \<Rightarrow> structure_row" where
  "apply_structure_form f s =
     s\<lparr>st_employee := case_option 0 id (ssf_employee f), st_effective_from := case_option 0 id (ssf_effective_from f),
       st_effective_to := ssf_effective_to f, st_basic_salary := case_option 0 id (ssf_basic_salary f),
       st_total_ctc := case_option 0 id (ssf_total_ctc f), st_active := ssf_active f\<rparr>"

definition new_structure :: structure_row where
  "new_structure =
     \<lparr>st_employee = 0, st_effective_from = 0, st_effective_to = None, st_basic_salary = 0, st_total_ctc = 0,
      st_active = True, st_values = [], st_created_by = None, st_updated_by = None\<rparr>"

text \<open>One form of \<open>SalaryComponentValueFormSet\<close>.\<close>

record value_form =
  vf_component :: "nat option"
  vf_amount :: "decimal option"
  vf_percentage :: "decimal option"
  vf_delete :: bool

definition value_of_form :: "value_form \<Rightarrow> value_row option" where
  "value_of_form f =
     (case (vf_component f, vf_amount f, vf_percentage f) of
        (Some c, Some a, Some p) \<Rightarrow> Some \<lparr>sv_component = c, sv_amount = a, sv_percentage = p\<rparr>
      | _ \<Rightarrow> None)"

text \<open>An extra form's initial data: no component, amount and percentage 0.\<close>

definition value_changed :: "value_form \<Rightarrow> bool" where
  "value_changed f \<longleftrightarrow> vf_component f \<noteq> None \<or> vf_amount f \<noteq> Some 0 \<or> vf_percentage f \<noteq> Some 0"

definition value_ok :: "component_master table \<Rightarrow> value_row \<Rightarrow> bool" where
  "value_ok comps v \<longleftrightarrow> sv_component v \<in> set (map fst comps)"

text \<open>\<open>unique_together = ['salary_structure', 'component']\<close>.\<close>

definition value_formset_valid :: "component_master table \<Rightarrow> bool \<Rightarrow> value_row list \<Rightarrow>
    value_form inline_formset \<Rightarrow> bool" where
  "value_formset_valid comps saved vs fs =
     formset_valid vf_delete value_changed value_of_form sv_component (value_ok comps) saved vs fs"

definition value_formset_save :: "value_row list \<Rightarrow> value_form inline_formset \<Rightarrow> value_row list" where
  "value_formset_save vs fs = formset_save vf_delete value_changed value_of_form vs fs"

text \<open>\<open>SalaryStructureCreateView\<close>: the formset is bound without an instance (a new
  unsaved structure); with the form and the formset valid the structure is saved
  with \<open>created_by\<close> and its values with it.\<close>

definition structure_create_view :: "nat \<Rightarrow> structure_form \<Rightarrow> value_form inline_formset \<Rightarrow> payroll_master_db \<Rightarrow>
    pm_response \<times> payroll_master_db" where
  "structure_create_view user f fs db =
     (if structure_form_valid db None f \<and> value_formset_valid (pm_components db) False [] fs
      then (let k = pm_structure_seq db;
                s = (apply_structure_form f new_structure)\<lparr>st_values := value_formset_save [] fs, st_created_by := Some user\<rparr>
            in (PmRedirect, db\<lparr>pm_structures := pm_structures db @ [(k, s)], pm_structure_seq := Suc k\<rparr>))
      else (PmFormInvalid, db))"

definition structure_update_view :: "nat \<Rightarrow> nat \<Rightarrow> structure_form \<Rightarrow> value_form inline_formset \<Rightarrow>
    payroll_master_db \<Rightarrow> pyexc + pm_response \<times> payroll_master_db" where
  "structure_update_view user pk f fs db =
     (case map_of (pm_structures db) pk of
        None \<Rightarrow> Inl Http404
      | Some s \<Rightarrow>
          if structure_form_valid db (Some pk) f \<and> value_formset_valid (pm_components db) True (st_values s) fs
          then Inr (PmRedirect,
                    db\<lparr>pm_structures := AList.update pk
                         ((apply_structure_form f s)\<lparr>st_values := value_formset_save (st_values s) fs,
                                                    st_updated_by := Some user\<rparr>)
                         (pm_structures db)\<rparr>)
          else Inr (PmFormInvalid, db))"

subsection \<open>What the calculation reads\<close>

text \<open>\<open>structure.components.all()\<close> with each value's component, as the salary
  calculation reads it, and the structure table keyed by employee as the batch run
  reads it (\<open>batch_db.bdb_structures\<close>).\<close>

definition component_value_of :: "component_master table \<Rightarrow> value_row \<Rightarrow> component_value option" where
  "component_value_of comps v =
     map_option (\<lambda>c. \<lparr>cv_component = \<lparr>comp_code = comp_code c, component_type = component_type c,
                                         calculation_type = calculation_type c\<rparr>,
                       cv_amount = sv_amount v, cv_percentage = sv_percentage v\<rparr>)
       (map_of comps (sv_component v))"

definition salary_structure_of :: "component_master table \<Rightarrow> structure_row \<Rightarrow> salary_structure" where
  "salary_structure_of comps s =
     \<lparr>ss_basic_salary = st_basic_salary s, ss_is_active = st_active s,
      ss_components = List.map_filter (component_value_of comps) (st_values s)\<rparr>"

definition structures_by_employee :: "payroll_master_db \<Rightarrow> (nat \<times> salary_structure) list" where
  "structures_by_employee db = map (\<lambda>(_, s). (st_employee s, salary_structure_of (pm_components db) s)) (pm_structures db)"

subsection \<open>The handlers as steps and the invariant\<close>

inductive pm_step :: "payroll_master_db \<Rightarrow> payroll_master_db \<Rightarrow> bool" where
  component_create: "component_create_view u f db = (r, db') \<Longrightarrow> pm_step db db'"
| component_update: "component_update_view u pk f db = Inr (r, db') \<Longrightarrow> pm_step db db'"
| structure_create: "structure_create_view u f fs db = (r, db') \<Longrightarrow> pm_step db db'"
| structure_update: "structure_update_view u pk f fs db = Inr (r, db') \<Longrightarrow> pm_step db db'"

text \<open>Unique component codes, one structure per employee, and each structure's
  values on existing, pairwise distinct components.\<close>

definition pm_ok :: "payroll_master_db \<Rightarrow> bool" where
  "pm_ok db \<longleftrightarrow>
     table_ok comp_code (pm_component_seq db) (pm_components db) \<and>
     table_ok st_employee (pm_structure_seq db) (pm_structures db) \<and>
     list_all (\<lambda>(_, s). rows_ok sv_component (value_ok (pm_components db)) (st_values s)) (pm_structures db)"

text \<open>Two components, an active employee 7, a structure form for that employee and a
  value formset with one value of each component.\<close>

definition pm_ex :: payroll_master_db where
  "pm_ex = \<lparr>pm_users = [1],
     pm_employees = [\<lparr>emp_pk = 7, employee_id = ''E007'', emp_department = 1, employment_status = EmpActive\<rparr>],
     pm_components =
       [(0, \<lparr>comp_code = ''BASIC'', component_type = Earning, calculation_type = CalcFixed, comp_name = ''Basic'',
             comp_priority = 0, comp_active = True, comp_value = 0, comp_taxable = True,
             comp_created_by = Some 1, comp_updated_by = Some 1\<rparr>),
        (1, \<lparr>comp_code = ''PF'', component_type = Deduction, calculation_type = CalcFixed, comp_name = ''PF'',
             comp_priority = 1, comp_active = True, comp_value = 0, comp_taxable = False,
             comp_created_by = Some 1, comp_updated_by = Some 1\<rparr>)],
     pm_component_seq = 2, pm_structures = [], pm_structure_seq = 0\<rparr>"

definition ssf_ex :: structure_form where
  "ssf_ex = \<lparr>ssf_employee = Some 7, ssf_effective_from = Some 100, ssf_effective_to = None,
             ssf_basic_salary = Some 30000, ssf_total_ctc = Some 400000, ssf_active = True\<rparr>"

definition vfs_ex :: "value_form inline_formset" where
  "vfs_ex = \<lparr>fs_initial = [],
             fs_extra = [\<lparr>vf_component = Some 0, vf_amount = Some 30000, vf_percentage = Some 0, vf_delete = False\<rparr>,
                         \<lparr>vf_component = Some 1, vf_amount = Some 1800, vf_percentage = Some 0, vf_delete = False\<rparr>]\<rparr>"

subsection \<open>Properties\<close>

lemma value_codes:
  "list_all (value_ok comps) vs \<Longrightarrow>
   map (\<lambda>cv. comp_code (cv_component cv)) (List.map_filter (component_value_of comps) vs) =
   map (\<lambda>k. comp_code (the (map_of comps k))) (map sv_component vs)"
proof (induction vs)
  case (Cons v vs)
  obtain c where "map_of comps (sv_component v) = Some c"
    using key_map_of_Some [of "sv_component v" comps] Cons.prems by (auto simp: value_ok_def)
  with Cons show ?case by (simp add: component_value_of_def)
qed simp

lemma structure_codes_distinct:
  assumes "table_ok comp_code seq comps" "rows_ok sv_component (value_ok comps) vs"
  shows "codes_distinct (List.map_filter (component_value_of comps) vs)"
proof -
  have "distinct (map (\<lambda>k. comp_code (the (map_of comps k))) (map sv_component vs))"
    using assms by (intro map_of_column_distinct) (auto simp: table_ok_def rows_ok_def value_ok_def list_all_iff)
  then show ?thesis using assms(2) by (simp add: codes_distinct_def value_codes rows_ok_def)
qed

lemma component_create_ok:
  assumes "pm_ok db" "component_create_view u f db = (r, db')"
  shows "pm_ok db'"
proof (cases "component_form_valid db None f")
  case True
  let ?k = "pm_component_seq db"
  obtain c where db': "db' = db\<lparr>pm_components := pm_components db @ [(?k, c)], pm_component_seq := Suc ?k\<rparr>"
    and cc: "comp_code c = cf_code f"
    using assms(2) True by (auto simp: component_create_view_def Let_def apply_component_form_def)
  have "comp_code c \<notin> set (map (comp_code \<circ> snd) (pm_components db))"
    using True cc by (simp add: component_form_valid_def split_def)
  then have "table_ok comp_code (Suc ?k) (pm_components db @ [(?k, c)])"
    using assms(1) by (intro table_ok_append) (simp_all add: pm_ok_def)
  moreover have "rows_ok sv_component (value_ok (pm_components db @ [(?k, c)])) vs"
    if "rows_ok sv_component (value_ok (pm_components db)) vs" for vs
    using that by (rule rows_ok_mono) (auto simp: value_ok_def)
  ultimately show ?thesis using assms(1) by (auto simp: db' pm_ok_def list_all_iff)
qed (use assms in \<open>simp add: component_create_view_def\<close>)

lemma component_update_ok:
  assumes "pm_ok db" "component_update_view u pk f db = Inr (r, db')"
  shows "pm_ok db'"
proof -
  obtain c where c: "map_of (pm_components db) pk = Some c"
    using assms(2) by (auto simp: component_update_view_def split: option.splits)
  then have k: "pk \<in> set (map fst (pm_components db))" by (rule map_of_Some_key)
  show ?thesis
  proof (cases "component_form_valid db (Some pk) f")
    case True
    let ?c = "(apply_component_form f c)\<lparr>comp_updated_by := Some u\<rparr>"
    have db': "db' = db\<lparr>pm_components := AList.update pk ?c (pm_components db)\<rparr>"
      using assms(2) c True by (simp add: component_update_view_def)
    have "map fst (AList.update pk ?c (pm_components db)) = map fst (pm_components db)"
      using k by (simp add: update_keys)
    then have vo: "value_ok (AList.update pk ?c (pm_components db)) = value_ok (pm_components db)"
      by (simp add: value_ok_def fun_eq_iff)
    have "table_ok comp_code (pm_component_seq db) (AList.update pk ?c (pm_components db))"
      using assms(1) k True
      by (intro table_ok_update) (auto simp: pm_ok_def component_form_valid_def apply_component_form_def)
    with assms(1) vo show ?thesis by (simp add: db' pm_ok_def)
  qed (use assms c in \<open>simp add: component_update_view_def\<close>)
qed

lemma structure_create_ok:
  assumes "pm_ok db" "structure_create_view u f fs db = (r, db')"
  shows "pm_ok db'"
proof (cases "structure_form_valid db None f \<and> value_formset_valid (pm_components db) False [] fs")
  case True
  let ?k = "pm_structure_seq db"
  obtain s where db': "db' = db\<lparr>pm_structures := pm_structures db @ [(?k, s)], pm_structure_seq := Suc ?k\<rparr>"
    and se: "st_employee s = case_option 0 id (ssf_employee f)" and sv: "st_values s = value_formset_save [] fs"
    using assms(2) True by (auto simp: structure_create_view_def Let_def apply_structure_form_def)
  have "st_employee s \<notin> set (map (st_employee \<circ> snd) (pm_structures db))"
    using True se by (auto simp: structure_form_valid_def split_def split: option.splits)
  then have "table_ok st_employee (Suc ?k) (pm_structures db @ [(?k, s)])"
    using assms(1) by (intro table_ok_append) (simp_all add: pm_ok_def)
  moreover have "rows_ok sv_component (value_ok (pm_components db)) (st_values s)"
    unfolding sv value_formset_save_def using True
    by (intro formset_save_ok) (auto simp: value_formset_valid_def rows_ok_def)
  ultimately show ?thesis using assms(1) by (auto simp: db' pm_ok_def)
qed (use assms in \<open>auto simp: structure_create_view_def split: if_splits\<close>)

lemma structure_update_ok:
  assumes "pm_ok db" "structure_update_view u pk f fs db = Inr (r, db')"
  shows "pm_ok db'"
proof -
  obtain s where s: "map_of (pm_structures db) pk = Some s"
    using assms(2) by (auto simp: structure_update_view_def split: option.splits)
  then have k: "pk \<in> set (map fst (pm_structures db))" by (rule map_of_Some_key)
  show ?thesis
  proof (cases "structure_form_valid db (Some pk) f \<and> value_formset_valid (pm_components db) True (st_values s) fs")
    case True
    let ?s = "(apply_structure_form f s)\<lparr>st_values := value_formset_save (st_values s) fs, st_updated_by := Some u\<rparr>"
    have db': "db' = db\<lparr>pm_structures := AList.update pk ?s (pm_structures db)\<rparr>"
      using assms(2) s True by (simp add: structure_update_view_def)
    have t: "table_ok st_employee (pm_structure_seq db) (AList.update pk ?s (pm_structures db))"
      using assms(1) k True
      by (intro table_ok_update) (auto simp: pm_ok_def structure_form_valid_def apply_structure_form_def split: option.splits)
    have "rows_ok sv_component (value_ok (pm_components db)) (st_values s)"
      using assms(1) map_of_SomeD [OF s] by (auto simp: pm_ok_def list_all_iff)
    then have "rows_ok sv_component (value_ok (pm_components db)) (st_values ?s)"
      using True unfolding value_formset_save_def
      by (simp, intro formset_save_ok) (auto simp: value_formset_valid_def)
    then have "list_all (\<lambda>(_, s). rows_ok sv_component (value_ok (pm_components db)) (st_values s))
                 (AList.update pk ?s (pm_structures db))"
      using assms(1) by (intro list_all_alist_update) (auto simp: pm_ok_def)
    with assms(1) t show ?thesis by (simp add: db' pm_ok_def)
  qed (use assms s in \<open>auto simp: structure_update_view_def split: if_splits\<close>)
qed

lemma pm_step_ok: "pm_step db db' \<Longrightarrow> pm_ok db \<Longrightarrow> pm_ok db'"
  by (induction rule: pm_step.induct)
     (auto intro: component_create_ok component_update_ok structure_create_ok structure_update_ok)

lemma pm_reachable_ok: "pm_step\<^sup>*\<^sup>* db db' \<Longrightarrow> pm_ok db \<Longrightarrow> pm_ok db'"
  by (induction rule: rtranclp_induct) (auto intro: pm_step_ok)

lemma pm_ok_codes_distinct:
  assumes "pm_ok db" "(e, ss) \<in> set (structures_by_employee db)"
  shows "codes_distinct (ss_components ss)"
proof -
  obtain k s where "(k, s) \<in> set (pm_structures db)" and ss: "ss = salary_structure_of (pm_components db) s"
    using assms(2) by (auto simp: structures_by_employee_def)
  then have "rows_ok sv_component (value_ok (pm_components db)) (st_values s)"
    using assms(1) by (auto simp: pm_ok_def list_all_iff)
  moreover have "table_ok comp_code (pm_component_seq db) (pm_components db)"
    using assms(1) by (simp add: pm_ok_def)
  ultimately show ?thesis by (simp add: ss salary_structure_of_def structure_codes_distinct)
qed

text \<open>The employee field's queryset holds only active employees, so the structure
  of an employee who is no longer active cannot be edited (not even to deactivate
  it) unless it is moved to another employee.\<close>

lemma structure_update_inactive_employee:
  assumes "map_of (pm_structures db) pk = Some s" "ssf_employee f = Some (st_employee s)"
    and "st_employee s \<notin> set (map emp_pk (filter (\<lambda>x. employment_status x = EmpActive) (pm_employees db)))"
  shows "structure_update_view u pk f fs db = Inr (PmFormInvalid, db)"
  using assms by (simp add: structure_update_view_def structure_form_valid_def)



end
