(* ===== verification/HrStaff.thy ===== *)
theory HrStaff
  imports HrViews PayrollMaster
begin

text \<open>
  The employee views of hr/views.py (\<open>EmployeeListView\<close>, \<open>EmployeeCreateView\<close>,
  \<open>EmployeeUpdateView\<close>, \<open>EmployeeDeleteView\<close>) with \<open>EmployeeForm\<close> of hr/forms.py,
  and what deleting an employee does to the rows of the other apps that refer to it:
  attendance, leave applications, shift assignments, the salary structure with its
  values, loans and advances go with it (\<open>CASCADE\<close>); a payroll, a gate pass it
  requested or a gate-pass approval it gave block the delete (\<open>PROTECT\<close>, also a
  payroll that uses the cascaded structure); the nullable references (supervisors,
  operators, visited person, approver of a pass) are cleared (\<open>SET_NULL\<close>).
\<close>

subsection \<open>Rows and tables\<close>

datatype employee_type = EtPermanent | EtContract | EtTemporary | EtIntern

text \<open>\<open>Employee\<close> with the columns its form writes; \<open>emp_pk\<close> is the row's key.\<close>

record employee_row = employee +
  emp_user :: nat
  designation :: string
  employee_type :: employee_type
  emp_basic_salary :: decimal
  emp_created :: timestamp
  emp_created_by :: "nat option"
  emp_updated_by :: "nat option"

text \<open>The tables that refer to employees. \<open>sd_payroll_refs\<close> holds each payroll's
  employee and salary structure; \<open>sd_nullable_refs\<close> the nullable employee columns of
  production, security and visitors.\<close>

record staff_db =
  sd_users :: "nat list"
  sd_departments :: "nat list"
  sd_employees :: "employee_row table"
  sd_employee_seq :: nat
  sd_attendance :: "attendance list"
  sd_leaves :: "leave_application list"
  sd_employee_shifts :: "nat list"
  sd_structures :: "structure_row table"
  sd_loans :: "loan list"
  sd_advances :: "salary_advance list"
  sd_payroll_refs :: "(nat \<times> nat) list"
  sd_gatepass_requesters :: "nat list"
  sd_approvers :: "nat list"
  sd_nullable_refs :: "nat option list"

subsection \<open>The employee list\<close>

definition employment_status_key :: "employment_status \<Rightarrow> string" where
  "employment_status_key s = (case s of EmpActive \<Rightarrow> ''active'' | EmpInactive \<Rightarrow> ''inactive''
     | EmpOnLeave \<Rightarrow> ''on_leave'' | EmpTerminated \<Rightarrow> ''terminated'')"

text \<open>\<open>EmployeeListView.get_queryset\<close>: status compared with the stored value, the
  department parameter converted to an integer by the query; newest first.\<close>

definition employee_list :: "string option \<Rightarrow> string option \<Rightarrow> staff_db \<Rightarrow> pyexc + (nat \<times> employee_row) list" where
  "employee_list status dept db =
     res_bind (case dept of None \<Rightarrow> Inr None | Some d \<Rightarrow> if d = [] then Inr None else map_sum id Some (py_int d))
       (\<lambda>dn. Inr (rev (sort_key (emp_created \<circ> snd)
          (filter (\<lambda>(_, e). (case status of None \<Rightarrow> True
                                | Some s \<Rightarrow> s = [] \<or> employment_status_key (employment_status e) = s) \<and>
                             (case dn of None \<Rightarrow> True | Some n \<Rightarrow> int (emp_department e) = n))
             (sd_employees db)))))"

subsection \<open>Create and update\<close>

text \<open>The bound fields of \<open>EmployeeForm\<close> that the model keeps (dates, gender,
  phone, address and bank columns are not modelled).\<close>

record employee_form =
  ef_user :: "nat option"
  ef_employee_id :: string
  ef_department :: "nat option"
  ef_designation :: string
  ef_type :: "employee_type option"
  ef_status :: "employment_status option"
  ef_basic_salary :: "decimal option"

text \<open>\<open>EmployeeForm.is_valid()\<close>: the \<open>user\<close> field's queryset is
  \<open>User.objects.filter(employee__isnull=True)\<close>, the users with no employee at all
  (the edited employee's own user included); the employee id is required, at most 20
  characters and unique among the other employees; department, designation, type,
  status and basic salary are required.\<close>

definition employee_form_valid :: "staff_db \<Rightarrow> nat option \<Rightarrow> employee_form \<Rightarrow> bool" where
  "employee_form_valid db self f \<longleftrightarrow>
     (case ef_user f of None \<Rightarrow> False
      | Some u \<Rightarrow> u \<in> set (sd_users db) \<and> u \<notin> set (map (emp_user \<circ> snd) (sd_employees db))) \<and>
     ef_employee_id f \<noteq> [] \<and> length (ef_employee_id f) \<le> 20 \<and>
     ef_employee_id f \<notin> set (map (employee_id \<circ> snd) (filter (\<lambda>(k, _). Some k \<noteq> self) (sd_employees db))) \<and>
     (case ef_department f of None \<Rightarrow> False | Some d \<Rightarrow> d \<in> set (sd_departments db)) \<and>
     ef_designation f \<noteq> [] \<and> length (ef_designation f) \<le> 100 \<and>
     ef_type f \<noteq> None \<and> ef_status f \<noteq> None \<and> ef_basic_salary f \<noteq> None"

definition apply_employee_form :: "employee_form \<Rightarrow> employee_row \<Rightarrow> employee_row" where
  "apply_employee_form f e =
     e\<lparr>employee_id := ef_employee_id f, emp_department := case_option 0 id (ef_department f),
       employment_status := case_option EmpActive id (ef_status f), emp_user := case_option 0 id (ef_user f),
       designation := ef_designation f, employee_type := case_option EtPermanent id (ef_type f),
       emp_basic_salary := case_option 0 id (ef_basic_salary f)\<rparr>"

definition new_employee_row :: "nat \<Rightarrow> timestamp \<Rightarrow> employee_row" where
  "new_employee_row k now =
     \<lparr>emp_pk = k, employee_id = [], emp_department = 0, employment_status = EmpActive, emp_user = 0,
      designation = [], employee_type = EtPermanent, emp_basic_salary = 0, emp_created = now,
      emp_created_by = None, emp_updated_by = None\<rparr>"

datatype hr_response = HrRedirect | HrFormInvalid

definition employee_create_view :: "nat \<Rightarrow> timestamp \<Rightarrow> employee_form \<Rightarrow> staff_db \<Rightarrow> hr_response \<times> staff_db" where
  "employee_create_view user now f db =
     (if employee_form_valid db None f
      then (let k = sd_employee_seq db;
                e = (apply_employee_form f (new_employee_row k now))\<lparr>emp_created_by := Some user\<rparr>
            in (HrRedirect, db\<lparr>sd_employees := sd_employees db @ [(k, e)], sd_employee_seq := Suc k\<rparr>))
      else (HrFormInvalid, db))"

definition employee_update_view :: "nat \<Rightarrow> nat \<Rightarrow> employee_form \<Rightarrow> staff_db \<Rightarrow> pyexc + hr_response \<times> staff_db" where
  "employee_update_view user pk f db =
     (case map_of (sd_employees db) pk of
        None \<Rightarrow> Inl Http404
      | Some e \<Rightarrow>
          if employee_form_valid db (Some pk) f
          then Inr (HrRedirect,
                    db\<lparr>sd_employees := AList.update pk ((apply_employee_form f e)\<lparr>emp_updated_by := Some user\<rparr>)
                                        (sd_employees db)\<rparr>)
          else Inr (HrFormInvalid, db))"

subsection \<open>Delete\<close>

text \<open>The collector of \<open>employee.delete()\<close>: it raises \<open>ProtectedError\<close> before
  deleting anything when a protecting row refers to the employee or to a row that
  would be cascaded (its salary structure); otherwise it deletes the employee with the
  cascaded rows and clears the nullable references.\<close>

definition employee_protected :: "nat \<Rightarrow> staff_db \<Rightarrow> bool" where
  "employee_protected pk db \<longleftrightarrow>
     pk \<in> set (map fst (sd_payroll_refs db)) \<or>
     list_ex (\<lambda>(k, s). st_employee s = pk \<and> k \<in> set (map snd (sd_payroll_refs db))) (sd_structures db) \<or>
     pk \<in> set (sd_gatepass_requesters db) \<or> pk \<in> set (sd_approvers db)"

definition employee_delete_view :: "nat \<Rightarrow> staff_db \<Rightarrow> pyexc + staff_db" where
  "employee_delete_view pk db =
     (case map_of (sd_employees db) pk of
        None \<Rightarrow> Inl Http404
      | Some _ \<Rightarrow>
          if employee_protected pk db then Inl ProtectedError
          else Inr (db\<lparr>sd_employees := AList.delete pk (sd_employees db),
                      sd_attendance := filter (\<lambda>a. att_employee a \<noteq> pk) (sd_attendance db),
                      sd_leaves := filter (\<lambda>l. la_employee l \<noteq> pk) (sd_leaves db),
                      sd_employee_shifts := filter (\<lambda>e. e \<noteq> pk) (sd_employee_shifts db),
                      sd_structures := filter (\<lambda>(_, s). st_employee s \<noteq> pk) (sd_structures db),
                      sd_loans := filter (\<lambda>l. loan_employee l \<noteq> pk) (sd_loans db),
                      sd_advances := filter (\<lambda>a. adv_employee a \<noteq> pk) (sd_advances db),
                      sd_nullable_refs := map (\<lambda>r. if r = Some pk then None else r) (sd_nullable_refs db)\<rparr>))"

subsection \<open>The handlers as steps and the invariant\<close>

inductive staff_step :: "staff_db \<Rightarrow> staff_db \<Rightarrow> bool" where
  create: "employee_create_view u t f db = (r, db') \<Longrightarrow> staff_step db db'"
| update: "employee_update_view u pk f db = Inr (r, db') \<Longrightarrow> staff_step db db'"
| delete: "employee_delete_view pk db = Inr db' \<Longrightarrow> staff_step db db'"

text \<open>Every row that refers to an employee names an existing one, and every payroll
  an existing structure; employee ids and users are unique, each row's
  \<open>emp_pk\<close> is its key and its department exists.\<close>

definition staff_ok :: "staff_db \<Rightarrow> bool" where
  "staff_ok db \<longleftrightarrow>
     (let ks = set (map fst (sd_employees db)) in
      table_ok employee_id (sd_employee_seq db) (sd_employees db) \<and>
      distinct (map (emp_user \<circ> snd) (sd_employees db)) \<and>
      list_all (\<lambda>(k, e). emp_pk e = k \<and> emp_department e \<in> set (sd_departments db)) (sd_employees db) \<and>
      set (map att_employee (sd_attendance db)) \<subseteq> ks \<and>
      set (map la_employee (sd_leaves db)) \<subseteq> ks \<and>
      set (sd_employee_shifts db) \<subseteq> ks \<and>
      set (map (st_employee \<circ> snd) (sd_structures db)) \<subseteq> ks \<and>
      set (map loan_employee (sd_loans db)) \<subseteq> ks \<and>
      set (map adv_employee (sd_advances db)) \<subseteq> ks \<and>
      set (map fst (sd_payroll_refs db)) \<subseteq> ks \<and>
      set (map snd (sd_payroll_refs db)) \<subseteq> set (map fst (sd_structures db)) \<and>
      set (sd_gatepass_requesters db) \<subseteq> ks \<and>
      set (sd_approvers db) \<subseteq> ks \<and>
      list_all (\<lambda>r. case r of None \<Rightarrow> True | Some e \<Rightarrow> e \<in> ks) (sd_nullable_refs db))"

text \<open>Two users, one department, no employee yet, and a form for user 2.\<close>

definition sd_ex :: staff_db where
  "sd_ex = \<lparr>sd_users = [1, 2], sd_departments = [1], sd_employees = [], sd_employee_seq = 0,
            sd_attendance = [], sd_leaves = [], sd_employee_shifts = [], sd_structures = [], sd_loans = [],
            sd_advances = [], sd_payroll_refs = [], sd_gatepass_requesters = [], sd_approvers = [],
            sd_nullable_refs = []\<rparr>"

definition ef_ex :: employee_form where
  "ef_ex = \<lparr>ef_user = Some 2, ef_employee_id = ''E001'', ef_department = Some 1, ef_designation = ''Fitter'',
            ef_type = Some EtPermanent, ef_status = Some EmpActive, ef_basic_salary = Some 30000\<rparr>"

subsection \<open>Properties\<close>

text \<open>The \<open>user\<close> field offers only users without an employee, and the edited
  employee's own user has one: an edit that keeps the employee's user is always
  rejected, so an employee can only be edited by moving it to another user.\<close>

lemma employee_update_own_user_rejected:
  assumes "map_of (sd_employees db) pk = Some e" "ef_user f = Some (emp_user e)"
  shows "employee_update_view u pk f db = Inr (HrFormInvalid, db)"
proof -
  have "emp_user e \<in> set (map (emp_user \<circ> snd) (sd_employees db))"
    using map_of_SomeD [OF assms(1)] by force
  then show ?thesis using assms by (simp add: employee_update_view_def employee_form_valid_def)
qed

lemma employee_create_ok:
  assumes "staff_ok db" "employee_create_view u t f db = (r, db')"
  shows "staff_ok db'"
proof (cases "employee_form_valid db None f")
  case True
  let ?k = "sd_employee_seq db"
  let ?e = "(apply_employee_form f (new_employee_row ?k t))\<lparr>emp_created_by := Some u\<rparr>"
  have db': "db' = db\<lparr>sd_employees := sd_employees db @ [(?k, ?e)], sd_employee_seq := Suc ?k\<rparr>"
    using assms(2) True by (simp add: employee_create_view_def Let_def)
  obtain us d where f: "ef_user f = Some us" "ef_department f = Some d"
    using True by (auto simp: employee_form_valid_def split: option.splits)
  have e: "employee_id ?e = ef_employee_id f" "emp_pk ?e = ?k" "emp_user ?e = us" "emp_department ?e = d"
    using f by (simp_all add: apply_employee_form_def new_employee_row_def)
  have "employee_id ?e \<notin> set (map (employee_id \<circ> snd) (sd_employees db))"
    using True e by (simp add: employee_form_valid_def split_def)
  then have "table_ok employee_id (Suc ?k) (sd_employees db @ [(?k, ?e)])"
    using assms(1) by (intro table_ok_append) (simp_all add: staff_ok_def Let_def)
  moreover have "emp_user ?e \<notin> set (map (emp_user \<circ> snd) (sd_employees db))"
    and "emp_department ?e \<in> set (sd_departments db)"
    using True e f by (simp_all add: employee_form_valid_def)
  ultimately show ?thesis using assms(1) e(2)
    by (auto simp: db' staff_ok_def Let_def list_all_iff split: option.splits)
qed (use assms in \<open>simp add: employee_create_view_def\<close>)

lemma employee_update_ok:
  assumes "staff_ok db" "employee_update_view u pk f db = Inr (r, db')"
  shows "staff_ok db'"
proof -
  obtain e where e: "map_of (sd_employees db) pk = Some e"
    using assms(2) by (auto simp: employee_update_view_def split: option.splits)
  then have k: "pk \<in> set (map fst (sd_employees db))" by (rule map_of_Some_key)
  show ?thesis
  proof (cases "employee_form_valid db (Some pk) f")
    case True
    let ?e = "(apply_employee_form f e)\<lparr>emp_updated_by := Some u\<rparr>"
    let ?t = "AList.update pk ?e (sd_employees db)"
    have db': "db' = db\<lparr>sd_employees := ?t\<rparr>"
      using assms(2) e True by (simp add: employee_update_view_def)
    obtain us d where f: "ef_user f = Some us" "ef_department f = Some d"
      using True by (auto simp: employee_form_valid_def split: option.splits)
    have keys: "map fst ?t = map fst (sd_employees db)" using k by (simp add: update_keys)
    have "table_ok employee_id (sd_employee_seq db) ?t"
      using assms(1) k True
      by (intro table_ok_update) (auto simp: staff_ok_def Let_def employee_form_valid_def apply_employee_form_def)
    moreover have "distinct (map (emp_user \<circ> snd) ?t)"
      using assms(1) True f
      by (intro distinct_update_image) (auto simp: staff_ok_def Let_def table_ok_def employee_form_valid_def
                                               apply_employee_form_def)
    moreover have "emp_pk e = pk"
      using assms(1) map_of_SomeD [OF e] by (auto simp: staff_ok_def Let_def list_all_iff)
    then have "list_all (\<lambda>(k, e). emp_pk e = k \<and> emp_department e \<in> set (sd_departments db)) ?t"
      using assms(1) True f
      by (intro list_all_alist_update) (auto simp: staff_ok_def Let_def employee_form_valid_def apply_employee_form_def)
    ultimately show ?thesis using assms(1) keys by (simp add: db' staff_ok_def Let_def)
  qed (use assms e in \<open>simp add: employee_update_view_def\<close>)
qed


lemma filter_refs_subset:
  "set (map f xs) \<subseteq> A \<Longrightarrow> set (map f (filter (\<lambda>x. f x \<noteq> pk) xs)) \<subseteq> A - {pk}"
  by auto

lemma employee_delete_ok:
  assumes "staff_ok db" "employee_delete_view pk db = Inr db'"
  shows "staff_ok db'"
proof -
  let ?ks = "set (map fst (sd_employees db))"
  let ?t = "AList.delete pk (sd_employees db)"
  let ?ss = "filter (\<lambda>(_, s). st_employee s \<noteq> pk) (sd_structures db)"
  have np: "\<not> employee_protected pk db"
    and db': "db' = db\<lparr>sd_employees := ?t,
                      sd_attendance := filter (\<lambda>a. att_employee a \<noteq> pk) (sd_attendance db),
                      sd_leaves := filter (\<lambda>l. la_employee l \<noteq> pk) (sd_leaves db),
                      sd_employee_shifts := filter (\<lambda>e. e \<noteq> pk) (sd_employee_shifts db),
                      sd_structures := ?ss,
                      sd_loans := filter (\<lambda>l. loan_employee l \<noteq> pk) (sd_loans db),
                      sd_advances := filter (\<lambda>a. adv_employee a \<noteq> pk) (sd_advances db),
                      sd_nullable_refs := map (\<lambda>r. if r = Some pk then None else r) (sd_nullable_refs db)\<rparr>"
    using assms(2) by (auto simp: employee_delete_view_def split: option.splits if_splits)
  have ok: "table_ok employee_id (sd_employee_seq db) (sd_employees db)"
    "distinct (map (emp_user \<circ> snd) (sd_employees db))"
    "list_all (\<lambda>(k, e). emp_pk e = k \<and> emp_department e \<in> set (sd_departments db)) (sd_employees db)"
    "set (map att_employee (sd_attendance db)) \<subseteq> ?ks"
    "set (map la_employee (sd_leaves db)) \<subseteq> ?ks"
    "set (sd_employee_shifts db) \<subseteq> ?ks"
    "set (map (st_employee \<circ> snd) (sd_structures db)) \<subseteq> ?ks"
    "set (map loan_employee (sd_loans db)) \<subseteq> ?ks"
    "set (map adv_employee (sd_advances db)) \<subseteq> ?ks"
    "set (map fst (sd_payroll_refs db)) \<subseteq> ?ks"
    "set (map snd (sd_payroll_refs db)) \<subseteq> set (map fst (sd_structures db))"
    "set (sd_gatepass_requesters db) \<subseteq> ?ks"
    "set (sd_approvers db) \<subseteq> ?ks"
    "list_all (\<lambda>r. case r of None \<Rightarrow> True | Some e \<Rightarrow> e \<in> ?ks) (sd_nullable_refs db)"
    using assms(1) unfolding staff_ok_def Let_def by (simp_all only:)
  have keys: "fst ` set ?t = fst ` set (sd_employees db) - {pk}"
    using arg_cong [OF delete_keys [of pk "sd_employees db"], of set] by simp
  have "table_ok employee_id (sd_employee_seq db) ?t" using ok(1) by (rule table_ok_delete)
  moreover have "distinct (map (emp_user \<circ> snd) ?t)"
    using ok(2) by (simp add: AList.delete_eq distinct_map_filter)
  moreover have "list_all (\<lambda>(k, e). emp_pk e = k \<and> emp_department e \<in> set (sd_departments db)) ?t"
    using ok(3) by (auto simp: AList.delete_eq list_all_iff)
  moreover have "set (map snd (sd_payroll_refs db)) \<subseteq> set (map fst ?ss)"
  proof
    fix k assume "k \<in> set (map snd (sd_payroll_refs db))"
    moreover obtain s where "(k, s) \<in> set (sd_structures db)" using ok(11) calculation by auto
    moreover have "st_employee s \<noteq> pk" using np calculation
      by (auto simp: employee_protected_def list_ex_iff)
    ultimately show "k \<in> set (map fst ?ss)" by force
  qed
  moreover have "set (map (st_employee \<circ> snd) ?ss) \<subseteq> ?ks - {pk}" using ok(7) by auto
  moreover have "list_all (case_option True (\<lambda>e. e \<in> fst ` set (sd_employees db) \<and> e \<noteq> pk))
                   (map (\<lambda>r. if r = Some pk then None else r) (sd_nullable_refs db))"
    using ok(14) by (auto simp: list_all_iff split: option.splits)
  moreover have "set (map fst (sd_payroll_refs db)) \<subseteq> ?ks - {pk}" "set (sd_gatepass_requesters db) \<subseteq> ?ks - {pk}"
    "set (sd_approvers db) \<subseteq> ?ks - {pk}"
    using ok(10, 12, 13) np by (auto simp: employee_protected_def)
  moreover have "set (map att_employee (filter (\<lambda>a. att_employee a \<noteq> pk) (sd_attendance db))) \<subseteq> ?ks - {pk}"
    "set (map la_employee (filter (\<lambda>l. la_employee l \<noteq> pk) (sd_leaves db))) \<subseteq> ?ks - {pk}"
    "set (map loan_employee (filter (\<lambda>l. loan_employee l \<noteq> pk) (sd_loans db))) \<subseteq> ?ks - {pk}"
    "set (map adv_employee (filter (\<lambda>a. adv_employee a \<noteq> pk) (sd_advances db))) \<subseteq> ?ks - {pk}"
    "set (filter (\<lambda>e. e \<noteq> pk) (sd_employee_shifts db)) \<subseteq> ?ks - {pk}"
    using ok(4, 5, 6, 8, 9) by (auto intro: filter_refs_subset)
  ultimately show ?thesis unfolding staff_ok_def Let_def by (simp add: db' keys)
qed

lemma staff_step_ok: "staff_step db db' \<Longrightarrow> staff_ok db \<Longrightarrow> staff_ok db'"
  by (induction rule: staff_step.induct) (auto intro: employee_create_ok employee_update_ok employee_delete_ok)

text \<open>C38 Through every sequence of employee creates, updates and deletes, every row of
  HR, payroll and security that refers to an employee names an existing employee,
  every payroll an existing salary structure, and employee ids and users stay unique:
  the delete's cascades, protections and nulling leave no dangling reference.\<close>

theorem staff_reachable_ok:
  assumes "staff_step\<^sup>*\<^sup>* db db'" "staff_ok db"
  shows "staff_ok db'"
  using assms by (induction rule: rtranclp_induct) (auto intro: staff_step_ok)

theorem staff_reachable_ok_witness:
  "staff_ok (snd (employee_create_view 1 100 ef_ex sd_ex)) \<and>
   map (employee_id \<circ> snd) (sd_employees (snd (employee_create_view 1 100 ef_ex sd_ex))) = [''E001'']"
proof -
  have "staff_step sd_ex (snd (employee_create_view 1 100 ef_ex sd_ex))"
    by (rule staff_step.create [of 1 100 ef_ex sd_ex "fst (employee_create_view 1 100 ef_ex sd_ex)"]) simp
  then have "staff_step\<^sup>*\<^sup>* sd_ex (snd (employee_create_view 1 100 ef_ex sd_ex))" by simp
  moreover have "staff_ok sd_ex" by (simp add: staff_ok_def sd_ex_def table_ok_def)
  ultimately have "staff_ok (snd (employee_create_view 1 100 ef_ex sd_ex))" by (rule staff_reachable_ok)
  moreover have "map (employee_id \<circ> snd) (sd_employees (snd (employee_create_view 1 100 ef_ex sd_ex))) = [''E001'']"
    by (simp add: employee_create_view_def employee_form_valid_def apply_employee_form_def new_employee_row_def
        sd_ex_def ef_ex_def)
  ultimately show ?thesis by simp
qed

end
