(* ===== verification/GatePassForms.thy ===== *)
theory GatePassForms
  imports Security ModelForms
begin

text \<open>
  \<open>GatePassCreateView\<close> and \<open>GatePassUpdateView\<close> of security/views.py with
  \<open>GatePassForm\<close> and the inline \<open>GatePassItemFormSet\<close> (\<open>extra=1\<close>,
  \<open>can_delete=True\<close>, \<open>min_num=1\<close>, \<open>validate_min=True\<close>) of security/forms.py.
  Gate passes are the list table of theory Security, saved by \<open>gatepass_save\<close>;
  a pass's items are the rows of the item table whose first component is the pass's
  key.
\<close>

subsection \<open>Rows and forms\<close>

text \<open>\<open>GatePassItem\<close> (serial and batch numbers and remarks are not modelled).\<close>

record gate_pass_item =
  gpi_product :: "nat option"
  gpi_description :: string
  gpi_quantity :: decimal
  gpi_uom :: string
  gpi_value :: decimal

record gate_db =
  gd_employees :: "nat list"
  gd_products :: "nat list"
  gd_passes :: "gate_pass list"
  gd_items :: "(nat \<times> gate_pass_item) list"

text \<open>One form of \<open>GatePassItemFormSet\<close>; a blank field is \<open>[]\<close> or \<open>None\<close>.\<close>

record gp_item_form =
  gif_product :: "nat option"
  gif_description :: string
  gif_quantity :: "decimal option"
  gif_uom :: string
  gif_value :: "decimal option"
  gif_delete :: bool

text \<open>The cleaned item of a form: description (at most 500 characters), quantity,
  unit (at most 20) and value are required, the product is optional.\<close>

definition item_of_form :: "gp_item_form \<Rightarrow> gate_pass_item option" where
  "item_of_form f =
     (if gif_description f = [] \<or> 500 < length (gif_description f) \<or> gif_uom f = [] \<or> 20 < length (gif_uom f)
      then None
      else case (gif_quantity f, gif_value f) of
             (Some q, Some v) \<Rightarrow> Some \<lparr>gpi_product = gif_product f, gpi_description = gif_description f,
                                      gpi_quantity = q, gpi_uom = gif_uom f, gpi_value = v\<rparr>
           | _ \<Rightarrow> None)"

text \<open>An extra form's initial data: no product, empty texts, no quantity, value 0.\<close>

definition item_changed :: "gp_item_form \<Rightarrow> bool" where
  "item_changed f \<longleftrightarrow>
     gif_product f \<noteq> None \<or> gif_description f \<noteq> [] \<or> gif_quantity f \<noteq> None \<or> gif_uom f \<noteq> [] \<or>
     gif_value f \<noteq> Some 0"

definition item_ok :: "nat list \<Rightarrow> gate_pass_item \<Rightarrow> bool" where
  "item_ok prods i \<longleftrightarrow> (case gpi_product i of None \<Rightarrow> True | Some p \<Rightarrow> p \<in> set prods)"

text \<open>\<open>GatePassItemFormSet.is_valid()\<close>: every kept form valid, at least one kept.\<close>

definition item_formset_valid :: "nat list \<Rightarrow> gate_pass_item list \<Rightarrow> gp_item_form inline_formset \<Rightarrow> bool" where
  "item_formset_valid prods ls fs = forms_valid gif_delete item_changed item_of_form (item_ok prods) 1 ls fs"

definition item_formset_save :: "gate_pass_item list \<Rightarrow> gp_item_form inline_formset \<Rightarrow> gate_pass_item list" where
  "item_formset_save ls fs = formset_save gif_delete item_changed item_of_form ls fs"

text \<open>The bound fields of \<open>GatePassForm\<close> that the model keeps: the pass type and
  the purpose are required, and so is \<open>requesting_employee\<close>, which must name an
  employee.\<close>

record gate_pass_form =
  gpf_type :: "gate_pass_type option"
  gpf_purpose :: string
  gpf_requesting_employee :: "nat option"

definition gate_pass_form_valid :: "gate_db \<Rightarrow> gate_pass_form \<Rightarrow> bool" where
  "gate_pass_form_valid db f \<longleftrightarrow>
     gpf_type f \<noteq> None \<and> gpf_purpose f \<noteq> [] \<and>
     (case gpf_requesting_employee f of None \<Rightarrow> False | Some e \<Rightarrow> e \<in> set (gd_employees db))"

definition apply_gate_pass_form :: "gate_pass_form \<Rightarrow> gate_pass \<Rightarrow> gate_pass" where
  "apply_gate_pass_form f g =
     g\<lparr>pass_type := case_option MaterialIn id (gpf_type f),
       requesting_employee := case_option 0 id (gpf_requesting_employee f)\<rparr>"

definition new_gate_pass :: "timestamp \<Rightarrow> gate_pass" where
  "new_gate_pass now =
     \<lparr>pass_number = [], pass_type = MaterialIn, gp_status = GpPending, gp_created = now, actual_in_date = None,
      actual_out_date = None, security_in_charge = None, security_remarks = [], requesting_employee = 0\<rparr>"

definition items_of :: "nat \<Rightarrow> gate_db \<Rightarrow> gate_pass_item list" where
  "items_of pk db = map snd (filter (\<lambda>(p, _). p = pk) (gd_items db))"

definition set_items :: "nat \<Rightarrow> gate_pass_item list \<Rightarrow> gate_db \<Rightarrow> (nat \<times> gate_pass_item) list" where
  "set_items pk is db = filter (\<lambda>(p, _). p \<noteq> pk) (gd_items db) @ map (Pair pk) is"

datatype gp_response = GpRedirect | GpFormInvalid

subsection \<open>The views\<close>

text \<open>\<open>GatePassCreateView\<close>: the form, then the item formset (bound without an
  instance), then the requesting user's employee profile (\<open>form_invalid\<close> without
  one); \<open>form.save()\<close> runs \<open>GatePass.save\<close>, and the items are saved against the
  new pass. \<open>emp\<close> is \<open>request.user.employee\<close>, if any.\<close>

definition gatepass_create_view :: "nat option \<Rightarrow> timestamp \<Rightarrow> gate_pass_form \<Rightarrow> gp_item_form inline_formset \<Rightarrow>
    gate_db \<Rightarrow> pyexc + gp_response \<times> gate_db" where
  "gatepass_create_view emp now f fs db =
     (if gate_pass_form_valid db f \<and> item_formset_valid (gd_products db) [] fs
      then (case emp of
              None \<Rightarrow> Inr (GpFormInvalid, db)
            | Some e \<Rightarrow>
                res_bind (gatepass_save None ((apply_gate_pass_form f (new_gate_pass now))\<lparr>requesting_employee := e\<rparr>)
                            (gd_passes db))
                  (\<lambda>tbl. Inr (GpRedirect, db\<lparr>gd_passes := tbl,
                                            gd_items := gd_items db @ map (Pair (length (gd_passes db)))
                                                                      (item_formset_save [] fs)\<rparr>)))
      else Inr (GpFormInvalid, db))"

text \<open>\<open>GatePassUpdateView\<close>: \<open>get_object\<close>, the form and the formset bound to the
  pass, \<open>form.save()\<close> (the posted requesting employee is kept), the items saved.\<close>

definition gatepass_update_view :: "nat \<Rightarrow> gate_pass_form \<Rightarrow> gp_item_form inline_formset \<Rightarrow> gate_db \<Rightarrow>
    pyexc + gp_response \<times> gate_db" where
  "gatepass_update_view pk f fs db =
     res_bind (get_object_or_404 pk (gd_passes db)) (\<lambda>g.
       if gate_pass_form_valid db f \<and> item_formset_valid (gd_products db) (items_of pk db) fs
       then res_bind (gatepass_save (Some pk) (apply_gate_pass_form f g) (gd_passes db))
              (\<lambda>tbl. Inr (GpRedirect, db\<lparr>gd_passes := tbl,
                                        gd_items := set_items pk (item_formset_save (items_of pk db) fs) db\<rparr>))
       else Inr (GpFormInvalid, db))"

subsection \<open>Properties\<close>

lemma items_of_set_items:
  "items_of q (db\<lparr>gd_passes := tbl, gd_items := set_items pk is db\<rparr>) = (if q = pk then is else items_of q db)"
proof (cases "q = pk")
  case False
  then have "filter (\<lambda>x. fst x \<noteq> pk \<and> fst x = q) (gd_items db) = filter (\<lambda>x. fst x = q) (gd_items db)"
    by (intro filter_cong) auto
  with False show ?thesis by (simp add: items_of_def set_items_def filter_map comp_def split_def)
qed (simp add: items_of_def set_items_def filter_map comp_def split_def)

text \<open>\<open>GatePassCreateView\<close> never stores a pass: a post whose form and formset are
  valid, by a user with an employee profile, reaches \<open>GatePass.save\<close> and raises
  \<open>NameError\<close>; every other post re-renders the form and writes nothing.\<close>

lemma gatepass_create_view_result:
  "gatepass_create_view emp now f fs db =
     (if gate_pass_form_valid db f \<and> item_formset_valid (gd_products db) [] fs \<and> emp \<noteq> None
      then Inl NameError else Inr (GpFormInvalid, db))"
  by (auto simp: gatepass_create_view_def gatepass_save_def gatepass_assign_number_def apply_gate_pass_form_def
                 new_gate_pass_def split: option.splits)

text \<open>\<open>min_num=1, validate_min=True\<close>: a successful edit leaves the pass at least
  one item, and the items of other passes unchanged.\<close>

lemma gatepass_update_keeps_an_item:
  assumes "gatepass_update_view pk f fs db = Inr (GpRedirect, db')"
  shows "items_of pk db' \<noteq> [] \<and> (\<forall>q. q \<noteq> pk \<longrightarrow> items_of q db' = items_of q db)"
proof -
  let ?ls = "items_of pk db"
  have v: "item_formset_valid (gd_products db) ?ls fs"
    and db': "\<exists>tbl. db' = db\<lparr>gd_passes := tbl, gd_items := set_items pk (item_formset_save ?ls fs) db\<rparr>"
    using assms by (auto simp: gatepass_update_view_def res_bind_eq_Inr split: if_splits)
  have "list_all (\<lambda>(_, f). item_of_form f \<noteq> None) (kept_forms gif_delete item_changed ?ls fs)"
    using v by (auto simp: item_formset_valid_def forms_valid_def list_all_iff split: option.splits)
  then have "length (kept_forms gif_delete item_changed ?ls fs) \<le> length (item_formset_save ?ls fs)"
    unfolding item_formset_save_def by (rule formset_save_length)
  moreover have "1 \<le> length (kept_forms gif_delete item_changed ?ls fs)"
    using v by (simp add: item_formset_valid_def forms_valid_def)
  ultimately have "item_formset_save ?ls fs \<noteq> []" by auto
  with db' show ?thesis by (auto simp: items_of_set_items)
qed

end
