(* ===== verification/PurchaseOrderForms.thy ===== *)
theory PurchaseOrderForms
  imports Procurement ModelForms
begin

text \<open>
  \<open>PurchaseOrderForm\<close> and the inline \<open>PurchaseOrderItemFormSet\<close>
  (\<open>extra=5\<close>, \<open>can_delete=True\<close>) of procurement/forms.py, bound by
  \<open>PurchaseOrderCreateView\<close> and \<open>PurchaseOrderUpdateView\<close> of
  procurement/views.py. The views of theory Procurement take the saved items as
  given; here they come from the posted formset through \<open>formset_save\<close> of
  ModelForms, keyed by the product (\<open>unique_together = ['purchase_order',
  'product']\<close>).
\<close>

subsection \<open>The item form\<close>

text \<open>The fields of \<open>PurchaseOrderItemForm\<close>; a blank field is \<open>None\<close>.\<close>

record po_item_form =
  pif_product :: "nat option"
  pif_quantity :: "decimal option"
  pif_unit_price :: "decimal option"
  pif_tax_rate :: "decimal option"
  pif_warehouse :: "nat option"
  pif_delete :: bool

text \<open>A bound form is the posted data with its instance's \<open>received_quantity\<close>,
  a field the form does not show: \<open>construct_instance\<close> writes the form's fields onto
  the instance and keeps the rest.\<close>

type_synonym po_bound_form = "po_item_form \<times> decimal"

text \<open>The cleaned item: product, quantity, unit price, tax rate and warehouse are
  required (the tax rate's model default only fills the initial value).\<close>

definition poi_of_form :: "po_bound_form \<Rightarrow> po_item option" where
  "poi_of_form bf =
     (case bf of (f, rq) \<Rightarrow>
        case (pif_product f, pif_quantity f, pif_unit_price f, pif_tax_rate f, pif_warehouse f) of
          (Some p, Some q, Some u, Some t, Some w) \<Rightarrow>
            Some \<lparr>poi_product = p, poi_quantity = q, unit_price = u, tax_rate = t,
                  received_quantity = rq, poi_warehouse = w\<rparr>
        | _ \<Rightarrow> None)"

definition poi_delete :: "po_bound_form \<Rightarrow> bool" where
  "poi_delete bf = pif_delete (fst bf)"

text \<open>\<open>has_changed()\<close> of an extra form against its initial data (tax rate 0,
  every other field blank).\<close>

definition poi_changed :: "po_bound_form \<Rightarrow> bool" where
  "poi_changed bf \<longleftrightarrow>
     (let f = fst bf in
      pif_product f \<noteq> None \<or> pif_quantity f \<noteq> None \<or> pif_unit_price f \<noteq> None \<or>
      pif_tax_rate f \<noteq> Some 0 \<or> pif_warehouse f \<noteq> None)"

text \<open>The two foreign keys (\<open>on_delete=PROTECT\<close>) name existing rows.\<close>

definition poi_ok :: "nat list \<Rightarrow> nat list \<Rightarrow> po_item \<Rightarrow> bool" where
  "poi_ok prods whs i \<longleftrightarrow> poi_product i \<in> set prods \<and> poi_warehouse i \<in> set whs"

text \<open>The formset bound to an order's items: the initial forms carry the stored
  items' received quantities, the extra forms a new item's default 0.\<close>

definition bind_po_formset :: "po_item list \<Rightarrow> po_item_form list \<Rightarrow> po_item_form list \<Rightarrow>
    po_bound_form inline_formset" where
  "bind_po_formset ls ini ex = \<lparr>fs_initial = zip ini (map received_quantity ls), fs_extra = map (\<lambda>f. (f, 0)) ex\<rparr>"

definition po_formset_valid :: "nat list \<Rightarrow> nat list \<Rightarrow> bool \<Rightarrow> po_item list \<Rightarrow>
    po_bound_form inline_formset \<Rightarrow> bool" where
  "po_formset_valid prods whs saved ls fs =
     formset_valid poi_delete poi_changed poi_of_form poi_product (poi_ok prods whs) saved ls fs"

definition po_formset_save :: "po_item list \<Rightarrow> po_bound_form inline_formset \<Rightarrow> po_item list" where
  "po_formset_save ls fs = formset_save poi_delete poi_changed poi_of_form ls fs"

text \<open>The posted \<open>PurchaseOrderForm\<close>: the fields theory Procurement applies and
  the delivery address (a \<open>TextField\<close> without \<open>blank=True\<close>, so required; the
  terms and notes may be blank and are not kept).\<close>

record po_post_form = po_form +
  pf_delivery_address :: string

definition po_form_valid :: "nat list \<Rightarrow> po_post_form \<Rightarrow> bool" where
  "po_form_valid sups f \<longleftrightarrow> pf_supplier f \<in> set sups \<and> pf_delivery_address f \<noteq> []"

datatype po_response = PoRedirect | PoFormInvalid

subsection \<open>The posts\<close>

text \<open>\<open>PurchaseOrderCreateView.post\<close>: the form, then in \<open>form_valid\<close> the formset
  bound to an unsaved order (so the per-form check against stored items is
  skipped); with both valid, \<open>purchase_order_create_view\<close> saves the order, its
  items and its totals, otherwise \<open>form_invalid\<close> writes nothing.\<close>

definition purchase_order_create_post :: "timestamp \<Rightarrow> nat list \<Rightarrow> nat list \<Rightarrow> nat list \<Rightarrow> po_post_form \<Rightarrow>
    po_item_form list \<Rightarrow> purchase_order list \<Rightarrow> pyexc + po_response \<times> purchase_order list" where
  "purchase_order_create_post now sups prods whs f ex tbl =
     (let fs = bind_po_formset [] [] ex
      in if po_form_valid sups f \<and> po_formset_valid prods whs False [] fs
         then res_bind (purchase_order_create_view now (po_form.truncate f) (po_formset_save [] fs) tbl)
                (\<lambda>tbl'. Inr (PoRedirect, tbl'))
         else Inr (PoFormInvalid, tbl))"

text \<open>\<open>PurchaseOrderUpdateView.post\<close>: \<open>get_object\<close>, the form, the formset bound
  to the stored order's items, then \<open>purchase_order_update_view\<close> with the items
  \<open>formset.save()\<close> leaves.\<close>

definition purchase_order_update_post :: "nat \<Rightarrow> nat list \<Rightarrow> nat list \<Rightarrow> nat list \<Rightarrow> po_post_form \<Rightarrow>
    po_item_form list \<Rightarrow> po_item_form list \<Rightarrow> purchase_order list \<Rightarrow>
    pyexc + po_response \<times> purchase_order list" where
  "purchase_order_update_post pk sups prods whs f ini ex tbl =
     res_bind (get_object_or_404 pk tbl) (\<lambda>po.
       let fs = bind_po_formset (po_items po) ini ex
       in if po_form_valid sups f \<and> po_formset_valid prods whs True (po_items po) fs
          then res_bind (purchase_order_update_view pk (po_form.truncate f) (po_formset_save (po_items po) fs) tbl)
                 (\<lambda>tbl'. Inr (PoRedirect, tbl'))
          else Inr (PoFormInvalid, tbl))"

text \<open>An order's items: distinct products, existing products and warehouses.\<close>

definition po_items_ok :: "nat list \<Rightarrow> nat list \<Rightarrow> purchase_order \<Rightarrow> bool" where
  "po_items_ok prods whs po \<longleftrightarrow> rows_ok poi_product (poi_ok prods whs) (po_items po)"

subsection \<open>Properties\<close>

lemma purchase_order_update_view_Inr:
  "purchase_order_update_view pk f items tbl = Inr tbl' \<Longrightarrow>
   pk < length tbl \<and> tbl' = tbl[pk := po_totals ((apply_po_form f (tbl ! pk))\<lparr>po_items := items\<rparr>)]"
proof -
  assume a: "purchase_order_update_view pk f items tbl = Inr tbl'"
  obtain tbl1 where pk: "pk < length tbl"
    and s1: "po_save (Some pk) (apply_po_form f (tbl ! pk)) tbl = Inr tbl1"
    and s2: "po_save (Some pk) (po_totals ((tbl1 ! pk)\<lparr>po_items := items\<rparr>)) tbl1 = Inr tbl'"
    using a by (auto simp: purchase_order_update_view_def get_object_or_404_def res_bind_eq_Inr split: if_splits)
  from po_save_Some_Inr [OF s1] have "tbl1 = tbl[pk := apply_po_form f (tbl ! pk)]" by simp
  with po_save_Some_Inr [OF s2] pk show ?thesis by simp
qed

text \<open>\<open>PurchaseOrderCreateView\<close> with its formset never stores an order: a valid
  post reaches the first \<open>save()\<close>, which raises, and an invalid one re-renders the
  form.\<close>

lemma purchase_order_create_post_no_redirect:
  "purchase_order_create_post now sups prods whs f ex tbl = Inr (r, tbl') \<Longrightarrow> r = PoFormInvalid \<and> tbl' = tbl"
proof -
  let ?po = "apply_po_form (po_form.truncate f)
                 \<lparr>po_number = [], po_supplier = 0, order_date = 0, expected_delivery = 0,
                  po_status = PoDraft, total_amount = 0, po_tax_amount = 0, grand_total = 0,
                  po_created = now, po_items = []\<rparr>"
  have "po_number ?po = []" by (simp add: apply_po_form_def)
  from po_save_None_raises [OF this, of tbl]
  have "\<And>items t. purchase_order_create_view now (po_form.truncate f) items tbl \<noteq> Inr t"
    by (auto simp: purchase_order_create_view_def Let_def)
  then show "purchase_order_create_post now sups prods whs f ex tbl = Inr (r, tbl') \<Longrightarrow> r = PoFormInvalid \<and> tbl' = tbl"
    by (auto simp: purchase_order_create_post_def Let_def res_bind_eq_Inr split: if_splits)
qed

lemma purchase_order_update_post_Inr:
  assumes "purchase_order_update_post pk sups prods whs f ini ex tbl = Inr (PoRedirect, tbl')"
  defines "fs \<equiv> bind_po_formset (po_items (tbl ! pk)) ini ex"
  shows "pk < length tbl \<and> po_formset_valid prods whs True (po_items (tbl ! pk)) fs \<and>
         tbl' = tbl[pk := po_totals ((apply_po_form (po_form.truncate f) (tbl ! pk))\<lparr>po_items := po_formset_save (po_items (tbl ! pk)) fs\<rparr>)]"
  using assms
  by (auto simp: purchase_order_update_post_def get_object_or_404_def res_bind_eq_Inr Let_def
           dest!: purchase_order_update_view_Inr split: if_splits)

text \<open>A successful edit keeps the order's items keyed by distinct, existing products
  in existing warehouses, its grand total that of the stored items, and the other
  orders as they were.\<close>

lemma po_update_post_items_ok:
  assumes "purchase_order_update_post pk sups prods whs f ini ex tbl = Inr (PoRedirect, tbl')"
    and "po_items_ok prods whs (tbl ! pk)"
  shows "po_items_ok prods whs (tbl' ! pk) \<and>
         grand_total (tbl' ! pk) = sum_list (map item_total (po_items (tbl' ! pk))) \<and>
         length tbl' = length tbl \<and> (\<forall>j. j \<noteq> pk \<longrightarrow> tbl' ! j = tbl ! j)"
proof -
  let ?ls = "po_items (tbl ! pk)"
  let ?fs = "bind_po_formset ?ls ini ex"
  from purchase_order_update_post_Inr [OF assms(1)]
  have pk: "pk < length tbl" and v: "po_formset_valid prods whs True ?ls ?fs"
    and t: "tbl' = tbl[pk := po_totals ((apply_po_form (po_form.truncate f) (tbl ! pk))\<lparr>po_items := po_formset_save ?ls ?fs\<rparr>)]"
    by auto
  have "rows_ok poi_product (poi_ok prods whs) (po_formset_save ?ls ?fs)"
    using formset_save_ok [OF v [unfolded po_formset_valid_def] assms(2) [unfolded po_items_ok_def]]
    by (simp add: po_formset_save_def)
  with pk t show ?thesis by (simp add: po_items_ok_def po_totals_def Let_def apply_po_form_def)
qed

lemma poi_of_form_received: "poi_of_form (f, rq) = Some r \<Longrightarrow> received_quantity r = rq"
  by (auto simp: poi_of_form_def split: option.splits)

text \<open>The formset never invents a received quantity: an edited item keeps its
  stored one, a new item starts at 0.\<close>

lemma po_formset_save_received:
  "set (map received_quantity (po_formset_save ls (bind_po_formset ls ini ex))) \<subseteq>
   insert 0 (set (map received_quantity ls))"
proof
  fix x assume "x \<in> set (map received_quantity (po_formset_save ls (bind_po_formset ls ini ex)))"
  then obtain r where r: "r \<in> set (po_formset_save ls (bind_po_formset ls ini ex))" and x: "x = received_quantity r"
    by auto
  let ?fs = "bind_po_formset ls ini ex"
  have ini: "\<And>i. i \<in> set (initial_kept poi_delete ls ?fs) \<Longrightarrow>
               received_quantity (update_row poi_of_form (ls ! i) (fs_initial ?fs ! i)) \<in> set (map received_quantity ls)"
  proof -
    fix i assume "i \<in> set (initial_kept poi_delete ls ?fs)"
    then have i: "i < length ls" "i < length ini" by (auto simp: initial_kept_def bind_po_formset_def)
    then have "fs_initial ?fs ! i = (ini ! i, received_quantity (ls ! i))" by (simp add: bind_po_formset_def)
    with i show "received_quantity (update_row poi_of_form (ls ! i) (fs_initial ?fs ! i)) \<in> set (map received_quantity ls)"
      by (auto simp: update_row_def dest: poi_of_form_received split: option.splits)
  qed
  have ex: "\<And>r. r \<in> set (List.map_filter poi_of_form (extra_kept poi_delete poi_changed ?fs)) \<Longrightarrow> received_quantity r = 0"
    by (auto simp: in_set_map_filter extra_kept_def bind_po_formset_def dest: poi_of_form_received)
  have "set (drop (length (fs_initial ?fs)) ls) \<subseteq> set ls" by (rule set_drop_subset)
  with r ini ex show "x \<in> insert 0 (set (map received_quantity ls))"
    unfolding x by (auto simp: po_formset_save_def formset_save_def)
qed

end
