(* ===== verification/LoanViews.thy ===== *)
theory LoanViews
  imports PayrollModel HrModel
begin

text \<open>
  \<open>LoanCreateView\<close> and \<open>SalaryAdvanceCreateView\<close> of payroll/views.py with
  \<open>LoanForm\<close> and \<open>SalaryAdvanceForm\<close> of payroll/forms.py, over the full column
  sets of \<open>Loan\<close> and \<open>SalaryAdvance\<close> (payroll/models.py). A column that the form
  does not bind and the model gives no default is \<open>None\<close> in the new row, and the
  \<open>INSERT\<close> of a \<open>NULL\<close> into a \<open>NOT NULL\<close> column raises \<open>IntegrityError\<close>.
\<close>

subsection \<open>Rows and forms\<close>

datatype loan_type = LoanPersonal | LoanHousing | LoanVehicle | LoanEducation | LoanMedical | LoanOther

text \<open>The columns of \<open>Loan\<close>; \<open>None\<close> is \<open>NULL\<close>, allowed only where the model
  says \<open>null=True\<close> (\<open>approved_by\<close>, \<open>approved_date\<close>).\<close>

record loan_row =
  lr_number :: string
  lr_employee :: nat
  lr_type :: loan_type
  lr_amount :: decimal
  lr_interest_rate :: decimal
  lr_tenure :: int
  lr_emi :: "decimal option"
  lr_start :: day
  lr_end :: day
  lr_status :: loan_status
  lr_principal_balance :: "decimal option"
  lr_interest_balance :: "decimal option"
  lr_approved_by :: "nat option"
  lr_approved_date :: "day option"

text \<open>The columns of \<open>SalaryAdvance\<close>.\<close>

record advance_row =
  ar_number :: string
  ar_employee :: nat
  ar_amount :: decimal
  ar_requested :: "day option"
  ar_approved :: "day option"
  ar_repayment_months :: int
  ar_monthly_deduction :: "decimal option"
  ar_status :: advance_status
  ar_remaining :: "decimal option"

text \<open>\<open>LoanForm\<close>'s fields (notes apart); a blank field is \<open>None\<close>.\<close>

record loan_form =
  lf_employee :: "nat option"
  lf_type :: "loan_type option"
  lf_amount :: "decimal option"
  lf_interest_rate :: "decimal option"
  lf_tenure :: "int option"
  lf_start :: "day option"
  lf_end :: "day option"

record advance_form =
  af_employee :: "nat option"
  af_amount :: "decimal option"
  af_repayment_months :: "int option"

text \<open>The employee choices of both forms: \<open>Employee.objects.filter(employment_status='active')\<close>.\<close>

definition active_employee_pks :: "employee list \<Rightarrow> nat list" where
  "active_employee_pks emps = map emp_pk (filter (\<lambda>e. employment_status e = EmpActive) emps)"

text \<open>The unsaved instance \<open>form.save()\<close> builds: the bound fields, the model's
  defaults (status \<open>pending\<close>), \<open>NULL\<close> in every other column.\<close>

definition loan_of_form :: "loan_form \<Rightarrow> loan_row option" where
  "loan_of_form f =
     (case (lf_employee f, lf_type f, lf_amount f, lf_interest_rate f, lf_tenure f, lf_start f, lf_end f) of
        (Some e, Some t, Some a, Some i, Some n, Some s, Some d) \<Rightarrow>
          Some \<lparr>lr_number = [], lr_employee = e, lr_type = t, lr_amount = a, lr_interest_rate = i,
                lr_tenure = n, lr_emi = None, lr_start = s, lr_end = d, lr_status = LoanPending,
                lr_principal_balance = None, lr_interest_balance = None, lr_approved_by = None,
                lr_approved_date = None\<rparr>
      | _ \<Rightarrow> None)"

definition advance_of_form :: "advance_form \<Rightarrow> advance_row option" where
  "advance_of_form f =
     (case (af_employee f, af_amount f, af_repayment_months f) of
        (Some e, Some a, Some m) \<Rightarrow>
          Some \<lparr>ar_number = [], ar_employee = e, ar_amount = a, ar_requested = None, ar_approved = None,
                ar_repayment_months = m, ar_monthly_deduction = None, ar_status = AdvPending,
                ar_remaining = None\<rparr>
      | _ \<Rightarrow> None)"

subsection \<open>Saving\<close>

text \<open>The \<open>NOT NULL\<close> columns of each table that may hold \<open>None\<close>.\<close>

definition loan_not_null :: "loan_row \<Rightarrow> bool" where
  "loan_not_null r \<longleftrightarrow> lr_emi r \<noteq> None \<and> lr_principal_balance r \<noteq> None \<and> lr_interest_balance r \<noteq> None"

definition advance_not_null :: "advance_row \<Rightarrow> bool" where
  "advance_not_null r \<longleftrightarrow> ar_requested r \<noteq> None \<and> ar_monthly_deduction r \<noteq> None \<and> ar_remaining r \<noteq> None"

text \<open>\<open>Loan.save\<close>: a new loan's number comes from \<open>loan_assign_number\<close> (the
  last \<open>LN-<year>\<close> number plus one), then the \<open>INSERT\<close>.\<close>

definition loan_save :: "int \<Rightarrow> loan_row \<Rightarrow> loan_row list \<Rightarrow> pyexc + loan_row list" where
  "loan_save year r tbl =
     res_bind (if lr_number r = [] then loan_assign_number year (map lr_number tbl) else Inr (lr_number r))
       (\<lambda>no. let r' = r\<lparr>lr_number := no\<rparr>
             in if loan_not_null r' then save_row lr_number None r' tbl else Inl IntegrityError)"

definition advance_save :: "int \<Rightarrow> advance_row \<Rightarrow> advance_row list \<Rightarrow> pyexc + advance_row list" where
  "advance_save year r tbl =
     res_bind (if ar_number r = [] then advance_assign_number year (map ar_number tbl) else Inr (ar_number r))
       (\<lambda>no. let r' = r\<lparr>ar_number := no\<rparr>
             in if advance_not_null r' then save_row ar_number None r' tbl else Inl IntegrityError)"

datatype create_response = CreateRedirect | CreateFormInvalid

text \<open>\<open>CreateView.post\<close>: a valid form is saved and the view redirects to the list;
  an invalid one re-renders and writes nothing.\<close>

definition loan_create_view :: "int \<Rightarrow> employee list \<Rightarrow> loan_form \<Rightarrow> loan_row list \<Rightarrow>
    pyexc + create_response \<times> loan_row list" where
  "loan_create_view year emps f tbl =
     (case loan_of_form f of
        Some r \<Rightarrow> if lr_employee r \<in> set (active_employee_pks emps)
                  then res_bind (loan_save year r tbl) (\<lambda>tbl'. Inr (CreateRedirect, tbl'))
                  else Inr (CreateFormInvalid, tbl)
      | None \<Rightarrow> Inr (CreateFormInvalid, tbl))"

definition advance_create_view :: "int \<Rightarrow> employee list \<Rightarrow> advance_form \<Rightarrow> advance_row list \<Rightarrow>
    pyexc + create_response \<times> advance_row list" where
  "advance_create_view year emps f tbl =
     (case advance_of_form f of
        Some r \<Rightarrow> if ar_employee r \<in> set (active_employee_pks emps)
                  then res_bind (advance_save year r tbl) (\<lambda>tbl'. Inr (CreateRedirect, tbl'))
                  else Inr (CreateFormInvalid, tbl)
      | None \<Rightarrow> Inr (CreateFormInvalid, tbl))"

subsection \<open>Properties\<close>

lemma year_filtered_number_Inl: "year_filtered_number tag y nos = Inl e \<Longrightarrow> e = ValueError"
  by (auto simp: year_filtered_number_def next_doc_number_def py_int_def res_bind_def Let_def
           split: option.splits list.splits if_splits sum.splits)

text \<open>A row with every \<open>NOT NULL\<close> column filled and a fresh number is inserted.\<close>

lemma loan_save_complete:
  "loan_not_null r \<Longrightarrow> lr_number r \<noteq> [] \<Longrightarrow> lr_number r \<notin> set (map lr_number tbl) \<Longrightarrow>
   loan_save year r tbl = Inr (tbl @ [r])"
  by (simp add: loan_save_def save_row_def res_bind_def)

text \<open>A new row without \<open>emi_amount\<close> (or, for an advance, without
  \<open>requested_date\<close>) is never inserted.\<close>

lemma loan_save_Inl:
  assumes "lr_emi r = None"
  shows "loan_save year r tbl = Inl IntegrityError \<or> loan_save year r tbl = Inl ValueError"
  using assms year_filtered_number_Inl [of "''LN''" year]
  by (cases "loan_assign_number year (map lr_number tbl)")
     (auto simp: loan_save_def loan_assign_number_def loan_not_null_def res_bind_def Let_def)

lemma advance_save_Inl:
  assumes "ar_requested r = None"
  shows "advance_save year r tbl = Inl IntegrityError \<or> advance_save year r tbl = Inl ValueError"
  using assms year_filtered_number_Inl [of "''ADV''" year]
  by (cases "advance_assign_number year (map ar_number tbl)")
     (auto simp: advance_save_def advance_assign_number_def advance_not_null_def res_bind_def Let_def)

text \<open>Neither create view can ever store a row: \<open>LoanForm\<close> binds none of
  \<open>emi_amount\<close>, \<open>principal_balance\<close> and \<open>interest_balance\<close>, and
  \<open>SalaryAdvanceForm\<close> none of \<open>requested_date\<close>, \<open>monthly_deduction\<close> and
  \<open>remaining_amount\<close>, so a valid post raises (\<open>ValueError\<close> when the last
  number of the year does not parse) and an invalid one re-renders.\<close>

lemma loan_create_view_never_stores:
  "loan_create_view year emps f tbl \<in> {Inl IntegrityError, Inl ValueError, Inr (CreateFormInvalid, tbl)}"
proof (cases "loan_of_form f")
  case (Some r)
  then have "lr_emi r = None" by (auto simp: loan_of_form_def split: option.splits)
  from loan_save_Inl [OF this, of year tbl] Some show ?thesis
    by (auto simp: loan_create_view_def res_bind_def)
qed (simp add: loan_create_view_def)

lemma advance_create_view_never_stores:
  "advance_create_view year emps f tbl \<in> {Inl IntegrityError, Inl ValueError, Inr (CreateFormInvalid, tbl)}"
proof (cases "advance_of_form f")
  case (Some r)
  then have "ar_requested r = None" by (auto simp: advance_of_form_def split: option.splits)
  from advance_save_Inl [OF this, of year tbl] Some show ?thesis
    by (auto simp: advance_create_view_def res_bind_def)
qed (simp add: advance_create_view_def)

end
