(* ===== verification/CatalogViews.thy ===== *)
theory CatalogViews
  imports ModelForms Quality HrModel
begin

text \<open>
  The plain \<open>CreateView\<close>s that insert one row from a \<open>ModelForm\<close>:
  \<open>WorkCenterCreateView\<close> and \<open>OperationCreateView\<close> (production/views.py),
  \<open>ShiftCreateView\<close> and \<open>LeaveTypeCreateView\<close> (hr/views.py) and
  \<open>QualityParameterCreateView\<close> (quality/views.py), with their forms; the
  \<open>total_hours\<close> properties of \<open>Shift\<close> and \<open>Attendance\<close> (hr/models.py). Tables
  are the keyed tables of ModelForms. A text field's \<open>max_length\<close> is checked; the
  digit limits of decimal fields are not modelled. A time of day is its second
  (\<open>0 \<le> t < 86400\<close>).
\<close>

subsection \<open>Rows\<close>

record work_center =
  wc_code :: string
  wc_name :: string
  wc_department :: "nat option"
  wc_supervisor :: "nat option"
  wc_cost_per_hour :: decimal
  wc_capacity_per_hour :: decimal
  wc_active :: bool

record operation =
  op_code :: string
  op_name :: string
  op_work_center :: nat
  op_setup_time :: decimal
  op_cycle_time :: decimal
  op_cost_per_hour :: decimal
  op_active :: bool

record shift =
  sh_name :: string
  sh_code :: string
  sh_start :: int
  sh_end :: int
  sh_break_start :: "int option"
  sh_break_end :: "int option"
  sh_active :: bool

record leave_type =
  lt_name :: string
  lt_code :: string
  lt_days_per_year :: int
  lt_carry_forward :: bool
  lt_max_carry_forward :: int
  lt_requires_approval :: bool
  lt_active :: bool

datatype parameter_type = ParamVisual | ParamDimensional | ParamPhysical | ParamChemical | ParamPerformance

text \<open>\<open>QualityParameter\<close>: the columns theory Quality reads, and the type and unit.\<close>

record parameter_row = quality_parameter +
  param_type :: parameter_type
  param_uom :: string

record catalog_db =
  cd_departments :: "nat list"
  cd_employees :: "nat list"
  cd_work_centers :: "work_center table"
  cd_wc_seq :: nat
  cd_operations :: "operation table"
  cd_op_seq :: nat
  cd_shifts :: "shift table"
  cd_shift_seq :: nat
  cd_leave_types :: "leave_type table"
  cd_lt_seq :: nat
  cd_parameters :: "parameter_row table"
  cd_param_seq :: nat

subsection \<open>Forms\<close>

text \<open>A required text field is non-empty and within its \<open>max_length\<close>; an optional
  one is within it.\<close>

definition text_ok :: "nat \<Rightarrow> string \<Rightarrow> bool" where
  "text_ok n s \<longleftrightarrow> s \<noteq> [] \<and> length s \<le> n"

definition opt_fk_ok :: "nat list \<Rightarrow> nat option \<Rightarrow> bool" where
  "opt_fk_ok ks k \<longleftrightarrow> (case k of None \<Rightarrow> True | Some x \<Rightarrow> x \<in> set ks)"

text \<open>\<open>WorkCenterForm\<close>: the bound fields; the decimals are required (the model's
  default only fills the initial value).\<close>

record work_center_form =
  wcf_code :: string
  wcf_name :: string
  wcf_department :: "nat option"
  wcf_supervisor :: "nat option"
  wcf_cost_per_hour :: "decimal option"
  wcf_capacity_per_hour :: "decimal option"
  wcf_active :: bool

definition work_center_of_form :: "work_center_form \<Rightarrow> work_center option" where
  "work_center_of_form f =
     (case (wcf_cost_per_hour f, wcf_capacity_per_hour f) of
        (Some c, Some k) \<Rightarrow>
          if text_ok 20 (wcf_code f) \<and> text_ok 100 (wcf_name f)
          then Some \<lparr>wc_code = wcf_code f, wc_name = wcf_name f, wc_department = wcf_department f,
                     wc_supervisor = wcf_supervisor f, wc_cost_per_hour = c, wc_capacity_per_hour = k,
                     wc_active = wcf_active f\<rparr>
          else None
      | _ \<Rightarrow> None)"

text \<open>The form's model validation: foreign keys to existing rows and the unique
  \<open>code\<close> free.\<close>

definition work_center_ok :: "catalog_db \<Rightarrow> work_center \<Rightarrow> bool" where
  "work_center_ok db w \<longleftrightarrow>
     opt_fk_ok (cd_departments db) (wc_department w) \<and> opt_fk_ok (cd_employees db) (wc_supervisor w) \<and>
     wc_code w \<notin> set (map (wc_code \<circ> snd) (cd_work_centers db))"

record operation_form =
  opf_code :: string
  opf_name :: string
  opf_work_center :: "nat option"
  opf_setup_time :: "decimal option"
  opf_cycle_time :: "decimal option"
  opf_cost_per_hour :: "decimal option"
  opf_active :: bool

definition operation_of_form :: "operation_form \<Rightarrow> operation option" where
  "operation_of_form f =
     (case (opf_work_center f, opf_setup_time f, opf_cycle_time f, opf_cost_per_hour f) of
        (Some w, Some s, Some c, Some k) \<Rightarrow>
          if text_ok 20 (opf_code f) \<and> text_ok 100 (opf_name f)
          then Some \<lparr>op_code = opf_code f, op_name = opf_name f, op_work_center = w, op_setup_time = s,
                     op_cycle_time = c, op_cost_per_hour = k, op_active = opf_active f\<rparr>
          else None
      | _ \<Rightarrow> None)"

definition operation_ok :: "catalog_db \<Rightarrow> operation \<Rightarrow> bool" where
  "operation_ok db x \<longleftrightarrow>
     op_work_center x \<in> set (map fst (cd_work_centers db)) \<and>
     op_code x \<notin> set (map (op_code \<circ> snd) (cd_operations db))"

record shift_form =
  shf_name :: string
  shf_code :: string
  shf_start :: "int option"
  shf_end :: "int option"
  shf_break_start :: "int option"
  shf_break_end :: "int option"
  shf_active :: bool

definition shift_of_form :: "shift_form \<Rightarrow> shift option" where
  "shift_of_form f =
     (case (shf_start f, shf_end f) of
        (Some s, Some e) \<Rightarrow>
          if text_ok 50 (shf_name f) \<and> text_ok 10 (shf_code f)
          then Some \<lparr>sh_name = shf_name f, sh_code = shf_code f, sh_start = s, sh_end = e,
                     sh_break_start = shf_break_start f, sh_break_end = shf_break_end f,
                     sh_active = shf_active f\<rparr>
          else None
      | _ \<Rightarrow> None)"

definition shift_ok :: "catalog_db \<Rightarrow> shift \<Rightarrow> bool" where
  "shift_ok db s \<longleftrightarrow> sh_code s \<notin> set (map (sh_code \<circ> snd) (cd_shifts db))"

record leave_type_form =
  ltf_name :: string
  ltf_code :: string
  ltf_days_per_year :: "int option"
  ltf_carry_forward :: bool
  ltf_max_carry_forward :: "int option"
  ltf_requires_approval :: bool
  ltf_active :: bool

definition leave_type_of_form :: "leave_type_form \<Rightarrow> leave_type option" where
  "leave_type_of_form f =
     (case (ltf_days_per_year f, ltf_max_carry_forward f) of
        (Some d, Some m) \<Rightarrow>
          if text_ok 50 (ltf_name f) \<and> text_ok 10 (ltf_code f)
          then Some \<lparr>lt_name = ltf_name f, lt_code = ltf_code f, lt_days_per_year = d,
                     lt_carry_forward = ltf_carry_forward f, lt_max_carry_forward = m,
                     lt_requires_approval = ltf_requires_approval f, lt_active = ltf_active f\<rparr>
          else None
      | _ \<Rightarrow> None)"

definition leave_type_ok :: "catalog_db \<Rightarrow> leave_type \<Rightarrow> bool" where
  "leave_type_ok db l \<longleftrightarrow> lt_code l \<notin> set (map (lt_code \<circ> snd) (cd_leave_types db))"

text \<open>\<open>QualityParameterForm\<close>: name and type required, the unit may be blank, the
  three limits are optional and nothing relates them.\<close>

record parameter_form =
  pmf_name :: string
  pmf_type :: "parameter_type option"
  pmf_uom :: string
  pmf_min :: "decimal option"
  pmf_max :: "decimal option"
  pmf_target :: "decimal option"

definition parameter_of_form :: "parameter_form \<Rightarrow> parameter_row option" where
  "parameter_of_form f =
     (case pmf_type f of
        Some t \<Rightarrow>
          if text_ok 100 (pmf_name f) \<and> length (pmf_uom f) \<le> 20
          then Some \<lparr>param_name = pmf_name f, min_value = pmf_min f, max_value = pmf_max f,
                     target_value = pmf_target f, param_type = t, param_uom = pmf_uom f\<rparr>
          else None
      | None \<Rightarrow> None)"

subsection \<open>The create views\<close>

text \<open>\<open>CreateView.post\<close> on a keyed table: a form with a cleaned row that passes the
  model validation \<open>ok\<close> is inserted under the next id and the view redirects;
  otherwise the form is re-rendered and nothing is written.\<close>

definition create_row :: "('f \<Rightarrow> 'r option) \<Rightarrow> ('r \<Rightarrow> bool) \<Rightarrow> 'f \<Rightarrow> 'r table \<Rightarrow> nat \<Rightarrow>
    bool \<times> 'r table \<times> nat" where
  "create_row row ok f t seq =
     (case row f of
        Some r \<Rightarrow> if ok r then (True, t @ [(seq, r)], Suc seq) else (False, t, seq)
      | None \<Rightarrow> (False, t, seq))"

definition work_center_create_view :: "work_center_form \<Rightarrow> catalog_db \<Rightarrow> bool \<times> catalog_db" where
  "work_center_create_view f db =
     (case create_row work_center_of_form (work_center_ok db) f (cd_work_centers db) (cd_wc_seq db) of
        (ok, t, n) \<Rightarrow> (ok, db\<lparr>cd_work_centers := t, cd_wc_seq := n\<rparr>))"

definition operation_create_view :: "operation_form \<Rightarrow> catalog_db \<Rightarrow> bool \<times> catalog_db" where
  "operation_create_view f db =
     (case create_row operation_of_form (operation_ok db) f (cd_operations db) (cd_op_seq db) of
        (ok, t, n) \<Rightarrow> (ok, db\<lparr>cd_operations := t, cd_op_seq := n\<rparr>))"

definition shift_create_view :: "shift_form \<Rightarrow> catalog_db \<Rightarrow> bool \<times> catalog_db" where
  "shift_create_view f db =
     (case create_row shift_of_form (shift_ok db) f (cd_shifts db) (cd_shift_seq db) of
        (ok, t, n) \<Rightarrow> (ok, db\<lparr>cd_shifts := t, cd_shift_seq := n\<rparr>))"

definition leave_type_create_view :: "leave_type_form \<Rightarrow> catalog_db \<Rightarrow> bool \<times> catalog_db" where
  "leave_type_create_view f db =
     (case create_row leave_type_of_form (leave_type_ok db) f (cd_leave_types db) (cd_lt_seq db) of
        (ok, t, n) \<Rightarrow> (ok, db\<lparr>cd_leave_types := t, cd_lt_seq := n\<rparr>))"

definition parameter_create_view :: "parameter_form \<Rightarrow> catalog_db \<Rightarrow> bool \<times> catalog_db" where
  "parameter_create_view f db =
     (case create_row parameter_of_form (\<lambda>_. True) f (cd_parameters db) (cd_param_seq db) of
        (ok, t, n) \<Rightarrow> (ok, db\<lparr>cd_parameters := t, cd_param_seq := n\<rparr>))"

text \<open>The five views as one step relation (there is no update or delete view for
  these tables).\<close>

inductive catalog_step :: "catalog_db \<Rightarrow> catalog_db \<Rightarrow> bool" where
  work_center: "catalog_step db (snd (work_center_create_view f db))"
| operation: "catalog_step db (snd (operation_create_view f db))"
| shift: "catalog_step db (snd (shift_create_view f db))"
| leave_type: "catalog_step db (snd (leave_type_create_view f db))"
| parameter: "catalog_step db (snd (parameter_create_view f db))"

text \<open>Unique ids and codes, every operation on an existing work center, every work
  center's department and supervisor existing.\<close>

definition catalog_ok :: "catalog_db \<Rightarrow> bool" where
  "catalog_ok db \<longleftrightarrow>
     table_ok wc_code (cd_wc_seq db) (cd_work_centers db) \<and>
     table_ok op_code (cd_op_seq db) (cd_operations db) \<and>
     table_ok sh_code (cd_shift_seq db) (cd_shifts db) \<and>
     table_ok lt_code (cd_lt_seq db) (cd_leave_types db) \<and>
     distinct (map fst (cd_parameters db)) \<and> list_all (\<lambda>k. k < cd_param_seq db) (map fst (cd_parameters db)) \<and>
     list_all (\<lambda>(_, x). op_work_center x \<in> set (map fst (cd_work_centers db))) (cd_operations db) \<and>
     list_all (\<lambda>(_, w). opt_fk_ok (cd_departments db) (wc_department w) \<and> opt_fk_ok (cd_employees db) (wc_supervisor w))
       (cd_work_centers db)"

subsection \<open>Hours\<close>

text \<open>\<open>timedelta.seconds\<close> of \<open>datetime.combine(d, b) - datetime.combine(d, a)\<close>:
  the difference taken modulo a day, so a span past midnight wraps round.\<close>

definition td_seconds :: "int \<Rightarrow> int \<Rightarrow> int" where
  "td_seconds a b = (b - a) mod 86400"

text \<open>Python's \<open>round(x, 2)\<close> (halves to even), on the exact value of \<open>x\<close>. The
  code's \<open>x\<close> is a float; the exact quotient agrees with it after rounding unless
  the exact value is a tie, which a time in whole minutes never gives.\<close>

definition py_round2 :: "rat \<Rightarrow> rat" where
  "py_round2 x =
     (let y = x * 100; n = \<lfloor>y\<rfloor>; d = y - of_int n
      in of_int (if d > 1/2 \<or> (d = 1/2 \<and> odd n) then n + 1 else n) / 100)"

text \<open>\<open>Shift.total_hours\<close>: the shift's span less the break's span, both wrapped
  round midnight (a \<open>time\<close> is always true in Python 3, so only a missing break
  end counts).\<close>

definition shift_total_hours :: "shift \<Rightarrow> rat" where
  "shift_total_hours s =
     (let hours = of_int (td_seconds (sh_start s) (sh_end s)) / 3600
      in py_round2 (case (sh_break_start s, sh_break_end s) of
                      (Some a, Some b) \<Rightarrow> hours - of_int (td_seconds a b) / 3600
                    | _ \<Rightarrow> hours))"

text \<open>\<open>Attendance.total_hours\<close>: 0 unless both times are recorded.\<close>

definition attendance_total_hours :: "attendance \<Rightarrow> rat" where
  "attendance_total_hours a =
     (case (check_in a, check_out a) of
        (Some i, Some j) \<Rightarrow> py_round2 (of_int (td_seconds i j) / 3600)
      | _ \<Rightarrow> 0)"

subsection \<open>Properties\<close>

lemma create_row_table_ok:
  assumes "table_ok key seq t" "\<And>r. ok r \<Longrightarrow> key r \<notin> set (map (key \<circ> snd) t)"
    and "create_row row ok f t seq = (b, t', n)"
  shows "table_ok key n t'"
  using assms table_ok_append [OF assms(1)]
  by (auto simp: create_row_def split: option.splits if_splits)

lemma create_row_keys: "create_row row ok f t seq = (b, t', n) \<Longrightarrow> set (map fst t) \<subseteq> set (map fst t')"
  by (auto simp: create_row_def split: option.splits if_splits)

lemma create_row_rows:
  "create_row row ok f t seq = (b, t', n) \<Longrightarrow> (k, r) \<in> set t' \<Longrightarrow> (k, r) \<in> set t \<or> ok r"
  by (auto simp: create_row_def split: option.splits if_splits)

lemma create_row_ids:
  "list_all (\<lambda>k. k < seq) (map fst t) \<Longrightarrow> distinct (map fst t) \<Longrightarrow> create_row row ok f t seq = (b, t', n) \<Longrightarrow>
   distinct (map fst t') \<and> list_all (\<lambda>k. k < n) (map fst t')"
  by (auto simp: create_row_def list_all_iff intro: less_SucI split: option.splits if_splits)

lemma create_row_split:
  obtains b t' n where "create_row row ok f t seq = (b, t', n)"
  by (cases "create_row row ok f t seq") auto

lemma work_center_create_ok:
  assumes "catalog_ok db"
  shows "catalog_ok (snd (work_center_create_view f db))"
proof -
  obtain b t n where c: "create_row work_center_of_form (work_center_ok db) f (cd_work_centers db) (cd_wc_seq db) = (b, t, n)"
    by (rule create_row_split)
  have wc: "table_ok wc_code n t"
    by (rule create_row_table_ok [OF _ _ c]) (use assms in \<open>auto simp: catalog_ok_def work_center_ok_def\<close>)
  have "list_all (\<lambda>(_, x). op_work_center x \<in> set (map fst t)) (cd_operations db)"
    using assms create_row_keys [OF c] by (auto simp: catalog_ok_def list_all_iff)
  moreover have "list_all (\<lambda>(_, w). opt_fk_ok (cd_departments db) (wc_department w) \<and> opt_fk_ok (cd_employees db) (wc_supervisor w)) t"
    using assms create_row_rows [OF c] by (fastforce simp: catalog_ok_def work_center_ok_def list_all_iff)
  ultimately show ?thesis using assms c wc by (simp add: catalog_ok_def work_center_create_view_def)
qed

lemma operation_create_ok:
  assumes "catalog_ok db"
  shows "catalog_ok (snd (operation_create_view f db))"
proof -
  obtain b t n where c: "create_row operation_of_form (operation_ok db) f (cd_operations db) (cd_op_seq db) = (b, t, n)"
    by (rule create_row_split)
  have "table_ok op_code n t"
    by (rule create_row_table_ok [OF _ _ c]) (use assms in \<open>auto simp: catalog_ok_def operation_ok_def\<close>)
  moreover have "list_all (\<lambda>(_, x). op_work_center x \<in> set (map fst (cd_work_centers db))) t"
    using assms create_row_rows [OF c] by (fastforce simp: catalog_ok_def operation_ok_def list_all_iff)
  ultimately show ?thesis using assms c by (simp add: catalog_ok_def operation_create_view_def)
qed

lemma shift_create_ok: "catalog_ok db \<Longrightarrow> catalog_ok (snd (shift_create_view f db))"
proof -
  assume a: "catalog_ok db"
  obtain b t n where c: "create_row shift_of_form (shift_ok db) f (cd_shifts db) (cd_shift_seq db) = (b, t, n)"
    by (rule create_row_split)
  have "table_ok sh_code n t"
    by (rule create_row_table_ok [OF _ _ c]) (use a in \<open>auto simp: catalog_ok_def shift_ok_def\<close>)
  with a c show ?thesis by (simp add: catalog_ok_def shift_create_view_def)
qed

lemma leave_type_create_ok: "catalog_ok db \<Longrightarrow> catalog_ok (snd (leave_type_create_view f db))"
proof -
  assume a: "catalog_ok db"
  obtain b t n where c: "create_row leave_type_of_form (leave_type_ok db) f (cd_leave_types db) (cd_lt_seq db) = (b, t, n)"
    by (rule create_row_split)
  have "table_ok lt_code n t"
    by (rule create_row_table_ok [OF _ _ c]) (use a in \<open>auto simp: catalog_ok_def leave_type_ok_def\<close>)
  with a c show ?thesis by (simp add: catalog_ok_def leave_type_create_view_def)
qed

lemma parameter_create_ok: "catalog_ok db \<Longrightarrow> catalog_ok (snd (parameter_create_view f db))"
proof -
  assume a: "catalog_ok db"
  obtain b t n where c: "create_row parameter_of_form (\<lambda>_. True) f (cd_parameters db) (cd_param_seq db) = (b, t, n)"
    by (rule create_row_split)
  from create_row_ids [OF _ _ c] a
  have "distinct (map fst t) \<and> list_all (\<lambda>k. k < n) (map fst t)" by (simp add: catalog_ok_def)
  with a c show ?thesis by (simp add: catalog_ok_def parameter_create_view_def)
qed

lemma catalog_step_ok: "catalog_step db db' \<Longrightarrow> catalog_ok db \<Longrightarrow> catalog_ok db'"
  by (induction rule: catalog_step.induct)
     (simp_all add: work_center_create_ok operation_create_ok shift_create_ok leave_type_create_ok parameter_create_ok)

text \<open>Every sequence of the five create views keeps ids and codes unique and the
  foreign keys of operations and work centers valid.\<close>

lemma catalog_reachable_ok:
  assumes "catalog_step\<^sup>*\<^sup>* db db'" "catalog_ok db"
  shows "catalog_ok db'"
  using assms by induction (auto intro: catalog_step_ok)

text \<open>Hours: rounding to two places stays within a hundredth of the value, so a
  span measured modulo a day rounds into \<open>[0, 24]\<close>; 24 itself is reached by a
  span one second short of a day.\<close>

lemma py_round2_bounds:
  "of_int \<lfloor>x * 100\<rfloor> / 100 \<le> py_round2 x \<and> py_round2 x \<le> (of_int \<lfloor>x * 100\<rfloor> + 1) / 100"
  by (simp add: py_round2_def Let_def)

lemma td_seconds_bounds: "0 \<le> td_seconds a b \<and> td_seconds a b < 86400"
  by (simp add: td_seconds_def)

lemma py_round2_day_span: "0 \<le> py_round2 (of_int (td_seconds a b) / 3600) \<and> py_round2 (of_int (td_seconds a b) / 3600) \<le> 24"
proof -
  let ?x = "of_int (td_seconds a b) / 3600 :: rat"
  have x: "0 \<le> ?x" "?x < 24" using td_seconds_bounds [of a b] by simp_all
  then have "0 \<le> \<lfloor>?x * 100\<rfloor>" "\<lfloor>?x * 100\<rfloor> < 2400" by (simp_all add: floor_less_iff)
  then have "(0::rat) \<le> of_int \<lfloor>?x * 100\<rfloor> / 100" "(of_int \<lfloor>?x * 100\<rfloor> + 1) / 100 \<le> (24::rat)"
    by simp_all
  with py_round2_bounds [of ?x] show ?thesis by linarith
qed

lemma shift_total_hours_no_break:
  "sh_break_start s = None \<or> sh_break_end s = None \<Longrightarrow> 0 \<le> shift_total_hours s \<and> shift_total_hours s \<le> 24"
  using py_round2_day_span [of "sh_start s" "sh_end s"]
  by (auto simp: shift_total_hours_def Let_def split: option.splits)

lemma attendance_total_hours_bounds: "0 \<le> attendance_total_hours a \<and> attendance_total_hours a \<le> 24"
  using py_round2_day_span by (simp add: attendance_total_hours_def split: option.splits)

lemma day_span_rounds_to_24:
  "attendance_total_hours \<lparr>att_employee = 1, att_date = 0, att_status = AttPresent, overtime_hours = 0,
      check_in = Some 0, check_out = Some 86399\<rparr> = 24"
proof -
  have "\<lfloor>(86399::rat) / 36\<rfloor> = 2399" by (simp add: floor_eq_iff)
  then show ?thesis by (simp add: attendance_total_hours_def td_seconds_def py_round2_def Let_def)
qed

text \<open>A night shift from 22:00 to 06:00 with a half-hour break across midnight
  lasts 7.5 hours: both spans wrap round midnight.\<close>

lemma night_shift_hours:
  "shift_total_hours \<lparr>sh_name = ''Night'', sh_code = ''N'', sh_start = 79200, sh_end = 21600,
      sh_break_start = Some 86000, sh_break_end = Some 1400, sh_active = True\<rparr> = 7.5"
  by (simp add: shift_total_hours_def td_seconds_def py_round2_def Let_def)

text \<open>\<open>QualityParameterForm\<close> accepts any limits, a minimum above the maximum
  included; with both limits non-zero such a parameter rejects every measured
  value.\<close>

lemma parameter_create_accepts:
  "parameter_of_form f = Some p \<Longrightarrow> parameter_create_view f db = (True, db\<lparr>cd_parameters := cd_parameters db @ [(cd_param_seq db, p)], cd_param_seq := Suc (cd_param_seq db)\<rparr>)"
  by (simp add: parameter_create_view_def create_row_def)

lemma inverted_limits_reject_all:
  assumes "min_value p = Some lo" "max_value p = Some hi" "hi < lo" "hi \<noteq> 0" "lo \<noteq> 0"
  shows "\<not> is_within_spec \<lparr>item_parameter = p, measured_value = Some v\<rparr>"
  using assms by (auto simp: is_within_spec_def)

end
