(* ===== verification/Spec2Isabelle.thy ===== *)
theory Spec2Isabelle
  imports Prelude PyNum Numbering PayrollModel HrModel SalaryCalc PayrollRun Lifecycle Security Procurement Production Quality PayrollSummary Inventory HrViews Notifications PayrollViews Reports Analytics ModelForms MasterData PayrollMaster HrStaff GatePassForms PurchaseOrderForms LoanViews CatalogViews
begin

text \<open>
  A verification library of the Django ERP under src/: a shallow embedding of the
  payroll engine and of the security, procurement, production and quality apps,
  with the theorems that state what the code does, its error paths included.

  \<^bold>\<open>Conventions (theory Prelude).\<close> A Django table is a list of rows whose index
  is the primary key; \<open>get_object_or_404\<close> is \<open>Inl Http404\<close> past its end and
  \<open>save_row\<close> is \<open>Model.save\<close> on a table with one unique column (insert for
  \<open>pk = None\<close>, overwrite otherwise, \<open>IntegrityError\<close> on a duplicate key). Every
  exception the code can raise is a constructor of \<open>pyexc\<close> and a fallible handler
  returns \<open>pyexc + 'a\<close>, chained by \<open>res_bind\<close>. \<open>DecimalField\<close> values are
  exact rationals; dates are day numbers since 1970-01-01 and \<open>timezone.now()\<close> is
  a timestamp in seconds whose date is \<open>ts_date\<close> (UTC: the repository has no
  settings module). Python's mixed int/float/Decimal arithmetic is theory PyNum.

  \<^bold>\<open>Parts and theories.\<close>
  \<^item> Numbering: the generator of every \<open>save()\<close> that assigns a business number
    (payroll/models.py \<open>Payroll.save\<close>, \<open>PayrollRun.save\<close>, \<open>Loan.save\<close>,
    \<open>SalaryAdvance.save\<close>; hr \<open>LeaveApplication.save\<close>; the production, procurement,
    quality and security saves), the string functions it uses, the unique column and
    the interleaving of two saves (\<open>save_step\<close>). Its lemmas: sequential numbers,
    the parse/print round trip, the collision of concurrent saves, the saves that
    always raise (\<open>timezone\<close> not imported).
  \<^item> PayrollModel, HrModel: the rows of payroll/models.py and hr/models.py, with
    \<open>Payroll.calculate_totals\<close> and \<open>Payroll.save\<close> (\<open>payroll_save\<close>), whose
    totals invariant is proved.
  \<^item> SalaryCalc: \<open>PayrollCreateView\<close> (payroll/views.py): the attendance count, the
    proration of the basic salary, the components, loan and advance deductions, and
    the TypeError of its Decimal-times-float proration.
  \<^item> PayrollRun: \<open>PayrollRunCreateView.form_valid\<close> and \<open>process_payroll_run\<close>: the
    loop over employees as a fold of \<open>process_employee\<close> on an explicit state (the
    tables written and the counters), each iteration's \<open>transaction.atomic\<close> block
    as one result. Lemmas: counters, idempotence, one payroll per employee and
    period, the zero payrolls the stubbed calculations produce.
  \<^item> Lifecycle: \<open>ApprovePayrollView\<close> and \<open>ProcessPaymentView\<close>, and the inductive
    \<open>payroll_step\<close> joining every handler that writes payrolls; invariants of
    every reachable state by rule induction.
  \<^item> PayrollSummary: \<open>GetPayrollSummaryView\<close>: the month loop as a \<open>function\<close> with
    its termination measure \<open>13 - m\<close>, the department loop and the totals.
    Python's calendar is \<open>date_of_day\<close>, walking the years of the 400-year
    Gregorian cycle (fuel 400, one step per year of the cycle: the cycle has 146097
    days, so the remainder is within the cycle and the fuel is always enough) and the
    months of the year.
  \<^item> PayrollViews: the payroll dashboard (with its department annotation, whose
    employee count is shown to count an employee once per payroll), the component,
    period, payroll and payroll-run lists (the run list's statistics leave processing
    runs out of every bucket), \<open>GeneratePayslipView\<close>'s payslip
    \<open>get_or_create\<close> and the salary-structure JSON view.
  \<^item> Reports: the figures of reports/views.py over the tables above: inventory
    rows and their CSV export, the low-stock queries (which raise \<open>NameError\<close>), ABC
    analysis, production, rejection, quality, defect, trend, stock-movement, HR and
    purchase reports, with the code's own parsing of \<open>month\<close> (proved to read back
    the default it prints) and \<open>days\<close> (a negative count empties the window).
  \<^item> Analytics: the JSON groupings of analytics/views.py (\<open>group_rows\<close>, proved to
    lose and repeat no row) for production, quality, purchasing and HR, and the two
    endpoints that raise \<open>NameError\<close>.
  \<^item> The main dashboard of core/views.py is \<open>core_dashboard\<close> in Analytics.
  \<^item> Security: gate passes and visitors (security/views.py): check-in/out, the
    JSON status API, visitor cards, lists and dashboard; the status API refines an
    abstract status change (\<open>gp_abs\<close>, \<open>abs_set_status\<close>).
  \<^item> Procurement: purchase orders with items, their totals (the loop of
    \<open>calculate_totals\<close> proved equal to the sums), create/update/send/receive and
    goods receipts.
  \<^item> Production: orders and operations with their handlers and the inductive
    \<open>production_step\<close>.
  \<^item> Quality: quality checks, parameters, \<open>is_within_spec\<close>, NCRs and the dashboard.
  \<^item> Inventory: products, warehouses, stock rows and stock transactions
    (inventory/views.py): product create, update and delete (the stock rows cascade,
    a referencing transaction blocks the delete) and the two lists. Tables that lose
    rows are association lists from id to row with an id sequence; the invariant
    \<open>inventory_ok\<close> (distinct ids, unique SKUs, no dangling reference) holds in every
    reachable state of \<open>inventory_step\<close>.
  \<^item> HrViews: \<open>mark_attendance\<close> (\<open>get_or_create\<close> on employee and day, proved to
    keep the attendance key unique that SalaryCalc's attendance count relies on),
    today's attendance, the leave application's save, create, approve and reject, the
    lists and the dashboard.
  \<^item> Notifications: the notification and preference rows, \<open>notify_users\<close> and the four
    \<open>post_save\<close> receivers of signals.py taking the rows of Production, Inventory,
    Quality and Procurement, and the user's notification views, joined in the
    relation \<open>user_request\<close>; one user's requests leave every other user's rows alone.
  \<^item> ModelForms: keyed tables (\<open>table_ok\<close>: distinct ids below the sequence, a
    unique column) and the inline formset of \<open>inlineformset_factory(..., extra=n,
    can_delete=True)\<close> as one generic definition over the form type (the \<open>DELETE\<close>
    box, \<open>has_changed\<close>, the cleaned row, the \<open>unique_together\<close> key, the foreign
    key check): kept, deleted and unchanged extra forms, the per-form check against the
    stored rows (skipped for an unsaved parent), the cross-form \<open>unique_together\<close>
    check and \<open>formset.save()\<close>. \<open>formset_save_ok\<close> proves that a valid formset keeps
    the child rows' keys distinct and their foreign keys valid.
  \<^item> PayrollMaster: the component create and update views (\<open>'__all__'\<close> form), the
    salary-structure list, and structure create and update with
    \<open>SalaryComponentValueFormSet\<close>; \<open>structures_by_employee\<close> reads the table the way
    SalaryCalc and PayrollRun read \<open>salary_structure\<close>. The invariant \<open>pm_ok\<close> (unique
    codes, one structure per employee, distinct existing components per structure)
    holds in every state reachable by \<open>pm_step\<close>, and gives the hypothesis of
    SalaryCalc's permutation lemma, so the calculation does not depend on the order of
    a stored structure's components.
  \<^item> HrStaff: the employee list, create, update and delete of hr/views.py with
    \<open>EmployeeForm\<close>; the delete's collector over the rows of HR, payroll and security
    that refer to an employee (cascade, protect, set null). The invariant \<open>staff_ok\<close>
    (no dangling employee or structure reference, unique ids and users) holds in every
    state reachable by \<open>staff_step\<close>; the \<open>user\<close> field's queryset makes every edit
    that keeps the employee's user fail.
  \<^item> GatePassForms: gate-pass create and update (security/views.py) with the item
    formset (\<open>min_num=1\<close>, no \<open>unique_together\<close>: \<open>forms_valid\<close> of ModelForms);
    the create always ends in \<open>NameError\<close> from \<open>GatePass.save\<close> or re-renders, and a
    successful edit keeps at least one item.
  \<^item> MasterData: supplier create, update and delete (procurement/views.py with the
    \<open>'__all__'\<close> \<open>SupplierForm\<close>) and bill-of-materials create, update and delete
    (production/views.py with \<open>BOMForm\<close> and the inline \<open>BOMLineFormSet\<close>, an
    instance of the ModelForms formset). Suppliers and bills
    are association lists with audit columns (\<open>supplier_row\<close>, \<open>bom_row\<close>); the
    invariant \<open>md_ok\<close> (unique codes, no dangling supplier or bill reference, the
    protected deletes, distinct existing line components) holds in every state
    reachable by \<open>md_step\<close>.
  \<^item> PurchaseOrderForms: \<open>PurchaseOrderForm\<close> and the inline
    \<open>PurchaseOrderItemFormSet\<close> (procurement/forms.py) bound by the purchase-order
    create and update views of Procurement; a bound form carries its instance's
    \<open>received_quantity\<close>, which the form does not show. The create never stores an
    order; a successful edit keeps the items keyed by distinct existing products and
    warehouses, with the totals of the stored items, and invents no received quantity.
  \<^item> LoanViews: \<open>LoanCreateView\<close> and \<open>SalaryAdvanceCreateView\<close> with
    their forms, over the full column sets of \<open>Loan\<close> and \<open>SalaryAdvance\<close>
    (\<open>loan_row\<close>, \<open>advance_row\<close>; \<open>None\<close> is \<open>NULL\<close>). The forms leave
    \<open>NOT NULL\<close> columns without a default unset, so neither view can store a row.
  \<^item> CatalogViews: the plain create views of work centers, operations, shifts,
    leave types and quality parameters (\<open>create_row\<close>, one keyed table each), the
    step relation \<open>catalog_step\<close> and its invariant \<open>catalog_ok\<close> (unique ids and
    codes, valid foreign keys); \<open>Shift.total_hours\<close> and
    \<open>Attendance.total_hours\<close> with \<open>timedelta.seconds\<close> (a span modulo a day)
    and \<open>round(x, 2)\<close> on the exact value, which agrees with the float result for
    times in whole minutes; the hours lie in \<open>[0, 24]\<close>.

  \<^bold>\<open>Not modelled.\<close> Templates, URL routing, admin and app configuration; the
  analytics and report pages that only render a template (dashboards, downtime,
  saved and custom reports); the Excel workbooks and PDF drawing; pagination; the purchase-order
  delete view and \<open>GoodsReceiptItem\<close> (no view writes it); the forms no view
  binds (\<open>AttendanceForm\<close>, \<open>EmployeeShiftForm\<close>, \<open>CategoryForm\<close>,
  \<open>WarehouseForm\<close>, \<open>StockTransactionForm\<close>, the quality-check item formset)
  and the crispy-forms layout of \<open>GatePassForm\<close>; \<open>GatePassApproval\<close>, which no
  view writes.
  \<open>PayrollComponent.objects.get_or_create\<close> for loan and advance items is modelled
  as the item's code.
\<close>

end
